theory Spec2Isabelle
  imports Main "HOL-Library.Monad_Syntax"
begin

section \<open>Python values as the domain modules use them\<close>

text \<open>
  The MikroTik MCP server turns a tool invocation into one RouterOS command line, hands it
  to the connector, and classifies the device's textual reply. All of it is string
  manipulation, so the embedding is shallow: a Python \<^verbatim>\<open>str\<close> is a \<^typ>\<open>string\<close>, an
  \<^verbatim>\<open>int\<close> is an \<^typ>\<open>int\<close>, and a parameter declared \<^verbatim>\<open>Optional[T] = None\<close> is a
  \<^typ>\<open>'a option\<close> whose \<^term>\<open>None\<close> is Python's \<^verbatim>\<open>None\<close>.

  Characters are HOL's 8-bit characters. The two substrings the code searches for are
  ASCII, so the only part of \<^verbatim>\<open>str.lower\<close> that can influence the search is its action on
  the ASCII letters, which is what \<open>py_lower\<close> models.
\<close>

abbreviation (input) sq :: string where
  "sq \<equiv> [CHR 0x27]"

abbreviation (input) bsl :: string where
  "bsl \<equiv> [CHR 0x5C]"

text \<open>Truth value testing, \<^verbatim>\<open>if x:\<close>, at the four optional parameter types.\<close>

fun truthy_str :: "string option \<Rightarrow> bool" where
  "truthy_str None = False"
| "truthy_str (Some s) = (s \<noteq> [])"

fun truthy_int :: "int option \<Rightarrow> bool" where
  "truthy_int None = False"
| "truthy_int (Some i) = (i \<noteq> 0)"

fun truthy_bool :: "bool option \<Rightarrow> bool" where
  "truthy_bool None = False"
| "truthy_bool (Some b) = b"

fun truthy_list :: "string list option \<Rightarrow> bool" where
  "truthy_list None = False"
| "truthy_list (Some xs) = (xs \<noteq> [])"

text \<open>\<^verbatim>\<open>str(i)\<close>, which is what an f-string puts for an integer: decimal digits, with a
  leading minus sign for a negative number.\<close>

definition digit_char :: "nat \<Rightarrow> char" where
  "digit_char d = ''0123456789'' ! d"

fun str_nat :: "nat \<Rightarrow> string" where
  "str_nat n = (if n < 10 then [digit_char n] else str_nat (n div 10) @ [digit_char (n mod 10)])"

declare str_nat.simps [simp del]

definition str_int :: "int \<Rightarrow> string" where
  "str_int i = (if i < 0 then CHR ''-'' # str_nat (nat (- i)) else str_nat (nat i))"

text \<open>\<^verbatim>\<open>s.lower()\<close> on the ASCII letters.\<close>

definition py_lower_char :: "char \<Rightarrow> char" where
  "py_lower_char c =
    (case map_of (zip ''ABCDEFGHIJKLMNOPQRSTUVWXYZ'' ''abcdefghijklmnopqrstuvwxyz'') c of
       Some l \<Rightarrow> l
     | None \<Rightarrow> c)"

definition py_lower :: "string \<Rightarrow> string" where
  "py_lower s = map py_lower_char s"

text \<open>\<^verbatim>\<open>s.startswith(p)\<close> and the substring test \<^verbatim>\<open>sub in s\<close>, which scans \<open>s\<close> from the
  left for a position where \<open>sub\<close> starts.\<close>

fun py_startswith :: "string \<Rightarrow> string \<Rightarrow> bool" where
  "py_startswith s [] = True"
| "py_startswith [] (p # ps) = False"
| "py_startswith (c # cs) (p # ps) = (c = p \<and> py_startswith cs ps)"

fun py_in :: "string \<Rightarrow> string \<Rightarrow> bool" where
  "py_in sub [] = (sub = [])"
| "py_in sub (c # cs) = (py_startswith (c # cs) sub \<or> py_in sub cs)"

text \<open>\<^verbatim>\<open>s.replace(old, new)\<close>: every non-overlapping occurrence of \<open>old\<close>, found from the
  left, is replaced by \<open>new\<close>. For an empty \<open>old\<close> Python puts \<open>new\<close> before every character
  and at the end.\<close>

function py_replace :: "string \<Rightarrow> string \<Rightarrow> string \<Rightarrow> string" where
  "py_replace [] old new = (if old = [] then new else [])"
| "py_replace (c # cs) old new =
    (if old = [] then new @ c # py_replace cs old new
     else if py_startswith (c # cs) old
          then new @ py_replace (drop (length old) (c # cs)) old new
          else c # py_replace cs old new)"
  by pat_completeness auto
termination
  by (relation "measure (\<lambda>(s, old, new). length s)") auto

text \<open>\<^verbatim>\<open>sep.join(xs)\<close>.\<close>

fun py_join :: "string \<Rightarrow> string list \<Rightarrow> string" where
  "py_join sep [] = []"
| "py_join sep [x] = x"
| "py_join sep (x # y # ys) = x @ sep @ py_join sep (y # ys)"

section \<open>The command connector\<close>

text \<open>
  Modelled from the spec: \<^verbatim>\<open>execute_mikrotik_command\<close> lives in the connector module, which
  is not part of the sources at hand. The spec describes it as \<^verbatim>\<open>execute(command) -> string\<close>:
  it submits the command text to the device and returns the raw reply, and on a transport
  failure it returns a text rather than raising. The device is therefore a parameter
  \<open>exec\<close>: the reply to a command, given the commands submitted before it. The state that
  the operations thread through is the list of commands submitted so far.
\<close>

type_synonym connector = "string list \<Rightarrow> string \<Rightarrow> string"

definition execute_mikrotik_command ::
  "connector \<Rightarrow> string \<Rightarrow> string list \<Rightarrow> string \<times> string list" where
  "execute_mikrotik_command exec cmd sent = (exec sent cmd, sent @ [cmd])"

section \<open>The domain command modules\<close>

text \<open>
  Every Python function is embedded statement by statement. The assignments and the
  conditional \<^verbatim>\<open>cmd += ...\<close> statements that build the command line become the bindings of
  a \<open>let\<close> chain in a definition with the suffix \<open>_cmd\<close>; the function itself submits that
  command and forms the returned text. The informational log line that opens every
  function has no influence on the command or on the returned text and is left out.
  \<^verbatim>\<open>if x:\<close> is \<open>truthy_\<close> at the parameter's type, \<^verbatim>\<open>if x is not None:\<close> is \<open>x \<noteq> None\<close>,
  and in a guarded branch the value of an optional parameter \<open>x\<close> is \<open>the x\<close>.
\<close>


subsection \<open>Bridge interfaces (scope/bridge.py)\<close>

text \<open>\<^verbatim>\<open>mikrotik_create_bridge\<close> (scope/bridge.py, line 8): the command it builds, then the operation.\<close>

definition mikrotik_create_bridge_cmd ::
  "string \<Rightarrow> int option \<Rightarrow> string option \<Rightarrow>
   string option \<Rightarrow> string option \<Rightarrow> int option \<Rightarrow>
   string option \<Rightarrow> bool option \<Rightarrow> string option \<Rightarrow>
   bool option \<Rightarrow> string" where
  \<open>mikrotik_create_bridge_cmd name mtu arp arp_timeout ageing_time priority protocol_mode
      vlan_filtering comment disabled =
    (let cmd = ''/interface bridge add name="'' @ name @ ''"'';
         cmd = (if truthy_int mtu then cmd @ '' mtu='' @ str_int (the mtu) else cmd);
         cmd = (if truthy_str arp then cmd @ '' arp='' @ the arp else cmd);
         cmd = (if truthy_str arp_timeout then cmd @ '' arp-timeout='' @ the arp_timeout else cmd);
         cmd = (if truthy_str ageing_time then cmd @ '' ageing-time='' @ the ageing_time else cmd);
         cmd = (if priority \<noteq> None then cmd @ '' priority='' @ str_int (the priority)
                else cmd);
         cmd = (if truthy_str protocol_mode then cmd @ '' protocol-mode='' @ the protocol_mode
                else cmd);
         cmd = (if vlan_filtering \<noteq> None
                then cmd @ '' vlan-filtering='' @ (if the vlan_filtering then ''yes'' else ''no'')
                else cmd);
         cmd = (if truthy_str comment then cmd @ '' comment="'' @ the comment @ ''"'' else cmd);
         cmd = (if disabled \<noteq> None
                then cmd @ '' disabled='' @ (if the disabled then ''yes'' else ''no'')
                else cmd)
     in cmd)\<close>

definition mikrotik_create_bridge ::
  "connector \<Rightarrow> string \<Rightarrow> int option \<Rightarrow>
   string option \<Rightarrow> string option \<Rightarrow> string option \<Rightarrow>
   int option \<Rightarrow> string option \<Rightarrow> bool option \<Rightarrow>
   string option \<Rightarrow> bool option \<Rightarrow> string list \<Rightarrow>
   string \<times> string list" where
  \<open>mikrotik_create_bridge exec name mtu arp arp_timeout ageing_time priority protocol_mode
      vlan_filtering comment disabled sent =
    (let cmd = mikrotik_create_bridge_cmd name mtu arp arp_timeout ageing_time priority protocol_mode
           vlan_filtering comment disabled;
         (result, sent') = execute_mikrotik_command exec cmd sent
     in if py_in ''failure:'' (py_lower result) \<or> py_in ''error'' (py_lower result)
        then (''Failed to create bridge: '' @ result, sent')
        else (''Bridge '' @ sq @ name @ sq @ '' created successfully'', sent'))\<close>

text \<open>\<^verbatim>\<open>mikrotik_list_bridges\<close> (scope/bridge.py, line 69): the command it builds, then the operation.\<close>

definition mikrotik_list_bridges_cmd ::
  "string option \<Rightarrow> bool option \<Rightarrow> string" where
  \<open>mikrotik_list_bridges_cmd name_filter disabled_only =
    (let cmd = ''/interface bridge print'';
         cmd = (if truthy_str name_filter then cmd @ '' where name~"'' @ the name_filter @ ''"''
                else if truthy_bool disabled_only then cmd @ '' where disabled=yes''
                else cmd)
     in cmd)\<close>

definition mikrotik_list_bridges ::
  "connector \<Rightarrow> string option \<Rightarrow> bool option \<Rightarrow>
   string list \<Rightarrow> string \<times> string list" where
  \<open>mikrotik_list_bridges exec name_filter disabled_only sent =
    (let cmd = mikrotik_list_bridges_cmd name_filter disabled_only;
         (result, sent') = execute_mikrotik_command exec cmd sent
     in if py_in ''failure:'' (py_lower result) \<or> py_in ''error'' (py_lower result)
        then (''Failed to list bridges: '' @ result, sent')
        else (''Bridge Interfaces:\<newline>\<newline>'' @ result, sent'))\<close>

text \<open>\<^verbatim>\<open>mikrotik_remove_bridge\<close> (scope/bridge.py, line 100): the command it builds, then the operation.\<close>

definition mikrotik_remove_bridge_cmd ::
  "string \<Rightarrow> string" where
  \<open>mikrotik_remove_bridge_cmd name =
    ''/interface bridge remove [find name="'' @ name @ ''"]''\<close>

definition mikrotik_remove_bridge ::
  "connector \<Rightarrow> string \<Rightarrow> string list \<Rightarrow>
   string \<times> string list" where
  \<open>mikrotik_remove_bridge exec name sent =
    (let cmd = mikrotik_remove_bridge_cmd name;
         (result, sent') = execute_mikrotik_command exec cmd sent
     in if py_in ''failure:'' (py_lower result) \<or> py_in ''error'' (py_lower result)
        then (''Failed to remove bridge: '' @ result, sent')
        else (''Bridge '' @ sq @ name @ sq @ '' removed successfully'', sent'))\<close>

text \<open>\<^verbatim>\<open>mikrotik_add_bridge_port\<close> (scope/bridge.py, line 121): the command it builds, then the operation.\<close>

definition mikrotik_add_bridge_port_cmd ::
  "string \<Rightarrow> string \<Rightarrow> int option \<Rightarrow>
   int option \<Rightarrow> int option \<Rightarrow> bool option \<Rightarrow>
   string option \<Rightarrow> int option \<Rightarrow> string option \<Rightarrow>
   bool option \<Rightarrow> string" where
  \<open>mikrotik_add_bridge_port_cmd bridge interface pvid priority path_cost edge point_to_point
      horizon comment disabled =
    (let cmd = ''/interface bridge port add bridge="'' @ bridge @ ''" interface="'' @ interface @ ''"'';
         cmd = (if pvid \<noteq> None then cmd @ '' pvid='' @ str_int (the pvid) else cmd);
         cmd = (if priority \<noteq> None then cmd @ '' priority='' @ str_int (the priority)
                else cmd);
         cmd = (if path_cost \<noteq> None then cmd @ '' path-cost='' @ str_int (the path_cost)
                else cmd);
         cmd = (if edge \<noteq> None then cmd @ '' edge='' @ (if the edge then ''yes'' else ''no'')
                else cmd);
         cmd = (if truthy_str point_to_point then cmd @ '' point-to-point='' @ the point_to_point
                else cmd);
         cmd = (if horizon \<noteq> None then cmd @ '' horizon='' @ str_int (the horizon) else cmd);
         cmd = (if truthy_str comment then cmd @ '' comment="'' @ the comment @ ''"'' else cmd);
         cmd = (if disabled \<noteq> None
                then cmd @ '' disabled='' @ (if the disabled then ''yes'' else ''no'')
                else cmd)
     in cmd)\<close>

definition mikrotik_add_bridge_port ::
  "connector \<Rightarrow> string \<Rightarrow> string \<Rightarrow>
   int option \<Rightarrow> int option \<Rightarrow> int option \<Rightarrow>
   bool option \<Rightarrow> string option \<Rightarrow> int option \<Rightarrow>
   string option \<Rightarrow> bool option \<Rightarrow> string list \<Rightarrow>
   string \<times> string list" where
  \<open>mikrotik_add_bridge_port exec bridge interface pvid priority path_cost edge point_to_point
      horizon comment disabled sent =
    (let cmd = mikrotik_add_bridge_port_cmd bridge interface pvid priority path_cost edge point_to_point
           horizon comment disabled;
         (result, sent') = execute_mikrotik_command exec cmd sent
     in if py_in ''failure:'' (py_lower result) \<or> py_in ''error'' (py_lower result)
        then (''Failed to add bridge port: '' @ result, sent')
        else (''Interface '' @ sq @ interface @ sq @ '' added to bridge '' @ sq @ bridge @ sq
              @ '' successfully'', sent'))\<close>

text \<open>\<^verbatim>\<open>mikrotik_list_bridge_ports\<close> (scope/bridge.py, line 180): the command it builds, then the operation.\<close>

definition mikrotik_list_bridge_ports_cmd ::
  "string option \<Rightarrow> string option \<Rightarrow> string" where
  \<open>mikrotik_list_bridge_ports_cmd bridge_filter interface_filter =
    (let cmd = ''/interface bridge port print'';
         cmd = (if truthy_str bridge_filter
                then cmd @ '' where bridge~"'' @ the bridge_filter @ ''"''
                else if truthy_str interface_filter
                then cmd @ '' where interface~"'' @ the interface_filter @ ''"''
                else cmd)
     in cmd)\<close>

definition mikrotik_list_bridge_ports ::
  "connector \<Rightarrow> string option \<Rightarrow> string option \<Rightarrow>
   string list \<Rightarrow> string \<times> string list" where
  \<open>mikrotik_list_bridge_ports exec bridge_filter interface_filter sent =
    (let cmd = mikrotik_list_bridge_ports_cmd bridge_filter interface_filter;
         (result, sent') = execute_mikrotik_command exec cmd sent
     in if py_in ''failure:'' (py_lower result) \<or> py_in ''error'' (py_lower result)
        then (''Failed to list bridge ports: '' @ result, sent')
        else (''Bridge Ports:\<newline>\<newline>'' @ result, sent'))\<close>

text \<open>\<^verbatim>\<open>mikrotik_remove_bridge_port\<close> (scope/bridge.py, line 211): the command it builds, then the operation.\<close>

definition mikrotik_remove_bridge_port_cmd ::
  "string \<Rightarrow> string" where
  \<open>mikrotik_remove_bridge_port_cmd interface =
    ''/interface bridge port remove [find interface="'' @ interface @ ''"]''\<close>

definition mikrotik_remove_bridge_port ::
  "connector \<Rightarrow> string \<Rightarrow> string list \<Rightarrow>
   string \<times> string list" where
  \<open>mikrotik_remove_bridge_port exec interface sent =
    (let cmd = mikrotik_remove_bridge_port_cmd interface;
         (result, sent') = execute_mikrotik_command exec cmd sent
     in if py_in ''failure:'' (py_lower result) \<or> py_in ''error'' (py_lower result)
        then (''Failed to remove bridge port: '' @ result, sent')
        else (''Interface '' @ sq @ interface @ sq @ '' removed from bridge successfully'', sent'))\<close>

text \<open>\<^verbatim>\<open>mikrotik_add_bridge_vlan\<close> (scope/bridge.py, line 232): the command it builds, then the operation.\<close>

definition mikrotik_add_bridge_vlan_cmd ::
  "string \<Rightarrow> string \<Rightarrow> string option \<Rightarrow>
   string option \<Rightarrow> string option \<Rightarrow> bool option \<Rightarrow>
   string" where
  \<open>mikrotik_add_bridge_vlan_cmd bridge vlan_ids tagged untagged comment disabled =
    (let cmd = ''/interface bridge vlan add bridge="'' @ bridge @ ''" vlan-ids='' @ vlan_ids;
         cmd = (if truthy_str tagged then cmd @ '' tagged="'' @ the tagged @ ''"'' else cmd);
         cmd = (if truthy_str untagged then cmd @ '' untagged="'' @ the untagged @ ''"'' else cmd);
         cmd = (if truthy_str comment then cmd @ '' comment="'' @ the comment @ ''"'' else cmd);
         cmd = (if disabled \<noteq> None
                then cmd @ '' disabled='' @ (if the disabled then ''yes'' else ''no'')
                else cmd)
     in cmd)\<close>

definition mikrotik_add_bridge_vlan ::
  "connector \<Rightarrow> string \<Rightarrow> string \<Rightarrow>
   string option \<Rightarrow> string option \<Rightarrow> string option \<Rightarrow>
   bool option \<Rightarrow> string list \<Rightarrow> string \<times> string list" where
  \<open>mikrotik_add_bridge_vlan exec bridge vlan_ids tagged untagged comment disabled sent =
    (let cmd = mikrotik_add_bridge_vlan_cmd bridge vlan_ids tagged untagged comment disabled;
         (result, sent') = execute_mikrotik_command exec cmd sent
     in if py_in ''failure:'' (py_lower result) \<or> py_in ''error'' (py_lower result)
        then (''Failed to add bridge VLAN: '' @ result, sent')
        else (''Bridge VLAN '' @ vlan_ids @ '' added successfully'', sent'))\<close>

text \<open>\<^verbatim>\<open>mikrotik_list_bridge_vlans\<close> (scope/bridge.py, line 275): the command it builds, then the operation.\<close>

definition mikrotik_list_bridge_vlans_cmd ::
  "string option \<Rightarrow> string" where
  \<open>mikrotik_list_bridge_vlans_cmd bridge_filter =
    (let cmd = ''/interface bridge vlan print'';
         cmd = (if truthy_str bridge_filter
                then cmd @ '' where bridge~"'' @ the bridge_filter @ ''"''
                else cmd)
     in cmd)\<close>

definition mikrotik_list_bridge_vlans ::
  "connector \<Rightarrow> string option \<Rightarrow> string list \<Rightarrow>
   string \<times> string list" where
  \<open>mikrotik_list_bridge_vlans exec bridge_filter sent =
    (let cmd = mikrotik_list_bridge_vlans_cmd bridge_filter;
         (result, sent') = execute_mikrotik_command exec cmd sent
     in if py_in ''failure:'' (py_lower result) \<or> py_in ''error'' (py_lower result)
        then (''Failed to list bridge VLANs: '' @ result, sent')
        else (''Bridge VLANs:\<newline>\<newline>'' @ result, sent'))\<close>

text \<open>\<^verbatim>\<open>mikrotik_get_bridge_host\<close> (scope/bridge.py, line 300): the command it builds, then the operation.\<close>

definition mikrotik_get_bridge_host_cmd ::
  "string option \<Rightarrow> string" where
  \<open>mikrotik_get_bridge_host_cmd bridge_filter =
    (let cmd = ''/interface bridge host print'';
         cmd = (if truthy_str bridge_filter
                then cmd @ '' where bridge~"'' @ the bridge_filter @ ''"''
                else cmd)
     in cmd)\<close>

definition mikrotik_get_bridge_host ::
  "connector \<Rightarrow> string option \<Rightarrow> string list \<Rightarrow>
   string \<times> string list" where
  \<open>mikrotik_get_bridge_host exec bridge_filter sent =
    (let cmd = mikrotik_get_bridge_host_cmd bridge_filter;
         (result, sent') = execute_mikrotik_command exec cmd sent
     in if py_in ''failure:'' (py_lower result) \<or> py_in ''error'' (py_lower result)
        then (''Failed to list bridge hosts: '' @ result, sent')
        else (''Bridge Hosts (MAC Table):\<newline>\<newline>'' @ result, sent'))\<close>

subsection \<open>Certificates (scope/certificate.py)\<close>

text \<open>\<^verbatim>\<open>mikrotik_list_certificates\<close> (scope/certificate.py, line 8): the command it builds, then the operation.\<close>

definition mikrotik_list_certificates_cmd ::
  "string" where
  \<open>mikrotik_list_certificates_cmd =
    ''/certificate print''\<close>

definition mikrotik_list_certificates ::
  "connector \<Rightarrow> string list \<Rightarrow> string \<times> string list" where
  \<open>mikrotik_list_certificates exec sent =
    (let cmd = mikrotik_list_certificates_cmd;
         (result, sent') = execute_mikrotik_command exec cmd sent
     in if py_in ''failure:'' (py_lower result) \<or> py_in ''error'' (py_lower result)
        then (''Failed to list certificates: '' @ result, sent')
        else (''Certificates:\<newline>\<newline>'' @ result, sent'))\<close>

text \<open>\<^verbatim>\<open>mikrotik_create_certificate\<close> (scope/certificate.py, line 26): the command it builds, then the operation.\<close>

definition mikrotik_create_certificate_cmd ::
  "string \<Rightarrow> string \<Rightarrow> int option \<Rightarrow>
   int option \<Rightarrow> string option \<Rightarrow> string option \<Rightarrow>
   string option \<Rightarrow> string option \<Rightarrow> string option \<Rightarrow>
   string option \<Rightarrow> string option \<Rightarrow> string" where
  \<open>mikrotik_create_certificate_cmd name common_name key_size days_valid key_usage
      subject_alt_name country state locality organization unit =
    (let cmd = ''/certificate add name="'' @ name @ ''" common-name="'' @ common_name @ ''"'';
         cmd = (if truthy_int key_size then cmd @ '' key-size='' @ str_int (the key_size) else cmd);
         cmd = (if truthy_int days_valid then cmd @ '' days-valid='' @ str_int (the days_valid)
                else cmd);
         cmd = (if truthy_str key_usage then cmd @ '' key-usage="'' @ the key_usage @ ''"''
                else cmd);
         cmd = (if truthy_str subject_alt_name
                then cmd @ '' subject-alt-name="'' @ the subject_alt_name @ ''"''
                else cmd);
         cmd = (if truthy_str country then cmd @ '' country="'' @ the country @ ''"'' else cmd);
         cmd = (if truthy_str state then cmd @ '' state="'' @ the state @ ''"'' else cmd);
         cmd = (if truthy_str locality then cmd @ '' locality="'' @ the locality @ ''"'' else cmd);
         cmd = (if truthy_str organization then cmd @ '' organization="'' @ the organization @ ''"''
                else cmd);
         cmd = (if truthy_str unit then cmd @ '' unit="'' @ the unit @ ''"'' else cmd)
     in cmd)\<close>

definition mikrotik_create_certificate ::
  "connector \<Rightarrow> string \<Rightarrow> string \<Rightarrow>
   int option \<Rightarrow> int option \<Rightarrow> string option \<Rightarrow>
   string option \<Rightarrow> string option \<Rightarrow> string option \<Rightarrow>
   string option \<Rightarrow> string option \<Rightarrow> string option \<Rightarrow>
   string list \<Rightarrow> string \<times> string list" where
  \<open>mikrotik_create_certificate exec name common_name key_size days_valid key_usage
      subject_alt_name country state locality organization unit sent =
    (let cmd = mikrotik_create_certificate_cmd name common_name key_size days_valid key_usage
           subject_alt_name country state locality organization unit;
         (result, sent') = execute_mikrotik_command exec cmd sent
     in if py_in ''failure:'' (py_lower result) \<or> py_in ''error'' (py_lower result)
        then (''Failed to create certificate: '' @ result, sent')
        else (''Certificate '' @ sq @ name @ sq @ '' created successfully'', sent'))\<close>

text \<open>\<^verbatim>\<open>mikrotik_sign_certificate\<close> (scope/certificate.py, line 89): the command it builds, then the operation.\<close>

definition mikrotik_sign_certificate_cmd ::
  "string \<Rightarrow> string option \<Rightarrow> string" where
  \<open>mikrotik_sign_certificate_cmd name ca =
    (if truthy_str ca
     then ''/certificate sign [find name="'' @ name @ ''"] ca="'' @ the ca @ ''"''
     else ''/certificate sign [find name="'' @ name @ ''"]'')\<close>

definition mikrotik_sign_certificate ::
  "connector \<Rightarrow> string \<Rightarrow> string option \<Rightarrow>
   string list \<Rightarrow> string \<times> string list" where
  \<open>mikrotik_sign_certificate exec name ca sent =
    (let cmd = mikrotik_sign_certificate_cmd name ca;
         (result, sent') = execute_mikrotik_command exec cmd sent
     in if py_in ''failure:'' (py_lower result) \<or> py_in ''error'' (py_lower result)
        then (''Failed to sign certificate: '' @ result, sent')
        else (''Certificate '' @ sq @ name @ sq @ '' signed successfully'', sent'))\<close>

text \<open>\<^verbatim>\<open>mikrotik_import_certificate\<close> (scope/certificate.py, line 115): the command it builds, then the operation.\<close>

definition mikrotik_import_certificate_cmd ::
  "string \<Rightarrow> string option \<Rightarrow> string option \<Rightarrow> string" where
  \<open>mikrotik_import_certificate_cmd file_name passphrase name =
    (let cmd = ''/certificate import file-name="'' @ file_name @ ''"'';
         cmd = (if truthy_str passphrase then cmd @ '' passphrase="'' @ the passphrase @ ''"''
                else cmd);
         cmd = (if truthy_str name then cmd @ '' name="'' @ the name @ ''"'' else cmd)
     in cmd)\<close>

definition mikrotik_import_certificate ::
  "connector \<Rightarrow> string \<Rightarrow> string option \<Rightarrow>
   string option \<Rightarrow> string list \<Rightarrow> string \<times> string list" where
  \<open>mikrotik_import_certificate exec file_name passphrase name sent =
    (let cmd = mikrotik_import_certificate_cmd file_name passphrase name;
         (result, sent') = execute_mikrotik_command exec cmd sent
     in if py_in ''failure:'' (py_lower result) \<or> py_in ''error'' (py_lower result)
        then (''Failed to import certificate: '' @ result, sent')
        else (''Certificate imported from '' @ sq @ file_name @ sq @ '' successfully'', sent'))\<close>

text \<open>\<^verbatim>\<open>mikrotik_export_certificate\<close> (scope/certificate.py, line 148): the command it builds, then the operation.\<close>

definition mikrotik_export_certificate_cmd ::
  "string \<Rightarrow> string option \<Rightarrow> string option \<Rightarrow>
   string option \<Rightarrow> string" where
  \<open>mikrotik_export_certificate_cmd name file_name export_passphrase type =
    (let cmd = ''/certificate export [find name="'' @ name @ ''"]'';
         cmd = (if truthy_str file_name then cmd @ '' file-name="'' @ the file_name @ ''"''
                else cmd);
         cmd = (if truthy_str export_passphrase
                then cmd @ '' export-passphrase="'' @ the export_passphrase @ ''"''
                else cmd);
         cmd = (if truthy_str type then cmd @ '' type='' @ the type else cmd)
     in cmd)\<close>

definition mikrotik_export_certificate ::
  "connector \<Rightarrow> string \<Rightarrow> string option \<Rightarrow>
   string option \<Rightarrow> string option \<Rightarrow> string list \<Rightarrow>
   string \<times> string list" where
  \<open>mikrotik_export_certificate exec name file_name export_passphrase type sent =
    (let cmd = mikrotik_export_certificate_cmd name file_name export_passphrase type;
         (result, sent') = execute_mikrotik_command exec cmd sent
     in if py_in ''failure:'' (py_lower result) \<or> py_in ''error'' (py_lower result)
        then (''Failed to export certificate: '' @ result, sent')
        else (''Certificate '' @ sq @ name @ sq @ '' exported successfully'', sent'))\<close>

text \<open>\<^verbatim>\<open>mikrotik_remove_certificate\<close> (scope/certificate.py, line 185): the command it builds, then the operation.\<close>

definition mikrotik_remove_certificate_cmd ::
  "string \<Rightarrow> string" where
  \<open>mikrotik_remove_certificate_cmd name =
    ''/certificate remove [find name="'' @ name @ ''"]''\<close>

definition mikrotik_remove_certificate ::
  "connector \<Rightarrow> string \<Rightarrow> string list \<Rightarrow>
   string \<times> string list" where
  \<open>mikrotik_remove_certificate exec name sent =
    (let cmd = mikrotik_remove_certificate_cmd name;
         (result, sent') = execute_mikrotik_command exec cmd sent
     in if py_in ''failure:'' (py_lower result) \<or> py_in ''error'' (py_lower result)
        then (''Failed to remove certificate: '' @ result, sent')
        else (''Certificate '' @ sq @ name @ sq @ '' removed successfully'', sent'))\<close>

text \<open>\<^verbatim>\<open>mikrotik_enable_ssl_certificate\<close> (scope/certificate.py, line 206): the command it builds, then the operation.\<close>

definition mikrotik_enable_ssl_certificate_cmd ::
  "string \<Rightarrow> string \<Rightarrow> string" where
  \<open>mikrotik_enable_ssl_certificate_cmd service certificate =
    ''/certificate enable-ssl-certificate [find name="'' @ certificate @ ''"] service='' @ service\<close>

definition mikrotik_enable_ssl_certificate ::
  "connector \<Rightarrow> string \<Rightarrow> string \<Rightarrow>
   string list \<Rightarrow> string \<times> string list" where
  \<open>mikrotik_enable_ssl_certificate exec service certificate sent =
    (let cmd = mikrotik_enable_ssl_certificate_cmd service certificate;
         (result, sent') = execute_mikrotik_command exec cmd sent
     in if py_in ''failure:'' (py_lower result) \<or> py_in ''error'' (py_lower result)
        then (''Failed to enable SSL certificate: '' @ result, sent')
        else (''SSL certificate '' @ sq @ certificate @ sq @ '' enabled for service '' @ sq
              @ service @ sq @ '' successfully'', sent'))\<close>

subsection \<open>Hotspot (scope/hotspot.py)\<close>

text \<open>\<^verbatim>\<open>mikrotik_create_hotspot_server\<close> (scope/hotspot.py, line 8): the command it builds, then the operation.\<close>

definition mikrotik_create_hotspot_server_cmd ::
  "string \<Rightarrow> string \<Rightarrow> string \<Rightarrow>
   string option \<Rightarrow> bool option \<Rightarrow> string" where
  \<open>mikrotik_create_hotspot_server_cmd name interface address_pool profile disabled =
    (let cmd = ''/ip hotspot add name="'' @ name @ ''" interface="'' @ interface @ ''" address-pool="'' @ address_pool @ ''"'';
         cmd = (if truthy_str profile then cmd @ '' profile="'' @ the profile @ ''"'' else cmd);
         cmd = (if disabled \<noteq> None
                then cmd @ '' disabled='' @ (if the disabled then ''yes'' else ''no'')
                else cmd)
     in cmd)\<close>

definition mikrotik_create_hotspot_server ::
  "connector \<Rightarrow> string \<Rightarrow> string \<Rightarrow> string \<Rightarrow>
   string option \<Rightarrow> bool option \<Rightarrow> string list \<Rightarrow>
   string \<times> string list" where
  \<open>mikrotik_create_hotspot_server exec name interface address_pool profile disabled sent =
    (let cmd = mikrotik_create_hotspot_server_cmd name interface address_pool profile disabled;
         (result, sent') = execute_mikrotik_command exec cmd sent
     in if py_in ''failure:'' (py_lower result) \<or> py_in ''error'' (py_lower result)
        then (''Failed to create hotspot server: '' @ result, sent')
        else (''Hotspot server '' @ sq @ name @ sq @ '' created successfully'', sent'))\<close>

text \<open>\<^verbatim>\<open>mikrotik_list_hotspot_servers\<close> (scope/hotspot.py, line 45): the command it builds, then the operation.\<close>

definition mikrotik_list_hotspot_servers_cmd ::
  "string" where
  \<open>mikrotik_list_hotspot_servers_cmd =
    ''/ip hotspot print''\<close>

definition mikrotik_list_hotspot_servers ::
  "connector \<Rightarrow> string list \<Rightarrow> string \<times> string list" where
  \<open>mikrotik_list_hotspot_servers exec sent =
    (let cmd = mikrotik_list_hotspot_servers_cmd;
         (result, sent') = execute_mikrotik_command exec cmd sent
     in if py_in ''failure:'' (py_lower result) \<or> py_in ''error'' (py_lower result)
        then (''Failed to list hotspot servers: '' @ result, sent')
        else (''Hotspot Servers:\<newline>\<newline>'' @ result, sent'))\<close>

text \<open>\<^verbatim>\<open>mikrotik_list_hotspot_users\<close> (scope/hotspot.py, line 63): the command it builds, then the operation.\<close>

definition mikrotik_list_hotspot_users_cmd ::
  "string" where
  \<open>mikrotik_list_hotspot_users_cmd =
    ''/ip hotspot user print''\<close>

definition mikrotik_list_hotspot_users ::
  "connector \<Rightarrow> string list \<Rightarrow> string \<times> string list" where
  \<open>mikrotik_list_hotspot_users exec sent =
    (let cmd = mikrotik_list_hotspot_users_cmd;
         (result, sent') = execute_mikrotik_command exec cmd sent
     in if py_in ''failure:'' (py_lower result) \<or> py_in ''error'' (py_lower result)
        then (''Failed to list hotspot users: '' @ result, sent')
        else (''Hotspot Users:\<newline>\<newline>'' @ result, sent'))\<close>

text \<open>\<^verbatim>\<open>mikrotik_add_hotspot_user\<close> (scope/hotspot.py, line 81): the command it builds, then the operation.\<close>

definition mikrotik_add_hotspot_user_cmd ::
  "string \<Rightarrow> string \<Rightarrow> string option \<Rightarrow>
   string option \<Rightarrow> string option \<Rightarrow> string option \<Rightarrow>
   bool option \<Rightarrow> string" where
  \<open>mikrotik_add_hotspot_user_cmd name password profile limit_uptime limit_bytes_total comment
      disabled =
    (let cmd = ''/ip hotspot user add name="'' @ name @ ''" password="'' @ password @ ''"'';
         cmd = (if truthy_str profile then cmd @ '' profile="'' @ the profile @ ''"'' else cmd);
         cmd = (if truthy_str limit_uptime then cmd @ '' limit-uptime='' @ the limit_uptime
                else cmd);
         cmd = (if truthy_str limit_bytes_total
                then cmd @ '' limit-bytes-total='' @ the limit_bytes_total
                else cmd);
         cmd = (if truthy_str comment then cmd @ '' comment="'' @ the comment @ ''"'' else cmd);
         cmd = (if disabled \<noteq> None
                then cmd @ '' disabled='' @ (if the disabled then ''yes'' else ''no'')
                else cmd)
     in cmd)\<close>

definition mikrotik_add_hotspot_user ::
  "connector \<Rightarrow> string \<Rightarrow> string \<Rightarrow>
   string option \<Rightarrow> string option \<Rightarrow> string option \<Rightarrow>
   string option \<Rightarrow> bool option \<Rightarrow> string list \<Rightarrow>
   string \<times> string list" where
  \<open>mikrotik_add_hotspot_user exec name password profile limit_uptime limit_bytes_total comment
      disabled sent =
    (let cmd = mikrotik_add_hotspot_user_cmd name password profile limit_uptime limit_bytes_total comment
           disabled;
         (result, sent') = execute_mikrotik_command exec cmd sent
     in if py_in ''failure:'' (py_lower result) \<or> py_in ''error'' (py_lower result)
        then (''Failed to add hotspot user: '' @ result, sent')
        else (''Hotspot user '' @ sq @ name @ sq @ '' added successfully'', sent'))\<close>

text \<open>\<^verbatim>\<open>mikrotik_remove_hotspot_user\<close> (scope/hotspot.py, line 128): the command it builds, then the operation.\<close>

definition mikrotik_remove_hotspot_user_cmd ::
  "string \<Rightarrow> string" where
  \<open>mikrotik_remove_hotspot_user_cmd name =
    ''/ip hotspot user remove [find name="'' @ name @ ''"]''\<close>

definition mikrotik_remove_hotspot_user ::
  "connector \<Rightarrow> string \<Rightarrow> string list \<Rightarrow>
   string \<times> string list" where
  \<open>mikrotik_remove_hotspot_user exec name sent =
    (let cmd = mikrotik_remove_hotspot_user_cmd name;
         (result, sent') = execute_mikrotik_command exec cmd sent
     in if py_in ''failure:'' (py_lower result) \<or> py_in ''error'' (py_lower result)
        then (''Failed to remove hotspot user: '' @ result, sent')
        else (''Hotspot user '' @ sq @ name @ sq @ '' removed successfully'', sent'))\<close>

text \<open>\<^verbatim>\<open>mikrotik_list_hotspot_active\<close> (scope/hotspot.py, line 149): the command it builds, then the operation.\<close>

definition mikrotik_list_hotspot_active_cmd ::
  "string" where
  \<open>mikrotik_list_hotspot_active_cmd =
    ''/ip hotspot active print''\<close>

definition mikrotik_list_hotspot_active ::
  "connector \<Rightarrow> string list \<Rightarrow> string \<times> string list" where
  \<open>mikrotik_list_hotspot_active exec sent =
    (let cmd = mikrotik_list_hotspot_active_cmd;
         (result, sent') = execute_mikrotik_command exec cmd sent
     in if py_in ''failure:'' (py_lower result) \<or> py_in ''error'' (py_lower result)
        then (''Failed to list active sessions: '' @ result, sent')
        else (''Active Hotspot Sessions:\<newline>\<newline>'' @ result, sent'))\<close>

text \<open>\<^verbatim>\<open>mikrotik_remove_hotspot_active\<close> (scope/hotspot.py, line 167): the command it builds, then the operation.\<close>

definition mikrotik_remove_hotspot_active_cmd ::
  "string \<Rightarrow> string" where
  \<open>mikrotik_remove_hotspot_active_cmd user =
    ''/ip hotspot active remove [find user="'' @ user @ ''"]''\<close>

definition mikrotik_remove_hotspot_active ::
  "connector \<Rightarrow> string \<Rightarrow> string list \<Rightarrow>
   string \<times> string list" where
  \<open>mikrotik_remove_hotspot_active exec user sent =
    (let cmd = mikrotik_remove_hotspot_active_cmd user;
         (result, sent') = execute_mikrotik_command exec cmd sent
     in if py_in ''failure:'' (py_lower result) \<or> py_in ''error'' (py_lower result)
        then (''Failed to remove active session: '' @ result, sent')
        else (''Active session for user '' @ sq @ user @ sq @ '' removed successfully'', sent'))\<close>

subsection \<open>IPsec (scope/ipsec.py)\<close>

text \<open>\<^verbatim>\<open>mikrotik_create_ipsec_peer\<close> (scope/ipsec.py, line 8): the command it builds, then the operation.\<close>

definition mikrotik_create_ipsec_peer_cmd ::
  "string \<Rightarrow> string \<Rightarrow> string option \<Rightarrow>
   string option \<Rightarrow> string option \<Rightarrow> bool option \<Rightarrow>
   string option \<Rightarrow> bool option \<Rightarrow> string" where
  \<open>mikrotik_create_ipsec_peer_cmd name address auth_method secret exchange_mode
      send_initial_contact comment disabled =
    (let cmd = ''/ip ipsec peer add name="'' @ name @ ''" address="'' @ address @ ''"'';
         cmd = (if truthy_str auth_method then cmd @ '' auth-method='' @ the auth_method else cmd);
         cmd = (if truthy_str secret then cmd @ '' secret="'' @ the secret @ ''"'' else cmd);
         cmd = (if truthy_str exchange_mode then cmd @ '' exchange-mode='' @ the exchange_mode
                else cmd);
         cmd = (if send_initial_contact \<noteq> None
                then cmd @ '' send-initial-contact='' @ (if the send_initial_contact then ''yes'' else ''no'')
                else cmd);
         cmd = (if truthy_str comment then cmd @ '' comment="'' @ the comment @ ''"'' else cmd);
         cmd = (if disabled \<noteq> None
                then cmd @ '' disabled='' @ (if the disabled then ''yes'' else ''no'')
                else cmd)
     in cmd)\<close>

definition mikrotik_create_ipsec_peer ::
  "connector \<Rightarrow> string \<Rightarrow> string \<Rightarrow>
   string option \<Rightarrow> string option \<Rightarrow> string option \<Rightarrow>
   bool option \<Rightarrow> string option \<Rightarrow> bool option \<Rightarrow>
   string list \<Rightarrow> string \<times> string list" where
  \<open>mikrotik_create_ipsec_peer exec name address auth_method secret exchange_mode
      send_initial_contact comment disabled sent =
    (let cmd = mikrotik_create_ipsec_peer_cmd name address auth_method secret exchange_mode
           send_initial_contact comment disabled;
         (result, sent') = execute_mikrotik_command exec cmd sent
     in if py_in ''failure:'' (py_lower result) \<or> py_in ''error'' (py_lower result)
        then (''Failed to create IPsec peer: '' @ result, sent')
        else (''IPsec peer '' @ sq @ name @ sq @ '' created successfully'', sent'))\<close>

text \<open>\<^verbatim>\<open>mikrotik_list_ipsec_peers\<close> (scope/ipsec.py, line 59): the command it builds, then the operation.\<close>

definition mikrotik_list_ipsec_peers_cmd ::
  "string" where
  \<open>mikrotik_list_ipsec_peers_cmd =
    ''/ip ipsec peer print''\<close>

definition mikrotik_list_ipsec_peers ::
  "connector \<Rightarrow> string list \<Rightarrow> string \<times> string list" where
  \<open>mikrotik_list_ipsec_peers exec sent =
    (let cmd = mikrotik_list_ipsec_peers_cmd;
         (result, sent') = execute_mikrotik_command exec cmd sent
     in if py_in ''failure:'' (py_lower result) \<or> py_in ''error'' (py_lower result)
        then (''Failed to list IPsec peers: '' @ result, sent')
        else (''IPsec Peers:\<newline>\<newline>'' @ result, sent'))\<close>

text \<open>\<^verbatim>\<open>mikrotik_remove_ipsec_peer\<close> (scope/ipsec.py, line 77): the command it builds, then the operation.\<close>

definition mikrotik_remove_ipsec_peer_cmd ::
  "string \<Rightarrow> string" where
  \<open>mikrotik_remove_ipsec_peer_cmd name =
    ''/ip ipsec peer remove [find name="'' @ name @ ''"]''\<close>

definition mikrotik_remove_ipsec_peer ::
  "connector \<Rightarrow> string \<Rightarrow> string list \<Rightarrow>
   string \<times> string list" where
  \<open>mikrotik_remove_ipsec_peer exec name sent =
    (let cmd = mikrotik_remove_ipsec_peer_cmd name;
         (result, sent') = execute_mikrotik_command exec cmd sent
     in if py_in ''failure:'' (py_lower result) \<or> py_in ''error'' (py_lower result)
        then (''Failed to remove IPsec peer: '' @ result, sent')
        else (''IPsec peer '' @ sq @ name @ sq @ '' removed successfully'', sent'))\<close>

text \<open>\<^verbatim>\<open>mikrotik_create_ipsec_proposal\<close> (scope/ipsec.py, line 98): the command it builds, then the operation.\<close>

definition mikrotik_create_ipsec_proposal_cmd ::
  "string \<Rightarrow> string option \<Rightarrow> string option \<Rightarrow>
   string option \<Rightarrow> string option \<Rightarrow> string option \<Rightarrow>
   bool option \<Rightarrow> string" where
  \<open>mikrotik_create_ipsec_proposal_cmd name auth_algorithms enc_algorithms lifetime pfs_group
      comment disabled =
    (let cmd = ''/ip ipsec proposal add name="'' @ name @ ''"'';
         cmd = (if truthy_str auth_algorithms then cmd @ '' auth-algorithms='' @ the auth_algorithms
                else cmd);
         cmd = (if truthy_str enc_algorithms then cmd @ '' enc-algorithms='' @ the enc_algorithms
                else cmd);
         cmd = (if truthy_str lifetime then cmd @ '' lifetime='' @ the lifetime else cmd);
         cmd = (if truthy_str pfs_group then cmd @ '' pfs-group='' @ the pfs_group else cmd);
         cmd = (if truthy_str comment then cmd @ '' comment="'' @ the comment @ ''"'' else cmd);
         cmd = (if disabled \<noteq> None
                then cmd @ '' disabled='' @ (if the disabled then ''yes'' else ''no'')
                else cmd)
     in cmd)\<close>

definition mikrotik_create_ipsec_proposal ::
  "connector \<Rightarrow> string \<Rightarrow> string option \<Rightarrow>
   string option \<Rightarrow> string option \<Rightarrow> string option \<Rightarrow>
   string option \<Rightarrow> bool option \<Rightarrow> string list \<Rightarrow>
   string \<times> string list" where
  \<open>mikrotik_create_ipsec_proposal exec name auth_algorithms enc_algorithms lifetime pfs_group
      comment disabled sent =
    (let cmd = mikrotik_create_ipsec_proposal_cmd name auth_algorithms enc_algorithms lifetime pfs_group
           comment disabled;
         (result, sent') = execute_mikrotik_command exec cmd sent
     in if py_in ''failure:'' (py_lower result) \<or> py_in ''error'' (py_lower result)
        then (''Failed to create IPsec proposal: '' @ result, sent')
        else (''IPsec proposal '' @ sq @ name @ sq @ '' created successfully'', sent'))\<close>

text \<open>\<^verbatim>\<open>mikrotik_list_ipsec_proposals\<close> (scope/ipsec.py, line 147): the command it builds, then the operation.\<close>

definition mikrotik_list_ipsec_proposals_cmd ::
  "string" where
  \<open>mikrotik_list_ipsec_proposals_cmd =
    ''/ip ipsec proposal print''\<close>

definition mikrotik_list_ipsec_proposals ::
  "connector \<Rightarrow> string list \<Rightarrow> string \<times> string list" where
  \<open>mikrotik_list_ipsec_proposals exec sent =
    (let cmd = mikrotik_list_ipsec_proposals_cmd;
         (result, sent') = execute_mikrotik_command exec cmd sent
     in if py_in ''failure:'' (py_lower result) \<or> py_in ''error'' (py_lower result)
        then (''Failed to list IPsec proposals: '' @ result, sent')
        else (''IPsec Proposals:\<newline>\<newline>'' @ result, sent'))\<close>

text \<open>\<^verbatim>\<open>mikrotik_list_ipsec_installed_sa\<close> (scope/ipsec.py, line 165): the command it builds, then the operation.\<close>

definition mikrotik_list_ipsec_installed_sa_cmd ::
  "string" where
  \<open>mikrotik_list_ipsec_installed_sa_cmd =
    ''/ip ipsec installed-sa print''\<close>

definition mikrotik_list_ipsec_installed_sa ::
  "connector \<Rightarrow> string list \<Rightarrow> string \<times> string list" where
  \<open>mikrotik_list_ipsec_installed_sa exec sent =
    (let cmd = mikrotik_list_ipsec_installed_sa_cmd;
         (result, sent') = execute_mikrotik_command exec cmd sent
     in if py_in ''failure:'' (py_lower result) \<or> py_in ''error'' (py_lower result)
        then (''Failed to list IPsec installed SAs: '' @ result, sent')
        else (''IPsec Installed SAs:\<newline>\<newline>'' @ result, sent'))\<close>

text \<open>\<^verbatim>\<open>mikrotik_create_ipsec_policy\<close> (scope/ipsec.py, line 183): the command it builds, then the operation.\<close>

definition mikrotik_create_ipsec_policy_cmd ::
  "string \<Rightarrow> string \<Rightarrow> string option \<Rightarrow>
   string option \<Rightarrow> bool option \<Rightarrow> string option \<Rightarrow>
   bool option \<Rightarrow> string" where
  \<open>mikrotik_create_ipsec_policy_cmd src_address dst_address action proposal tunnel comment
      disabled =
    (let cmd = ''/ip ipsec policy add src-address="'' @ src_address @ ''" dst-address="'' @ dst_address @ ''"'';
         cmd = (if truthy_str action then cmd @ '' action='' @ the action else cmd);
         cmd = (if truthy_str proposal then cmd @ '' proposal="'' @ the proposal @ ''"'' else cmd);
         cmd = (if tunnel \<noteq> None
                then cmd @ '' tunnel='' @ (if the tunnel then ''yes'' else ''no'')
                else cmd);
         cmd = (if truthy_str comment then cmd @ '' comment="'' @ the comment @ ''"'' else cmd);
         cmd = (if disabled \<noteq> None
                then cmd @ '' disabled='' @ (if the disabled then ''yes'' else ''no'')
                else cmd)
     in cmd)\<close>

definition mikrotik_create_ipsec_policy ::
  "connector \<Rightarrow> string \<Rightarrow> string \<Rightarrow>
   string option \<Rightarrow> string option \<Rightarrow> bool option \<Rightarrow>
   string option \<Rightarrow> bool option \<Rightarrow> string list \<Rightarrow>
   string \<times> string list" where
  \<open>mikrotik_create_ipsec_policy exec src_address dst_address action proposal tunnel comment
      disabled sent =
    (let cmd = mikrotik_create_ipsec_policy_cmd src_address dst_address action proposal tunnel comment
           disabled;
         (result, sent') = execute_mikrotik_command exec cmd sent
     in if py_in ''failure:'' (py_lower result) \<or> py_in ''error'' (py_lower result)
        then (''Failed to create IPsec policy: '' @ result, sent')
        else (''IPsec policy created successfully'', sent'))\<close>

text \<open>\<^verbatim>\<open>mikrotik_list_ipsec_policies\<close> (scope/ipsec.py, line 230): the command it builds, then the operation.\<close>

definition mikrotik_list_ipsec_policies_cmd ::
  "string" where
  \<open>mikrotik_list_ipsec_policies_cmd =
    ''/ip ipsec policy print''\<close>

definition mikrotik_list_ipsec_policies ::
  "connector \<Rightarrow> string list \<Rightarrow> string \<times> string list" where
  \<open>mikrotik_list_ipsec_policies exec sent =
    (let cmd = mikrotik_list_ipsec_policies_cmd;
         (result, sent') = execute_mikrotik_command exec cmd sent
     in if py_in ''failure:'' (py_lower result) \<or> py_in ''error'' (py_lower result)
        then (''Failed to list IPsec policies: '' @ result, sent')
        else (''IPsec Policies:\<newline>\<newline>'' @ result, sent'))\<close>

subsection \<open>IPv6 (scope/ipv6.py)\<close>

text \<open>\<^verbatim>\<open>mikrotik_add_ipv6_address\<close> (scope/ipv6.py, line 8): the command it builds, then the operation.\<close>

definition mikrotik_add_ipv6_address_cmd ::
  "string \<Rightarrow> string \<Rightarrow> bool option \<Rightarrow>
   bool option \<Rightarrow> bool option \<Rightarrow> string option \<Rightarrow>
   bool option \<Rightarrow> string" where
  \<open>mikrotik_add_ipv6_address_cmd address interface advertise eui_64 no_dad comment disabled =
    (let cmd = ''/ipv6 address add address="'' @ address @ ''" interface="'' @ interface @ ''"'';
         cmd = (if advertise \<noteq> None
                then cmd @ '' advertise='' @ (if the advertise then ''yes'' else ''no'')
                else cmd);
         cmd = (if eui_64 \<noteq> None
                then cmd @ '' eui-64='' @ (if the eui_64 then ''yes'' else ''no'')
                else cmd);
         cmd = (if no_dad \<noteq> None
                then cmd @ '' no-dad='' @ (if the no_dad then ''yes'' else ''no'')
                else cmd);
         cmd = (if truthy_str comment then cmd @ '' comment="'' @ the comment @ ''"'' else cmd);
         cmd = (if disabled \<noteq> None
                then cmd @ '' disabled='' @ (if the disabled then ''yes'' else ''no'')
                else cmd)
     in cmd)\<close>

definition mikrotik_add_ipv6_address ::
  "connector \<Rightarrow> string \<Rightarrow> string \<Rightarrow>
   bool option \<Rightarrow> bool option \<Rightarrow> bool option \<Rightarrow>
   string option \<Rightarrow> bool option \<Rightarrow> string list \<Rightarrow>
   string \<times> string list" where
  \<open>mikrotik_add_ipv6_address exec address interface advertise eui_64 no_dad comment disabled
      sent =
    (let cmd = mikrotik_add_ipv6_address_cmd address interface advertise eui_64 no_dad comment disabled;
         (result, sent') = execute_mikrotik_command exec cmd sent
     in if py_in ''failure:'' (py_lower result) \<or> py_in ''error'' (py_lower result)
        then (''Failed to add IPv6 address: '' @ result, sent')
        else (''IPv6 address '' @ address @ '' added to '' @ interface @ '' successfully'', sent'))\<close>

text \<open>\<^verbatim>\<open>mikrotik_list_ipv6_addresses\<close> (scope/ipv6.py, line 55): the command it builds, then the operation.\<close>

definition mikrotik_list_ipv6_addresses_cmd ::
  "string option \<Rightarrow> bool option \<Rightarrow> string" where
  \<open>mikrotik_list_ipv6_addresses_cmd interface_filter disabled_only =
    (let cmd = ''/ipv6 address print'';
         cmd = (if truthy_str interface_filter
                then cmd @ '' where interface~"'' @ the interface_filter @ ''"''
                else if truthy_bool disabled_only then cmd @ '' where disabled=yes''
                else cmd)
     in cmd)\<close>

definition mikrotik_list_ipv6_addresses ::
  "connector \<Rightarrow> string option \<Rightarrow> bool option \<Rightarrow>
   string list \<Rightarrow> string \<times> string list" where
  \<open>mikrotik_list_ipv6_addresses exec interface_filter disabled_only sent =
    (let cmd = mikrotik_list_ipv6_addresses_cmd interface_filter disabled_only;
         (result, sent') = execute_mikrotik_command exec cmd sent
     in if py_in ''failure:'' (py_lower result) \<or> py_in ''error'' (py_lower result)
        then (''Failed to list IPv6 addresses: '' @ result, sent')
        else (''IPv6 Addresses:\<newline>\<newline>'' @ result, sent'))\<close>

text \<open>\<^verbatim>\<open>mikrotik_remove_ipv6_address\<close> (scope/ipv6.py, line 86): the command it builds, then the operation.\<close>

definition mikrotik_remove_ipv6_address_cmd ::
  "string \<Rightarrow> string" where
  \<open>mikrotik_remove_ipv6_address_cmd address_id =
    ''/ipv6 address remove '' @ address_id\<close>

definition mikrotik_remove_ipv6_address ::
  "connector \<Rightarrow> string \<Rightarrow> string list \<Rightarrow>
   string \<times> string list" where
  \<open>mikrotik_remove_ipv6_address exec address_id sent =
    (let cmd = mikrotik_remove_ipv6_address_cmd address_id;
         (result, sent') = execute_mikrotik_command exec cmd sent
     in if py_in ''failure:'' (py_lower result) \<or> py_in ''error'' (py_lower result)
        then (''Failed to remove IPv6 address: '' @ result, sent')
        else (''IPv6 address '' @ address_id @ '' removed successfully'', sent'))\<close>

text \<open>\<^verbatim>\<open>mikrotik_add_ipv6_route\<close> (scope/ipv6.py, line 107): the command it builds, then the operation.\<close>

definition mikrotik_add_ipv6_route_cmd ::
  "string \<Rightarrow> string \<Rightarrow> int option \<Rightarrow>
   string option \<Rightarrow> bool option \<Rightarrow> string" where
  \<open>mikrotik_add_ipv6_route_cmd dst_address gateway distance comment disabled =
    (let cmd = ''/ipv6 route add dst-address="'' @ dst_address @ ''" gateway="'' @ gateway @ ''"'';
         cmd = (if distance \<noteq> None then cmd @ '' distance='' @ str_int (the distance)
                else cmd);
         cmd = (if truthy_str comment then cmd @ '' comment="'' @ the comment @ ''"'' else cmd);
         cmd = (if disabled \<noteq> None
                then cmd @ '' disabled='' @ (if the disabled then ''yes'' else ''no'')
                else cmd)
     in cmd)\<close>

definition mikrotik_add_ipv6_route ::
  "connector \<Rightarrow> string \<Rightarrow> string \<Rightarrow>
   int option \<Rightarrow> string option \<Rightarrow> bool option \<Rightarrow>
   string list \<Rightarrow> string \<times> string list" where
  \<open>mikrotik_add_ipv6_route exec dst_address gateway distance comment disabled sent =
    (let cmd = mikrotik_add_ipv6_route_cmd dst_address gateway distance comment disabled;
         (result, sent') = execute_mikrotik_command exec cmd sent
     in if py_in ''failure:'' (py_lower result) \<or> py_in ''error'' (py_lower result)
        then (''Failed to add IPv6 route: '' @ result, sent')
        else (''IPv6 route to '' @ dst_address @ '' added successfully'', sent'))\<close>

text \<open>\<^verbatim>\<open>mikrotik_list_ipv6_routes\<close> (scope/ipv6.py, line 146): the command it builds, then the operation.\<close>

definition mikrotik_list_ipv6_routes_cmd ::
  "string option \<Rightarrow> string option \<Rightarrow> bool option \<Rightarrow> string" where
  \<open>mikrotik_list_ipv6_routes_cmd dst_filter gateway_filter active_only =
    (let cmd = ''/ipv6 route print'';
         cmd = (if truthy_str dst_filter
                then cmd @ '' where dst-address~"'' @ the dst_filter @ ''"''
                else if truthy_str gateway_filter
                then cmd @ '' where gateway~"'' @ the gateway_filter @ ''"''
                else if truthy_bool active_only then cmd @ '' where active=yes''
                else cmd)
     in cmd)\<close>

definition mikrotik_list_ipv6_routes ::
  "connector \<Rightarrow> string option \<Rightarrow> string option \<Rightarrow>
   bool option \<Rightarrow> string list \<Rightarrow> string \<times> string list" where
  \<open>mikrotik_list_ipv6_routes exec dst_filter gateway_filter active_only sent =
    (let cmd = mikrotik_list_ipv6_routes_cmd dst_filter gateway_filter active_only;
         (result, sent') = execute_mikrotik_command exec cmd sent
     in if py_in ''failure:'' (py_lower result) \<or> py_in ''error'' (py_lower result)
        then (''Failed to list IPv6 routes: '' @ result, sent')
        else (''IPv6 Routes:\<newline>\<newline>'' @ result, sent'))\<close>

text \<open>\<^verbatim>\<open>mikrotik_remove_ipv6_route\<close> (scope/ipv6.py, line 181): the command it builds, then the operation.\<close>

definition mikrotik_remove_ipv6_route_cmd ::
  "string \<Rightarrow> string" where
  \<open>mikrotik_remove_ipv6_route_cmd route_id =
    ''/ipv6 route remove '' @ route_id\<close>

definition mikrotik_remove_ipv6_route ::
  "connector \<Rightarrow> string \<Rightarrow> string list \<Rightarrow>
   string \<times> string list" where
  \<open>mikrotik_remove_ipv6_route exec route_id sent =
    (let cmd = mikrotik_remove_ipv6_route_cmd route_id;
         (result, sent') = execute_mikrotik_command exec cmd sent
     in if py_in ''failure:'' (py_lower result) \<or> py_in ''error'' (py_lower result)
        then (''Failed to remove IPv6 route: '' @ result, sent')
        else (''IPv6 route '' @ route_id @ '' removed successfully'', sent'))\<close>

text \<open>\<^verbatim>\<open>mikrotik_list_ipv6_neighbors\<close> (scope/ipv6.py, line 202): the command it builds, then the operation.\<close>

definition mikrotik_list_ipv6_neighbors_cmd ::
  "string" where
  \<open>mikrotik_list_ipv6_neighbors_cmd =
    ''/ipv6 neighbor print''\<close>

definition mikrotik_list_ipv6_neighbors ::
  "connector \<Rightarrow> string list \<Rightarrow> string \<times> string list" where
  \<open>mikrotik_list_ipv6_neighbors exec sent =
    (let cmd = mikrotik_list_ipv6_neighbors_cmd;
         (result, sent') = execute_mikrotik_command exec cmd sent
     in if py_in ''failure:'' (py_lower result) \<or> py_in ''error'' (py_lower result)
        then (''Failed to list IPv6 neighbors: '' @ result, sent')
        else (''IPv6 Neighbors:\<newline>\<newline>'' @ result, sent'))\<close>

text \<open>\<^verbatim>\<open>mikrotik_get_ipv6_settings\<close> (scope/ipv6.py, line 220): the command it builds, then the operation.\<close>

definition mikrotik_get_ipv6_settings_cmd ::
  "string" where
  \<open>mikrotik_get_ipv6_settings_cmd =
    ''/ipv6 settings print''\<close>

definition mikrotik_get_ipv6_settings ::
  "connector \<Rightarrow> string list \<Rightarrow> string \<times> string list" where
  \<open>mikrotik_get_ipv6_settings exec sent =
    (let cmd = mikrotik_get_ipv6_settings_cmd;
         (result, sent') = execute_mikrotik_command exec cmd sent
     in if py_in ''failure:'' (py_lower result) \<or> py_in ''error'' (py_lower result)
        then (''Failed to get IPv6 settings: '' @ result, sent')
        else (''IPv6 Settings:\<newline>\<newline>'' @ result, sent'))\<close>

text \<open>\<^verbatim>\<open>mikrotik_set_ipv6_settings\<close> (scope/ipv6.py, line 238): the command it builds, then the operation.\<close>

definition mikrotik_set_ipv6_settings_cmd ::
  "bool option \<Rightarrow> bool option \<Rightarrow> bool option \<Rightarrow>
   int option \<Rightarrow> string" where
  \<open>mikrotik_set_ipv6_settings_cmd accept_redirects accept_router_advertisements forward
      max_neighbor_entries =
    (let cmd = ''/ipv6 settings set'';
         cmd = (if accept_redirects \<noteq> None
                then cmd @ '' accept-redirects='' @ (if the accept_redirects then ''yes'' else ''no'')
                else cmd);
         cmd = (if accept_router_advertisements \<noteq> None
                then cmd @ '' accept-router-advertisements='' @ (if the accept_router_advertisements then ''yes'' else ''no'')
                else cmd);
         cmd = (if forward \<noteq> None
                then cmd @ '' forward='' @ (if the forward then ''yes'' else ''no'')
                else cmd);
         cmd = (if max_neighbor_entries \<noteq> None
                then cmd @ '' max-neighbor-entries='' @ str_int (the max_neighbor_entries)
                else cmd)
     in cmd)\<close>

definition mikrotik_set_ipv6_settings ::
  "connector \<Rightarrow> bool option \<Rightarrow> bool option \<Rightarrow>
   bool option \<Rightarrow> int option \<Rightarrow> string list \<Rightarrow>
   string \<times> string list" where
  \<open>mikrotik_set_ipv6_settings exec accept_redirects accept_router_advertisements forward
      max_neighbor_entries sent =
    (let cmd = mikrotik_set_ipv6_settings_cmd accept_redirects accept_router_advertisements forward
           max_neighbor_entries;
         (result, sent') = execute_mikrotik_command exec cmd sent
     in if py_in ''failure:'' (py_lower result) \<or> py_in ''error'' (py_lower result)
        then (''Failed to set IPv6 settings: '' @ result, sent')
        else (''IPv6 settings configured successfully'', sent'))\<close>

subsection \<open>PPPoE and PPP (scope/pppoe.py)\<close>

text \<open>\<^verbatim>\<open>mikrotik_create_pppoe_server\<close> (scope/pppoe.py, line 8): the command it builds, then the operation.\<close>

definition mikrotik_create_pppoe_server_cmd ::
  "string \<Rightarrow> string \<Rightarrow> string option \<Rightarrow>
   string option \<Rightarrow> int option \<Rightarrow> int option \<Rightarrow>
   int option \<Rightarrow> bool option \<Rightarrow> bool option \<Rightarrow> string" where
  \<open>mikrotik_create_pppoe_server_cmd service_name interface default_profile authentication
      keepalive_timeout max_mtu max_mru one_session_per_host disabled =
    (let cmd = ''/interface pppoe-server server add service-name="'' @ service_name @ ''" interface="'' @ interface @ ''"'';
         cmd = (if truthy_str default_profile
                then cmd @ '' default-profile="'' @ the default_profile @ ''"''
                else cmd);
         cmd = (if truthy_str authentication then cmd @ '' authentication='' @ the authentication
                else cmd);
         cmd = (if keepalive_timeout \<noteq> None
                then cmd @ '' keepalive-timeout='' @ str_int (the keepalive_timeout)
                else cmd);
         cmd = (if max_mtu \<noteq> None then cmd @ '' max-mtu='' @ str_int (the max_mtu) else cmd);
         cmd = (if max_mru \<noteq> None then cmd @ '' max-mru='' @ str_int (the max_mru) else cmd);
         cmd = (if one_session_per_host \<noteq> None
                then cmd @ '' one-session-per-host='' @ (if the one_session_per_host then ''yes'' else ''no'')
                else cmd);
         cmd = (if disabled \<noteq> None
                then cmd @ '' disabled='' @ (if the disabled then ''yes'' else ''no'')
                else cmd)
     in cmd)\<close>

definition mikrotik_create_pppoe_server ::
  "connector \<Rightarrow> string \<Rightarrow> string \<Rightarrow>
   string option \<Rightarrow> string option \<Rightarrow> int option \<Rightarrow>
   int option \<Rightarrow> int option \<Rightarrow> bool option \<Rightarrow>
   bool option \<Rightarrow> string list \<Rightarrow> string \<times> string list" where
  \<open>mikrotik_create_pppoe_server exec service_name interface default_profile authentication
      keepalive_timeout max_mtu max_mru one_session_per_host disabled sent =
    (let cmd = mikrotik_create_pppoe_server_cmd service_name interface default_profile authentication
           keepalive_timeout max_mtu max_mru one_session_per_host disabled;
         (result, sent') = execute_mikrotik_command exec cmd sent
     in if py_in ''failure:'' (py_lower result) \<or> py_in ''error'' (py_lower result)
        then (''Failed to create PPPoE server: '' @ result, sent')
        else (''PPPoE server '' @ sq @ service_name @ sq @ '' created successfully'', sent'))\<close>

text \<open>\<^verbatim>\<open>mikrotik_list_pppoe_servers\<close> (scope/pppoe.py, line 63): the command it builds, then the operation.\<close>

definition mikrotik_list_pppoe_servers_cmd ::
  "string" where
  \<open>mikrotik_list_pppoe_servers_cmd =
    ''/interface pppoe-server server print''\<close>

definition mikrotik_list_pppoe_servers ::
  "connector \<Rightarrow> string list \<Rightarrow> string \<times> string list" where
  \<open>mikrotik_list_pppoe_servers exec sent =
    (let cmd = mikrotik_list_pppoe_servers_cmd;
         (result, sent') = execute_mikrotik_command exec cmd sent
     in if py_in ''failure:'' (py_lower result) \<or> py_in ''error'' (py_lower result)
        then (''Failed to list PPPoE servers: '' @ result, sent')
        else (''PPPoE Servers:\<newline>\<newline>'' @ result, sent'))\<close>

text \<open>\<^verbatim>\<open>mikrotik_remove_pppoe_server\<close> (scope/pppoe.py, line 81): the command it builds, then the operation.\<close>

definition mikrotik_remove_pppoe_server_cmd ::
  "string \<Rightarrow> string" where
  \<open>mikrotik_remove_pppoe_server_cmd service_name =
    ''/interface pppoe-server server remove [find service-name="'' @ service_name @ ''"]''\<close>

definition mikrotik_remove_pppoe_server ::
  "connector \<Rightarrow> string \<Rightarrow> string list \<Rightarrow>
   string \<times> string list" where
  \<open>mikrotik_remove_pppoe_server exec service_name sent =
    (let cmd = mikrotik_remove_pppoe_server_cmd service_name;
         (result, sent') = execute_mikrotik_command exec cmd sent
     in if py_in ''failure:'' (py_lower result) \<or> py_in ''error'' (py_lower result)
        then (''Failed to remove PPPoE server: '' @ result, sent')
        else (''PPPoE server '' @ sq @ service_name @ sq @ '' removed successfully'', sent'))\<close>

text \<open>\<^verbatim>\<open>mikrotik_add_ppp_secret\<close> (scope/pppoe.py, line 102): the command it builds, then the operation.\<close>

definition mikrotik_add_ppp_secret_cmd ::
  "string \<Rightarrow> string \<Rightarrow> string option \<Rightarrow>
   string option \<Rightarrow> string option \<Rightarrow> string option \<Rightarrow>
   string option \<Rightarrow> string option \<Rightarrow> string option \<Rightarrow>
   string option \<Rightarrow> bool option \<Rightarrow> string" where
  \<open>mikrotik_add_ppp_secret_cmd name password service profile local_address remote_address
      routes limit_bytes_in limit_bytes_out comment disabled =
    (let cmd = ''/ppp secret add name="'' @ name @ ''" password="'' @ password @ ''"'';
         cmd = (if truthy_str service then cmd @ '' service='' @ the service else cmd);
         cmd = (if truthy_str profile then cmd @ '' profile="'' @ the profile @ ''"'' else cmd);
         cmd = (if truthy_str local_address
                then cmd @ '' local-address="'' @ the local_address @ ''"''
                else cmd);
         cmd = (if truthy_str remote_address
                then cmd @ '' remote-address="'' @ the remote_address @ ''"''
                else cmd);
         cmd = (if truthy_str routes then cmd @ '' routes="'' @ the routes @ ''"'' else cmd);
         cmd = (if truthy_str limit_bytes_in then cmd @ '' limit-bytes-in='' @ the limit_bytes_in
                else cmd);
         cmd = (if truthy_str limit_bytes_out then cmd @ '' limit-bytes-out='' @ the limit_bytes_out
                else cmd);
         cmd = (if truthy_str comment then cmd @ '' comment="'' @ the comment @ ''"'' else cmd);
         cmd = (if disabled \<noteq> None
                then cmd @ '' disabled='' @ (if the disabled then ''yes'' else ''no'')
                else cmd)
     in cmd)\<close>

definition mikrotik_add_ppp_secret ::
  "connector \<Rightarrow> string \<Rightarrow> string \<Rightarrow>
   string option \<Rightarrow> string option \<Rightarrow> string option \<Rightarrow>
   string option \<Rightarrow> string option \<Rightarrow> string option \<Rightarrow>
   string option \<Rightarrow> string option \<Rightarrow> bool option \<Rightarrow>
   string list \<Rightarrow> string \<times> string list" where
  \<open>mikrotik_add_ppp_secret exec name password service profile local_address remote_address
      routes limit_bytes_in limit_bytes_out comment disabled sent =
    (let cmd = mikrotik_add_ppp_secret_cmd name password service profile local_address remote_address
           routes limit_bytes_in limit_bytes_out comment disabled;
         (result, sent') = execute_mikrotik_command exec cmd sent
     in if py_in ''failure:'' (py_lower result) \<or> py_in ''error'' (py_lower result)
        then (''Failed to add PPP secret: '' @ result, sent')
        else (''PPP secret '' @ sq @ name @ sq @ '' added successfully'', sent'))\<close>

text \<open>\<^verbatim>\<open>mikrotik_list_ppp_secrets\<close> (scope/pppoe.py, line 165): the command it builds, then the operation.\<close>

definition mikrotik_list_ppp_secrets_cmd ::
  "string option \<Rightarrow> bool option \<Rightarrow> string" where
  \<open>mikrotik_list_ppp_secrets_cmd service_filter disabled_only =
    (let cmd = ''/ppp secret print'';
         cmd = (if truthy_str service_filter then cmd @ '' where service='' @ the service_filter
                else if truthy_bool disabled_only then cmd @ '' where disabled=yes''
                else cmd)
     in cmd)\<close>

definition mikrotik_list_ppp_secrets ::
  "connector \<Rightarrow> string option \<Rightarrow> bool option \<Rightarrow>
   string list \<Rightarrow> string \<times> string list" where
  \<open>mikrotik_list_ppp_secrets exec service_filter disabled_only sent =
    (let cmd = mikrotik_list_ppp_secrets_cmd service_filter disabled_only;
         (result, sent') = execute_mikrotik_command exec cmd sent
     in if py_in ''failure:'' (py_lower result) \<or> py_in ''error'' (py_lower result)
        then (''Failed to list PPP secrets: '' @ result, sent')
        else (''PPP Secrets:\<newline>\<newline>'' @ result, sent'))\<close>

text \<open>\<^verbatim>\<open>mikrotik_remove_ppp_secret\<close> (scope/pppoe.py, line 196): the command it builds, then the operation.\<close>

definition mikrotik_remove_ppp_secret_cmd ::
  "string \<Rightarrow> string" where
  \<open>mikrotik_remove_ppp_secret_cmd name =
    ''/ppp secret remove [find name="'' @ name @ ''"]''\<close>

definition mikrotik_remove_ppp_secret ::
  "connector \<Rightarrow> string \<Rightarrow> string list \<Rightarrow>
   string \<times> string list" where
  \<open>mikrotik_remove_ppp_secret exec name sent =
    (let cmd = mikrotik_remove_ppp_secret_cmd name;
         (result, sent') = execute_mikrotik_command exec cmd sent
     in if py_in ''failure:'' (py_lower result) \<or> py_in ''error'' (py_lower result)
        then (''Failed to remove PPP secret: '' @ result, sent')
        else (''PPP secret '' @ sq @ name @ sq @ '' removed successfully'', sent'))\<close>

text \<open>\<^verbatim>\<open>mikrotik_list_ppp_active\<close> (scope/pppoe.py, line 217): the command it builds, then the operation.\<close>

definition mikrotik_list_ppp_active_cmd ::
  "string" where
  \<open>mikrotik_list_ppp_active_cmd =
    ''/ppp active print''\<close>

definition mikrotik_list_ppp_active ::
  "connector \<Rightarrow> string list \<Rightarrow> string \<times> string list" where
  \<open>mikrotik_list_ppp_active exec sent =
    (let cmd = mikrotik_list_ppp_active_cmd;
         (result, sent') = execute_mikrotik_command exec cmd sent
     in if py_in ''failure:'' (py_lower result) \<or> py_in ''error'' (py_lower result)
        then (''Failed to list active PPP connections: '' @ result, sent')
        else (''Active PPP Connections:\<newline>\<newline>'' @ result, sent'))\<close>

text \<open>\<^verbatim>\<open>mikrotik_disconnect_ppp_active\<close> (scope/pppoe.py, line 235): the command it builds, then the operation.\<close>

definition mikrotik_disconnect_ppp_active_cmd ::
  "string \<Rightarrow> string" where
  \<open>mikrotik_disconnect_ppp_active_cmd name =
    ''/ppp active remove [find name="'' @ name @ ''"]''\<close>

definition mikrotik_disconnect_ppp_active ::
  "connector \<Rightarrow> string \<Rightarrow> string list \<Rightarrow>
   string \<times> string list" where
  \<open>mikrotik_disconnect_ppp_active exec name sent =
    (let cmd = mikrotik_disconnect_ppp_active_cmd name;
         (result, sent') = execute_mikrotik_command exec cmd sent
     in if py_in ''failure:'' (py_lower result) \<or> py_in ''error'' (py_lower result)
        then (''Failed to disconnect PPP user: '' @ result, sent')
        else (''PPP user '' @ sq @ name @ sq @ '' disconnected successfully'', sent'))\<close>

text \<open>\<^verbatim>\<open>mikrotik_create_ppp_profile\<close> (scope/pppoe.py, line 256): the command it builds, then the operation.\<close>

definition mikrotik_create_ppp_profile_cmd ::
  "string \<Rightarrow> string option \<Rightarrow> string option \<Rightarrow>
   string option \<Rightarrow> string option \<Rightarrow> bool option \<Rightarrow>
   bool option \<Rightarrow> bool option \<Rightarrow> string option \<Rightarrow>
   string option \<Rightarrow> string" where
  \<open>mikrotik_create_ppp_profile_cmd name local_address remote_address dns_server wins_server
      use_compression use_encryption only_one rate_limit comment =
    (let cmd = ''/ppp profile add name="'' @ name @ ''"'';
         cmd = (if truthy_str local_address
                then cmd @ '' local-address="'' @ the local_address @ ''"''
                else cmd);
         cmd = (if truthy_str remote_address
                then cmd @ '' remote-address="'' @ the remote_address @ ''"''
                else cmd);
         cmd = (if truthy_str dns_server then cmd @ '' dns-server="'' @ the dns_server @ ''"''
                else cmd);
         cmd = (if truthy_str wins_server then cmd @ '' wins-server="'' @ the wins_server @ ''"''
                else cmd);
         cmd = (if use_compression \<noteq> None
                then cmd @ '' use-compression='' @ (if the use_compression then ''yes'' else ''no'')
                else cmd);
         cmd = (if use_encryption \<noteq> None
                then cmd @ '' use-encryption='' @ (if the use_encryption then ''yes'' else ''no'')
                else cmd);
         cmd = (if only_one \<noteq> None
                then cmd @ '' only-one='' @ (if the only_one then ''yes'' else ''no'')
                else cmd);
         cmd = (if truthy_str rate_limit then cmd @ '' rate-limit="'' @ the rate_limit @ ''"''
                else cmd);
         cmd = (if truthy_str comment then cmd @ '' comment="'' @ the comment @ ''"'' else cmd)
     in cmd)\<close>

definition mikrotik_create_ppp_profile ::
  "connector \<Rightarrow> string \<Rightarrow> string option \<Rightarrow>
   string option \<Rightarrow> string option \<Rightarrow> string option \<Rightarrow>
   bool option \<Rightarrow> bool option \<Rightarrow> bool option \<Rightarrow>
   string option \<Rightarrow> string option \<Rightarrow> string list \<Rightarrow>
   string \<times> string list" where
  \<open>mikrotik_create_ppp_profile exec name local_address remote_address dns_server wins_server
      use_compression use_encryption only_one rate_limit comment sent =
    (let cmd = mikrotik_create_ppp_profile_cmd name local_address remote_address dns_server wins_server
           use_compression use_encryption only_one rate_limit comment;
         (result, sent') = execute_mikrotik_command exec cmd sent
     in if py_in ''failure:'' (py_lower result) \<or> py_in ''error'' (py_lower result)
        then (''Failed to create PPP profile: '' @ result, sent')
        else (''PPP profile '' @ sq @ name @ sq @ '' created successfully'', sent'))\<close>

text \<open>\<^verbatim>\<open>mikrotik_list_ppp_profiles\<close> (scope/pppoe.py, line 317): the command it builds, then the operation.\<close>

definition mikrotik_list_ppp_profiles_cmd ::
  "string" where
  \<open>mikrotik_list_ppp_profiles_cmd =
    ''/ppp profile print''\<close>

definition mikrotik_list_ppp_profiles ::
  "connector \<Rightarrow> string list \<Rightarrow> string \<times> string list" where
  \<open>mikrotik_list_ppp_profiles exec sent =
    (let cmd = mikrotik_list_ppp_profiles_cmd;
         (result, sent') = execute_mikrotik_command exec cmd sent
     in if py_in ''failure:'' (py_lower result) \<or> py_in ''error'' (py_lower result)
        then (''Failed to list PPP profiles: '' @ result, sent')
        else (''PPP Profiles:\<newline>\<newline>'' @ result, sent'))\<close>

text \<open>\<^verbatim>\<open>mikrotik_remove_ppp_profile\<close> (scope/pppoe.py, line 335): the command it builds, then the operation.\<close>

definition mikrotik_remove_ppp_profile_cmd ::
  "string \<Rightarrow> string" where
  \<open>mikrotik_remove_ppp_profile_cmd name =
    ''/ppp profile remove [find name="'' @ name @ ''"]''\<close>

definition mikrotik_remove_ppp_profile ::
  "connector \<Rightarrow> string \<Rightarrow> string list \<Rightarrow>
   string \<times> string list" where
  \<open>mikrotik_remove_ppp_profile exec name sent =
    (let cmd = mikrotik_remove_ppp_profile_cmd name;
         (result, sent') = execute_mikrotik_command exec cmd sent
     in if py_in ''failure:'' (py_lower result) \<or> py_in ''error'' (py_lower result)
        then (''Failed to remove PPP profile: '' @ result, sent')
        else (''PPP profile '' @ sq @ name @ sq @ '' removed successfully'', sent'))\<close>

text \<open>\<^verbatim>\<open>mikrotik_create_pppoe_client\<close> (scope/pppoe.py, line 356): the command it builds, then the operation.\<close>

definition mikrotik_create_pppoe_client_cmd ::
  "string \<Rightarrow> string \<Rightarrow> string \<Rightarrow> string \<Rightarrow>
   string option \<Rightarrow> bool option \<Rightarrow> bool option \<Rightarrow>
   string option \<Rightarrow> string option \<Rightarrow> bool option \<Rightarrow>
   string" where
  \<open>mikrotik_create_pppoe_client_cmd name interface user password service_name add_default_route
      use_peer_dns profile comment disabled =
    (let cmd = ''/interface pppoe-client add name="'' @ name @ ''" interface="'' @ interface @ ''" user="'' @ user @ ''" password="'' @ password @ ''"'';
         cmd = (if truthy_str service_name then cmd @ '' service-name="'' @ the service_name @ ''"''
                else cmd);
         cmd = (if add_default_route \<noteq> None
                then cmd @ '' add-default-route='' @ (if the add_default_route then ''yes'' else ''no'')
                else cmd);
         cmd = (if use_peer_dns \<noteq> None
                then cmd @ '' use-peer-dns='' @ (if the use_peer_dns then ''yes'' else ''no'')
                else cmd);
         cmd = (if truthy_str profile then cmd @ '' profile="'' @ the profile @ ''"'' else cmd);
         cmd = (if truthy_str comment then cmd @ '' comment="'' @ the comment @ ''"'' else cmd);
         cmd = (if disabled \<noteq> None
                then cmd @ '' disabled='' @ (if the disabled then ''yes'' else ''no'')
                else cmd)
     in cmd)\<close>

definition mikrotik_create_pppoe_client ::
  "connector \<Rightarrow> string \<Rightarrow> string \<Rightarrow> string \<Rightarrow>
   string \<Rightarrow> string option \<Rightarrow> bool option \<Rightarrow>
   bool option \<Rightarrow> string option \<Rightarrow> string option \<Rightarrow>
   bool option \<Rightarrow> string list \<Rightarrow> string \<times> string list" where
  \<open>mikrotik_create_pppoe_client exec name interface user password service_name
      add_default_route use_peer_dns profile comment disabled sent =
    (let cmd = mikrotik_create_pppoe_client_cmd name interface user password service_name add_default_route
           use_peer_dns profile comment disabled;
         (result, sent') = execute_mikrotik_command exec cmd sent
     in if py_in ''failure:'' (py_lower result) \<or> py_in ''error'' (py_lower result)
        then (''Failed to create PPPoE client: '' @ result, sent')
        else (''PPPoE client '' @ sq @ name @ sq @ '' created successfully'', sent'))\<close>

text \<open>\<^verbatim>\<open>mikrotik_list_pppoe_clients\<close> (scope/pppoe.py, line 411): the command it builds, then the operation.\<close>

definition mikrotik_list_pppoe_clients_cmd ::
  "string" where
  \<open>mikrotik_list_pppoe_clients_cmd =
    ''/interface pppoe-client print''\<close>

definition mikrotik_list_pppoe_clients ::
  "connector \<Rightarrow> string list \<Rightarrow> string \<times> string list" where
  \<open>mikrotik_list_pppoe_clients exec sent =
    (let cmd = mikrotik_list_pppoe_clients_cmd;
         (result, sent') = execute_mikrotik_command exec cmd sent
     in if py_in ''failure:'' (py_lower result) \<or> py_in ''error'' (py_lower result)
        then (''Failed to list PPPoE clients: '' @ result, sent')
        else (''PPPoE Clients:\<newline>\<newline>'' @ result, sent'))\<close>

text \<open>\<^verbatim>\<open>mikrotik_remove_pppoe_client\<close> (scope/pppoe.py, line 429): the command it builds, then the operation.\<close>

definition mikrotik_remove_pppoe_client_cmd ::
  "string \<Rightarrow> string" where
  \<open>mikrotik_remove_pppoe_client_cmd name =
    ''/interface pppoe-client remove [find name="'' @ name @ ''"]''\<close>

definition mikrotik_remove_pppoe_client ::
  "connector \<Rightarrow> string \<Rightarrow> string list \<Rightarrow>
   string \<times> string list" where
  \<open>mikrotik_remove_pppoe_client exec name sent =
    (let cmd = mikrotik_remove_pppoe_client_cmd name;
         (result, sent') = execute_mikrotik_command exec cmd sent
     in if py_in ''failure:'' (py_lower result) \<or> py_in ''error'' (py_lower result)
        then (''Failed to remove PPPoE client: '' @ result, sent')
        else (''PPPoE client '' @ sq @ name @ sq @ '' removed successfully'', sent'))\<close>

subsection \<open>Queues (scope/queue.py)\<close>

text \<open>\<^verbatim>\<open>mikrotik_create_simple_queue\<close> (scope/queue.py, line 8): the command it builds, then the operation.\<close>

definition mikrotik_create_simple_queue_cmd ::
  "string \<Rightarrow> string \<Rightarrow> string \<Rightarrow>
   string option \<Rightarrow> string option \<Rightarrow> string option \<Rightarrow>
   string option \<Rightarrow> int option \<Rightarrow> string option \<Rightarrow>
   string option \<Rightarrow> string option \<Rightarrow> bool option \<Rightarrow>
   string" where
  \<open>mikrotik_create_simple_queue_cmd name target max_limit burst_limit burst_threshold
      burst_time limit_at priority queue_type parent comment disabled =
    (let cmd = ''/queue simple add name="'' @ name @ ''" target="'' @ target @ ''" max-limit='' @ max_limit;
         cmd = (if truthy_str burst_limit then cmd @ '' burst-limit='' @ the burst_limit else cmd);
         cmd = (if truthy_str burst_threshold then cmd @ '' burst-threshold='' @ the burst_threshold
                else cmd);
         cmd = (if truthy_str burst_time then cmd @ '' burst-time='' @ the burst_time else cmd);
         cmd = (if truthy_str limit_at then cmd @ '' limit-at='' @ the limit_at else cmd);
         cmd = (if priority \<noteq> None then cmd @ '' priority='' @ str_int (the priority)
                else cmd);
         cmd = (if truthy_str queue_type then cmd @ '' queue='' @ the queue_type else cmd);
         cmd = (if truthy_str parent then cmd @ '' parent="'' @ the parent @ ''"'' else cmd);
         cmd = (if truthy_str comment then cmd @ '' comment="'' @ the comment @ ''"'' else cmd);
         cmd = (if disabled \<noteq> None
                then cmd @ '' disabled='' @ (if the disabled then ''yes'' else ''no'')
                else cmd)
     in cmd)\<close>

definition mikrotik_create_simple_queue ::
  "connector \<Rightarrow> string \<Rightarrow> string \<Rightarrow> string \<Rightarrow>
   string option \<Rightarrow> string option \<Rightarrow> string option \<Rightarrow>
   string option \<Rightarrow> int option \<Rightarrow> string option \<Rightarrow>
   string option \<Rightarrow> string option \<Rightarrow> bool option \<Rightarrow>
   string list \<Rightarrow> string \<times> string list" where
  \<open>mikrotik_create_simple_queue exec name target max_limit burst_limit burst_threshold
      burst_time limit_at priority queue_type parent comment disabled sent =
    (let cmd = mikrotik_create_simple_queue_cmd name target max_limit burst_limit burst_threshold
           burst_time limit_at priority queue_type parent comment disabled;
         (result, sent') = execute_mikrotik_command exec cmd sent
     in if py_in ''failure:'' (py_lower result) \<or> py_in ''error'' (py_lower result)
        then (''Failed to create simple queue: '' @ result, sent')
        else (''Simple queue '' @ sq @ name @ sq @ '' created successfully'', sent'))\<close>

text \<open>\<^verbatim>\<open>mikrotik_list_simple_queues\<close> (scope/queue.py, line 73): the command it builds, then the operation.\<close>

definition mikrotik_list_simple_queues_cmd ::
  "string option \<Rightarrow> string option \<Rightarrow> bool option \<Rightarrow> string" where
  \<open>mikrotik_list_simple_queues_cmd name_filter target_filter disabled_only =
    (let cmd = ''/queue simple print'';
         cmd = (if truthy_str name_filter then cmd @ '' where name~"'' @ the name_filter @ ''"''
                else if truthy_str target_filter
                then cmd @ '' where target~"'' @ the target_filter @ ''"''
                else if truthy_bool disabled_only then cmd @ '' where disabled=yes''
                else cmd)
     in cmd)\<close>

definition mikrotik_list_simple_queues ::
  "connector \<Rightarrow> string option \<Rightarrow> string option \<Rightarrow>
   bool option \<Rightarrow> string list \<Rightarrow> string \<times> string list" where
  \<open>mikrotik_list_simple_queues exec name_filter target_filter disabled_only sent =
    (let cmd = mikrotik_list_simple_queues_cmd name_filter target_filter disabled_only;
         (result, sent') = execute_mikrotik_command exec cmd sent
     in if py_in ''failure:'' (py_lower result) \<or> py_in ''error'' (py_lower result)
        then (''Failed to list simple queues: '' @ result, sent')
        else (''Simple Queues:\<newline>\<newline>'' @ result, sent'))\<close>

text \<open>\<^verbatim>\<open>mikrotik_remove_simple_queue\<close> (scope/queue.py, line 108): the command it builds, then the operation.\<close>

definition mikrotik_remove_simple_queue_cmd ::
  "string \<Rightarrow> string" where
  \<open>mikrotik_remove_simple_queue_cmd name =
    ''/queue simple remove [find name="'' @ name @ ''"]''\<close>

definition mikrotik_remove_simple_queue ::
  "connector \<Rightarrow> string \<Rightarrow> string list \<Rightarrow>
   string \<times> string list" where
  \<open>mikrotik_remove_simple_queue exec name sent =
    (let cmd = mikrotik_remove_simple_queue_cmd name;
         (result, sent') = execute_mikrotik_command exec cmd sent
     in if py_in ''failure:'' (py_lower result) \<or> py_in ''error'' (py_lower result)
        then (''Failed to remove simple queue: '' @ result, sent')
        else (''Simple queue '' @ sq @ name @ sq @ '' removed successfully'', sent'))\<close>

text \<open>\<^verbatim>\<open>mikrotik_enable_simple_queue\<close> (scope/queue.py, line 129): the command it builds, then the operation.\<close>

definition mikrotik_enable_simple_queue_cmd ::
  "string \<Rightarrow> string" where
  \<open>mikrotik_enable_simple_queue_cmd name =
    ''/queue simple enable [find name="'' @ name @ ''"]''\<close>

definition mikrotik_enable_simple_queue ::
  "connector \<Rightarrow> string \<Rightarrow> string list \<Rightarrow>
   string \<times> string list" where
  \<open>mikrotik_enable_simple_queue exec name sent =
    (let cmd = mikrotik_enable_simple_queue_cmd name;
         (result, sent') = execute_mikrotik_command exec cmd sent
     in if py_in ''failure:'' (py_lower result) \<or> py_in ''error'' (py_lower result)
        then (''Failed to enable simple queue: '' @ result, sent')
        else (''Simple queue '' @ sq @ name @ sq @ '' enabled successfully'', sent'))\<close>

text \<open>\<^verbatim>\<open>mikrotik_disable_simple_queue\<close> (scope/queue.py, line 150): the command it builds, then the operation.\<close>

definition mikrotik_disable_simple_queue_cmd ::
  "string \<Rightarrow> string" where
  \<open>mikrotik_disable_simple_queue_cmd name =
    ''/queue simple disable [find name="'' @ name @ ''"]''\<close>

definition mikrotik_disable_simple_queue ::
  "connector \<Rightarrow> string \<Rightarrow> string list \<Rightarrow>
   string \<times> string list" where
  \<open>mikrotik_disable_simple_queue exec name sent =
    (let cmd = mikrotik_disable_simple_queue_cmd name;
         (result, sent') = execute_mikrotik_command exec cmd sent
     in if py_in ''failure:'' (py_lower result) \<or> py_in ''error'' (py_lower result)
        then (''Failed to disable simple queue: '' @ result, sent')
        else (''Simple queue '' @ sq @ name @ sq @ '' disabled successfully'', sent'))\<close>

text \<open>\<^verbatim>\<open>mikrotik_create_queue_tree\<close> (scope/queue.py, line 171): the command it builds, then the operation.\<close>

definition mikrotik_create_queue_tree_cmd ::
  "string \<Rightarrow> string \<Rightarrow> string \<Rightarrow>
   string option \<Rightarrow> string option \<Rightarrow> string option \<Rightarrow>
   string option \<Rightarrow> int option \<Rightarrow> string option \<Rightarrow>
   string option \<Rightarrow> string option \<Rightarrow> bool option \<Rightarrow>
   string" where
  \<open>mikrotik_create_queue_tree_cmd name parent max_limit burst_limit burst_threshold burst_time
      limit_at priority queue_type packet_mark comment disabled =
    (let cmd = ''/queue tree add name="'' @ name @ ''" parent="'' @ parent @ ''" max-limit='' @ max_limit;
         cmd = (if truthy_str burst_limit then cmd @ '' burst-limit='' @ the burst_limit else cmd);
         cmd = (if truthy_str burst_threshold then cmd @ '' burst-threshold='' @ the burst_threshold
                else cmd);
         cmd = (if truthy_str burst_time then cmd @ '' burst-time='' @ the burst_time else cmd);
         cmd = (if truthy_str limit_at then cmd @ '' limit-at='' @ the limit_at else cmd);
         cmd = (if priority \<noteq> None then cmd @ '' priority='' @ str_int (the priority)
                else cmd);
         cmd = (if truthy_str queue_type then cmd @ '' queue='' @ the queue_type else cmd);
         cmd = (if truthy_str packet_mark then cmd @ '' packet-mark="'' @ the packet_mark @ ''"''
                else cmd);
         cmd = (if truthy_str comment then cmd @ '' comment="'' @ the comment @ ''"'' else cmd);
         cmd = (if disabled \<noteq> None
                then cmd @ '' disabled='' @ (if the disabled then ''yes'' else ''no'')
                else cmd)
     in cmd)\<close>

definition mikrotik_create_queue_tree ::
  "connector \<Rightarrow> string \<Rightarrow> string \<Rightarrow> string \<Rightarrow>
   string option \<Rightarrow> string option \<Rightarrow> string option \<Rightarrow>
   string option \<Rightarrow> int option \<Rightarrow> string option \<Rightarrow>
   string option \<Rightarrow> string option \<Rightarrow> bool option \<Rightarrow>
   string list \<Rightarrow> string \<times> string list" where
  \<open>mikrotik_create_queue_tree exec name parent max_limit burst_limit burst_threshold burst_time
      limit_at priority queue_type packet_mark comment disabled sent =
    (let cmd = mikrotik_create_queue_tree_cmd name parent max_limit burst_limit burst_threshold burst_time
           limit_at priority queue_type packet_mark comment disabled;
         (result, sent') = execute_mikrotik_command exec cmd sent
     in if py_in ''failure:'' (py_lower result) \<or> py_in ''error'' (py_lower result)
        then (''Failed to create queue tree: '' @ result, sent')
        else (''Queue tree '' @ sq @ name @ sq @ '' created successfully'', sent'))\<close>

text \<open>\<^verbatim>\<open>mikrotik_list_queue_tree\<close> (scope/queue.py, line 236): the command it builds, then the operation.\<close>

definition mikrotik_list_queue_tree_cmd ::
  "string option \<Rightarrow> string option \<Rightarrow> bool option \<Rightarrow> string" where
  \<open>mikrotik_list_queue_tree_cmd name_filter parent_filter disabled_only =
    (let cmd = ''/queue tree print'';
         cmd = (if truthy_str name_filter then cmd @ '' where name~"'' @ the name_filter @ ''"''
                else if truthy_str parent_filter
                then cmd @ '' where parent~"'' @ the parent_filter @ ''"''
                else if truthy_bool disabled_only then cmd @ '' where disabled=yes''
                else cmd)
     in cmd)\<close>

definition mikrotik_list_queue_tree ::
  "connector \<Rightarrow> string option \<Rightarrow> string option \<Rightarrow>
   bool option \<Rightarrow> string list \<Rightarrow> string \<times> string list" where
  \<open>mikrotik_list_queue_tree exec name_filter parent_filter disabled_only sent =
    (let cmd = mikrotik_list_queue_tree_cmd name_filter parent_filter disabled_only;
         (result, sent') = execute_mikrotik_command exec cmd sent
     in if py_in ''failure:'' (py_lower result) \<or> py_in ''error'' (py_lower result)
        then (''Failed to list queue tree: '' @ result, sent')
        else (''Queue Tree:\<newline>\<newline>'' @ result, sent'))\<close>

text \<open>\<^verbatim>\<open>mikrotik_remove_queue_tree\<close> (scope/queue.py, line 271): the command it builds, then the operation.\<close>

definition mikrotik_remove_queue_tree_cmd ::
  "string \<Rightarrow> string" where
  \<open>mikrotik_remove_queue_tree_cmd name =
    ''/queue tree remove [find name="'' @ name @ ''"]''\<close>

definition mikrotik_remove_queue_tree ::
  "connector \<Rightarrow> string \<Rightarrow> string list \<Rightarrow>
   string \<times> string list" where
  \<open>mikrotik_remove_queue_tree exec name sent =
    (let cmd = mikrotik_remove_queue_tree_cmd name;
         (result, sent') = execute_mikrotik_command exec cmd sent
     in if py_in ''failure:'' (py_lower result) \<or> py_in ''error'' (py_lower result)
        then (''Failed to remove queue tree: '' @ result, sent')
        else (''Queue tree '' @ sq @ name @ sq @ '' removed successfully'', sent'))\<close>

text \<open>\<^verbatim>\<open>mikrotik_list_queue_types\<close> (scope/queue.py, line 292): the command it builds, then the operation.\<close>

definition mikrotik_list_queue_types_cmd ::
  "string" where
  \<open>mikrotik_list_queue_types_cmd =
    ''/queue type print''\<close>

definition mikrotik_list_queue_types ::
  "connector \<Rightarrow> string list \<Rightarrow> string \<times> string list" where
  \<open>mikrotik_list_queue_types exec sent =
    (let cmd = mikrotik_list_queue_types_cmd;
         (result, sent') = execute_mikrotik_command exec cmd sent
     in if py_in ''failure:'' (py_lower result) \<or> py_in ''error'' (py_lower result)
        then (''Failed to list queue types: '' @ result, sent')
        else (''Queue Types:\<newline>\<newline>'' @ result, sent'))\<close>

text \<open>\<^verbatim>\<open>mikrotik_create_queue_type\<close> (scope/queue.py, line 310): the command it builds, then the operation.\<close>

definition mikrotik_create_queue_type_cmd ::
  "string \<Rightarrow> string \<Rightarrow> string option \<Rightarrow>
   string option \<Rightarrow> string option \<Rightarrow> string option \<Rightarrow>
   string" where
  \<open>mikrotik_create_queue_type_cmd name kind pcq_rate pcq_limit pcq_classifier pcq_total_limit =
    (let cmd = ''/queue type add name="'' @ name @ ''" kind='' @ kind;
         cmd = (if truthy_str pcq_rate then cmd @ '' pcq-rate='' @ the pcq_rate else cmd);
         cmd = (if truthy_str pcq_limit then cmd @ '' pcq-limit='' @ the pcq_limit else cmd);
         cmd = (if truthy_str pcq_classifier then cmd @ '' pcq-classifier='' @ the pcq_classifier
                else cmd);
         cmd = (if truthy_str pcq_total_limit then cmd @ '' pcq-total-limit='' @ the pcq_total_limit
                else cmd)
     in cmd)\<close>

definition mikrotik_create_queue_type ::
  "connector \<Rightarrow> string \<Rightarrow> string \<Rightarrow>
   string option \<Rightarrow> string option \<Rightarrow> string option \<Rightarrow>
   string option \<Rightarrow> string list \<Rightarrow> string \<times> string list" where
  \<open>mikrotik_create_queue_type exec name kind pcq_rate pcq_limit pcq_classifier pcq_total_limit
      sent =
    (let cmd = mikrotik_create_queue_type_cmd name kind pcq_rate pcq_limit pcq_classifier pcq_total_limit;
         (result, sent') = execute_mikrotik_command exec cmd sent
     in if py_in ''failure:'' (py_lower result) \<or> py_in ''error'' (py_lower result)
        then (''Failed to create queue type: '' @ result, sent')
        else (''Queue type '' @ sq @ name @ sq @ '' created successfully'', sent'))\<close>

text \<open>\<^verbatim>\<open>mikrotik_remove_queue_type\<close> (scope/queue.py, line 353): the command it builds, then the operation.\<close>

definition mikrotik_remove_queue_type_cmd ::
  "string \<Rightarrow> string" where
  \<open>mikrotik_remove_queue_type_cmd name =
    ''/queue type remove [find name="'' @ name @ ''"]''\<close>

definition mikrotik_remove_queue_type ::
  "connector \<Rightarrow> string \<Rightarrow> string list \<Rightarrow>
   string \<times> string list" where
  \<open>mikrotik_remove_queue_type exec name sent =
    (let cmd = mikrotik_remove_queue_type_cmd name;
         (result, sent') = execute_mikrotik_command exec cmd sent
     in if py_in ''failure:'' (py_lower result) \<or> py_in ''error'' (py_lower result)
        then (''Failed to remove queue type: '' @ result, sent')
        else (''Queue type '' @ sq @ name @ sq @ '' removed successfully'', sent'))\<close>

text \<open>\<^verbatim>\<open>mikrotik_reset_queue_counters\<close> (scope/queue.py, line 374): the command it builds, then the operation.\<close>

definition mikrotik_reset_queue_counters_cmd ::
  "string" where
  \<open>mikrotik_reset_queue_counters_cmd =
    ''/queue simple reset-counters''\<close>

definition mikrotik_reset_queue_counters ::
  "connector \<Rightarrow> string list \<Rightarrow> string \<times> string list" where
  \<open>mikrotik_reset_queue_counters exec sent =
    (let cmd = mikrotik_reset_queue_counters_cmd;
         (result, sent') = execute_mikrotik_command exec cmd sent
     in (''Queue counters reset successfully'', sent'))\<close>

subsection \<open>BGP, OSPF and RIP (scope/routing_advanced.py)\<close>

text \<open>\<^verbatim>\<open>mikrotik_create_bgp_instance\<close> (scope/routing_advanced.py, line 12): the command it builds, then the operation.\<close>

definition mikrotik_create_bgp_instance_cmd ::
  "string \<Rightarrow> int \<Rightarrow> string option \<Rightarrow>
   bool option \<Rightarrow> bool option \<Rightarrow> bool option \<Rightarrow>
   bool option \<Rightarrow> string option \<Rightarrow> bool option \<Rightarrow> string" where
  \<open>mikrotik_create_bgp_instance_cmd name as_number router_id redistribute_connected
      redistribute_static redistribute_ospf client_to_client_reflection comment disabled =
    (let cmd = ''/routing bgp instance add name="'' @ name @ ''" as='' @ str_int as_number;
         cmd = (if truthy_str router_id then cmd @ '' router-id="'' @ the router_id @ ''"''
                else cmd);
         cmd = (if redistribute_connected \<noteq> None
                then cmd @ '' redistribute-connected='' @ (if the redistribute_connected then ''yes'' else ''no'')
                else cmd);
         cmd = (if redistribute_static \<noteq> None
                then cmd @ '' redistribute-static='' @ (if the redistribute_static then ''yes'' else ''no'')
                else cmd);
         cmd = (if redistribute_ospf \<noteq> None
                then cmd @ '' redistribute-ospf='' @ (if the redistribute_ospf then ''yes'' else ''no'')
                else cmd);
         cmd = (if client_to_client_reflection \<noteq> None
                then cmd @ '' client-to-client-reflection='' @ (if the client_to_client_reflection then ''yes'' else ''no'')
                else cmd);
         cmd = (if truthy_str comment then cmd @ '' comment="'' @ the comment @ ''"'' else cmd);
         cmd = (if disabled \<noteq> None
                then cmd @ '' disabled='' @ (if the disabled then ''yes'' else ''no'')
                else cmd)
     in cmd)\<close>

definition mikrotik_create_bgp_instance ::
  "connector \<Rightarrow> string \<Rightarrow> int \<Rightarrow>
   string option \<Rightarrow> bool option \<Rightarrow> bool option \<Rightarrow>
   bool option \<Rightarrow> bool option \<Rightarrow> string option \<Rightarrow>
   bool option \<Rightarrow> string list \<Rightarrow> string \<times> string list" where
  \<open>mikrotik_create_bgp_instance exec name as_number router_id redistribute_connected
      redistribute_static redistribute_ospf client_to_client_reflection comment disabled
      sent =
    (let cmd = mikrotik_create_bgp_instance_cmd name as_number router_id redistribute_connected
           redistribute_static redistribute_ospf client_to_client_reflection comment
           disabled;
         (result, sent') = execute_mikrotik_command exec cmd sent
     in if py_in ''failure:'' (py_lower result) \<or> py_in ''error'' (py_lower result)
        then (''Failed to create BGP instance: '' @ result, sent')
        else (''BGP instance '' @ sq @ name @ sq @ '' created successfully'', sent'))\<close>

text \<open>\<^verbatim>\<open>mikrotik_list_bgp_instances\<close> (scope/routing_advanced.py, line 67): the command it builds, then the operation.\<close>

definition mikrotik_list_bgp_instances_cmd ::
  "string" where
  \<open>mikrotik_list_bgp_instances_cmd =
    ''/routing bgp instance print''\<close>

definition mikrotik_list_bgp_instances ::
  "connector \<Rightarrow> string list \<Rightarrow> string \<times> string list" where
  \<open>mikrotik_list_bgp_instances exec sent =
    (let cmd = mikrotik_list_bgp_instances_cmd;
         (result, sent') = execute_mikrotik_command exec cmd sent
     in if py_in ''failure:'' (py_lower result) \<or> py_in ''error'' (py_lower result)
        then (''Failed to list BGP instances: '' @ result, sent')
        else (''BGP Instances:\<newline>\<newline>'' @ result, sent'))\<close>

text \<open>\<^verbatim>\<open>mikrotik_remove_bgp_instance\<close> (scope/routing_advanced.py, line 85): the command it builds, then the operation.\<close>

definition mikrotik_remove_bgp_instance_cmd ::
  "string \<Rightarrow> string" where
  \<open>mikrotik_remove_bgp_instance_cmd name =
    ''/routing bgp instance remove [find name="'' @ name @ ''"]''\<close>

definition mikrotik_remove_bgp_instance ::
  "connector \<Rightarrow> string \<Rightarrow> string list \<Rightarrow>
   string \<times> string list" where
  \<open>mikrotik_remove_bgp_instance exec name sent =
    (let cmd = mikrotik_remove_bgp_instance_cmd name;
         (result, sent') = execute_mikrotik_command exec cmd sent
     in if py_in ''failure:'' (py_lower result) \<or> py_in ''error'' (py_lower result)
        then (''Failed to remove BGP instance: '' @ result, sent')
        else (''BGP instance '' @ sq @ name @ sq @ '' removed successfully'', sent'))\<close>

text \<open>\<^verbatim>\<open>mikrotik_add_bgp_peer\<close> (scope/routing_advanced.py, line 106): the command it builds, then the operation.\<close>

definition mikrotik_add_bgp_peer_cmd ::
  "string \<Rightarrow> string \<Rightarrow> string \<Rightarrow> int \<Rightarrow>
   int option \<Rightarrow> bool option \<Rightarrow> bool option \<Rightarrow>
   string option \<Rightarrow> string option \<Rightarrow> string option \<Rightarrow>
   string option \<Rightarrow> bool option \<Rightarrow> string" where
  \<open>mikrotik_add_bgp_peer_cmd name instance remote_address remote_as ttl multihop route_reflect
      hold_time tcp_md5_key update_source comment disabled =
    (let cmd = ''/routing bgp peer add name="'' @ name @ ''" instance="'' @ instance @ ''" remote-address="'' @ remote_address @ ''" remote-as='' @ str_int remote_as;
         cmd = (if ttl \<noteq> None then cmd @ '' ttl='' @ str_int (the ttl) else cmd);
         cmd = (if multihop \<noteq> None
                then cmd @ '' multihop='' @ (if the multihop then ''yes'' else ''no'')
                else cmd);
         cmd = (if route_reflect \<noteq> None
                then cmd @ '' route-reflect='' @ (if the route_reflect then ''yes'' else ''no'')
                else cmd);
         cmd = (if truthy_str hold_time then cmd @ '' hold-time='' @ the hold_time else cmd);
         cmd = (if truthy_str tcp_md5_key then cmd @ '' tcp-md5-key="'' @ the tcp_md5_key @ ''"''
                else cmd);
         cmd = (if truthy_str update_source
                then cmd @ '' update-source="'' @ the update_source @ ''"''
                else cmd);
         cmd = (if truthy_str comment then cmd @ '' comment="'' @ the comment @ ''"'' else cmd);
         cmd = (if disabled \<noteq> None
                then cmd @ '' disabled='' @ (if the disabled then ''yes'' else ''no'')
                else cmd)
     in cmd)\<close>

definition mikrotik_add_bgp_peer ::
  "connector \<Rightarrow> string \<Rightarrow> string \<Rightarrow> string \<Rightarrow>
   int \<Rightarrow> int option \<Rightarrow> bool option \<Rightarrow>
   bool option \<Rightarrow> string option \<Rightarrow> string option \<Rightarrow>
   string option \<Rightarrow> string option \<Rightarrow> bool option \<Rightarrow>
   string list \<Rightarrow> string \<times> string list" where
  \<open>mikrotik_add_bgp_peer exec name instance remote_address remote_as ttl multihop route_reflect
      hold_time tcp_md5_key update_source comment disabled sent =
    (let cmd = mikrotik_add_bgp_peer_cmd name instance remote_address remote_as ttl multihop route_reflect
           hold_time tcp_md5_key update_source comment disabled;
         (result, sent') = execute_mikrotik_command exec cmd sent
     in if py_in ''failure:'' (py_lower result) \<or> py_in ''error'' (py_lower result)
        then (''Failed to add BGP peer: '' @ result, sent')
        else (''BGP peer '' @ sq @ name @ sq @ '' added successfully'', sent'))\<close>

text \<open>\<^verbatim>\<open>mikrotik_list_bgp_peers\<close> (scope/routing_advanced.py, line 169): the command it builds, then the operation.\<close>

definition mikrotik_list_bgp_peers_cmd ::
  "string" where
  \<open>mikrotik_list_bgp_peers_cmd =
    ''/routing bgp peer print''\<close>

definition mikrotik_list_bgp_peers ::
  "connector \<Rightarrow> string list \<Rightarrow> string \<times> string list" where
  \<open>mikrotik_list_bgp_peers exec sent =
    (let cmd = mikrotik_list_bgp_peers_cmd;
         (result, sent') = execute_mikrotik_command exec cmd sent
     in if py_in ''failure:'' (py_lower result) \<or> py_in ''error'' (py_lower result)
        then (''Failed to list BGP peers: '' @ result, sent')
        else (''BGP Peers:\<newline>\<newline>'' @ result, sent'))\<close>

text \<open>\<^verbatim>\<open>mikrotik_remove_bgp_peer\<close> (scope/routing_advanced.py, line 187): the command it builds, then the operation.\<close>

definition mikrotik_remove_bgp_peer_cmd ::
  "string \<Rightarrow> string" where
  \<open>mikrotik_remove_bgp_peer_cmd name =
    ''/routing bgp peer remove [find name="'' @ name @ ''"]''\<close>

definition mikrotik_remove_bgp_peer ::
  "connector \<Rightarrow> string \<Rightarrow> string list \<Rightarrow>
   string \<times> string list" where
  \<open>mikrotik_remove_bgp_peer exec name sent =
    (let cmd = mikrotik_remove_bgp_peer_cmd name;
         (result, sent') = execute_mikrotik_command exec cmd sent
     in if py_in ''failure:'' (py_lower result) \<or> py_in ''error'' (py_lower result)
        then (''Failed to remove BGP peer: '' @ result, sent')
        else (''BGP peer '' @ sq @ name @ sq @ '' removed successfully'', sent'))\<close>

text \<open>\<^verbatim>\<open>mikrotik_list_bgp_advertisements\<close> (scope/routing_advanced.py, line 208): the command it builds, then the operation.\<close>

definition mikrotik_list_bgp_advertisements_cmd ::
  "string" where
  \<open>mikrotik_list_bgp_advertisements_cmd =
    ''/routing bgp advertisements print''\<close>

definition mikrotik_list_bgp_advertisements ::
  "connector \<Rightarrow> string list \<Rightarrow> string \<times> string list" where
  \<open>mikrotik_list_bgp_advertisements exec sent =
    (let cmd = mikrotik_list_bgp_advertisements_cmd;
         (result, sent') = execute_mikrotik_command exec cmd sent
     in if py_in ''failure:'' (py_lower result) \<or> py_in ''error'' (py_lower result)
        then (''Failed to list BGP advertisements: '' @ result, sent')
        else (''BGP Advertisements:\<newline>\<newline>'' @ result, sent'))\<close>

text \<open>\<^verbatim>\<open>mikrotik_create_ospf_instance\<close> (scope/routing_advanced.py, line 230): the command it builds, then the operation.\<close>

definition mikrotik_create_ospf_instance_cmd ::
  "string \<Rightarrow> string option \<Rightarrow> bool option \<Rightarrow>
   bool option \<Rightarrow> bool option \<Rightarrow> string option \<Rightarrow>
   bool option \<Rightarrow> string" where
  \<open>mikrotik_create_ospf_instance_cmd name router_id redistribute_connected redistribute_static
      redistribute_bgp comment disabled =
    (let cmd = ''/routing ospf instance add name="'' @ name @ ''"'';
         cmd = (if truthy_str router_id then cmd @ '' router-id="'' @ the router_id @ ''"''
                else cmd);
         cmd = (if redistribute_connected \<noteq> None
                then cmd @ '' redistribute-connected='' @ (if the redistribute_connected then ''yes'' else ''no'')
                else cmd);
         cmd = (if redistribute_static \<noteq> None
                then cmd @ '' redistribute-static='' @ (if the redistribute_static then ''yes'' else ''no'')
                else cmd);
         cmd = (if redistribute_bgp \<noteq> None
                then cmd @ '' redistribute-bgp='' @ (if the redistribute_bgp then ''yes'' else ''no'')
                else cmd);
         cmd = (if truthy_str comment then cmd @ '' comment="'' @ the comment @ ''"'' else cmd);
         cmd = (if disabled \<noteq> None
                then cmd @ '' disabled='' @ (if the disabled then ''yes'' else ''no'')
                else cmd)
     in cmd)\<close>

definition mikrotik_create_ospf_instance ::
  "connector \<Rightarrow> string \<Rightarrow> string option \<Rightarrow>
   bool option \<Rightarrow> bool option \<Rightarrow> bool option \<Rightarrow>
   string option \<Rightarrow> bool option \<Rightarrow> string list \<Rightarrow>
   string \<times> string list" where
  \<open>mikrotik_create_ospf_instance exec name router_id redistribute_connected redistribute_static
      redistribute_bgp comment disabled sent =
    (let cmd = mikrotik_create_ospf_instance_cmd name router_id redistribute_connected redistribute_static
           redistribute_bgp comment disabled;
         (result, sent') = execute_mikrotik_command exec cmd sent
     in if py_in ''failure:'' (py_lower result) \<or> py_in ''error'' (py_lower result)
        then (''Failed to create OSPF instance: '' @ result, sent')
        else (''OSPF instance '' @ sq @ name @ sq @ '' created successfully'', sent'))\<close>

text \<open>\<^verbatim>\<open>mikrotik_list_ospf_instances\<close> (scope/routing_advanced.py, line 279): the command it builds, then the operation.\<close>

definition mikrotik_list_ospf_instances_cmd ::
  "string" where
  \<open>mikrotik_list_ospf_instances_cmd =
    ''/routing ospf instance print''\<close>

definition mikrotik_list_ospf_instances ::
  "connector \<Rightarrow> string list \<Rightarrow> string \<times> string list" where
  \<open>mikrotik_list_ospf_instances exec sent =
    (let cmd = mikrotik_list_ospf_instances_cmd;
         (result, sent') = execute_mikrotik_command exec cmd sent
     in if py_in ''failure:'' (py_lower result) \<or> py_in ''error'' (py_lower result)
        then (''Failed to list OSPF instances: '' @ result, sent')
        else (''OSPF Instances:\<newline>\<newline>'' @ result, sent'))\<close>

text \<open>\<^verbatim>\<open>mikrotik_remove_ospf_instance\<close> (scope/routing_advanced.py, line 297): the command it builds, then the operation.\<close>

definition mikrotik_remove_ospf_instance_cmd ::
  "string \<Rightarrow> string" where
  \<open>mikrotik_remove_ospf_instance_cmd name =
    ''/routing ospf instance remove [find name="'' @ name @ ''"]''\<close>

definition mikrotik_remove_ospf_instance ::
  "connector \<Rightarrow> string \<Rightarrow> string list \<Rightarrow>
   string \<times> string list" where
  \<open>mikrotik_remove_ospf_instance exec name sent =
    (let cmd = mikrotik_remove_ospf_instance_cmd name;
         (result, sent') = execute_mikrotik_command exec cmd sent
     in if py_in ''failure:'' (py_lower result) \<or> py_in ''error'' (py_lower result)
        then (''Failed to remove OSPF instance: '' @ result, sent')
        else (''OSPF instance '' @ sq @ name @ sq @ '' removed successfully'', sent'))\<close>

text \<open>\<^verbatim>\<open>mikrotik_add_ospf_area\<close> (scope/routing_advanced.py, line 318): the command it builds, then the operation.\<close>

definition mikrotik_add_ospf_area_cmd ::
  "string \<Rightarrow> string \<Rightarrow> string option \<Rightarrow>
   string option \<Rightarrow> string option \<Rightarrow> bool option \<Rightarrow>
   string" where
  \<open>mikrotik_add_ospf_area_cmd name area_id instance type comment disabled =
    (let cmd = ''/routing ospf area add name="'' @ name @ ''" area-id="'' @ area_id @ ''"'';
         cmd = (if truthy_str instance then cmd @ '' instance="'' @ the instance @ ''"'' else cmd);
         cmd = (if truthy_str type then cmd @ '' type='' @ the type else cmd);
         cmd = (if truthy_str comment then cmd @ '' comment="'' @ the comment @ ''"'' else cmd);
         cmd = (if disabled \<noteq> None
                then cmd @ '' disabled='' @ (if the disabled then ''yes'' else ''no'')
                else cmd)
     in cmd)\<close>

definition mikrotik_add_ospf_area ::
  "connector \<Rightarrow> string \<Rightarrow> string \<Rightarrow>
   string option \<Rightarrow> string option \<Rightarrow> string option \<Rightarrow>
   bool option \<Rightarrow> string list \<Rightarrow> string \<times> string list" where
  \<open>mikrotik_add_ospf_area exec name area_id instance type comment disabled sent =
    (let cmd = mikrotik_add_ospf_area_cmd name area_id instance type comment disabled;
         (result, sent') = execute_mikrotik_command exec cmd sent
     in if py_in ''failure:'' (py_lower result) \<or> py_in ''error'' (py_lower result)
        then (''Failed to add OSPF area: '' @ result, sent')
        else (''OSPF area '' @ sq @ name @ sq @ '' added successfully'', sent'))\<close>

text \<open>\<^verbatim>\<open>mikrotik_list_ospf_areas\<close> (scope/routing_advanced.py, line 361): the command it builds, then the operation.\<close>

definition mikrotik_list_ospf_areas_cmd ::
  "string" where
  \<open>mikrotik_list_ospf_areas_cmd =
    ''/routing ospf area print''\<close>

definition mikrotik_list_ospf_areas ::
  "connector \<Rightarrow> string list \<Rightarrow> string \<times> string list" where
  \<open>mikrotik_list_ospf_areas exec sent =
    (let cmd = mikrotik_list_ospf_areas_cmd;
         (result, sent') = execute_mikrotik_command exec cmd sent
     in if py_in ''failure:'' (py_lower result) \<or> py_in ''error'' (py_lower result)
        then (''Failed to list OSPF areas: '' @ result, sent')
        else (''OSPF Areas:\<newline>\<newline>'' @ result, sent'))\<close>

text \<open>\<^verbatim>\<open>mikrotik_add_ospf_network\<close> (scope/routing_advanced.py, line 379): the command it builds, then the operation.\<close>

definition mikrotik_add_ospf_network_cmd ::
  "string \<Rightarrow> string \<Rightarrow> string option \<Rightarrow>
   bool option \<Rightarrow> string" where
  \<open>mikrotik_add_ospf_network_cmd network area comment disabled =
    (let cmd = ''/routing ospf network add network="'' @ network @ ''" area="'' @ area @ ''"'';
         cmd = (if truthy_str comment then cmd @ '' comment="'' @ the comment @ ''"'' else cmd);
         cmd = (if disabled \<noteq> None
                then cmd @ '' disabled='' @ (if the disabled then ''yes'' else ''no'')
                else cmd)
     in cmd)\<close>

definition mikrotik_add_ospf_network ::
  "connector \<Rightarrow> string \<Rightarrow> string \<Rightarrow>
   string option \<Rightarrow> bool option \<Rightarrow> string list \<Rightarrow>
   string \<times> string list" where
  \<open>mikrotik_add_ospf_network exec network area comment disabled sent =
    (let cmd = mikrotik_add_ospf_network_cmd network area comment disabled;
         (result, sent') = execute_mikrotik_command exec cmd sent
     in if py_in ''failure:'' (py_lower result) \<or> py_in ''error'' (py_lower result)
        then (''Failed to add OSPF network: '' @ result, sent')
        else (''OSPF network '' @ sq @ network @ sq @ '' added successfully'', sent'))\<close>

text \<open>\<^verbatim>\<open>mikrotik_list_ospf_networks\<close> (scope/routing_advanced.py, line 414): the command it builds, then the operation.\<close>

definition mikrotik_list_ospf_networks_cmd ::
  "string" where
  \<open>mikrotik_list_ospf_networks_cmd =
    ''/routing ospf network print''\<close>

definition mikrotik_list_ospf_networks ::
  "connector \<Rightarrow> string list \<Rightarrow> string \<times> string list" where
  \<open>mikrotik_list_ospf_networks exec sent =
    (let cmd = mikrotik_list_ospf_networks_cmd;
         (result, sent') = execute_mikrotik_command exec cmd sent
     in if py_in ''failure:'' (py_lower result) \<or> py_in ''error'' (py_lower result)
        then (''Failed to list OSPF networks: '' @ result, sent')
        else (''OSPF Networks:\<newline>\<newline>'' @ result, sent'))\<close>

text \<open>\<^verbatim>\<open>mikrotik_list_ospf_neighbors\<close> (scope/routing_advanced.py, line 432): the command it builds, then the operation.\<close>

definition mikrotik_list_ospf_neighbors_cmd ::
  "string" where
  \<open>mikrotik_list_ospf_neighbors_cmd =
    ''/routing ospf neighbor print''\<close>

definition mikrotik_list_ospf_neighbors ::
  "connector \<Rightarrow> string list \<Rightarrow> string \<times> string list" where
  \<open>mikrotik_list_ospf_neighbors exec sent =
    (let cmd = mikrotik_list_ospf_neighbors_cmd;
         (result, sent') = execute_mikrotik_command exec cmd sent
     in if py_in ''failure:'' (py_lower result) \<or> py_in ''error'' (py_lower result)
        then (''Failed to list OSPF neighbors: '' @ result, sent')
        else (''OSPF Neighbors:\<newline>\<newline>'' @ result, sent'))\<close>

text \<open>\<^verbatim>\<open>mikrotik_add_ospf_interface\<close> (scope/routing_advanced.py, line 450): the command it builds, then the operation.\<close>

definition mikrotik_add_ospf_interface_cmd ::
  "string \<Rightarrow> string option \<Rightarrow> int option \<Rightarrow>
   int option \<Rightarrow> string option \<Rightarrow> string option \<Rightarrow>
   string option \<Rightarrow> bool option \<Rightarrow> string" where
  \<open>mikrotik_add_ospf_interface_cmd interface network_type priority cost authentication
      authentication_key comment disabled =
    (let cmd = ''/routing ospf interface add interface="'' @ interface @ ''"'';
         cmd = (if truthy_str network_type then cmd @ '' network-type='' @ the network_type
                else cmd);
         cmd = (if priority \<noteq> None then cmd @ '' priority='' @ str_int (the priority)
                else cmd);
         cmd = (if cost \<noteq> None then cmd @ '' cost='' @ str_int (the cost) else cmd);
         cmd = (if truthy_str authentication then cmd @ '' authentication='' @ the authentication
                else cmd);
         cmd = (if truthy_str authentication_key
                then cmd @ '' authentication-key="'' @ the authentication_key @ ''"''
                else cmd);
         cmd = (if truthy_str comment then cmd @ '' comment="'' @ the comment @ ''"'' else cmd);
         cmd = (if disabled \<noteq> None
                then cmd @ '' disabled='' @ (if the disabled then ''yes'' else ''no'')
                else cmd)
     in cmd)\<close>

definition mikrotik_add_ospf_interface ::
  "connector \<Rightarrow> string \<Rightarrow> string option \<Rightarrow>
   int option \<Rightarrow> int option \<Rightarrow> string option \<Rightarrow>
   string option \<Rightarrow> string option \<Rightarrow> bool option \<Rightarrow>
   string list \<Rightarrow> string \<times> string list" where
  \<open>mikrotik_add_ospf_interface exec interface network_type priority cost authentication
      authentication_key comment disabled sent =
    (let cmd = mikrotik_add_ospf_interface_cmd interface network_type priority cost authentication
           authentication_key comment disabled;
         (result, sent') = execute_mikrotik_command exec cmd sent
     in if py_in ''failure:'' (py_lower result) \<or> py_in ''error'' (py_lower result)
        then (''Failed to add OSPF interface: '' @ result, sent')
        else (''OSPF interface '' @ sq @ interface @ sq @ '' added successfully'', sent'))\<close>

text \<open>\<^verbatim>\<open>mikrotik_list_ospf_interfaces\<close> (scope/routing_advanced.py, line 503): the command it builds, then the operation.\<close>

definition mikrotik_list_ospf_interfaces_cmd ::
  "string" where
  \<open>mikrotik_list_ospf_interfaces_cmd =
    ''/routing ospf interface print''\<close>

definition mikrotik_list_ospf_interfaces ::
  "connector \<Rightarrow> string list \<Rightarrow> string \<times> string list" where
  \<open>mikrotik_list_ospf_interfaces exec sent =
    (let cmd = mikrotik_list_ospf_interfaces_cmd;
         (result, sent') = execute_mikrotik_command exec cmd sent
     in if py_in ''failure:'' (py_lower result) \<or> py_in ''error'' (py_lower result)
        then (''Failed to list OSPF interfaces: '' @ result, sent')
        else (''OSPF Interfaces:\<newline>\<newline>'' @ result, sent'))\<close>

text \<open>\<^verbatim>\<open>mikrotik_create_rip_instance\<close> (scope/routing_advanced.py, line 525): the command it builds, then the operation.\<close>

definition mikrotik_create_rip_instance_cmd ::
  "string \<Rightarrow> bool option \<Rightarrow> bool option \<Rightarrow>
   bool option \<Rightarrow> bool option \<Rightarrow> string option \<Rightarrow>
   bool option \<Rightarrow> string" where
  \<open>mikrotik_create_rip_instance_cmd name redistribute_connected redistribute_static
      redistribute_ospf redistribute_bgp comment disabled =
    (let cmd = ''/routing rip instance add name="'' @ name @ ''"'';
         cmd = (if redistribute_connected \<noteq> None
                then cmd @ '' redistribute-connected='' @ (if the redistribute_connected then ''yes'' else ''no'')
                else cmd);
         cmd = (if redistribute_static \<noteq> None
                then cmd @ '' redistribute-static='' @ (if the redistribute_static then ''yes'' else ''no'')
                else cmd);
         cmd = (if redistribute_ospf \<noteq> None
                then cmd @ '' redistribute-ospf='' @ (if the redistribute_ospf then ''yes'' else ''no'')
                else cmd);
         cmd = (if redistribute_bgp \<noteq> None
                then cmd @ '' redistribute-bgp='' @ (if the redistribute_bgp then ''yes'' else ''no'')
                else cmd);
         cmd = (if truthy_str comment then cmd @ '' comment="'' @ the comment @ ''"'' else cmd);
         cmd = (if disabled \<noteq> None
                then cmd @ '' disabled='' @ (if the disabled then ''yes'' else ''no'')
                else cmd)
     in cmd)\<close>

definition mikrotik_create_rip_instance ::
  "connector \<Rightarrow> string \<Rightarrow> bool option \<Rightarrow>
   bool option \<Rightarrow> bool option \<Rightarrow> bool option \<Rightarrow>
   string option \<Rightarrow> bool option \<Rightarrow> string list \<Rightarrow>
   string \<times> string list" where
  \<open>mikrotik_create_rip_instance exec name redistribute_connected redistribute_static
      redistribute_ospf redistribute_bgp comment disabled sent =
    (let cmd = mikrotik_create_rip_instance_cmd name redistribute_connected redistribute_static
           redistribute_ospf redistribute_bgp comment disabled;
         (result, sent') = execute_mikrotik_command exec cmd sent
     in if py_in ''failure:'' (py_lower result) \<or> py_in ''error'' (py_lower result)
        then (''Failed to create RIP instance: '' @ result, sent')
        else (''RIP instance '' @ sq @ name @ sq @ '' created successfully'', sent'))\<close>

text \<open>\<^verbatim>\<open>mikrotik_list_rip_instances\<close> (scope/routing_advanced.py, line 574): the command it builds, then the operation.\<close>

definition mikrotik_list_rip_instances_cmd ::
  "string" where
  \<open>mikrotik_list_rip_instances_cmd =
    ''/routing rip instance print''\<close>

definition mikrotik_list_rip_instances ::
  "connector \<Rightarrow> string list \<Rightarrow> string \<times> string list" where
  \<open>mikrotik_list_rip_instances exec sent =
    (let cmd = mikrotik_list_rip_instances_cmd;
         (result, sent') = execute_mikrotik_command exec cmd sent
     in if py_in ''failure:'' (py_lower result) \<or> py_in ''error'' (py_lower result)
        then (''Failed to list RIP instances: '' @ result, sent')
        else (''RIP Instances:\<newline>\<newline>'' @ result, sent'))\<close>

text \<open>\<^verbatim>\<open>mikrotik_remove_rip_instance\<close> (scope/routing_advanced.py, line 592): the command it builds, then the operation.\<close>

definition mikrotik_remove_rip_instance_cmd ::
  "string \<Rightarrow> string" where
  \<open>mikrotik_remove_rip_instance_cmd name =
    ''/routing rip instance remove [find name="'' @ name @ ''"]''\<close>

definition mikrotik_remove_rip_instance ::
  "connector \<Rightarrow> string \<Rightarrow> string list \<Rightarrow>
   string \<times> string list" where
  \<open>mikrotik_remove_rip_instance exec name sent =
    (let cmd = mikrotik_remove_rip_instance_cmd name;
         (result, sent') = execute_mikrotik_command exec cmd sent
     in if py_in ''failure:'' (py_lower result) \<or> py_in ''error'' (py_lower result)
        then (''Failed to remove RIP instance: '' @ result, sent')
        else (''RIP instance '' @ sq @ name @ sq @ '' removed successfully'', sent'))\<close>

text \<open>\<^verbatim>\<open>mikrotik_add_rip_network\<close> (scope/routing_advanced.py, line 613): the command it builds, then the operation.\<close>

definition mikrotik_add_rip_network_cmd ::
  "string \<Rightarrow> string option \<Rightarrow> string option \<Rightarrow>
   bool option \<Rightarrow> string" where
  \<open>mikrotik_add_rip_network_cmd network instance comment disabled =
    (let cmd = ''/routing rip network add network="'' @ network @ ''"'';
         cmd = (if truthy_str instance then cmd @ '' instance="'' @ the instance @ ''"'' else cmd);
         cmd = (if truthy_str comment then cmd @ '' comment="'' @ the comment @ ''"'' else cmd);
         cmd = (if disabled \<noteq> None
                then cmd @ '' disabled='' @ (if the disabled then ''yes'' else ''no'')
                else cmd)
     in cmd)\<close>

definition mikrotik_add_rip_network ::
  "connector \<Rightarrow> string \<Rightarrow> string option \<Rightarrow>
   string option \<Rightarrow> bool option \<Rightarrow> string list \<Rightarrow>
   string \<times> string list" where
  \<open>mikrotik_add_rip_network exec network instance comment disabled sent =
    (let cmd = mikrotik_add_rip_network_cmd network instance comment disabled;
         (result, sent') = execute_mikrotik_command exec cmd sent
     in if py_in ''failure:'' (py_lower result) \<or> py_in ''error'' (py_lower result)
        then (''Failed to add RIP network: '' @ result, sent')
        else (''RIP network '' @ sq @ network @ sq @ '' added successfully'', sent'))\<close>

text \<open>\<^verbatim>\<open>mikrotik_list_rip_networks\<close> (scope/routing_advanced.py, line 650): the command it builds, then the operation.\<close>

definition mikrotik_list_rip_networks_cmd ::
  "string" where
  \<open>mikrotik_list_rip_networks_cmd =
    ''/routing rip network print''\<close>

definition mikrotik_list_rip_networks ::
  "connector \<Rightarrow> string list \<Rightarrow> string \<times> string list" where
  \<open>mikrotik_list_rip_networks exec sent =
    (let cmd = mikrotik_list_rip_networks_cmd;
         (result, sent') = execute_mikrotik_command exec cmd sent
     in if py_in ''failure:'' (py_lower result) \<or> py_in ''error'' (py_lower result)
        then (''Failed to list RIP networks: '' @ result, sent')
        else (''RIP Networks:\<newline>\<newline>'' @ result, sent'))\<close>

text \<open>\<^verbatim>\<open>mikrotik_add_rip_interface\<close> (scope/routing_advanced.py, line 668): the command it builds, then the operation.\<close>

definition mikrotik_add_rip_interface_cmd ::
  "string \<Rightarrow> string option \<Rightarrow> string option \<Rightarrow>
   string option \<Rightarrow> string option \<Rightarrow> string option \<Rightarrow>
   bool option \<Rightarrow> string" where
  \<open>mikrotik_add_rip_interface_cmd interface receive send authentication authentication_key
      comment disabled =
    (let cmd = ''/routing rip interface add interface="'' @ interface @ ''"'';
         cmd = (if truthy_str receive then cmd @ '' receive='' @ the receive else cmd);
         cmd = (if truthy_str send then cmd @ '' send='' @ the send else cmd);
         cmd = (if truthy_str authentication then cmd @ '' authentication='' @ the authentication
                else cmd);
         cmd = (if truthy_str authentication_key
                then cmd @ '' authentication-key="'' @ the authentication_key @ ''"''
                else cmd);
         cmd = (if truthy_str comment then cmd @ '' comment="'' @ the comment @ ''"'' else cmd);
         cmd = (if disabled \<noteq> None
                then cmd @ '' disabled='' @ (if the disabled then ''yes'' else ''no'')
                else cmd)
     in cmd)\<close>

definition mikrotik_add_rip_interface ::
  "connector \<Rightarrow> string \<Rightarrow> string option \<Rightarrow>
   string option \<Rightarrow> string option \<Rightarrow> string option \<Rightarrow>
   string option \<Rightarrow> bool option \<Rightarrow> string list \<Rightarrow>
   string \<times> string list" where
  \<open>mikrotik_add_rip_interface exec interface receive send authentication authentication_key
      comment disabled sent =
    (let cmd = mikrotik_add_rip_interface_cmd interface receive send authentication authentication_key
           comment disabled;
         (result, sent') = execute_mikrotik_command exec cmd sent
     in if py_in ''failure:'' (py_lower result) \<or> py_in ''error'' (py_lower result)
        then (''Failed to add RIP interface: '' @ result, sent')
        else (''RIP interface '' @ sq @ interface @ sq @ '' added successfully'', sent'))\<close>

text \<open>\<^verbatim>\<open>mikrotik_list_rip_interfaces\<close> (scope/routing_advanced.py, line 717): the command it builds, then the operation.\<close>

definition mikrotik_list_rip_interfaces_cmd ::
  "string" where
  \<open>mikrotik_list_rip_interfaces_cmd =
    ''/routing rip interface print''\<close>

definition mikrotik_list_rip_interfaces ::
  "connector \<Rightarrow> string list \<Rightarrow> string \<times> string list" where
  \<open>mikrotik_list_rip_interfaces exec sent =
    (let cmd = mikrotik_list_rip_interfaces_cmd;
         (result, sent') = execute_mikrotik_command exec cmd sent
     in if py_in ''failure:'' (py_lower result) \<or> py_in ''error'' (py_lower result)
        then (''Failed to list RIP interfaces: '' @ result, sent')
        else (''RIP Interfaces:\<newline>\<newline>'' @ result, sent'))\<close>

text \<open>\<^verbatim>\<open>mikrotik_list_rip_neighbors\<close> (scope/routing_advanced.py, line 735): the command it builds, then the operation.\<close>

definition mikrotik_list_rip_neighbors_cmd ::
  "string" where
  \<open>mikrotik_list_rip_neighbors_cmd =
    ''/routing rip neighbor print''\<close>

definition mikrotik_list_rip_neighbors ::
  "connector \<Rightarrow> string list \<Rightarrow> string \<times> string list" where
  \<open>mikrotik_list_rip_neighbors exec sent =
    (let cmd = mikrotik_list_rip_neighbors_cmd;
         (result, sent') = execute_mikrotik_command exec cmd sent
     in if py_in ''failure:'' (py_lower result) \<or> py_in ''error'' (py_lower result)
        then (''Failed to list RIP neighbors: '' @ result, sent')
        else (''RIP Neighbors:\<newline>\<newline>'' @ result, sent'))\<close>

subsection \<open>SNMP (scope/snmp.py)\<close>

text \<open>\<^verbatim>\<open>mikrotik_get_snmp_settings\<close> (scope/snmp.py, line 8): the command it builds, then the operation.\<close>

definition mikrotik_get_snmp_settings_cmd ::
  "string" where
  \<open>mikrotik_get_snmp_settings_cmd =
    ''/snmp print''\<close>

definition mikrotik_get_snmp_settings ::
  "connector \<Rightarrow> string list \<Rightarrow> string \<times> string list" where
  \<open>mikrotik_get_snmp_settings exec sent =
    (let cmd = mikrotik_get_snmp_settings_cmd;
         (result, sent') = execute_mikrotik_command exec cmd sent
     in if py_in ''failure:'' (py_lower result) \<or> py_in ''error'' (py_lower result)
        then (''Failed to get SNMP settings: '' @ result, sent')
        else (''SNMP Settings:\<newline>\<newline>'' @ result, sent'))\<close>

text \<open>\<^verbatim>\<open>mikrotik_set_snmp_settings\<close> (scope/snmp.py, line 26): the command it builds, then the operation.\<close>

definition mikrotik_set_snmp_settings_cmd ::
  "bool option \<Rightarrow> string option \<Rightarrow> string option \<Rightarrow>
   string option \<Rightarrow> int option \<Rightarrow> string option \<Rightarrow>
   string option \<Rightarrow> string" where
  \<open>mikrotik_set_snmp_settings_cmd enabled contact location engine_id trap_version
      trap_community trap_generators =
    (let cmd = ''/snmp set'';
         cmd = (if enabled \<noteq> None
                then cmd @ '' enabled='' @ (if the enabled then ''yes'' else ''no'')
                else cmd);
         cmd = (if truthy_str contact then cmd @ '' contact="'' @ the contact @ ''"'' else cmd);
         cmd = (if truthy_str location then cmd @ '' location="'' @ the location @ ''"'' else cmd);
         cmd = (if truthy_str engine_id then cmd @ '' engine-id="'' @ the engine_id @ ''"''
                else cmd);
         cmd = (if trap_version \<noteq> None
                then cmd @ '' trap-version='' @ str_int (the trap_version)
                else cmd);
         cmd = (if truthy_str trap_community
                then cmd @ '' trap-community="'' @ the trap_community @ ''"''
                else cmd);
         cmd = (if truthy_str trap_generators
                then cmd @ '' trap-generators="'' @ the trap_generators @ ''"''
                else cmd)
     in cmd)\<close>

definition mikrotik_set_snmp_settings ::
  "connector \<Rightarrow> bool option \<Rightarrow> string option \<Rightarrow>
   string option \<Rightarrow> string option \<Rightarrow> int option \<Rightarrow>
   string option \<Rightarrow> string option \<Rightarrow> string list \<Rightarrow>
   string \<times> string list" where
  \<open>mikrotik_set_snmp_settings exec enabled contact location engine_id trap_version
      trap_community trap_generators sent =
    (let cmd = mikrotik_set_snmp_settings_cmd enabled contact location engine_id trap_version
           trap_community trap_generators;
         (result, sent') = execute_mikrotik_command exec cmd sent
     in if py_in ''failure:'' (py_lower result) \<or> py_in ''error'' (py_lower result)
        then (''Failed to set SNMP settings: '' @ result, sent')
        else (''SNMP settings configured successfully'', sent'))\<close>

text \<open>\<^verbatim>\<open>mikrotik_list_snmp_communities\<close> (scope/snmp.py, line 77): the command it builds, then the operation.\<close>

definition mikrotik_list_snmp_communities_cmd ::
  "string" where
  \<open>mikrotik_list_snmp_communities_cmd =
    ''/snmp community print''\<close>

definition mikrotik_list_snmp_communities ::
  "connector \<Rightarrow> string list \<Rightarrow> string \<times> string list" where
  \<open>mikrotik_list_snmp_communities exec sent =
    (let cmd = mikrotik_list_snmp_communities_cmd;
         (result, sent') = execute_mikrotik_command exec cmd sent
     in if py_in ''failure:'' (py_lower result) \<or> py_in ''error'' (py_lower result)
        then (''Failed to list SNMP communities: '' @ result, sent')
        else (''SNMP Communities:\<newline>\<newline>'' @ result, sent'))\<close>

text \<open>\<^verbatim>\<open>mikrotik_add_snmp_community\<close> (scope/snmp.py, line 95): the command it builds, then the operation.\<close>

definition mikrotik_add_snmp_community_cmd ::
  "string \<Rightarrow> string option \<Rightarrow> bool option \<Rightarrow>
   bool option \<Rightarrow> string option \<Rightarrow> string option \<Rightarrow>
   string option \<Rightarrow> string option \<Rightarrow> string option \<Rightarrow>
   bool option \<Rightarrow> string" where
  \<open>mikrotik_add_snmp_community_cmd name addresses read_access write_access
      authentication_protocol authentication_password encryption_protocol
      encryption_password comment disabled =
    (let cmd = ''/snmp community add name="'' @ name @ ''"'';
         cmd = (if truthy_str addresses then cmd @ '' addresses="'' @ the addresses @ ''"''
                else cmd);
         cmd = (if read_access \<noteq> None
                then cmd @ '' read-access='' @ (if the read_access then ''yes'' else ''no'')
                else cmd);
         cmd = (if write_access \<noteq> None
                then cmd @ '' write-access='' @ (if the write_access then ''yes'' else ''no'')
                else cmd);
         cmd = (if truthy_str authentication_protocol
                then cmd @ '' authentication-protocol='' @ the authentication_protocol
                else cmd);
         cmd = (if truthy_str authentication_password
                then cmd @ '' authentication-password="'' @ the authentication_password @ ''"''
                else cmd);
         cmd = (if truthy_str encryption_protocol
                then cmd @ '' encryption-protocol='' @ the encryption_protocol
                else cmd);
         cmd = (if truthy_str encryption_password
                then cmd @ '' encryption-password="'' @ the encryption_password @ ''"''
                else cmd);
         cmd = (if truthy_str comment then cmd @ '' comment="'' @ the comment @ ''"'' else cmd);
         cmd = (if disabled \<noteq> None
                then cmd @ '' disabled='' @ (if the disabled then ''yes'' else ''no'')
                else cmd)
     in cmd)\<close>

definition mikrotik_add_snmp_community ::
  "connector \<Rightarrow> string \<Rightarrow> string option \<Rightarrow>
   bool option \<Rightarrow> bool option \<Rightarrow> string option \<Rightarrow>
   string option \<Rightarrow> string option \<Rightarrow> string option \<Rightarrow>
   string option \<Rightarrow> bool option \<Rightarrow> string list \<Rightarrow>
   string \<times> string list" where
  \<open>mikrotik_add_snmp_community exec name addresses read_access write_access
      authentication_protocol authentication_password encryption_protocol
      encryption_password comment disabled sent =
    (let cmd = mikrotik_add_snmp_community_cmd name addresses read_access write_access
           authentication_protocol authentication_password encryption_protocol
           encryption_password comment disabled;
         (result, sent') = execute_mikrotik_command exec cmd sent
     in if py_in ''failure:'' (py_lower result) \<or> py_in ''error'' (py_lower result)
        then (''Failed to add SNMP community: '' @ result, sent')
        else (''SNMP community '' @ sq @ name @ sq @ '' added successfully'', sent'))\<close>

text \<open>\<^verbatim>\<open>mikrotik_remove_snmp_community\<close> (scope/snmp.py, line 156): the command it builds, then the operation.\<close>

definition mikrotik_remove_snmp_community_cmd ::
  "string \<Rightarrow> string" where
  \<open>mikrotik_remove_snmp_community_cmd name =
    ''/snmp community remove [find name="'' @ name @ ''"]''\<close>

definition mikrotik_remove_snmp_community ::
  "connector \<Rightarrow> string \<Rightarrow> string list \<Rightarrow>
   string \<times> string list" where
  \<open>mikrotik_remove_snmp_community exec name sent =
    (let cmd = mikrotik_remove_snmp_community_cmd name;
         (result, sent') = execute_mikrotik_command exec cmd sent
     in if py_in ''failure:'' (py_lower result) \<or> py_in ''error'' (py_lower result)
        then (''Failed to remove SNMP community: '' @ result, sent')
        else (''SNMP community '' @ sq @ name @ sq @ '' removed successfully'', sent'))\<close>

subsection \<open>System (scope/system.py)\<close>

text \<open>\<^verbatim>\<open>mikrotik_get_system_resource\<close> (scope/system.py, line 8): the command it builds, then the operation.\<close>

definition mikrotik_get_system_resource_cmd ::
  "string" where
  \<open>mikrotik_get_system_resource_cmd =
    ''/system resource print''\<close>

definition mikrotik_get_system_resource ::
  "connector \<Rightarrow> string list \<Rightarrow> string \<times> string list" where
  \<open>mikrotik_get_system_resource exec sent =
    (let cmd = mikrotik_get_system_resource_cmd;
         (result, sent') = execute_mikrotik_command exec cmd sent
     in if py_in ''failure:'' (py_lower result) \<or> py_in ''error'' (py_lower result)
        then (''Failed to get system resources: '' @ result, sent')
        else (''System Resources:\<newline>\<newline>'' @ result, sent'))\<close>

text \<open>\<^verbatim>\<open>mikrotik_get_system_health\<close> (scope/system.py, line 26): the command it builds, then the operation.\<close>

definition mikrotik_get_system_health_cmd ::
  "string" where
  \<open>mikrotik_get_system_health_cmd =
    ''/system health print''\<close>

definition mikrotik_get_system_health ::
  "connector \<Rightarrow> string list \<Rightarrow> string \<times> string list" where
  \<open>mikrotik_get_system_health exec sent =
    (let cmd = mikrotik_get_system_health_cmd;
         (result, sent') = execute_mikrotik_command exec cmd sent
     in if py_in ''failure:'' (py_lower result) \<or> py_in ''error'' (py_lower result)
        then (''Failed to get system health: '' @ result, sent')
        else (''System Health:\<newline>\<newline>'' @ result, sent'))\<close>

text \<open>\<^verbatim>\<open>mikrotik_get_system_identity\<close> (scope/system.py, line 44): the command it builds, then the operation.\<close>

definition mikrotik_get_system_identity_cmd ::
  "string" where
  \<open>mikrotik_get_system_identity_cmd =
    ''/system identity print''\<close>

definition mikrotik_get_system_identity ::
  "connector \<Rightarrow> string list \<Rightarrow> string \<times> string list" where
  \<open>mikrotik_get_system_identity exec sent =
    (let cmd = mikrotik_get_system_identity_cmd;
         (result, sent') = execute_mikrotik_command exec cmd sent
     in if py_in ''failure:'' (py_lower result) \<or> py_in ''error'' (py_lower result)
        then (''Failed to get system identity: '' @ result, sent')
        else (''System Identity:\<newline>\<newline>'' @ result, sent'))\<close>

text \<open>\<^verbatim>\<open>mikrotik_set_system_identity\<close> (scope/system.py, line 62): the command it builds, then the operation.\<close>

definition mikrotik_set_system_identity_cmd ::
  "string \<Rightarrow> string" where
  \<open>mikrotik_set_system_identity_cmd name =
    ''/system identity set name="'' @ name @ ''"''\<close>

definition mikrotik_set_system_identity ::
  "connector \<Rightarrow> string \<Rightarrow> string list \<Rightarrow>
   string \<times> string list" where
  \<open>mikrotik_set_system_identity exec name sent =
    (let cmd = mikrotik_set_system_identity_cmd name;
         (result, sent') = execute_mikrotik_command exec cmd sent
     in if py_in ''failure:'' (py_lower result) \<or> py_in ''error'' (py_lower result)
        then (''Failed to set system identity: '' @ result, sent')
        else (''System identity set to '' @ sq @ name @ sq @ '' successfully'', sent'))\<close>

text \<open>\<^verbatim>\<open>mikrotik_get_system_clock\<close> (scope/system.py, line 83): the command it builds, then the operation.\<close>

definition mikrotik_get_system_clock_cmd ::
  "string" where
  \<open>mikrotik_get_system_clock_cmd =
    ''/system clock print''\<close>

definition mikrotik_get_system_clock ::
  "connector \<Rightarrow> string list \<Rightarrow> string \<times> string list" where
  \<open>mikrotik_get_system_clock exec sent =
    (let cmd = mikrotik_get_system_clock_cmd;
         (result, sent') = execute_mikrotik_command exec cmd sent
     in if py_in ''failure:'' (py_lower result) \<or> py_in ''error'' (py_lower result)
        then (''Failed to get system clock: '' @ result, sent')
        else (''System Clock:\<newline>\<newline>'' @ result, sent'))\<close>

text \<open>\<^verbatim>\<open>mikrotik_set_system_clock\<close> (scope/system.py, line 101): the command it builds, then the operation.\<close>

definition mikrotik_set_system_clock_cmd ::
  "string option \<Rightarrow> bool option \<Rightarrow> string" where
  \<open>mikrotik_set_system_clock_cmd time_zone_name time_zone_autodetect =
    (let cmd = ''/system clock set'';
         cmd = (if truthy_str time_zone_name
                then cmd @ '' time-zone-name="'' @ the time_zone_name @ ''"''
                else cmd);
         cmd = (if time_zone_autodetect \<noteq> None
                then cmd @ '' time-zone-autodetect='' @ (if the time_zone_autodetect then ''yes'' else ''no'')
                else cmd)
     in cmd)\<close>

definition mikrotik_set_system_clock ::
  "connector \<Rightarrow> string option \<Rightarrow> bool option \<Rightarrow>
   string list \<Rightarrow> string \<times> string list" where
  \<open>mikrotik_set_system_clock exec time_zone_name time_zone_autodetect sent =
    (let cmd = mikrotik_set_system_clock_cmd time_zone_name time_zone_autodetect;
         (result, sent') = execute_mikrotik_command exec cmd sent
     in if py_in ''failure:'' (py_lower result) \<or> py_in ''error'' (py_lower result)
        then (''Failed to set system clock: '' @ result, sent')
        else (''System clock configured successfully'', sent'))\<close>

text \<open>\<^verbatim>\<open>mikrotik_get_ntp_client\<close> (scope/system.py, line 132): the command it builds, then the operation.\<close>

definition mikrotik_get_ntp_client_cmd ::
  "string" where
  \<open>mikrotik_get_ntp_client_cmd =
    ''/system ntp client print''\<close>

definition mikrotik_get_ntp_client ::
  "connector \<Rightarrow> string list \<Rightarrow> string \<times> string list" where
  \<open>mikrotik_get_ntp_client exec sent =
    (let cmd = mikrotik_get_ntp_client_cmd;
         (result, sent') = execute_mikrotik_command exec cmd sent
     in if py_in ''failure:'' (py_lower result) \<or> py_in ''error'' (py_lower result)
        then (''Failed to get NTP client: '' @ result, sent')
        else (''NTP Client Configuration:\<newline>\<newline>'' @ result, sent'))\<close>

text \<open>\<^verbatim>\<open>mikrotik_set_ntp_client\<close> (scope/system.py, line 150): the command it builds, then the operation.\<close>

definition mikrotik_set_ntp_client_cmd ::
  "bool option \<Rightarrow> string list option \<Rightarrow> string option \<Rightarrow>
   string" where
  \<open>mikrotik_set_ntp_client_cmd enabled servers mode =
    (let cmd = ''/system ntp client set'';
         cmd = (if enabled \<noteq> None
                then cmd @ '' enabled='' @ (if the enabled then ''yes'' else ''no'')
                else cmd);
         cmd = (if truthy_list servers
                then (let servers_str = py_join '','' (the servers) in cmd @ '' servers="'' @ servers_str @ ''"'')
                else cmd);
         cmd = (if truthy_str mode then cmd @ '' mode='' @ the mode else cmd)
     in cmd)\<close>

definition mikrotik_set_ntp_client ::
  "connector \<Rightarrow> bool option \<Rightarrow> string list option \<Rightarrow>
   string option \<Rightarrow> string list \<Rightarrow> string \<times> string list" where
  \<open>mikrotik_set_ntp_client exec enabled servers mode sent =
    (let cmd = mikrotik_set_ntp_client_cmd enabled servers mode;
         (result, sent') = execute_mikrotik_command exec cmd sent
     in if py_in ''failure:'' (py_lower result) \<or> py_in ''error'' (py_lower result)
        then (''Failed to set NTP client: '' @ result, sent')
        else (''NTP client configured successfully'', sent'))\<close>

text \<open>\<^verbatim>\<open>mikrotik_system_reboot\<close> (scope/system.py, line 186): the command it builds, then the operation.\<close>

definition mikrotik_system_reboot_cmd ::
  "string" where
  \<open>mikrotik_system_reboot_cmd =
    ''/system reboot''\<close>

definition mikrotik_system_reboot ::
  "connector \<Rightarrow> string list \<Rightarrow> string \<times> string list" where
  \<open>mikrotik_system_reboot exec sent =
    (let cmd = mikrotik_system_reboot_cmd;
         (result, sent') = execute_mikrotik_command exec cmd sent
     in (''System reboot initiated'', sent'))\<close>

text \<open>\<^verbatim>\<open>mikrotik_system_shutdown\<close> (scope/system.py, line 201): the command it builds, then the operation.\<close>

definition mikrotik_system_shutdown_cmd ::
  "string" where
  \<open>mikrotik_system_shutdown_cmd =
    ''/system shutdown''\<close>

definition mikrotik_system_shutdown ::
  "connector \<Rightarrow> string list \<Rightarrow> string \<times> string list" where
  \<open>mikrotik_system_shutdown exec sent =
    (let cmd = mikrotik_system_shutdown_cmd;
         (result, sent') = execute_mikrotik_command exec cmd sent
     in (''System shutdown initiated'', sent'))\<close>

text \<open>\<^verbatim>\<open>mikrotik_list_packages\<close> (scope/system.py, line 216): the command it builds, then the operation.\<close>

definition mikrotik_list_packages_cmd ::
  "string" where
  \<open>mikrotik_list_packages_cmd =
    ''/system package print''\<close>

definition mikrotik_list_packages ::
  "connector \<Rightarrow> string list \<Rightarrow> string \<times> string list" where
  \<open>mikrotik_list_packages exec sent =
    (let cmd = mikrotik_list_packages_cmd;
         (result, sent') = execute_mikrotik_command exec cmd sent
     in if py_in ''failure:'' (py_lower result) \<or> py_in ''error'' (py_lower result)
        then (''Failed to list packages: '' @ result, sent')
        else (''Installed Packages:\<newline>\<newline>'' @ result, sent'))\<close>

text \<open>\<^verbatim>\<open>mikrotik_enable_package\<close> (scope/system.py, line 234): the command it builds, then the operation.\<close>

definition mikrotik_enable_package_cmd ::
  "string \<Rightarrow> string" where
  \<open>mikrotik_enable_package_cmd package_name =
    ''/system package enable [find name="'' @ package_name @ ''"]''\<close>

definition mikrotik_enable_package ::
  "connector \<Rightarrow> string \<Rightarrow> string list \<Rightarrow>
   string \<times> string list" where
  \<open>mikrotik_enable_package exec package_name sent =
    (let cmd = mikrotik_enable_package_cmd package_name;
         (result, sent') = execute_mikrotik_command exec cmd sent
     in if py_in ''failure:'' (py_lower result) \<or> py_in ''error'' (py_lower result)
        then (''Failed to enable package: '' @ result, sent')
        else (''Package '' @ sq @ package_name @ sq @ '' enabled successfully (reboot required)'', sent'))\<close>

text \<open>\<^verbatim>\<open>mikrotik_disable_package\<close> (scope/system.py, line 255): the command it builds, then the operation.\<close>

definition mikrotik_disable_package_cmd ::
  "string \<Rightarrow> string" where
  \<open>mikrotik_disable_package_cmd package_name =
    ''/system package disable [find name="'' @ package_name @ ''"]''\<close>

definition mikrotik_disable_package ::
  "connector \<Rightarrow> string \<Rightarrow> string list \<Rightarrow>
   string \<times> string list" where
  \<open>mikrotik_disable_package exec package_name sent =
    (let cmd = mikrotik_disable_package_cmd package_name;
         (result, sent') = execute_mikrotik_command exec cmd sent
     in if py_in ''failure:'' (py_lower result) \<or> py_in ''error'' (py_lower result)
        then (''Failed to disable package: '' @ result, sent')
        else (''Package '' @ sq @ package_name @ sq @ '' disabled successfully (reboot required)'', sent'))\<close>

text \<open>\<^verbatim>\<open>mikrotik_list_scheduler\<close> (scope/system.py, line 276): the command it builds, then the operation.\<close>

definition mikrotik_list_scheduler_cmd ::
  "string" where
  \<open>mikrotik_list_scheduler_cmd =
    ''/system scheduler print''\<close>

definition mikrotik_list_scheduler ::
  "connector \<Rightarrow> string list \<Rightarrow> string \<times> string list" where
  \<open>mikrotik_list_scheduler exec sent =
    (let cmd = mikrotik_list_scheduler_cmd;
         (result, sent') = execute_mikrotik_command exec cmd sent
     in if py_in ''failure:'' (py_lower result) \<or> py_in ''error'' (py_lower result)
        then (''Failed to list scheduler: '' @ result, sent')
        else (''Scheduled Tasks:\<newline>\<newline>'' @ result, sent'))\<close>

text \<open>\<^verbatim>\<open>mikrotik_add_scheduler\<close> (scope/system.py, line 294): the command it builds, then the operation.\<close>

definition mikrotik_add_scheduler_cmd ::
  "string \<Rightarrow> string \<Rightarrow> string option \<Rightarrow>
   string option \<Rightarrow> string option \<Rightarrow> string option \<Rightarrow>
   string option \<Rightarrow> bool option \<Rightarrow> string" where
  \<open>mikrotik_add_scheduler_cmd name on_event start_date start_time interval policy comment
      disabled =
    (let cmd = ''/system scheduler add name="'' @ name @ ''" on-event="'' @ on_event @ ''"'';
         cmd = (if truthy_str start_date then cmd @ '' start-date="'' @ the start_date @ ''"''
                else cmd);
         cmd = (if truthy_str start_time then cmd @ '' start-time="'' @ the start_time @ ''"''
                else cmd);
         cmd = (if truthy_str interval then cmd @ '' interval='' @ the interval else cmd);
         cmd = (if truthy_str policy then cmd @ '' policy='' @ the policy else cmd);
         cmd = (if truthy_str comment then cmd @ '' comment="'' @ the comment @ ''"'' else cmd);
         cmd = (if disabled \<noteq> None
                then cmd @ '' disabled='' @ (if the disabled then ''yes'' else ''no'')
                else cmd)
     in cmd)\<close>

definition mikrotik_add_scheduler ::
  "connector \<Rightarrow> string \<Rightarrow> string \<Rightarrow>
   string option \<Rightarrow> string option \<Rightarrow> string option \<Rightarrow>
   string option \<Rightarrow> string option \<Rightarrow> bool option \<Rightarrow>
   string list \<Rightarrow> string \<times> string list" where
  \<open>mikrotik_add_scheduler exec name on_event start_date start_time interval policy comment
      disabled sent =
    (let cmd = mikrotik_add_scheduler_cmd name on_event start_date start_time interval policy comment
           disabled;
         (result, sent') = execute_mikrotik_command exec cmd sent
     in if py_in ''failure:'' (py_lower result) \<or> py_in ''error'' (py_lower result)
        then (''Failed to add scheduler task: '' @ result, sent')
        else (''Scheduler task '' @ sq @ name @ sq @ '' added successfully'', sent'))\<close>

text \<open>\<^verbatim>\<open>mikrotik_remove_scheduler\<close> (scope/system.py, line 345): the command it builds, then the operation.\<close>

definition mikrotik_remove_scheduler_cmd ::
  "string \<Rightarrow> string" where
  \<open>mikrotik_remove_scheduler_cmd name =
    ''/system scheduler remove [find name="'' @ name @ ''"]''\<close>

definition mikrotik_remove_scheduler ::
  "connector \<Rightarrow> string \<Rightarrow> string list \<Rightarrow>
   string \<times> string list" where
  \<open>mikrotik_remove_scheduler exec name sent =
    (let cmd = mikrotik_remove_scheduler_cmd name;
         (result, sent') = execute_mikrotik_command exec cmd sent
     in if py_in ''failure:'' (py_lower result) \<or> py_in ''error'' (py_lower result)
        then (''Failed to remove scheduler task: '' @ result, sent')
        else (''Scheduler task '' @ sq @ name @ sq @ '' removed successfully'', sent'))\<close>

text \<open>\<^verbatim>\<open>mikrotik_list_scripts\<close> (scope/system.py, line 366): the command it builds, then the operation.\<close>

definition mikrotik_list_scripts_cmd ::
  "string" where
  \<open>mikrotik_list_scripts_cmd =
    ''/system script print''\<close>

definition mikrotik_list_scripts ::
  "connector \<Rightarrow> string list \<Rightarrow> string \<times> string list" where
  \<open>mikrotik_list_scripts exec sent =
    (let cmd = mikrotik_list_scripts_cmd;
         (result, sent') = execute_mikrotik_command exec cmd sent
     in if py_in ''failure:'' (py_lower result) \<or> py_in ''error'' (py_lower result)
        then (''Failed to list scripts: '' @ result, sent')
        else (''System Scripts:\<newline>\<newline>'' @ result, sent'))\<close>

text \<open>\<^verbatim>\<open>mikrotik_add_script\<close> (scope/system.py, line 384): the command it builds, then the operation.\<close>

definition mikrotik_add_script_cmd ::
  "string \<Rightarrow> string \<Rightarrow> string option \<Rightarrow>
   string option \<Rightarrow> bool option \<Rightarrow> string" where
  \<open>mikrotik_add_script_cmd name source policy comment dont_require_permissions =
    (let source_escaped = py_replace (py_replace source ''"'' (bsl @ ''"'')) ''\<newline>'' (bsl @ ''n'');
         cmd = ''/system script add name="'' @ name @ ''" source="'' @ source_escaped @ ''"'';
         cmd = (if truthy_str policy then cmd @ '' policy='' @ the policy else cmd);
         cmd = (if truthy_str comment then cmd @ '' comment="'' @ the comment @ ''"'' else cmd);
         cmd = (if dont_require_permissions \<noteq> None
                then cmd @ '' dont-require-permissions='' @ (if the dont_require_permissions then ''yes'' else ''no'')
                else cmd)
     in cmd)\<close>

definition mikrotik_add_script ::
  "connector \<Rightarrow> string \<Rightarrow> string \<Rightarrow>
   string option \<Rightarrow> string option \<Rightarrow> bool option \<Rightarrow>
   string list \<Rightarrow> string \<times> string list" where
  \<open>mikrotik_add_script exec name source policy comment dont_require_permissions sent =
    (let cmd = mikrotik_add_script_cmd name source policy comment dont_require_permissions;
         (result, sent') = execute_mikrotik_command exec cmd sent
     in if py_in ''failure:'' (py_lower result) \<or> py_in ''error'' (py_lower result)
        then (''Failed to add script: '' @ result, sent')
        else (''Script '' @ sq @ name @ sq @ '' added successfully'', sent'))\<close>

text \<open>\<^verbatim>\<open>mikrotik_run_script\<close> (scope/system.py, line 426): the command it builds, then the operation.\<close>

definition mikrotik_run_script_cmd ::
  "string \<Rightarrow> string" where
  \<open>mikrotik_run_script_cmd name =
    ''/system script run [find name="'' @ name @ ''"]''\<close>

definition mikrotik_run_script ::
  "connector \<Rightarrow> string \<Rightarrow> string list \<Rightarrow>
   string \<times> string list" where
  \<open>mikrotik_run_script exec name sent =
    (let cmd = mikrotik_run_script_cmd name;
         (result, sent') = execute_mikrotik_command exec cmd sent
     in if py_in ''failure:'' (py_lower result) \<or> py_in ''error'' (py_lower result)
        then (''Failed to run script: '' @ result, sent')
        else (''Script '' @ sq @ name @ sq @ '' executed:\<newline>\<newline>'' @ result, sent'))\<close>

text \<open>\<^verbatim>\<open>mikrotik_remove_script\<close> (scope/system.py, line 447): the command it builds, then the operation.\<close>

definition mikrotik_remove_script_cmd ::
  "string \<Rightarrow> string" where
  \<open>mikrotik_remove_script_cmd name =
    ''/system script remove [find name="'' @ name @ ''"]''\<close>

definition mikrotik_remove_script ::
  "connector \<Rightarrow> string \<Rightarrow> string list \<Rightarrow>
   string \<times> string list" where
  \<open>mikrotik_remove_script exec name sent =
    (let cmd = mikrotik_remove_script_cmd name;
         (result, sent') = execute_mikrotik_command exec cmd sent
     in if py_in ''failure:'' (py_lower result) \<or> py_in ''error'' (py_lower result)
        then (''Failed to remove script: '' @ result, sent')
        else (''Script '' @ sq @ name @ sq @ '' removed successfully'', sent'))\<close>

text \<open>\<^verbatim>\<open>mikrotik_get_system_routerboard\<close> (scope/system.py, line 468): the command it builds, then the operation.\<close>

definition mikrotik_get_system_routerboard_cmd ::
  "string" where
  \<open>mikrotik_get_system_routerboard_cmd =
    ''/system routerboard print''\<close>

definition mikrotik_get_system_routerboard ::
  "connector \<Rightarrow> string list \<Rightarrow> string \<times> string list" where
  \<open>mikrotik_get_system_routerboard exec sent =
    (let cmd = mikrotik_get_system_routerboard_cmd;
         (result, sent') = execute_mikrotik_command exec cmd sent
     in if py_in ''failure:'' (py_lower result) \<or> py_in ''error'' (py_lower result)
        then (''Failed to get RouterBOARD info: '' @ result, sent')
        else (''RouterBOARD Information:\<newline>\<newline>'' @ result, sent'))\<close>

text \<open>\<^verbatim>\<open>mikrotik_get_system_license\<close> (scope/system.py, line 486): the command it builds, then the operation.\<close>

definition mikrotik_get_system_license_cmd ::
  "string" where
  \<open>mikrotik_get_system_license_cmd =
    ''/system license print''\<close>

definition mikrotik_get_system_license ::
  "connector \<Rightarrow> string list \<Rightarrow> string \<times> string list" where
  \<open>mikrotik_get_system_license exec sent =
    (let cmd = mikrotik_get_system_license_cmd;
         (result, sent') = execute_mikrotik_command exec cmd sent
     in if py_in ''failure:'' (py_lower result) \<or> py_in ''error'' (py_lower result)
        then (''Failed to get license info: '' @ result, sent')
        else (''System License:\<newline>\<newline>'' @ result, sent'))\<close>

text \<open>\<^verbatim>\<open>mikrotik_get_system_history\<close> (scope/system.py, line 504): the command it builds, then the operation.\<close>

definition mikrotik_get_system_history_cmd ::
  "string" where
  \<open>mikrotik_get_system_history_cmd =
    ''/system history print''\<close>

definition mikrotik_get_system_history ::
  "connector \<Rightarrow> string list \<Rightarrow> string \<times> string list" where
  \<open>mikrotik_get_system_history exec sent =
    (let cmd = mikrotik_get_system_history_cmd;
         (result, sent') = execute_mikrotik_command exec cmd sent
     in if py_in ''failure:'' (py_lower result) \<or> py_in ''error'' (py_lower result)
        then (''Failed to get history: '' @ result, sent')
        else (''System History:\<newline>\<newline>'' @ result, sent'))\<close>

section \<open>The tool adapter modules\<close>

text \<open>
  A tool adapter module declares its tools (name, input schema) and maps every tool name
  to a handler, a Python lambda of the form
  \<^verbatim>\<open>lambda args: f(args["a"], ..., args.get("b"), ...)\<close>. The argument bag \<open>args\<close> is a
  dictionary from property names to JSON values. Python evaluates the argument expressions
  of the call from left to right and then calls \<open>f\<close>: \<^verbatim>\<open>args["a"]\<close> raises \<^verbatim>\<open>KeyError\<close> when
  the key is absent, \<^verbatim>\<open>args.get("b")\<close> yields \<^verbatim>\<open>None\<close> instead.

  A handler is embedded as the list of its argument expressions together with the function
  it calls on their values. The domain functions are typed by their annotations, so the
  call decodes every value at the type of its parameter. A bag that holds a value of
  another type than the tool's schema declares is outside the model: Python would pass it
  on unchecked. For such a bag the call yields \<open>Outside_Schema\<close>, which no theorem relies on.
  Of a tool declaration the name, the property names and types and the list of required
  properties are kept; descriptions and enumerations are left out.
\<close>

datatype pyval = PStr string | PInt int | PBool bool | PStrs "string list"

type_synonym arg_bag = "string \<rightharpoonup> pyval"

datatype error = KeyError string | Outside_Schema

datatype json_type = JString | JInteger | JBoolean | JArray

record tool =
  tool_name :: string
  properties :: "(string \<times> json_type) list"
  required :: "string list"

text \<open>\<open>Subscript k\<close> is \<^verbatim>\<open>args["k"]\<close> and \<open>Get k\<close> is \<^verbatim>\<open>args.get("k")\<close>.\<close>

datatype lookup = Subscript string | Get string

fun lookup_key :: "lookup \<Rightarrow> string" where
  "lookup_key (Subscript k) = k"
| "lookup_key (Get k) = k"

fun subscripted :: "lookup list \<Rightarrow> string list" where
  "subscripted [] = []"
| "subscripted (Subscript k # ls) = k # subscripted ls"
| "subscripted (Get k # ls) = subscripted ls"

text \<open>The values of the argument expressions, from left to right; the first subscription
  of an absent key raises.\<close>

fun eval_args :: "lookup list \<Rightarrow> arg_bag \<Rightarrow> error + pyval option list" where
  "eval_args [] args = Inr []"
| "eval_args (Subscript k # ls) args =
    (case args k of
       None \<Rightarrow> Inl (KeyError k)
     | Some v \<Rightarrow> (case eval_args ls args of Inl e \<Rightarrow> Inl e | Inr vs \<Rightarrow> Inr (Some v # vs)))"
| "eval_args (Get k # ls) args =
    (case eval_args ls args of Inl e \<Rightarrow> Inl e | Inr vs \<Rightarrow> Inr (args k # vs))"

text \<open>Decoding a value at the type of the parameter it is passed for; \<open>None\<close> when the
  value is of another type.\<close>

fun str_arg :: "pyval option \<Rightarrow> string option" where
  "str_arg (Some (PStr s)) = Some s"
| "str_arg _ = None"

fun int_arg :: "pyval option \<Rightarrow> int option" where
  "int_arg (Some (PInt i)) = Some i"
| "int_arg _ = None"

fun opt_str_arg :: "pyval option \<Rightarrow> string option option" where
  "opt_str_arg None = Some None"
| "opt_str_arg (Some (PStr s)) = Some (Some s)"
| "opt_str_arg _ = None"

fun opt_int_arg :: "pyval option \<Rightarrow> int option option" where
  "opt_int_arg None = Some None"
| "opt_int_arg (Some (PInt i)) = Some (Some i)"
| "opt_int_arg _ = None"

fun opt_bool_arg :: "pyval option \<Rightarrow> bool option option" where
  "opt_bool_arg None = Some None"
| "opt_bool_arg (Some (PBool b)) = Some (Some b)"
| "opt_bool_arg _ = None"

fun opt_strs_arg :: "pyval option \<Rightarrow> string list option option" where
  "opt_strs_arg None = Some None"
| "opt_strs_arg (Some (PStrs xs)) = Some (Some xs)"
| "opt_strs_arg _ = None"

type_synonym outcome = "(error + string) \<times> string list"

type_synonym callee = "connector \<Rightarrow> pyval option list \<Rightarrow> string list \<Rightarrow> outcome"

type_synonym handler = "lookup list \<times> callee"

fun returned :: "(string \<times> string list) option \<Rightarrow> string list \<Rightarrow> outcome" where
  "returned (Some (reply, sent')) sent = (Inr reply, sent')"
| "returned None sent = (Inl Outside_Schema, sent)"

text \<open>Invoking a handler: the argument expressions are evaluated first; when one of them
  raises, the function is not called and nothing is submitted.\<close>

definition invoke :: "handler \<Rightarrow> connector \<Rightarrow> arg_bag \<Rightarrow> string list \<Rightarrow> outcome" where
  "invoke h exec args sent =
    (case eval_args (fst h) args of
       Inl e \<Rightarrow> (Inl e, sent)
     | Inr vs \<Rightarrow> snd h exec vs sent)"

subsection \<open>Positional calls of the domain functions\<close>


definition call_mikrotik_create_bridge :: callee where
  "call_mikrotik_create_bridge exec vs sent =
    (case vs of
       [a1, a2, a3, a4, a5, a6, a7, a8, a9, a10] \<Rightarrow>
         returned (
           do { name \<leftarrow> str_arg a1; mtu \<leftarrow> opt_int_arg a2;
                arp \<leftarrow> opt_str_arg a3; arp_timeout \<leftarrow> opt_str_arg a4;
                ageing_time \<leftarrow> opt_str_arg a5; priority \<leftarrow> opt_int_arg a6;
                protocol_mode \<leftarrow> opt_str_arg a7;
                vlan_filtering \<leftarrow> opt_bool_arg a8;
                comment \<leftarrow> opt_str_arg a9; disabled \<leftarrow> opt_bool_arg a10;
                Some (mikrotik_create_bridge exec name mtu arp arp_timeout ageing_time priority
                     protocol_mode vlan_filtering comment disabled sent) }) sent
     | _ \<Rightarrow> (Inl Outside_Schema, sent))"

definition call_mikrotik_list_bridges :: callee where
  "call_mikrotik_list_bridges exec vs sent =
    (case vs of
       [a1, a2] \<Rightarrow>
         returned (
           do { name_filter \<leftarrow> opt_str_arg a1;
                disabled_only \<leftarrow> opt_bool_arg a2;
                Some (mikrotik_list_bridges exec name_filter disabled_only sent) }) sent
     | _ \<Rightarrow> (Inl Outside_Schema, sent))"

definition call_mikrotik_remove_bridge :: callee where
  "call_mikrotik_remove_bridge exec vs sent =
    (case vs of
       [a1] \<Rightarrow>
         returned (
           do { name \<leftarrow> str_arg a1;
                Some (mikrotik_remove_bridge exec name sent) }) sent
     | _ \<Rightarrow> (Inl Outside_Schema, sent))"

definition call_mikrotik_add_bridge_port :: callee where
  "call_mikrotik_add_bridge_port exec vs sent =
    (case vs of
       [a1, a2, a3, a4, a5, a6, a7, a8, a9, a10] \<Rightarrow>
         returned (
           do { bridge \<leftarrow> str_arg a1; interface \<leftarrow> str_arg a2;
                pvid \<leftarrow> opt_int_arg a3; priority \<leftarrow> opt_int_arg a4;
                path_cost \<leftarrow> opt_int_arg a5; edge \<leftarrow> opt_bool_arg a6;
                point_to_point \<leftarrow> opt_str_arg a7;
                horizon \<leftarrow> opt_int_arg a8; comment \<leftarrow> opt_str_arg a9;
                disabled \<leftarrow> opt_bool_arg a10;
                Some (mikrotik_add_bridge_port exec bridge interface pvid priority path_cost edge
                     point_to_point horizon comment disabled sent) }) sent
     | _ \<Rightarrow> (Inl Outside_Schema, sent))"

definition call_mikrotik_list_bridge_ports :: callee where
  "call_mikrotik_list_bridge_ports exec vs sent =
    (case vs of
       [a1, a2] \<Rightarrow>
         returned (
           do { bridge_filter \<leftarrow> opt_str_arg a1;
                interface_filter \<leftarrow> opt_str_arg a2;
                Some (mikrotik_list_bridge_ports exec bridge_filter interface_filter sent) }) sent
     | _ \<Rightarrow> (Inl Outside_Schema, sent))"

definition call_mikrotik_remove_bridge_port :: callee where
  "call_mikrotik_remove_bridge_port exec vs sent =
    (case vs of
       [a1] \<Rightarrow>
         returned (
           do { interface \<leftarrow> str_arg a1;
                Some (mikrotik_remove_bridge_port exec interface sent) }) sent
     | _ \<Rightarrow> (Inl Outside_Schema, sent))"

definition call_mikrotik_add_bridge_vlan :: callee where
  "call_mikrotik_add_bridge_vlan exec vs sent =
    (case vs of
       [a1, a2, a3, a4, a5, a6] \<Rightarrow>
         returned (
           do { bridge \<leftarrow> str_arg a1; vlan_ids \<leftarrow> str_arg a2;
                tagged \<leftarrow> opt_str_arg a3; untagged \<leftarrow> opt_str_arg a4;
                comment \<leftarrow> opt_str_arg a5; disabled \<leftarrow> opt_bool_arg a6;
                Some (mikrotik_add_bridge_vlan exec bridge vlan_ids tagged untagged comment disabled
                     sent) }) sent
     | _ \<Rightarrow> (Inl Outside_Schema, sent))"

definition call_mikrotik_list_bridge_vlans :: callee where
  "call_mikrotik_list_bridge_vlans exec vs sent =
    (case vs of
       [a1] \<Rightarrow>
         returned (
           do { bridge_filter \<leftarrow> opt_str_arg a1;
                Some (mikrotik_list_bridge_vlans exec bridge_filter sent) }) sent
     | _ \<Rightarrow> (Inl Outside_Schema, sent))"

definition call_mikrotik_get_bridge_host :: callee where
  "call_mikrotik_get_bridge_host exec vs sent =
    (case vs of
       [a1] \<Rightarrow>
         returned (
           do { bridge_filter \<leftarrow> opt_str_arg a1;
                Some (mikrotik_get_bridge_host exec bridge_filter sent) }) sent
     | _ \<Rightarrow> (Inl Outside_Schema, sent))"

definition call_mikrotik_create_hotspot_server :: callee where
  "call_mikrotik_create_hotspot_server exec vs sent =
    (case vs of
       [a1, a2, a3, a4, a5] \<Rightarrow>
         returned (
           do { name \<leftarrow> str_arg a1; interface \<leftarrow> str_arg a2;
                address_pool \<leftarrow> str_arg a3; profile \<leftarrow> opt_str_arg a4;
                disabled \<leftarrow> opt_bool_arg a5;
                Some (mikrotik_create_hotspot_server exec name interface address_pool profile
                     disabled sent) }) sent
     | _ \<Rightarrow> (Inl Outside_Schema, sent))"

definition call_mikrotik_list_hotspot_servers :: callee where
  "call_mikrotik_list_hotspot_servers exec vs sent =
    (case vs of
       [] \<Rightarrow>
         returned (
           do {
                Some (mikrotik_list_hotspot_servers exec sent) }) sent
     | _ \<Rightarrow> (Inl Outside_Schema, sent))"

definition call_mikrotik_list_hotspot_users :: callee where
  "call_mikrotik_list_hotspot_users exec vs sent =
    (case vs of
       [] \<Rightarrow>
         returned (
           do {
                Some (mikrotik_list_hotspot_users exec sent) }) sent
     | _ \<Rightarrow> (Inl Outside_Schema, sent))"

definition call_mikrotik_add_hotspot_user :: callee where
  "call_mikrotik_add_hotspot_user exec vs sent =
    (case vs of
       [a1, a2, a3, a4, a5, a6, a7] \<Rightarrow>
         returned (
           do { name \<leftarrow> str_arg a1; password \<leftarrow> str_arg a2;
                profile \<leftarrow> opt_str_arg a3; limit_uptime \<leftarrow> opt_str_arg a4;
                limit_bytes_total \<leftarrow> opt_str_arg a5;
                comment \<leftarrow> opt_str_arg a6; disabled \<leftarrow> opt_bool_arg a7;
                Some (mikrotik_add_hotspot_user exec name password profile limit_uptime
                     limit_bytes_total comment disabled sent) }) sent
     | _ \<Rightarrow> (Inl Outside_Schema, sent))"

definition call_mikrotik_remove_hotspot_user :: callee where
  "call_mikrotik_remove_hotspot_user exec vs sent =
    (case vs of
       [a1] \<Rightarrow>
         returned (
           do { name \<leftarrow> str_arg a1;
                Some (mikrotik_remove_hotspot_user exec name sent) }) sent
     | _ \<Rightarrow> (Inl Outside_Schema, sent))"

definition call_mikrotik_list_hotspot_active :: callee where
  "call_mikrotik_list_hotspot_active exec vs sent =
    (case vs of
       [] \<Rightarrow>
         returned (
           do {
                Some (mikrotik_list_hotspot_active exec sent) }) sent
     | _ \<Rightarrow> (Inl Outside_Schema, sent))"

definition call_mikrotik_remove_hotspot_active :: callee where
  "call_mikrotik_remove_hotspot_active exec vs sent =
    (case vs of
       [a1] \<Rightarrow>
         returned (
           do { user \<leftarrow> str_arg a1;
                Some (mikrotik_remove_hotspot_active exec user sent) }) sent
     | _ \<Rightarrow> (Inl Outside_Schema, sent))"

definition call_mikrotik_create_pppoe_server :: callee where
  "call_mikrotik_create_pppoe_server exec vs sent =
    (case vs of
       [a1, a2, a3, a4, a5, a6, a7, a8, a9] \<Rightarrow>
         returned (
           do { service_name \<leftarrow> str_arg a1; interface \<leftarrow> str_arg a2;
                default_profile \<leftarrow> opt_str_arg a3;
                authentication \<leftarrow> opt_str_arg a4;
                keepalive_timeout \<leftarrow> opt_int_arg a5;
                max_mtu \<leftarrow> opt_int_arg a6; max_mru \<leftarrow> opt_int_arg a7;
                one_session_per_host \<leftarrow> opt_bool_arg a8;
                disabled \<leftarrow> opt_bool_arg a9;
                Some (mikrotik_create_pppoe_server exec service_name interface default_profile
                     authentication keepalive_timeout max_mtu max_mru
                     one_session_per_host disabled sent) }) sent
     | _ \<Rightarrow> (Inl Outside_Schema, sent))"

definition call_mikrotik_list_pppoe_servers :: callee where
  "call_mikrotik_list_pppoe_servers exec vs sent =
    (case vs of
       [] \<Rightarrow>
         returned (
           do {
                Some (mikrotik_list_pppoe_servers exec sent) }) sent
     | _ \<Rightarrow> (Inl Outside_Schema, sent))"

definition call_mikrotik_remove_pppoe_server :: callee where
  "call_mikrotik_remove_pppoe_server exec vs sent =
    (case vs of
       [a1] \<Rightarrow>
         returned (
           do { service_name \<leftarrow> str_arg a1;
                Some (mikrotik_remove_pppoe_server exec service_name sent) }) sent
     | _ \<Rightarrow> (Inl Outside_Schema, sent))"

definition call_mikrotik_add_ppp_secret :: callee where
  "call_mikrotik_add_ppp_secret exec vs sent =
    (case vs of
       [a1, a2, a3, a4, a5, a6, a7, a8, a9, a10, a11] \<Rightarrow>
         returned (
           do { name \<leftarrow> str_arg a1; password \<leftarrow> str_arg a2;
                service \<leftarrow> opt_str_arg a3; profile \<leftarrow> opt_str_arg a4;
                local_address \<leftarrow> opt_str_arg a5;
                remote_address \<leftarrow> opt_str_arg a6; routes \<leftarrow> opt_str_arg a7;
                limit_bytes_in \<leftarrow> opt_str_arg a8;
                limit_bytes_out \<leftarrow> opt_str_arg a9;
                comment \<leftarrow> opt_str_arg a10; disabled \<leftarrow> opt_bool_arg a11;
                Some (mikrotik_add_ppp_secret exec name password service profile local_address
                     remote_address routes limit_bytes_in limit_bytes_out comment
                     disabled sent) }) sent
     | _ \<Rightarrow> (Inl Outside_Schema, sent))"

definition call_mikrotik_list_ppp_secrets :: callee where
  "call_mikrotik_list_ppp_secrets exec vs sent =
    (case vs of
       [a1, a2] \<Rightarrow>
         returned (
           do { service_filter \<leftarrow> opt_str_arg a1;
                disabled_only \<leftarrow> opt_bool_arg a2;
                Some (mikrotik_list_ppp_secrets exec service_filter disabled_only sent) }) sent
     | _ \<Rightarrow> (Inl Outside_Schema, sent))"

definition call_mikrotik_remove_ppp_secret :: callee where
  "call_mikrotik_remove_ppp_secret exec vs sent =
    (case vs of
       [a1] \<Rightarrow>
         returned (
           do { name \<leftarrow> str_arg a1;
                Some (mikrotik_remove_ppp_secret exec name sent) }) sent
     | _ \<Rightarrow> (Inl Outside_Schema, sent))"

definition call_mikrotik_list_ppp_active :: callee where
  "call_mikrotik_list_ppp_active exec vs sent =
    (case vs of
       [] \<Rightarrow>
         returned (
           do {
                Some (mikrotik_list_ppp_active exec sent) }) sent
     | _ \<Rightarrow> (Inl Outside_Schema, sent))"

definition call_mikrotik_disconnect_ppp_active :: callee where
  "call_mikrotik_disconnect_ppp_active exec vs sent =
    (case vs of
       [a1] \<Rightarrow>
         returned (
           do { name \<leftarrow> str_arg a1;
                Some (mikrotik_disconnect_ppp_active exec name sent) }) sent
     | _ \<Rightarrow> (Inl Outside_Schema, sent))"

definition call_mikrotik_create_ppp_profile :: callee where
  "call_mikrotik_create_ppp_profile exec vs sent =
    (case vs of
       [a1, a2, a3, a4, a5, a6, a7, a8, a9, a10] \<Rightarrow>
         returned (
           do { name \<leftarrow> str_arg a1; local_address \<leftarrow> opt_str_arg a2;
                remote_address \<leftarrow> opt_str_arg a3;
                dns_server \<leftarrow> opt_str_arg a4;
                wins_server \<leftarrow> opt_str_arg a5;
                use_compression \<leftarrow> opt_bool_arg a6;
                use_encryption \<leftarrow> opt_bool_arg a7;
                only_one \<leftarrow> opt_bool_arg a8; rate_limit \<leftarrow> opt_str_arg a9;
                comment \<leftarrow> opt_str_arg a10;
                Some (mikrotik_create_ppp_profile exec name local_address remote_address dns_server
                     wins_server use_compression use_encryption only_one rate_limit
                     comment sent) }) sent
     | _ \<Rightarrow> (Inl Outside_Schema, sent))"

definition call_mikrotik_list_ppp_profiles :: callee where
  "call_mikrotik_list_ppp_profiles exec vs sent =
    (case vs of
       [] \<Rightarrow>
         returned (
           do {
                Some (mikrotik_list_ppp_profiles exec sent) }) sent
     | _ \<Rightarrow> (Inl Outside_Schema, sent))"

definition call_mikrotik_remove_ppp_profile :: callee where
  "call_mikrotik_remove_ppp_profile exec vs sent =
    (case vs of
       [a1] \<Rightarrow>
         returned (
           do { name \<leftarrow> str_arg a1;
                Some (mikrotik_remove_ppp_profile exec name sent) }) sent
     | _ \<Rightarrow> (Inl Outside_Schema, sent))"

definition call_mikrotik_create_pppoe_client :: callee where
  "call_mikrotik_create_pppoe_client exec vs sent =
    (case vs of
       [a1, a2, a3, a4, a5, a6, a7, a8, a9, a10] \<Rightarrow>
         returned (
           do { name \<leftarrow> str_arg a1; interface \<leftarrow> str_arg a2;
                user \<leftarrow> str_arg a3; password \<leftarrow> str_arg a4;
                service_name \<leftarrow> opt_str_arg a5;
                add_default_route \<leftarrow> opt_bool_arg a6;
                use_peer_dns \<leftarrow> opt_bool_arg a7; profile \<leftarrow> opt_str_arg a8;
                comment \<leftarrow> opt_str_arg a9; disabled \<leftarrow> opt_bool_arg a10;
                Some (mikrotik_create_pppoe_client exec name interface user password service_name
                     add_default_route use_peer_dns profile comment disabled sent) }) sent
     | _ \<Rightarrow> (Inl Outside_Schema, sent))"

definition call_mikrotik_list_pppoe_clients :: callee where
  "call_mikrotik_list_pppoe_clients exec vs sent =
    (case vs of
       [] \<Rightarrow>
         returned (
           do {
                Some (mikrotik_list_pppoe_clients exec sent) }) sent
     | _ \<Rightarrow> (Inl Outside_Schema, sent))"

definition call_mikrotik_remove_pppoe_client :: callee where
  "call_mikrotik_remove_pppoe_client exec vs sent =
    (case vs of
       [a1] \<Rightarrow>
         returned (
           do { name \<leftarrow> str_arg a1;
                Some (mikrotik_remove_pppoe_client exec name sent) }) sent
     | _ \<Rightarrow> (Inl Outside_Schema, sent))"

definition call_mikrotik_create_simple_queue :: callee where
  "call_mikrotik_create_simple_queue exec vs sent =
    (case vs of
       [a1, a2, a3, a4, a5, a6, a7, a8, a9, a10, a11, a12] \<Rightarrow>
         returned (
           do { name \<leftarrow> str_arg a1; target \<leftarrow> str_arg a2;
                max_limit \<leftarrow> str_arg a3; burst_limit \<leftarrow> opt_str_arg a4;
                burst_threshold \<leftarrow> opt_str_arg a5;
                burst_time \<leftarrow> opt_str_arg a6; limit_at \<leftarrow> opt_str_arg a7;
                priority \<leftarrow> opt_int_arg a8; queue_type \<leftarrow> opt_str_arg a9;
                parent \<leftarrow> opt_str_arg a10; comment \<leftarrow> opt_str_arg a11;
                disabled \<leftarrow> opt_bool_arg a12;
                Some (mikrotik_create_simple_queue exec name target max_limit burst_limit
                     burst_threshold burst_time limit_at priority queue_type parent
                     comment disabled sent) }) sent
     | _ \<Rightarrow> (Inl Outside_Schema, sent))"

definition call_mikrotik_list_simple_queues :: callee where
  "call_mikrotik_list_simple_queues exec vs sent =
    (case vs of
       [a1, a2, a3] \<Rightarrow>
         returned (
           do { name_filter \<leftarrow> opt_str_arg a1;
                target_filter \<leftarrow> opt_str_arg a2;
                disabled_only \<leftarrow> opt_bool_arg a3;
                Some (mikrotik_list_simple_queues exec name_filter target_filter disabled_only sent) }) sent
     | _ \<Rightarrow> (Inl Outside_Schema, sent))"

definition call_mikrotik_remove_simple_queue :: callee where
  "call_mikrotik_remove_simple_queue exec vs sent =
    (case vs of
       [a1] \<Rightarrow>
         returned (
           do { name \<leftarrow> str_arg a1;
                Some (mikrotik_remove_simple_queue exec name sent) }) sent
     | _ \<Rightarrow> (Inl Outside_Schema, sent))"

definition call_mikrotik_enable_simple_queue :: callee where
  "call_mikrotik_enable_simple_queue exec vs sent =
    (case vs of
       [a1] \<Rightarrow>
         returned (
           do { name \<leftarrow> str_arg a1;
                Some (mikrotik_enable_simple_queue exec name sent) }) sent
     | _ \<Rightarrow> (Inl Outside_Schema, sent))"

definition call_mikrotik_disable_simple_queue :: callee where
  "call_mikrotik_disable_simple_queue exec vs sent =
    (case vs of
       [a1] \<Rightarrow>
         returned (
           do { name \<leftarrow> str_arg a1;
                Some (mikrotik_disable_simple_queue exec name sent) }) sent
     | _ \<Rightarrow> (Inl Outside_Schema, sent))"

definition call_mikrotik_create_queue_tree :: callee where
  "call_mikrotik_create_queue_tree exec vs sent =
    (case vs of
       [a1, a2, a3, a4, a5, a6, a7, a8, a9, a10, a11, a12] \<Rightarrow>
         returned (
           do { name \<leftarrow> str_arg a1; parent \<leftarrow> str_arg a2;
                max_limit \<leftarrow> str_arg a3; burst_limit \<leftarrow> opt_str_arg a4;
                burst_threshold \<leftarrow> opt_str_arg a5;
                burst_time \<leftarrow> opt_str_arg a6; limit_at \<leftarrow> opt_str_arg a7;
                priority \<leftarrow> opt_int_arg a8; queue_type \<leftarrow> opt_str_arg a9;
                packet_mark \<leftarrow> opt_str_arg a10; comment \<leftarrow> opt_str_arg a11;
                disabled \<leftarrow> opt_bool_arg a12;
                Some (mikrotik_create_queue_tree exec name parent max_limit burst_limit
                     burst_threshold burst_time limit_at priority queue_type
                     packet_mark comment disabled sent) }) sent
     | _ \<Rightarrow> (Inl Outside_Schema, sent))"

definition call_mikrotik_list_queue_tree :: callee where
  "call_mikrotik_list_queue_tree exec vs sent =
    (case vs of
       [a1, a2, a3] \<Rightarrow>
         returned (
           do { name_filter \<leftarrow> opt_str_arg a1;
                parent_filter \<leftarrow> opt_str_arg a2;
                disabled_only \<leftarrow> opt_bool_arg a3;
                Some (mikrotik_list_queue_tree exec name_filter parent_filter disabled_only sent) }) sent
     | _ \<Rightarrow> (Inl Outside_Schema, sent))"

definition call_mikrotik_remove_queue_tree :: callee where
  "call_mikrotik_remove_queue_tree exec vs sent =
    (case vs of
       [a1] \<Rightarrow>
         returned (
           do { name \<leftarrow> str_arg a1;
                Some (mikrotik_remove_queue_tree exec name sent) }) sent
     | _ \<Rightarrow> (Inl Outside_Schema, sent))"

definition call_mikrotik_list_queue_types :: callee where
  "call_mikrotik_list_queue_types exec vs sent =
    (case vs of
       [] \<Rightarrow>
         returned (
           do {
                Some (mikrotik_list_queue_types exec sent) }) sent
     | _ \<Rightarrow> (Inl Outside_Schema, sent))"

definition call_mikrotik_create_queue_type :: callee where
  "call_mikrotik_create_queue_type exec vs sent =
    (case vs of
       [a1, a2, a3, a4, a5, a6] \<Rightarrow>
         returned (
           do { name \<leftarrow> str_arg a1; kind \<leftarrow> str_arg a2;
                pcq_rate \<leftarrow> opt_str_arg a3; pcq_limit \<leftarrow> opt_str_arg a4;
                pcq_classifier \<leftarrow> opt_str_arg a5;
                pcq_total_limit \<leftarrow> opt_str_arg a6;
                Some (mikrotik_create_queue_type exec name kind pcq_rate pcq_limit pcq_classifier
                     pcq_total_limit sent) }) sent
     | _ \<Rightarrow> (Inl Outside_Schema, sent))"

definition call_mikrotik_remove_queue_type :: callee where
  "call_mikrotik_remove_queue_type exec vs sent =
    (case vs of
       [a1] \<Rightarrow>
         returned (
           do { name \<leftarrow> str_arg a1;
                Some (mikrotik_remove_queue_type exec name sent) }) sent
     | _ \<Rightarrow> (Inl Outside_Schema, sent))"

definition call_mikrotik_reset_queue_counters :: callee where
  "call_mikrotik_reset_queue_counters exec vs sent =
    (case vs of
       [] \<Rightarrow>
         returned (
           do {
                Some (mikrotik_reset_queue_counters exec sent) }) sent
     | _ \<Rightarrow> (Inl Outside_Schema, sent))"

definition call_mikrotik_create_bgp_instance :: callee where
  "call_mikrotik_create_bgp_instance exec vs sent =
    (case vs of
       [a1, a2, a3, a4, a5, a6, a7, a8, a9] \<Rightarrow>
         returned (
           do { name \<leftarrow> str_arg a1; as_number \<leftarrow> int_arg a2;
                router_id \<leftarrow> opt_str_arg a3;
                redistribute_connected \<leftarrow> opt_bool_arg a4;
                redistribute_static \<leftarrow> opt_bool_arg a5;
                redistribute_ospf \<leftarrow> opt_bool_arg a6;
                client_to_client_reflection \<leftarrow> opt_bool_arg a7;
                comment \<leftarrow> opt_str_arg a8; disabled \<leftarrow> opt_bool_arg a9;
                Some (mikrotik_create_bgp_instance exec name as_number router_id
                     redistribute_connected redistribute_static redistribute_ospf
                     client_to_client_reflection comment disabled sent) }) sent
     | _ \<Rightarrow> (Inl Outside_Schema, sent))"

definition call_mikrotik_list_bgp_instances :: callee where
  "call_mikrotik_list_bgp_instances exec vs sent =
    (case vs of
       [] \<Rightarrow>
         returned (
           do {
                Some (mikrotik_list_bgp_instances exec sent) }) sent
     | _ \<Rightarrow> (Inl Outside_Schema, sent))"

definition call_mikrotik_remove_bgp_instance :: callee where
  "call_mikrotik_remove_bgp_instance exec vs sent =
    (case vs of
       [a1] \<Rightarrow>
         returned (
           do { name \<leftarrow> str_arg a1;
                Some (mikrotik_remove_bgp_instance exec name sent) }) sent
     | _ \<Rightarrow> (Inl Outside_Schema, sent))"

definition call_mikrotik_add_bgp_peer :: callee where
  "call_mikrotik_add_bgp_peer exec vs sent =
    (case vs of
       [a1, a2, a3, a4, a5, a6, a7, a8, a9, a10, a11, a12] \<Rightarrow>
         returned (
           do { name \<leftarrow> str_arg a1; instance \<leftarrow> str_arg a2;
                remote_address \<leftarrow> str_arg a3; remote_as \<leftarrow> int_arg a4;
                ttl \<leftarrow> opt_int_arg a5; multihop \<leftarrow> opt_bool_arg a6;
                route_reflect \<leftarrow> opt_bool_arg a7;
                hold_time \<leftarrow> opt_str_arg a8; tcp_md5_key \<leftarrow> opt_str_arg a9;
                update_source \<leftarrow> opt_str_arg a10;
                comment \<leftarrow> opt_str_arg a11; disabled \<leftarrow> opt_bool_arg a12;
                Some (mikrotik_add_bgp_peer exec name instance remote_address remote_as ttl multihop
                     route_reflect hold_time tcp_md5_key update_source comment
                     disabled sent) }) sent
     | _ \<Rightarrow> (Inl Outside_Schema, sent))"

definition call_mikrotik_list_bgp_peers :: callee where
  "call_mikrotik_list_bgp_peers exec vs sent =
    (case vs of
       [] \<Rightarrow>
         returned (
           do {
                Some (mikrotik_list_bgp_peers exec sent) }) sent
     | _ \<Rightarrow> (Inl Outside_Schema, sent))"

definition call_mikrotik_remove_bgp_peer :: callee where
  "call_mikrotik_remove_bgp_peer exec vs sent =
    (case vs of
       [a1] \<Rightarrow>
         returned (
           do { name \<leftarrow> str_arg a1;
                Some (mikrotik_remove_bgp_peer exec name sent) }) sent
     | _ \<Rightarrow> (Inl Outside_Schema, sent))"

definition call_mikrotik_list_bgp_advertisements :: callee where
  "call_mikrotik_list_bgp_advertisements exec vs sent =
    (case vs of
       [] \<Rightarrow>
         returned (
           do {
                Some (mikrotik_list_bgp_advertisements exec sent) }) sent
     | _ \<Rightarrow> (Inl Outside_Schema, sent))"

definition call_mikrotik_create_ospf_instance :: callee where
  "call_mikrotik_create_ospf_instance exec vs sent =
    (case vs of
       [a1, a2, a3, a4, a5, a6, a7] \<Rightarrow>
         returned (
           do { name \<leftarrow> str_arg a1; router_id \<leftarrow> opt_str_arg a2;
                redistribute_connected \<leftarrow> opt_bool_arg a3;
                redistribute_static \<leftarrow> opt_bool_arg a4;
                redistribute_bgp \<leftarrow> opt_bool_arg a5;
                comment \<leftarrow> opt_str_arg a6; disabled \<leftarrow> opt_bool_arg a7;
                Some (mikrotik_create_ospf_instance exec name router_id redistribute_connected
                     redistribute_static redistribute_bgp comment disabled sent) }) sent
     | _ \<Rightarrow> (Inl Outside_Schema, sent))"

definition call_mikrotik_list_ospf_instances :: callee where
  "call_mikrotik_list_ospf_instances exec vs sent =
    (case vs of
       [] \<Rightarrow>
         returned (
           do {
                Some (mikrotik_list_ospf_instances exec sent) }) sent
     | _ \<Rightarrow> (Inl Outside_Schema, sent))"

definition call_mikrotik_remove_ospf_instance :: callee where
  "call_mikrotik_remove_ospf_instance exec vs sent =
    (case vs of
       [a1] \<Rightarrow>
         returned (
           do { name \<leftarrow> str_arg a1;
                Some (mikrotik_remove_ospf_instance exec name sent) }) sent
     | _ \<Rightarrow> (Inl Outside_Schema, sent))"

definition call_mikrotik_add_ospf_area :: callee where
  "call_mikrotik_add_ospf_area exec vs sent =
    (case vs of
       [a1, a2, a3, a4, a5, a6] \<Rightarrow>
         returned (
           do { name \<leftarrow> str_arg a1; area_id \<leftarrow> str_arg a2;
                instance \<leftarrow> opt_str_arg a3; type \<leftarrow> opt_str_arg a4;
                comment \<leftarrow> opt_str_arg a5; disabled \<leftarrow> opt_bool_arg a6;
                Some (mikrotik_add_ospf_area exec name area_id instance type comment disabled sent) }) sent
     | _ \<Rightarrow> (Inl Outside_Schema, sent))"

definition call_mikrotik_list_ospf_areas :: callee where
  "call_mikrotik_list_ospf_areas exec vs sent =
    (case vs of
       [] \<Rightarrow>
         returned (
           do {
                Some (mikrotik_list_ospf_areas exec sent) }) sent
     | _ \<Rightarrow> (Inl Outside_Schema, sent))"

definition call_mikrotik_add_ospf_network :: callee where
  "call_mikrotik_add_ospf_network exec vs sent =
    (case vs of
       [a1, a2, a3, a4] \<Rightarrow>
         returned (
           do { network \<leftarrow> str_arg a1; area \<leftarrow> str_arg a2;
                comment \<leftarrow> opt_str_arg a3; disabled \<leftarrow> opt_bool_arg a4;
                Some (mikrotik_add_ospf_network exec network area comment disabled sent) }) sent
     | _ \<Rightarrow> (Inl Outside_Schema, sent))"

definition call_mikrotik_list_ospf_networks :: callee where
  "call_mikrotik_list_ospf_networks exec vs sent =
    (case vs of
       [] \<Rightarrow>
         returned (
           do {
                Some (mikrotik_list_ospf_networks exec sent) }) sent
     | _ \<Rightarrow> (Inl Outside_Schema, sent))"

definition call_mikrotik_list_ospf_neighbors :: callee where
  "call_mikrotik_list_ospf_neighbors exec vs sent =
    (case vs of
       [] \<Rightarrow>
         returned (
           do {
                Some (mikrotik_list_ospf_neighbors exec sent) }) sent
     | _ \<Rightarrow> (Inl Outside_Schema, sent))"

definition call_mikrotik_add_ospf_interface :: callee where
  "call_mikrotik_add_ospf_interface exec vs sent =
    (case vs of
       [a1, a2, a3, a4, a5, a6, a7, a8] \<Rightarrow>
         returned (
           do { interface \<leftarrow> str_arg a1; network_type \<leftarrow> opt_str_arg a2;
                priority \<leftarrow> opt_int_arg a3; cost \<leftarrow> opt_int_arg a4;
                authentication \<leftarrow> opt_str_arg a5;
                authentication_key \<leftarrow> opt_str_arg a6;
                comment \<leftarrow> opt_str_arg a7; disabled \<leftarrow> opt_bool_arg a8;
                Some (mikrotik_add_ospf_interface exec interface network_type priority cost
                     authentication authentication_key comment disabled sent) }) sent
     | _ \<Rightarrow> (Inl Outside_Schema, sent))"

definition call_mikrotik_list_ospf_interfaces :: callee where
  "call_mikrotik_list_ospf_interfaces exec vs sent =
    (case vs of
       [] \<Rightarrow>
         returned (
           do {
                Some (mikrotik_list_ospf_interfaces exec sent) }) sent
     | _ \<Rightarrow> (Inl Outside_Schema, sent))"

definition call_mikrotik_create_rip_instance :: callee where
  "call_mikrotik_create_rip_instance exec vs sent =
    (case vs of
       [a1, a2, a3, a4, a5, a6, a7] \<Rightarrow>
         returned (
           do { name \<leftarrow> str_arg a1;
                redistribute_connected \<leftarrow> opt_bool_arg a2;
                redistribute_static \<leftarrow> opt_bool_arg a3;
                redistribute_ospf \<leftarrow> opt_bool_arg a4;
                redistribute_bgp \<leftarrow> opt_bool_arg a5;
                comment \<leftarrow> opt_str_arg a6; disabled \<leftarrow> opt_bool_arg a7;
                Some (mikrotik_create_rip_instance exec name redistribute_connected
                     redistribute_static redistribute_ospf redistribute_bgp comment
                     disabled sent) }) sent
     | _ \<Rightarrow> (Inl Outside_Schema, sent))"

definition call_mikrotik_list_rip_instances :: callee where
  "call_mikrotik_list_rip_instances exec vs sent =
    (case vs of
       [] \<Rightarrow>
         returned (
           do {
                Some (mikrotik_list_rip_instances exec sent) }) sent
     | _ \<Rightarrow> (Inl Outside_Schema, sent))"

definition call_mikrotik_remove_rip_instance :: callee where
  "call_mikrotik_remove_rip_instance exec vs sent =
    (case vs of
       [a1] \<Rightarrow>
         returned (
           do { name \<leftarrow> str_arg a1;
                Some (mikrotik_remove_rip_instance exec name sent) }) sent
     | _ \<Rightarrow> (Inl Outside_Schema, sent))"

definition call_mikrotik_add_rip_network :: callee where
  "call_mikrotik_add_rip_network exec vs sent =
    (case vs of
       [a1, a2, a3, a4] \<Rightarrow>
         returned (
           do { network \<leftarrow> str_arg a1; instance \<leftarrow> opt_str_arg a2;
                comment \<leftarrow> opt_str_arg a3; disabled \<leftarrow> opt_bool_arg a4;
                Some (mikrotik_add_rip_network exec network instance comment disabled sent) }) sent
     | _ \<Rightarrow> (Inl Outside_Schema, sent))"

definition call_mikrotik_list_rip_networks :: callee where
  "call_mikrotik_list_rip_networks exec vs sent =
    (case vs of
       [] \<Rightarrow>
         returned (
           do {
                Some (mikrotik_list_rip_networks exec sent) }) sent
     | _ \<Rightarrow> (Inl Outside_Schema, sent))"

definition call_mikrotik_add_rip_interface :: callee where
  "call_mikrotik_add_rip_interface exec vs sent =
    (case vs of
       [a1, a2, a3, a4, a5, a6, a7] \<Rightarrow>
         returned (
           do { interface \<leftarrow> str_arg a1; receive \<leftarrow> opt_str_arg a2;
                send \<leftarrow> opt_str_arg a3; authentication \<leftarrow> opt_str_arg a4;
                authentication_key \<leftarrow> opt_str_arg a5;
                comment \<leftarrow> opt_str_arg a6; disabled \<leftarrow> opt_bool_arg a7;
                Some (mikrotik_add_rip_interface exec interface receive send authentication
                     authentication_key comment disabled sent) }) sent
     | _ \<Rightarrow> (Inl Outside_Schema, sent))"

definition call_mikrotik_list_rip_interfaces :: callee where
  "call_mikrotik_list_rip_interfaces exec vs sent =
    (case vs of
       [] \<Rightarrow>
         returned (
           do {
                Some (mikrotik_list_rip_interfaces exec sent) }) sent
     | _ \<Rightarrow> (Inl Outside_Schema, sent))"

definition call_mikrotik_list_rip_neighbors :: callee where
  "call_mikrotik_list_rip_neighbors exec vs sent =
    (case vs of
       [] \<Rightarrow>
         returned (
           do {
                Some (mikrotik_list_rip_neighbors exec sent) }) sent
     | _ \<Rightarrow> (Inl Outside_Schema, sent))"

definition call_mikrotik_get_system_resource :: callee where
  "call_mikrotik_get_system_resource exec vs sent =
    (case vs of
       [] \<Rightarrow>
         returned (
           do {
                Some (mikrotik_get_system_resource exec sent) }) sent
     | _ \<Rightarrow> (Inl Outside_Schema, sent))"

definition call_mikrotik_get_system_health :: callee where
  "call_mikrotik_get_system_health exec vs sent =
    (case vs of
       [] \<Rightarrow>
         returned (
           do {
                Some (mikrotik_get_system_health exec sent) }) sent
     | _ \<Rightarrow> (Inl Outside_Schema, sent))"

definition call_mikrotik_get_system_identity :: callee where
  "call_mikrotik_get_system_identity exec vs sent =
    (case vs of
       [] \<Rightarrow>
         returned (
           do {
                Some (mikrotik_get_system_identity exec sent) }) sent
     | _ \<Rightarrow> (Inl Outside_Schema, sent))"

definition call_mikrotik_set_system_identity :: callee where
  "call_mikrotik_set_system_identity exec vs sent =
    (case vs of
       [a1] \<Rightarrow>
         returned (
           do { name \<leftarrow> str_arg a1;
                Some (mikrotik_set_system_identity exec name sent) }) sent
     | _ \<Rightarrow> (Inl Outside_Schema, sent))"

definition call_mikrotik_get_system_clock :: callee where
  "call_mikrotik_get_system_clock exec vs sent =
    (case vs of
       [] \<Rightarrow>
         returned (
           do {
                Some (mikrotik_get_system_clock exec sent) }) sent
     | _ \<Rightarrow> (Inl Outside_Schema, sent))"

definition call_mikrotik_set_system_clock :: callee where
  "call_mikrotik_set_system_clock exec vs sent =
    (case vs of
       [a1, a2] \<Rightarrow>
         returned (
           do { time_zone_name \<leftarrow> opt_str_arg a1;
                time_zone_autodetect \<leftarrow> opt_bool_arg a2;
                Some (mikrotik_set_system_clock exec time_zone_name time_zone_autodetect sent) }) sent
     | _ \<Rightarrow> (Inl Outside_Schema, sent))"

definition call_mikrotik_get_ntp_client :: callee where
  "call_mikrotik_get_ntp_client exec vs sent =
    (case vs of
       [] \<Rightarrow>
         returned (
           do {
                Some (mikrotik_get_ntp_client exec sent) }) sent
     | _ \<Rightarrow> (Inl Outside_Schema, sent))"

definition call_mikrotik_set_ntp_client :: callee where
  "call_mikrotik_set_ntp_client exec vs sent =
    (case vs of
       [a1, a2, a3] \<Rightarrow>
         returned (
           do { enabled \<leftarrow> opt_bool_arg a1; servers \<leftarrow> opt_strs_arg a2;
                mode \<leftarrow> opt_str_arg a3;
                Some (mikrotik_set_ntp_client exec enabled servers mode sent) }) sent
     | _ \<Rightarrow> (Inl Outside_Schema, sent))"

definition call_mikrotik_system_reboot :: callee where
  "call_mikrotik_system_reboot exec vs sent =
    (case vs of
       [] \<Rightarrow>
         returned (
           do {
                Some (mikrotik_system_reboot exec sent) }) sent
     | _ \<Rightarrow> (Inl Outside_Schema, sent))"

definition call_mikrotik_system_shutdown :: callee where
  "call_mikrotik_system_shutdown exec vs sent =
    (case vs of
       [] \<Rightarrow>
         returned (
           do {
                Some (mikrotik_system_shutdown exec sent) }) sent
     | _ \<Rightarrow> (Inl Outside_Schema, sent))"

definition call_mikrotik_list_packages :: callee where
  "call_mikrotik_list_packages exec vs sent =
    (case vs of
       [] \<Rightarrow>
         returned (
           do {
                Some (mikrotik_list_packages exec sent) }) sent
     | _ \<Rightarrow> (Inl Outside_Schema, sent))"

definition call_mikrotik_enable_package :: callee where
  "call_mikrotik_enable_package exec vs sent =
    (case vs of
       [a1] \<Rightarrow>
         returned (
           do { package_name \<leftarrow> str_arg a1;
                Some (mikrotik_enable_package exec package_name sent) }) sent
     | _ \<Rightarrow> (Inl Outside_Schema, sent))"

definition call_mikrotik_disable_package :: callee where
  "call_mikrotik_disable_package exec vs sent =
    (case vs of
       [a1] \<Rightarrow>
         returned (
           do { package_name \<leftarrow> str_arg a1;
                Some (mikrotik_disable_package exec package_name sent) }) sent
     | _ \<Rightarrow> (Inl Outside_Schema, sent))"

definition call_mikrotik_list_scheduler :: callee where
  "call_mikrotik_list_scheduler exec vs sent =
    (case vs of
       [] \<Rightarrow>
         returned (
           do {
                Some (mikrotik_list_scheduler exec sent) }) sent
     | _ \<Rightarrow> (Inl Outside_Schema, sent))"

definition call_mikrotik_add_scheduler :: callee where
  "call_mikrotik_add_scheduler exec vs sent =
    (case vs of
       [a1, a2, a3, a4, a5, a6, a7, a8] \<Rightarrow>
         returned (
           do { name \<leftarrow> str_arg a1; on_event \<leftarrow> str_arg a2;
                start_date \<leftarrow> opt_str_arg a3; start_time \<leftarrow> opt_str_arg a4;
                interval \<leftarrow> opt_str_arg a5; policy \<leftarrow> opt_str_arg a6;
                comment \<leftarrow> opt_str_arg a7; disabled \<leftarrow> opt_bool_arg a8;
                Some (mikrotik_add_scheduler exec name on_event start_date start_time interval
                     policy comment disabled sent) }) sent
     | _ \<Rightarrow> (Inl Outside_Schema, sent))"

definition call_mikrotik_remove_scheduler :: callee where
  "call_mikrotik_remove_scheduler exec vs sent =
    (case vs of
       [a1] \<Rightarrow>
         returned (
           do { name \<leftarrow> str_arg a1;
                Some (mikrotik_remove_scheduler exec name sent) }) sent
     | _ \<Rightarrow> (Inl Outside_Schema, sent))"

definition call_mikrotik_list_scripts :: callee where
  "call_mikrotik_list_scripts exec vs sent =
    (case vs of
       [] \<Rightarrow>
         returned (
           do {
                Some (mikrotik_list_scripts exec sent) }) sent
     | _ \<Rightarrow> (Inl Outside_Schema, sent))"

definition call_mikrotik_add_script :: callee where
  "call_mikrotik_add_script exec vs sent =
    (case vs of
       [a1, a2, a3, a4, a5] \<Rightarrow>
         returned (
           do { name \<leftarrow> str_arg a1; source \<leftarrow> str_arg a2;
                policy \<leftarrow> opt_str_arg a3; comment \<leftarrow> opt_str_arg a4;
                dont_require_permissions \<leftarrow> opt_bool_arg a5;
                Some (mikrotik_add_script exec name source policy comment dont_require_permissions
                     sent) }) sent
     | _ \<Rightarrow> (Inl Outside_Schema, sent))"

definition call_mikrotik_run_script :: callee where
  "call_mikrotik_run_script exec vs sent =
    (case vs of
       [a1] \<Rightarrow>
         returned (
           do { name \<leftarrow> str_arg a1;
                Some (mikrotik_run_script exec name sent) }) sent
     | _ \<Rightarrow> (Inl Outside_Schema, sent))"

definition call_mikrotik_remove_script :: callee where
  "call_mikrotik_remove_script exec vs sent =
    (case vs of
       [a1] \<Rightarrow>
         returned (
           do { name \<leftarrow> str_arg a1;
                Some (mikrotik_remove_script exec name sent) }) sent
     | _ \<Rightarrow> (Inl Outside_Schema, sent))"

definition call_mikrotik_get_system_routerboard :: callee where
  "call_mikrotik_get_system_routerboard exec vs sent =
    (case vs of
       [] \<Rightarrow>
         returned (
           do {
                Some (mikrotik_get_system_routerboard exec sent) }) sent
     | _ \<Rightarrow> (Inl Outside_Schema, sent))"

definition call_mikrotik_get_system_license :: callee where
  "call_mikrotik_get_system_license exec vs sent =
    (case vs of
       [] \<Rightarrow>
         returned (
           do {
                Some (mikrotik_get_system_license exec sent) }) sent
     | _ \<Rightarrow> (Inl Outside_Schema, sent))"

definition call_mikrotik_get_system_history :: callee where
  "call_mikrotik_get_system_history exec vs sent =
    (case vs of
       [] \<Rightarrow>
         returned (
           do {
                Some (mikrotik_get_system_history exec sent) }) sent
     | _ \<Rightarrow> (Inl Outside_Schema, sent))"

subsection \<open>Tool declarations and dispatch tables\<close>

text \<open>\<^verbatim>\<open>tools/bridge_tools.py\<close>\<close>

definition get_bridge_tools :: "tool list" where
  "get_bridge_tools =
    [\<lparr>tool_name = ''mikrotik_create_bridge'',
      properties =
        [(''name'', JString), (''mtu'', JInteger), (''arp'', JString),
         (''arp_timeout'', JString), (''ageing_time'', JString), (''priority'', JInteger),
         (''protocol_mode'', JString), (''vlan_filtering'', JBoolean),
         (''comment'', JString), (''disabled'', JBoolean)],
      required = [''name'']\<rparr>,
     \<lparr>tool_name = ''mikrotik_list_bridges'',
      properties =
        [(''name_filter'', JString), (''disabled_only'', JBoolean)],
      required = []\<rparr>,
     \<lparr>tool_name = ''mikrotik_remove_bridge'',
      properties =
        [(''name'', JString)],
      required = [''name'']\<rparr>,
     \<lparr>tool_name = ''mikrotik_add_bridge_port'',
      properties =
        [(''bridge'', JString), (''interface'', JString), (''pvid'', JInteger),
         (''priority'', JInteger), (''path_cost'', JInteger), (''edge'', JBoolean),
         (''point_to_point'', JString), (''horizon'', JInteger), (''comment'', JString),
         (''disabled'', JBoolean)],
      required = [''bridge'', ''interface'']\<rparr>,
     \<lparr>tool_name = ''mikrotik_list_bridge_ports'',
      properties =
        [(''bridge_filter'', JString), (''interface_filter'', JString)],
      required = []\<rparr>,
     \<lparr>tool_name = ''mikrotik_remove_bridge_port'',
      properties =
        [(''interface'', JString)],
      required = [''interface'']\<rparr>,
     \<lparr>tool_name = ''mikrotik_add_bridge_vlan'',
      properties =
        [(''bridge'', JString), (''vlan_ids'', JString), (''tagged'', JString),
         (''untagged'', JString), (''comment'', JString), (''disabled'', JBoolean)],
      required = [''bridge'', ''vlan_ids'']\<rparr>,
     \<lparr>tool_name = ''mikrotik_list_bridge_vlans'',
      properties =
        [(''bridge_filter'', JString)],
      required = []\<rparr>,
     \<lparr>tool_name = ''mikrotik_get_bridge_host'',
      properties =
        [(''bridge_filter'', JString)],
      required = []\<rparr>]"

definition get_bridge_handlers :: "(string \<times> handler) list" where
  "get_bridge_handlers =
    [(''mikrotik_create_bridge'',
      ([Subscript ''name'', Get ''mtu'', Get ''arp'', Get ''arp_timeout'',
        Get ''ageing_time'', Get ''priority'', Get ''protocol_mode'',
        Get ''vlan_filtering'', Get ''comment'', Get ''disabled''],
       call_mikrotik_create_bridge)),
     (''mikrotik_list_bridges'',
      ([Get ''name_filter'', Get ''disabled_only''],
       call_mikrotik_list_bridges)),
     (''mikrotik_remove_bridge'', ([Subscript ''name''], call_mikrotik_remove_bridge)),
     (''mikrotik_add_bridge_port'',
      ([Subscript ''bridge'', Subscript ''interface'', Get ''pvid'', Get ''priority'',
        Get ''path_cost'', Get ''edge'', Get ''point_to_point'', Get ''horizon'',
        Get ''comment'', Get ''disabled''],
       call_mikrotik_add_bridge_port)),
     (''mikrotik_list_bridge_ports'',
      ([Get ''bridge_filter'', Get ''interface_filter''],
       call_mikrotik_list_bridge_ports)),
     (''mikrotik_remove_bridge_port'', ([Subscript ''interface''], call_mikrotik_remove_bridge_port)),
     (''mikrotik_add_bridge_vlan'',
      ([Subscript ''bridge'', Subscript ''vlan_ids'', Get ''tagged'', Get ''untagged'',
        Get ''comment'', Get ''disabled''],
       call_mikrotik_add_bridge_vlan)),
     (''mikrotik_list_bridge_vlans'', ([Get ''bridge_filter''], call_mikrotik_list_bridge_vlans)),
     (''mikrotik_get_bridge_host'', ([Get ''bridge_filter''], call_mikrotik_get_bridge_host))]"

text \<open>\<^verbatim>\<open>tools/hotspot_tools.py\<close>\<close>

definition get_hotspot_tools :: "tool list" where
  "get_hotspot_tools =
    [\<lparr>tool_name = ''mikrotik_create_hotspot_server'',
      properties =
        [(''name'', JString), (''interface'', JString), (''address_pool'', JString),
         (''profile'', JString), (''disabled'', JBoolean)],
      required = [''name'', ''interface'', ''address_pool'']\<rparr>,
     \<lparr>tool_name = ''mikrotik_list_hotspot_servers'', properties = [], required = []\<rparr>,
     \<lparr>tool_name = ''mikrotik_list_hotspot_users'', properties = [], required = []\<rparr>,
     \<lparr>tool_name = ''mikrotik_add_hotspot_user'',
      properties =
        [(''name'', JString), (''password'', JString), (''profile'', JString),
         (''limit_uptime'', JString), (''limit_bytes_total'', JString),
         (''comment'', JString), (''disabled'', JBoolean)],
      required = [''name'', ''password'']\<rparr>,
     \<lparr>tool_name = ''mikrotik_remove_hotspot_user'',
      properties =
        [(''name'', JString)],
      required = [''name'']\<rparr>,
     \<lparr>tool_name = ''mikrotik_list_hotspot_active'', properties = [], required = []\<rparr>,
     \<lparr>tool_name = ''mikrotik_remove_hotspot_active'',
      properties =
        [(''user'', JString)],
      required = [''user'']\<rparr>]"

definition get_hotspot_handlers :: "(string \<times> handler) list" where
  "get_hotspot_handlers =
    [(''mikrotik_create_hotspot_server'',
      ([Subscript ''name'', Subscript ''interface'', Subscript ''address_pool'',
        Get ''profile'', Get ''disabled''],
       call_mikrotik_create_hotspot_server)),
     (''mikrotik_list_hotspot_servers'', ([], call_mikrotik_list_hotspot_servers)),
     (''mikrotik_list_hotspot_users'', ([], call_mikrotik_list_hotspot_users)),
     (''mikrotik_add_hotspot_user'',
      ([Subscript ''name'', Subscript ''password'', Get ''profile'', Get ''limit_uptime'',
        Get ''limit_bytes_total'', Get ''comment'', Get ''disabled''],
       call_mikrotik_add_hotspot_user)),
     (''mikrotik_remove_hotspot_user'', ([Subscript ''name''], call_mikrotik_remove_hotspot_user)),
     (''mikrotik_list_hotspot_active'', ([], call_mikrotik_list_hotspot_active)),
     (''mikrotik_remove_hotspot_active'', ([Subscript ''user''], call_mikrotik_remove_hotspot_active))]"

text \<open>\<^verbatim>\<open>tools/pppoe_tools.py\<close>\<close>

definition get_pppoe_tools :: "tool list" where
  "get_pppoe_tools =
    [\<lparr>tool_name = ''mikrotik_create_pppoe_server'',
      properties =
        [(''service_name'', JString), (''interface'', JString),
         (''default_profile'', JString), (''authentication'', JString),
         (''keepalive_timeout'', JInteger), (''max_mtu'', JInteger),
         (''max_mru'', JInteger), (''one_session_per_host'', JBoolean),
         (''disabled'', JBoolean)],
      required = [''service_name'', ''interface'']\<rparr>,
     \<lparr>tool_name = ''mikrotik_list_pppoe_servers'', properties = [], required = []\<rparr>,
     \<lparr>tool_name = ''mikrotik_remove_pppoe_server'',
      properties =
        [(''service_name'', JString)],
      required = [''service_name'']\<rparr>,
     \<lparr>tool_name = ''mikrotik_add_ppp_secret'',
      properties =
        [(''name'', JString), (''password'', JString), (''service'', JString),
         (''profile'', JString), (''local_address'', JString),
         (''remote_address'', JString), (''routes'', JString),
         (''limit_bytes_in'', JString), (''limit_bytes_out'', JString),
         (''comment'', JString), (''disabled'', JBoolean)],
      required = [''name'', ''password'']\<rparr>,
     \<lparr>tool_name = ''mikrotik_list_ppp_secrets'',
      properties =
        [(''service_filter'', JString), (''disabled_only'', JBoolean)],
      required = []\<rparr>,
     \<lparr>tool_name = ''mikrotik_remove_ppp_secret'',
      properties =
        [(''name'', JString)],
      required = [''name'']\<rparr>,
     \<lparr>tool_name = ''mikrotik_list_ppp_active'', properties = [], required = []\<rparr>,
     \<lparr>tool_name = ''mikrotik_disconnect_ppp_active'',
      properties =
        [(''name'', JString)],
      required = [''name'']\<rparr>,
     \<lparr>tool_name = ''mikrotik_create_ppp_profile'',
      properties =
        [(''name'', JString), (''local_address'', JString), (''remote_address'', JString),
         (''dns_server'', JString), (''wins_server'', JString),
         (''use_compression'', JBoolean), (''use_encryption'', JBoolean),
         (''only_one'', JBoolean), (''rate_limit'', JString), (''comment'', JString)],
      required = [''name'']\<rparr>,
     \<lparr>tool_name = ''mikrotik_list_ppp_profiles'', properties = [], required = []\<rparr>,
     \<lparr>tool_name = ''mikrotik_remove_ppp_profile'',
      properties =
        [(''name'', JString)],
      required = [''name'']\<rparr>,
     \<lparr>tool_name = ''mikrotik_create_pppoe_client'',
      properties =
        [(''name'', JString), (''interface'', JString), (''user'', JString),
         (''password'', JString), (''service_name'', JString),
         (''add_default_route'', JBoolean), (''use_peer_dns'', JBoolean),
         (''profile'', JString), (''comment'', JString), (''disabled'', JBoolean)],
      required = [''name'', ''interface'', ''user'', ''password'']\<rparr>,
     \<lparr>tool_name = ''mikrotik_list_pppoe_clients'', properties = [], required = []\<rparr>,
     \<lparr>tool_name = ''mikrotik_remove_pppoe_client'',
      properties =
        [(''name'', JString)],
      required = [''name'']\<rparr>]"

definition get_pppoe_handlers :: "(string \<times> handler) list" where
  "get_pppoe_handlers =
    [(''mikrotik_create_pppoe_server'',
      ([Subscript ''service_name'', Subscript ''interface'', Get ''default_profile'',
        Get ''authentication'', Get ''keepalive_timeout'', Get ''max_mtu'',
        Get ''max_mru'', Get ''one_session_per_host'', Get ''disabled''],
       call_mikrotik_create_pppoe_server)),
     (''mikrotik_list_pppoe_servers'', ([], call_mikrotik_list_pppoe_servers)),
     (''mikrotik_remove_pppoe_server'', ([Subscript ''service_name''], call_mikrotik_remove_pppoe_server)),
     (''mikrotik_add_ppp_secret'',
      ([Subscript ''name'', Subscript ''password'', Get ''service'', Get ''profile'',
        Get ''local_address'', Get ''remote_address'', Get ''routes'',
        Get ''limit_bytes_in'', Get ''limit_bytes_out'', Get ''comment'', Get ''disabled''],
       call_mikrotik_add_ppp_secret)),
     (''mikrotik_list_ppp_secrets'',
      ([Get ''service_filter'', Get ''disabled_only''],
       call_mikrotik_list_ppp_secrets)),
     (''mikrotik_remove_ppp_secret'', ([Subscript ''name''], call_mikrotik_remove_ppp_secret)),
     (''mikrotik_list_ppp_active'', ([], call_mikrotik_list_ppp_active)),
     (''mikrotik_disconnect_ppp_active'', ([Subscript ''name''], call_mikrotik_disconnect_ppp_active)),
     (''mikrotik_create_ppp_profile'',
      ([Subscript ''name'', Get ''local_address'', Get ''remote_address'',
        Get ''dns_server'', Get ''wins_server'', Get ''use_compression'',
        Get ''use_encryption'', Get ''only_one'', Get ''rate_limit'', Get ''comment''],
       call_mikrotik_create_ppp_profile)),
     (''mikrotik_list_ppp_profiles'', ([], call_mikrotik_list_ppp_profiles)),
     (''mikrotik_remove_ppp_profile'', ([Subscript ''name''], call_mikrotik_remove_ppp_profile)),
     (''mikrotik_create_pppoe_client'',
      ([Subscript ''name'', Subscript ''interface'', Subscript ''user'',
        Subscript ''password'', Get ''service_name'', Get ''add_default_route'',
        Get ''use_peer_dns'', Get ''profile'', Get ''comment'', Get ''disabled''],
       call_mikrotik_create_pppoe_client)),
     (''mikrotik_list_pppoe_clients'', ([], call_mikrotik_list_pppoe_clients)),
     (''mikrotik_remove_pppoe_client'', ([Subscript ''name''], call_mikrotik_remove_pppoe_client))]"

text \<open>\<^verbatim>\<open>tools/queue_tools.py\<close>\<close>

definition get_queue_tools :: "tool list" where
  "get_queue_tools =
    [\<lparr>tool_name = ''mikrotik_create_simple_queue'',
      properties =
        [(''name'', JString), (''target'', JString), (''max_limit'', JString),
         (''burst_limit'', JString), (''burst_threshold'', JString),
         (''burst_time'', JString), (''limit_at'', JString), (''priority'', JInteger),
         (''queue_type'', JString), (''parent'', JString), (''comment'', JString),
         (''disabled'', JBoolean)],
      required = [''name'', ''target'', ''max_limit'']\<rparr>,
     \<lparr>tool_name = ''mikrotik_list_simple_queues'',
      properties =
        [(''name_filter'', JString), (''target_filter'', JString),
         (''disabled_only'', JBoolean)],
      required = []\<rparr>,
     \<lparr>tool_name = ''mikrotik_remove_simple_queue'',
      properties =
        [(''name'', JString)],
      required = [''name'']\<rparr>,
     \<lparr>tool_name = ''mikrotik_enable_simple_queue'',
      properties =
        [(''name'', JString)],
      required = [''name'']\<rparr>,
     \<lparr>tool_name = ''mikrotik_disable_simple_queue'',
      properties =
        [(''name'', JString)],
      required = [''name'']\<rparr>,
     \<lparr>tool_name = ''mikrotik_create_queue_tree'',
      properties =
        [(''name'', JString), (''parent'', JString), (''max_limit'', JString),
         (''burst_limit'', JString), (''burst_threshold'', JString),
         (''burst_time'', JString), (''limit_at'', JString), (''priority'', JInteger),
         (''queue_type'', JString), (''packet_mark'', JString), (''comment'', JString),
         (''disabled'', JBoolean)],
      required = [''name'', ''parent'', ''max_limit'']\<rparr>,
     \<lparr>tool_name = ''mikrotik_list_queue_tree'',
      properties =
        [(''name_filter'', JString), (''parent_filter'', JString),
         (''disabled_only'', JBoolean)],
      required = []\<rparr>,
     \<lparr>tool_name = ''mikrotik_remove_queue_tree'',
      properties =
        [(''name'', JString)],
      required = [''name'']\<rparr>,
     \<lparr>tool_name = ''mikrotik_list_queue_types'', properties = [], required = []\<rparr>,
     \<lparr>tool_name = ''mikrotik_create_queue_type'',
      properties =
        [(''name'', JString), (''kind'', JString), (''pcq_rate'', JString),
         (''pcq_limit'', JString), (''pcq_classifier'', JString),
         (''pcq_total_limit'', JString)],
      required = [''name'', ''kind'']\<rparr>,
     \<lparr>tool_name = ''mikrotik_remove_queue_type'',
      properties =
        [(''name'', JString)],
      required = [''name'']\<rparr>,
     \<lparr>tool_name = ''mikrotik_reset_queue_counters'', properties = [], required = []\<rparr>]"

definition get_queue_handlers :: "(string \<times> handler) list" where
  "get_queue_handlers =
    [(''mikrotik_create_simple_queue'',
      ([Subscript ''name'', Subscript ''target'', Subscript ''max_limit'',
        Get ''burst_limit'', Get ''burst_threshold'', Get ''burst_time'', Get ''limit_at'',
        Get ''priority'', Get ''queue_type'', Get ''parent'', Get ''comment'',
        Get ''disabled''],
       call_mikrotik_create_simple_queue)),
     (''mikrotik_list_simple_queues'',
      ([Get ''name_filter'', Get ''target_filter'', Get ''disabled_only''],
       call_mikrotik_list_simple_queues)),
     (''mikrotik_remove_simple_queue'', ([Subscript ''name''], call_mikrotik_remove_simple_queue)),
     (''mikrotik_enable_simple_queue'', ([Subscript ''name''], call_mikrotik_enable_simple_queue)),
     (''mikrotik_disable_simple_queue'', ([Subscript ''name''], call_mikrotik_disable_simple_queue)),
     (''mikrotik_create_queue_tree'',
      ([Subscript ''name'', Subscript ''parent'', Subscript ''max_limit'',
        Get ''burst_limit'', Get ''burst_threshold'', Get ''burst_time'', Get ''limit_at'',
        Get ''priority'', Get ''queue_type'', Get ''packet_mark'', Get ''comment'',
        Get ''disabled''],
       call_mikrotik_create_queue_tree)),
     (''mikrotik_list_queue_tree'',
      ([Get ''name_filter'', Get ''parent_filter'', Get ''disabled_only''],
       call_mikrotik_list_queue_tree)),
     (''mikrotik_remove_queue_tree'', ([Subscript ''name''], call_mikrotik_remove_queue_tree)),
     (''mikrotik_list_queue_types'', ([], call_mikrotik_list_queue_types)),
     (''mikrotik_create_queue_type'',
      ([Subscript ''name'', Subscript ''kind'', Get ''pcq_rate'', Get ''pcq_limit'',
        Get ''pcq_classifier'', Get ''pcq_total_limit''],
       call_mikrotik_create_queue_type)),
     (''mikrotik_remove_queue_type'', ([Subscript ''name''], call_mikrotik_remove_queue_type)),
     (''mikrotik_reset_queue_counters'', ([], call_mikrotik_reset_queue_counters))]"

text \<open>\<^verbatim>\<open>tools/routing_advanced_tools.py\<close>\<close>

definition get_routing_advanced_tools :: "tool list" where
  "get_routing_advanced_tools =
    [\<lparr>tool_name = ''mikrotik_create_bgp_instance'',
      properties =
        [(''name'', JString), (''as_number'', JInteger), (''router_id'', JString),
         (''redistribute_connected'', JBoolean), (''redistribute_static'', JBoolean),
         (''redistribute_ospf'', JBoolean), (''client_to_client_reflection'', JBoolean),
         (''comment'', JString), (''disabled'', JBoolean)],
      required = [''name'', ''as_number'']\<rparr>,
     \<lparr>tool_name = ''mikrotik_list_bgp_instances'', properties = [], required = []\<rparr>,
     \<lparr>tool_name = ''mikrotik_remove_bgp_instance'',
      properties =
        [(''name'', JString)],
      required = [''name'']\<rparr>,
     \<lparr>tool_name = ''mikrotik_add_bgp_peer'',
      properties =
        [(''name'', JString), (''instance'', JString), (''remote_address'', JString),
         (''remote_as'', JInteger), (''ttl'', JInteger), (''multihop'', JBoolean),
         (''route_reflect'', JBoolean), (''hold_time'', JString),
         (''tcp_md5_key'', JString), (''update_source'', JString), (''comment'', JString),
         (''disabled'', JBoolean)],
      required = [''name'', ''instance'', ''remote_address'', ''remote_as'']\<rparr>,
     \<lparr>tool_name = ''mikrotik_list_bgp_peers'', properties = [], required = []\<rparr>,
     \<lparr>tool_name = ''mikrotik_remove_bgp_peer'',
      properties =
        [(''name'', JString)],
      required = [''name'']\<rparr>,
     \<lparr>tool_name = ''mikrotik_list_bgp_advertisements'', properties = [], required = []\<rparr>,
     \<lparr>tool_name = ''mikrotik_create_ospf_instance'',
      properties =
        [(''name'', JString), (''router_id'', JString),
         (''redistribute_connected'', JBoolean), (''redistribute_static'', JBoolean),
         (''redistribute_bgp'', JBoolean), (''comment'', JString), (''disabled'', JBoolean)],
      required = [''name'']\<rparr>,
     \<lparr>tool_name = ''mikrotik_list_ospf_instances'', properties = [], required = []\<rparr>,
     \<lparr>tool_name = ''mikrotik_remove_ospf_instance'',
      properties =
        [(''name'', JString)],
      required = [''name'']\<rparr>,
     \<lparr>tool_name = ''mikrotik_add_ospf_area'',
      properties =
        [(''name'', JString), (''area_id'', JString), (''instance'', JString),
         (''type'', JString), (''comment'', JString), (''disabled'', JBoolean)],
      required = [''name'', ''area_id'']\<rparr>,
     \<lparr>tool_name = ''mikrotik_list_ospf_areas'', properties = [], required = []\<rparr>,
     \<lparr>tool_name = ''mikrotik_add_ospf_network'',
      properties =
        [(''network'', JString), (''area'', JString), (''comment'', JString),
         (''disabled'', JBoolean)],
      required = [''network'', ''area'']\<rparr>,
     \<lparr>tool_name = ''mikrotik_list_ospf_networks'', properties = [], required = []\<rparr>,
     \<lparr>tool_name = ''mikrotik_list_ospf_neighbors'', properties = [], required = []\<rparr>,
     \<lparr>tool_name = ''mikrotik_add_ospf_interface'',
      properties =
        [(''interface'', JString), (''network_type'', JString), (''priority'', JInteger),
         (''cost'', JInteger), (''authentication'', JString),
         (''authentication_key'', JString), (''comment'', JString),
         (''disabled'', JBoolean)],
      required = [''interface'']\<rparr>,
     \<lparr>tool_name = ''mikrotik_list_ospf_interfaces'', properties = [], required = []\<rparr>,
     \<lparr>tool_name = ''mikrotik_create_rip_instance'',
      properties =
        [(''name'', JString), (''redistribute_connected'', JBoolean),
         (''redistribute_static'', JBoolean), (''redistribute_ospf'', JBoolean),
         (''redistribute_bgp'', JBoolean), (''comment'', JString), (''disabled'', JBoolean)],
      required = [''name'']\<rparr>,
     \<lparr>tool_name = ''mikrotik_list_rip_instances'', properties = [], required = []\<rparr>,
     \<lparr>tool_name = ''mikrotik_remove_rip_instance'',
      properties =
        [(''name'', JString)],
      required = [''name'']\<rparr>,
     \<lparr>tool_name = ''mikrotik_add_rip_network'',
      properties =
        [(''network'', JString), (''instance'', JString), (''comment'', JString),
         (''disabled'', JBoolean)],
      required = [''network'']\<rparr>,
     \<lparr>tool_name = ''mikrotik_list_rip_networks'', properties = [], required = []\<rparr>,
     \<lparr>tool_name = ''mikrotik_add_rip_interface'',
      properties =
        [(''interface'', JString), (''receive'', JString), (''send'', JString),
         (''authentication'', JString), (''authentication_key'', JString),
         (''comment'', JString), (''disabled'', JBoolean)],
      required = [''interface'']\<rparr>,
     \<lparr>tool_name = ''mikrotik_list_rip_interfaces'', properties = [], required = []\<rparr>,
     \<lparr>tool_name = ''mikrotik_list_rip_neighbors'', properties = [], required = []\<rparr>]"

definition get_routing_advanced_handlers :: "(string \<times> handler) list" where
  "get_routing_advanced_handlers =
    [(''mikrotik_create_bgp_instance'',
      ([Subscript ''name'', Subscript ''as_number'', Get ''router_id'',
        Get ''redistribute_connected'', Get ''redistribute_static'',
        Get ''redistribute_ospf'', Get ''client_to_client_reflection'', Get ''comment'',
        Get ''disabled''],
       call_mikrotik_create_bgp_instance)),
     (''mikrotik_list_bgp_instances'', ([], call_mikrotik_list_bgp_instances)),
     (''mikrotik_remove_bgp_instance'', ([Subscript ''name''], call_mikrotik_remove_bgp_instance)),
     (''mikrotik_add_bgp_peer'',
      ([Subscript ''name'', Subscript ''instance'', Subscript ''remote_address'',
        Subscript ''remote_as'', Get ''ttl'', Get ''multihop'', Get ''route_reflect'',
        Get ''hold_time'', Get ''tcp_md5_key'', Get ''update_source'', Get ''comment'',
        Get ''disabled''],
       call_mikrotik_add_bgp_peer)),
     (''mikrotik_list_bgp_peers'', ([], call_mikrotik_list_bgp_peers)),
     (''mikrotik_remove_bgp_peer'', ([Subscript ''name''], call_mikrotik_remove_bgp_peer)),
     (''mikrotik_list_bgp_advertisements'', ([], call_mikrotik_list_bgp_advertisements)),
     (''mikrotik_create_ospf_instance'',
      ([Subscript ''name'', Get ''router_id'', Get ''redistribute_connected'',
        Get ''redistribute_static'', Get ''redistribute_bgp'', Get ''comment'',
        Get ''disabled''],
       call_mikrotik_create_ospf_instance)),
     (''mikrotik_list_ospf_instances'', ([], call_mikrotik_list_ospf_instances)),
     (''mikrotik_remove_ospf_instance'', ([Subscript ''name''], call_mikrotik_remove_ospf_instance)),
     (''mikrotik_add_ospf_area'',
      ([Subscript ''name'', Subscript ''area_id'', Get ''instance'', Get ''type'',
        Get ''comment'', Get ''disabled''],
       call_mikrotik_add_ospf_area)),
     (''mikrotik_list_ospf_areas'', ([], call_mikrotik_list_ospf_areas)),
     (''mikrotik_add_ospf_network'',
      ([Subscript ''network'', Subscript ''area'', Get ''comment'', Get ''disabled''],
       call_mikrotik_add_ospf_network)),
     (''mikrotik_list_ospf_networks'', ([], call_mikrotik_list_ospf_networks)),
     (''mikrotik_list_ospf_neighbors'', ([], call_mikrotik_list_ospf_neighbors)),
     (''mikrotik_add_ospf_interface'',
      ([Subscript ''interface'', Get ''network_type'', Get ''priority'', Get ''cost'',
        Get ''authentication'', Get ''authentication_key'', Get ''comment'',
        Get ''disabled''],
       call_mikrotik_add_ospf_interface)),
     (''mikrotik_list_ospf_interfaces'', ([], call_mikrotik_list_ospf_interfaces)),
     (''mikrotik_create_rip_instance'',
      ([Subscript ''name'', Get ''redistribute_connected'', Get ''redistribute_static'',
        Get ''redistribute_ospf'', Get ''redistribute_bgp'', Get ''comment'',
        Get ''disabled''],
       call_mikrotik_create_rip_instance)),
     (''mikrotik_list_rip_instances'', ([], call_mikrotik_list_rip_instances)),
     (''mikrotik_remove_rip_instance'', ([Subscript ''name''], call_mikrotik_remove_rip_instance)),
     (''mikrotik_add_rip_network'',
      ([Subscript ''network'', Get ''instance'', Get ''comment'', Get ''disabled''],
       call_mikrotik_add_rip_network)),
     (''mikrotik_list_rip_networks'', ([], call_mikrotik_list_rip_networks)),
     (''mikrotik_add_rip_interface'',
      ([Subscript ''interface'', Get ''receive'', Get ''send'', Get ''authentication'',
        Get ''authentication_key'', Get ''comment'', Get ''disabled''],
       call_mikrotik_add_rip_interface)),
     (''mikrotik_list_rip_interfaces'', ([], call_mikrotik_list_rip_interfaces)),
     (''mikrotik_list_rip_neighbors'', ([], call_mikrotik_list_rip_neighbors))]"

text \<open>\<^verbatim>\<open>tools/system_tools.py\<close>\<close>

definition get_system_tools :: "tool list" where
  "get_system_tools =
    [\<lparr>tool_name = ''mikrotik_get_system_resource'', properties = [], required = []\<rparr>,
     \<lparr>tool_name = ''mikrotik_get_system_health'', properties = [], required = []\<rparr>,
     \<lparr>tool_name = ''mikrotik_get_system_identity'', properties = [], required = []\<rparr>,
     \<lparr>tool_name = ''mikrotik_set_system_identity'',
      properties =
        [(''name'', JString)],
      required = [''name'']\<rparr>,
     \<lparr>tool_name = ''mikrotik_get_system_clock'', properties = [], required = []\<rparr>,
     \<lparr>tool_name = ''mikrotik_set_system_clock'',
      properties =
        [(''time_zone_name'', JString), (''time_zone_autodetect'', JBoolean)],
      required = []\<rparr>,
     \<lparr>tool_name = ''mikrotik_get_ntp_client'', properties = [], required = []\<rparr>,
     \<lparr>tool_name = ''mikrotik_set_ntp_client'',
      properties =
        [(''enabled'', JBoolean), (''servers'', JArray), (''mode'', JString)],
      required = []\<rparr>,
     \<lparr>tool_name = ''mikrotik_system_reboot'', properties = [], required = []\<rparr>,
     \<lparr>tool_name = ''mikrotik_system_shutdown'', properties = [], required = []\<rparr>,
     \<lparr>tool_name = ''mikrotik_list_packages'', properties = [], required = []\<rparr>,
     \<lparr>tool_name = ''mikrotik_enable_package'',
      properties =
        [(''package_name'', JString)],
      required = [''package_name'']\<rparr>,
     \<lparr>tool_name = ''mikrotik_disable_package'',
      properties =
        [(''package_name'', JString)],
      required = [''package_name'']\<rparr>,
     \<lparr>tool_name = ''mikrotik_list_scheduler'', properties = [], required = []\<rparr>,
     \<lparr>tool_name = ''mikrotik_add_scheduler'',
      properties =
        [(''name'', JString), (''on_event'', JString), (''start_date'', JString),
         (''start_time'', JString), (''interval'', JString), (''policy'', JString),
         (''comment'', JString), (''disabled'', JBoolean)],
      required = [''name'', ''on_event'']\<rparr>,
     \<lparr>tool_name = ''mikrotik_remove_scheduler'',
      properties =
        [(''name'', JString)],
      required = [''name'']\<rparr>,
     \<lparr>tool_name = ''mikrotik_list_scripts'', properties = [], required = []\<rparr>,
     \<lparr>tool_name = ''mikrotik_add_script'',
      properties =
        [(''name'', JString), (''source'', JString), (''policy'', JString),
         (''comment'', JString), (''dont_require_permissions'', JBoolean)],
      required = [''name'', ''source'']\<rparr>,
     \<lparr>tool_name = ''mikrotik_run_script'',
      properties =
        [(''name'', JString)],
      required = [''name'']\<rparr>,
     \<lparr>tool_name = ''mikrotik_remove_script'',
      properties =
        [(''name'', JString)],
      required = [''name'']\<rparr>,
     \<lparr>tool_name = ''mikrotik_get_system_routerboard'', properties = [], required = []\<rparr>,
     \<lparr>tool_name = ''mikrotik_get_system_license'', properties = [], required = []\<rparr>,
     \<lparr>tool_name = ''mikrotik_get_system_history'', properties = [], required = []\<rparr>]"

definition get_system_handlers :: "(string \<times> handler) list" where
  "get_system_handlers =
    [(''mikrotik_get_system_resource'', ([], call_mikrotik_get_system_resource)),
     (''mikrotik_get_system_health'', ([], call_mikrotik_get_system_health)),
     (''mikrotik_get_system_identity'', ([], call_mikrotik_get_system_identity)),
     (''mikrotik_set_system_identity'', ([Subscript ''name''], call_mikrotik_set_system_identity)),
     (''mikrotik_get_system_clock'', ([], call_mikrotik_get_system_clock)),
     (''mikrotik_set_system_clock'',
      ([Get ''time_zone_name'', Get ''time_zone_autodetect''],
       call_mikrotik_set_system_clock)),
     (''mikrotik_get_ntp_client'', ([], call_mikrotik_get_ntp_client)),
     (''mikrotik_set_ntp_client'',
      ([Get ''enabled'', Get ''servers'', Get ''mode''],
       call_mikrotik_set_ntp_client)),
     (''mikrotik_system_reboot'', ([], call_mikrotik_system_reboot)),
     (''mikrotik_system_shutdown'', ([], call_mikrotik_system_shutdown)),
     (''mikrotik_list_packages'', ([], call_mikrotik_list_packages)),
     (''mikrotik_enable_package'', ([Subscript ''package_name''], call_mikrotik_enable_package)),
     (''mikrotik_disable_package'', ([Subscript ''package_name''], call_mikrotik_disable_package)),
     (''mikrotik_list_scheduler'', ([], call_mikrotik_list_scheduler)),
     (''mikrotik_add_scheduler'',
      ([Subscript ''name'', Subscript ''on_event'', Get ''start_date'', Get ''start_time'',
        Get ''interval'', Get ''policy'', Get ''comment'', Get ''disabled''],
       call_mikrotik_add_scheduler)),
     (''mikrotik_remove_scheduler'', ([Subscript ''name''], call_mikrotik_remove_scheduler)),
     (''mikrotik_list_scripts'', ([], call_mikrotik_list_scripts)),
     (''mikrotik_add_script'',
      ([Subscript ''name'', Subscript ''source'', Get ''policy'', Get ''comment'',
        Get ''dont_require_permissions''],
       call_mikrotik_add_script)),
     (''mikrotik_run_script'', ([Subscript ''name''], call_mikrotik_run_script)),
     (''mikrotik_remove_script'', ([Subscript ''name''], call_mikrotik_remove_script)),
     (''mikrotik_get_system_routerboard'', ([], call_mikrotik_get_system_routerboard)),
     (''mikrotik_get_system_license'', ([], call_mikrotik_get_system_license)),
     (''mikrotik_get_system_history'', ([], call_mikrotik_get_system_history))]"

text \<open>The adapter modules: the declarations of each with its dispatch table.\<close>

definition tool_adapters :: "(tool list \<times> (string \<times> handler) list) list" where
  "tool_adapters =
    [(get_bridge_tools, get_bridge_handlers),
     (get_hotspot_tools, get_hotspot_handlers),
     (get_pppoe_tools, get_pppoe_handlers),
     (get_queue_tools, get_queue_handlers),
     (get_routing_advanced_tools, get_routing_advanced_handlers),
     (get_system_tools, get_system_handlers)]"

section \<open>The shared contract in the words of the specification\<close>

text \<open>
  The definitions of this section do not come from the code. They restate, once, what
  the specification says the operations have in common, so that the theorems can compare
  the embedded functions with it.
\<close>

subsection \<open>Classification of the device's reply\<close>

definition contains_substring :: "string \<Rightarrow> string \<Rightarrow> bool" where
  "contains_substring s sub \<longleftrightarrow> (\<exists>before after. s = before @ sub @ after)"

text \<open>A reply is a failure when its lower-cased text contains \<open>failure:\<close> or \<open>error\<close>.\<close>

definition failure_classified :: "string \<Rightarrow> bool" where
  "failure_classified raw \<longleftrightarrow>
     contains_substring (py_lower raw) ''failure:'' \<or> contains_substring (py_lower raw) ''error''"

text \<open>\<open>classifies_response action raw success reply\<close>: the text \<open>reply\<close> returned for the raw
  reply \<open>raw\<close> is the failure form exactly when \<open>raw\<close> is classified as a failure, and
  is the operation's success text otherwise.\<close>

definition classifies_response :: "string \<Rightarrow> string \<Rightarrow> string \<Rightarrow> string \<Rightarrow> bool" where
  "classifies_response action raw success reply \<longleftrightarrow>
     reply = (if failure_classified raw then ''Failed to '' @ action @ '': '' @ raw else success) \<and>
     (reply = ''Failed to '' @ action @ '': '' @ raw) = failure_classified raw"

subsection \<open>Attribute tokens\<close>

text \<open>The token an optional parameter contributes to the command line. A text parameter
  contributes \<open>key="value"\<close> or \<open>key=value\<close> when it holds a non-empty text, an integer
  parameter contributes \<open>key=value\<close>, a boolean parameter contributes \<open>key=yes\<close> or
  \<open>key=no\<close>, and the NTP server list contributes its members joined with commas. An
  absent parameter contributes nothing.\<close>

fun quoted_token :: "string \<Rightarrow> string option \<Rightarrow> string" where
  "quoted_token key None = []"
| "quoted_token key (Some s) = (if s = [] then [] else '' '' @ key @ ''='' @ [CHR 0x22] @ s @ [CHR 0x22])"

fun bare_token :: "string \<Rightarrow> string option \<Rightarrow> string" where
  "bare_token key None = []"
| "bare_token key (Some s) = (if s = [] then [] else '' '' @ key @ ''='' @ s)"

fun int_token :: "string \<Rightarrow> int option \<Rightarrow> string" where
  "int_token key None = []"
| "int_token key (Some i) = '' '' @ key @ ''='' @ str_int i"

fun yes_no_token :: "string \<Rightarrow> bool option \<Rightarrow> string" where
  "yes_no_token key None = []"
| "yes_no_token key (Some True) = '' '' @ key @ ''=yes''"
| "yes_no_token key (Some False) = '' '' @ key @ ''=no''"

fun joined_token :: "string \<Rightarrow> string list option \<Rightarrow> string" where
  "joined_token key None = []"
| "joined_token key (Some xs) =
    (if xs = [] then [] else '' '' @ key @ ''='' @ [CHR 0x22] @ py_join '','' xs @ [CHR 0x22])"

text \<open>Three integer parameters (\<open>mtu\<close> of a bridge, \<open>key_size\<close> and \<open>days_valid\<close> of a
  certificate) are tested with \<^verbatim>\<open>if x:\<close> in the code; this is the token they contribute.\<close>

fun truthy_int_token :: "string \<Rightarrow> int option \<Rightarrow> string" where
  "truthy_int_token key None = []"
| "truthy_int_token key (Some i) = (if i = 0 then [] else '' '' @ key @ ''='' @ str_int i)"

text \<open>\<open>three_outcomes key build\<close>: seen as a function of one boolean parameter, the command
  \<open>build\<close> has three different values. With \<open>True\<close> and with \<open>False\<close> it is the command
  for the absent parameter with the token \<open>key=yes\<close>, respectively \<open>key=no\<close>, put in at
  one fixed place.\<close>

definition three_outcomes :: "string \<Rightarrow> (bool option \<Rightarrow> string) \<Rightarrow> bool" where
  "three_outcomes key build \<longleftrightarrow>
     (\<exists>before after.
        build None = before @ after \<and>
        build (Some True) = before @ '' '' @ key @ ''=yes'' @ after \<and>
        build (Some False) = before @ '' '' @ key @ ''=no'' @ after) \<and>
     build None \<noteq> build (Some True) \<and> build None \<noteq> build (Some False) \<and>
     build (Some True) \<noteq> build (Some False)"

subsection \<open>List filters\<close>

text \<open>A filter that is in force offers one condition: \<open>key~"text"\<close> or \<open>key=text\<close> for a
  non-empty text, \<open>key=yes\<close> for a flag that is \<open>True\<close>. The \<open>where\<close> clause of a list
  command holds the first condition on offer, in the order of the list, and no other.\<close>

fun match_filter :: "string \<Rightarrow> string option \<Rightarrow> string option" where
  "match_filter key None = None"
| "match_filter key (Some s) = (if s = [] then None else Some (key @ ''~'' @ [CHR 0x22] @ s @ [CHR 0x22]))"

fun equal_filter :: "string \<Rightarrow> string option \<Rightarrow> string option" where
  "equal_filter key None = None"
| "equal_filter key (Some s) = (if s = [] then None else Some (key @ ''='' @ s))"

fun flag_filter :: "string \<Rightarrow> bool option \<Rightarrow> string option" where
  "flag_filter key None = None"
| "flag_filter key (Some b) = (if b then Some (key @ ''=yes'') else None)"

fun where_clause :: "string option list \<Rightarrow> string" where
  "where_clause [] = []"
| "where_clause (None # conds) = where_clause conds"
| "where_clause (Some c # conds) = '' where '' @ c"

subsection \<open>Escaping of a script's source\<close>

definition script_escape_char :: "char \<Rightarrow> string" where
  "script_escape_char c =
    (if c = CHR 0x22 then [CHR 0x5C, CHR 0x22]
     else if c = CHR 0x0A then [CHR 0x5C, CHR ''n'']
     else [c])"


section \<open>Auxiliary facts\<close>

subsection \<open>Strings\<close>

lemma py_startswith_iff: "py_startswith s p \<longleftrightarrow> (\<exists>after. s = p @ after)"
  by (induction s p rule: py_startswith.induct) auto

lemma py_in_iff: "py_in sub s \<longleftrightarrow> contains_substring s sub"
proof (induction s)
  case Nil
  show ?case by (auto simp: contains_substring_def)
next
  case (Cons c cs)
  show ?case
  proof
    assume "py_in sub (c # cs)"
    then consider "py_startswith (c # cs) sub" | "py_in sub cs" by auto
    then show "contains_substring (c # cs) sub"
    proof cases
      case 1
      then obtain after where "c # cs = sub @ after" by (auto simp: py_startswith_iff)
      then have "c # cs = [] @ sub @ after" by simp
      then show ?thesis unfolding contains_substring_def by blast
    next
      case 2
      then obtain before after where "cs = before @ sub @ after"
        using Cons.IH by (auto simp: contains_substring_def)
      then have "c # cs = (c # before) @ sub @ after" by simp
      then show ?thesis unfolding contains_substring_def by blast
    qed
  next
    assume "contains_substring (c # cs) sub"
    then obtain before after where eq: "c # cs = before @ sub @ after"
      by (auto simp: contains_substring_def)
    show "py_in sub (c # cs)"
    proof (cases before)
      case Nil
      then have "py_startswith (c # cs) sub" using eq by (auto simp: py_startswith_iff)
      then show ?thesis by simp
    next
      case (Cons b bs)
      then have "cs = bs @ sub @ after" using eq by simp
      then have "contains_substring cs sub" unfolding contains_substring_def by blast
      then show ?thesis using Cons.IH by simp
    qed
  qed
qed

lemma failure_classified_code:
  "failure_classified raw \<longleftrightarrow> py_in ''failure:'' (py_lower raw) \<or> py_in ''error'' (py_lower raw)"
  by (simp add: failure_classified_def py_in_iff)

lemma py_replace_char:
  "py_replace s [c] new = concat (map (\<lambda>x. if x = c then new else [x]) s)"
  by (induction s) auto

lemma script_escape:
  "py_replace (py_replace s [CHR 0x22] [CHR 0x5C, CHR 0x22]) [CHR 0x0A] [CHR 0x5C, CHR ''n'']
     = concat (map script_escape_char s)"
  by (induction s) (auto simp: py_replace_char script_escape_char_def)

lemmas str_int_eval = str_int_def str_nat.simps digit_char_def

subsection \<open>Conditional appends as tokens\<close>

lemma if_append: "(if c then cmd @ t else cmd) = cmd @ (if c then t else [])"
  by simp

lemma quoted_token_if:
  "quoted_token key v = (if truthy_str v then '' '' @ key @ ''='' @ [CHR 0x22] @ the v @ [CHR 0x22] else [])"
  by (cases v) auto

lemma bare_token_if:
  "bare_token key v = (if truthy_str v then '' '' @ key @ ''='' @ the v else [])"
  by (cases v) auto

lemma int_token_if:
  "int_token key v = (if v \<noteq> None then '' '' @ key @ ''='' @ str_int (the v) else [])"
  by (cases v) auto

lemma truthy_int_token_if:
  "truthy_int_token key v = (if truthy_int v then '' '' @ key @ ''='' @ str_int (the v) else [])"
  by (cases v) auto

lemma yes_no_token_if:
  "yes_no_token key v =
     (if v \<noteq> None then '' '' @ key @ ''='' @ (if the v then ''yes'' else ''no'') else [])"
proof (cases v)
  case None
  then show ?thesis by simp
next
  case (Some b)
  then show ?thesis by (cases b) auto
qed

lemma joined_token_if:
  "joined_token key v =
     (if truthy_list v then '' '' @ key @ ''='' @ [CHR 0x22] @ py_join '','' (the v) @ [CHR 0x22] else [])"
  by (cases v) auto

lemmas token_if =
  quoted_token_if bare_token_if int_token_if truthy_int_token_if yes_no_token_if joined_token_if

lemma truthy_int_token_nonzero: "v \<noteq> Some 0 \<Longrightarrow> truthy_int_token key v = int_token key v"
  by (cases v) auto

lemma match_filter_if:
  "match_filter key v = (if truthy_str v then Some (key @ ''~'' @ [CHR 0x22] @ the v @ [CHR 0x22]) else None)"
  by (cases v) auto

lemma equal_filter_if:
  "equal_filter key v = (if truthy_str v then Some (key @ ''='' @ the v) else None)"
  by (cases v) auto

lemma flag_filter_if:
  "flag_filter key v = (if truthy_bool v then Some (key @ ''=yes'') else None)"
  by (cases v) auto

lemmas filter_if = match_filter_if equal_filter_if flag_filter_if

lemma where_clause_at_most_one:
  "where_clause conds = [] \<or> (\<exists>c. Some c \<in> set conds \<and> where_clause conds = '' where '' @ c)"
  by (induction conds rule: where_clause.induct) auto

subsection \<open>A boolean token inside a command\<close>

lemma three_outcomes_last: "three_outcomes key (\<lambda>v. yes_no_token key v)"
proof -
  have "yes_no_token key None = [] @ []"
    "yes_no_token key (Some True) = [] @ '' '' @ key @ ''=yes'' @ []"
    "yes_no_token key (Some False) = [] @ '' '' @ key @ ''=no'' @ []"
    by simp_all
  then have "\<exists>before after. yes_no_token key None = before @ after \<and>
      yes_no_token key (Some True) = before @ '' '' @ key @ ''=yes'' @ after \<and>
      yes_no_token key (Some False) = before @ '' '' @ key @ ''=no'' @ after"
    by blast
  then show ?thesis unfolding three_outcomes_def by simp
qed

lemma three_outcomes_here: "three_outcomes key (\<lambda>v. yes_no_token key v @ after)"
proof -
  have "yes_no_token key None @ after = [] @ after"
    "yes_no_token key (Some True) @ after = [] @ '' '' @ key @ ''=yes'' @ after"
    "yes_no_token key (Some False) @ after = [] @ '' '' @ key @ ''=no'' @ after"
    by simp_all
  then have "\<exists>before after'. yes_no_token key None @ after = before @ after' \<and>
      yes_no_token key (Some True) @ after = before @ '' '' @ key @ ''=yes'' @ after' \<and>
      yes_no_token key (Some False) @ after = before @ '' '' @ key @ ''=no'' @ after'"
    by blast
  then show ?thesis unfolding three_outcomes_def by simp
qed

lemma three_outcomes_prepend:
  assumes "three_outcomes key build"
  shows "three_outcomes key (\<lambda>v. before @ build v)"
proof -
  from assms obtain b a where
    "build None = b @ a" "build (Some True) = b @ '' '' @ key @ ''=yes'' @ a"
    "build (Some False) = b @ '' '' @ key @ ''=no'' @ a"
    unfolding three_outcomes_def by blast
  then have "before @ build None = (before @ b) @ a"
    "before @ build (Some True) = (before @ b) @ '' '' @ key @ ''=yes'' @ a"
    "before @ build (Some False) = (before @ b) @ '' '' @ key @ ''=no'' @ a"
    by simp_all
  then have "\<exists>b' a'. before @ build None = b' @ a' \<and>
      before @ build (Some True) = b' @ '' '' @ key @ ''=yes'' @ a' \<and>
      before @ build (Some False) = b' @ '' '' @ key @ ''=no'' @ a'"
    by blast
  moreover have "before @ build None \<noteq> before @ build (Some True)"
    "before @ build None \<noteq> before @ build (Some False)"
    "before @ build (Some True) \<noteq> before @ build (Some False)"
    using assms unfolding three_outcomes_def by simp_all
  ultimately show ?thesis unfolding three_outcomes_def by simp
qed


subsection \<open>Every command with optional attributes is its base followed by tokens\<close>

lemma mikrotik_create_bridge_tokens:
  \<open>mikrotik_create_bridge_cmd name mtu arp arp_timeout ageing_time priority protocol_mode
        vlan_filtering comment disabled =
     ''/interface bridge add name="'' @ name @ ''"'' @ truthy_int_token ''mtu'' mtu
       @ bare_token ''arp'' arp @ bare_token ''arp-timeout'' arp_timeout
       @ bare_token ''ageing-time'' ageing_time @ int_token ''priority'' priority
       @ bare_token ''protocol-mode'' protocol_mode
       @ yes_no_token ''vlan-filtering'' vlan_filtering @ quoted_token ''comment'' comment
       @ yes_no_token ''disabled'' disabled\<close>
  unfolding mikrotik_create_bridge_cmd_def Let_def if_append token_if
  by (simp cong: if_cong split del: if_split)

lemma mikrotik_add_bridge_port_tokens:
  \<open>mikrotik_add_bridge_port_cmd bridge interface pvid priority path_cost edge point_to_point
        horizon comment disabled =
     ''/interface bridge port add bridge="'' @ bridge @ ''" interface="'' @ interface @ ''"''
       @ int_token ''pvid'' pvid @ int_token ''priority'' priority
       @ int_token ''path-cost'' path_cost @ yes_no_token ''edge'' edge
       @ bare_token ''point-to-point'' point_to_point @ int_token ''horizon'' horizon
       @ quoted_token ''comment'' comment @ yes_no_token ''disabled'' disabled\<close>
  unfolding mikrotik_add_bridge_port_cmd_def Let_def if_append token_if
  by (simp cong: if_cong split del: if_split)

lemma mikrotik_add_bridge_vlan_tokens:
  \<open>mikrotik_add_bridge_vlan_cmd bridge vlan_ids tagged untagged comment disabled =
     ''/interface bridge vlan add bridge="'' @ bridge @ ''" vlan-ids='' @ vlan_ids
       @ quoted_token ''tagged'' tagged @ quoted_token ''untagged'' untagged
       @ quoted_token ''comment'' comment @ yes_no_token ''disabled'' disabled\<close>
  unfolding mikrotik_add_bridge_vlan_cmd_def Let_def if_append token_if
  by (simp cong: if_cong split del: if_split)

lemma mikrotik_create_certificate_tokens:
  \<open>mikrotik_create_certificate_cmd name common_name key_size days_valid key_usage
        subject_alt_name country state locality organization unit =
     ''/certificate add name="'' @ name @ ''" common-name="'' @ common_name @ ''"''
       @ truthy_int_token ''key-size'' key_size @ truthy_int_token ''days-valid'' days_valid
       @ quoted_token ''key-usage'' key_usage
       @ quoted_token ''subject-alt-name'' subject_alt_name @ quoted_token ''country'' country
       @ quoted_token ''state'' state @ quoted_token ''locality'' locality
       @ quoted_token ''organization'' organization @ quoted_token ''unit'' unit\<close>
  unfolding mikrotik_create_certificate_cmd_def Let_def if_append token_if
  by (simp cong: if_cong split del: if_split)

lemma mikrotik_sign_certificate_tokens:
  \<open>mikrotik_sign_certificate_cmd name ca =
     ''/certificate sign [find name="'' @ name @ ''"]'' @ quoted_token ''ca'' ca\<close>
  by (cases ca) (auto simp: mikrotik_sign_certificate_cmd_def)

lemma mikrotik_import_certificate_tokens:
  \<open>mikrotik_import_certificate_cmd file_name passphrase name =
     ''/certificate import file-name="'' @ file_name @ ''"''
       @ quoted_token ''passphrase'' passphrase @ quoted_token ''name'' name\<close>
  unfolding mikrotik_import_certificate_cmd_def Let_def if_append token_if
  by (simp cong: if_cong split del: if_split)

lemma mikrotik_export_certificate_tokens:
  \<open>mikrotik_export_certificate_cmd name file_name export_passphrase type =
     ''/certificate export [find name="'' @ name @ ''"]''
       @ quoted_token ''file-name'' file_name
       @ quoted_token ''export-passphrase'' export_passphrase @ bare_token ''type'' type\<close>
  unfolding mikrotik_export_certificate_cmd_def Let_def if_append token_if
  by (simp cong: if_cong split del: if_split)

lemma mikrotik_create_hotspot_server_tokens:
  \<open>mikrotik_create_hotspot_server_cmd name interface address_pool profile disabled =
     ''/ip hotspot add name="'' @ name @ ''" interface="'' @ interface @ ''" address-pool="''
       @ address_pool @ ''"'' @ quoted_token ''profile'' profile
       @ yes_no_token ''disabled'' disabled\<close>
  unfolding mikrotik_create_hotspot_server_cmd_def Let_def if_append token_if
  by (simp cong: if_cong split del: if_split)

lemma mikrotik_add_hotspot_user_tokens:
  \<open>mikrotik_add_hotspot_user_cmd name password profile limit_uptime limit_bytes_total comment
        disabled =
     ''/ip hotspot user add name="'' @ name @ ''" password="'' @ password @ ''"''
       @ quoted_token ''profile'' profile @ bare_token ''limit-uptime'' limit_uptime
       @ bare_token ''limit-bytes-total'' limit_bytes_total @ quoted_token ''comment'' comment
       @ yes_no_token ''disabled'' disabled\<close>
  unfolding mikrotik_add_hotspot_user_cmd_def Let_def if_append token_if
  by (simp cong: if_cong split del: if_split)

lemma mikrotik_create_ipsec_peer_tokens:
  \<open>mikrotik_create_ipsec_peer_cmd name address auth_method secret exchange_mode
        send_initial_contact comment disabled =
     ''/ip ipsec peer add name="'' @ name @ ''" address="'' @ address @ ''"''
       @ bare_token ''auth-method'' auth_method @ quoted_token ''secret'' secret
       @ bare_token ''exchange-mode'' exchange_mode
       @ yes_no_token ''send-initial-contact'' send_initial_contact
       @ quoted_token ''comment'' comment @ yes_no_token ''disabled'' disabled\<close>
  unfolding mikrotik_create_ipsec_peer_cmd_def Let_def if_append token_if
  by (simp cong: if_cong split del: if_split)

lemma mikrotik_create_ipsec_proposal_tokens:
  \<open>mikrotik_create_ipsec_proposal_cmd name auth_algorithms enc_algorithms lifetime pfs_group
        comment disabled =
     ''/ip ipsec proposal add name="'' @ name @ ''"''
       @ bare_token ''auth-algorithms'' auth_algorithms
       @ bare_token ''enc-algorithms'' enc_algorithms @ bare_token ''lifetime'' lifetime
       @ bare_token ''pfs-group'' pfs_group @ quoted_token ''comment'' comment
       @ yes_no_token ''disabled'' disabled\<close>
  unfolding mikrotik_create_ipsec_proposal_cmd_def Let_def if_append token_if
  by (simp cong: if_cong split del: if_split)

lemma mikrotik_create_ipsec_policy_tokens:
  \<open>mikrotik_create_ipsec_policy_cmd src_address dst_address action proposal tunnel comment
        disabled =
     ''/ip ipsec policy add src-address="'' @ src_address @ ''" dst-address="'' @ dst_address
       @ ''"'' @ bare_token ''action'' action @ quoted_token ''proposal'' proposal
       @ yes_no_token ''tunnel'' tunnel @ quoted_token ''comment'' comment
       @ yes_no_token ''disabled'' disabled\<close>
  unfolding mikrotik_create_ipsec_policy_cmd_def Let_def if_append token_if
  by (simp cong: if_cong split del: if_split)

lemma mikrotik_add_ipv6_address_tokens:
  \<open>mikrotik_add_ipv6_address_cmd address interface advertise eui_64 no_dad comment disabled =
     ''/ipv6 address add address="'' @ address @ ''" interface="'' @ interface @ ''"''
       @ yes_no_token ''advertise'' advertise @ yes_no_token ''eui-64'' eui_64
       @ yes_no_token ''no-dad'' no_dad @ quoted_token ''comment'' comment
       @ yes_no_token ''disabled'' disabled\<close>
  unfolding mikrotik_add_ipv6_address_cmd_def Let_def if_append token_if
  by (simp cong: if_cong split del: if_split)

lemma mikrotik_add_ipv6_route_tokens:
  \<open>mikrotik_add_ipv6_route_cmd dst_address gateway distance comment disabled =
     ''/ipv6 route add dst-address="'' @ dst_address @ ''" gateway="'' @ gateway @ ''"''
       @ int_token ''distance'' distance @ quoted_token ''comment'' comment
       @ yes_no_token ''disabled'' disabled\<close>
  unfolding mikrotik_add_ipv6_route_cmd_def Let_def if_append token_if
  by (simp cong: if_cong split del: if_split)

lemma mikrotik_set_ipv6_settings_tokens:
  \<open>mikrotik_set_ipv6_settings_cmd accept_redirects accept_router_advertisements forward
        max_neighbor_entries =
     ''/ipv6 settings set'' @ yes_no_token ''accept-redirects'' accept_redirects
       @ yes_no_token ''accept-router-advertisements'' accept_router_advertisements
       @ yes_no_token ''forward'' forward
       @ int_token ''max-neighbor-entries'' max_neighbor_entries\<close>
  unfolding mikrotik_set_ipv6_settings_cmd_def Let_def if_append token_if
  by (simp cong: if_cong split del: if_split)

lemma mikrotik_create_pppoe_server_tokens:
  \<open>mikrotik_create_pppoe_server_cmd service_name interface default_profile authentication
        keepalive_timeout max_mtu max_mru one_session_per_host disabled =
     ''/interface pppoe-server server add service-name="'' @ service_name @ ''" interface="''
       @ interface @ ''"'' @ quoted_token ''default-profile'' default_profile
       @ bare_token ''authentication'' authentication
       @ int_token ''keepalive-timeout'' keepalive_timeout @ int_token ''max-mtu'' max_mtu
       @ int_token ''max-mru'' max_mru
       @ yes_no_token ''one-session-per-host'' one_session_per_host
       @ yes_no_token ''disabled'' disabled\<close>
  unfolding mikrotik_create_pppoe_server_cmd_def Let_def if_append token_if
  by (simp cong: if_cong split del: if_split)

lemma mikrotik_add_ppp_secret_tokens:
  \<open>mikrotik_add_ppp_secret_cmd name password service profile local_address remote_address routes
        limit_bytes_in limit_bytes_out comment disabled =
     ''/ppp secret add name="'' @ name @ ''" password="'' @ password @ ''"''
       @ bare_token ''service'' service @ quoted_token ''profile'' profile
       @ quoted_token ''local-address'' local_address
       @ quoted_token ''remote-address'' remote_address @ quoted_token ''routes'' routes
       @ bare_token ''limit-bytes-in'' limit_bytes_in
       @ bare_token ''limit-bytes-out'' limit_bytes_out @ quoted_token ''comment'' comment
       @ yes_no_token ''disabled'' disabled\<close>
  unfolding mikrotik_add_ppp_secret_cmd_def Let_def if_append token_if
  by (simp cong: if_cong split del: if_split)

lemma mikrotik_create_ppp_profile_tokens:
  \<open>mikrotik_create_ppp_profile_cmd name local_address remote_address dns_server wins_server
        use_compression use_encryption only_one rate_limit comment =
     ''/ppp profile add name="'' @ name @ ''"'' @ quoted_token ''local-address'' local_address
       @ quoted_token ''remote-address'' remote_address
       @ quoted_token ''dns-server'' dns_server @ quoted_token ''wins-server'' wins_server
       @ yes_no_token ''use-compression'' use_compression
       @ yes_no_token ''use-encryption'' use_encryption @ yes_no_token ''only-one'' only_one
       @ quoted_token ''rate-limit'' rate_limit @ quoted_token ''comment'' comment\<close>
  unfolding mikrotik_create_ppp_profile_cmd_def Let_def if_append token_if
  by (simp cong: if_cong split del: if_split)

lemma mikrotik_create_pppoe_client_tokens:
  \<open>mikrotik_create_pppoe_client_cmd name interface user password service_name add_default_route
        use_peer_dns profile comment disabled =
     ''/interface pppoe-client add name="'' @ name @ ''" interface="'' @ interface
       @ ''" user="'' @ user @ ''" password="'' @ password @ ''"''
       @ quoted_token ''service-name'' service_name
       @ yes_no_token ''add-default-route'' add_default_route
       @ yes_no_token ''use-peer-dns'' use_peer_dns @ quoted_token ''profile'' profile
       @ quoted_token ''comment'' comment @ yes_no_token ''disabled'' disabled\<close>
  unfolding mikrotik_create_pppoe_client_cmd_def Let_def if_append token_if
  by (simp cong: if_cong split del: if_split)

lemma mikrotik_create_simple_queue_tokens:
  \<open>mikrotik_create_simple_queue_cmd name target max_limit burst_limit burst_threshold burst_time
        limit_at priority queue_type parent comment disabled =
     ''/queue simple add name="'' @ name @ ''" target="'' @ target @ ''" max-limit=''
       @ max_limit @ bare_token ''burst-limit'' burst_limit
       @ bare_token ''burst-threshold'' burst_threshold @ bare_token ''burst-time'' burst_time
       @ bare_token ''limit-at'' limit_at @ int_token ''priority'' priority
       @ bare_token ''queue'' queue_type @ quoted_token ''parent'' parent
       @ quoted_token ''comment'' comment @ yes_no_token ''disabled'' disabled\<close>
  unfolding mikrotik_create_simple_queue_cmd_def Let_def if_append token_if
  by (simp cong: if_cong split del: if_split)

lemma mikrotik_create_queue_tree_tokens:
  \<open>mikrotik_create_queue_tree_cmd name parent max_limit burst_limit burst_threshold burst_time
        limit_at priority queue_type packet_mark comment disabled =
     ''/queue tree add name="'' @ name @ ''" parent="'' @ parent @ ''" max-limit='' @ max_limit
       @ bare_token ''burst-limit'' burst_limit
       @ bare_token ''burst-threshold'' burst_threshold @ bare_token ''burst-time'' burst_time
       @ bare_token ''limit-at'' limit_at @ int_token ''priority'' priority
       @ bare_token ''queue'' queue_type @ quoted_token ''packet-mark'' packet_mark
       @ quoted_token ''comment'' comment @ yes_no_token ''disabled'' disabled\<close>
  unfolding mikrotik_create_queue_tree_cmd_def Let_def if_append token_if
  by (simp cong: if_cong split del: if_split)

lemma mikrotik_create_queue_type_tokens:
  \<open>mikrotik_create_queue_type_cmd name kind pcq_rate pcq_limit pcq_classifier pcq_total_limit =
     ''/queue type add name="'' @ name @ ''" kind='' @ kind @ bare_token ''pcq-rate'' pcq_rate
       @ bare_token ''pcq-limit'' pcq_limit @ bare_token ''pcq-classifier'' pcq_classifier
       @ bare_token ''pcq-total-limit'' pcq_total_limit\<close>
  unfolding mikrotik_create_queue_type_cmd_def Let_def if_append token_if
  by (simp cong: if_cong split del: if_split)

lemma mikrotik_create_bgp_instance_tokens:
  \<open>mikrotik_create_bgp_instance_cmd name as_number router_id redistribute_connected
        redistribute_static redistribute_ospf client_to_client_reflection comment disabled =
     ''/routing bgp instance add name="'' @ name @ ''" as='' @ str_int as_number
       @ quoted_token ''router-id'' router_id
       @ yes_no_token ''redistribute-connected'' redistribute_connected
       @ yes_no_token ''redistribute-static'' redistribute_static
       @ yes_no_token ''redistribute-ospf'' redistribute_ospf
       @ yes_no_token ''client-to-client-reflection'' client_to_client_reflection
       @ quoted_token ''comment'' comment @ yes_no_token ''disabled'' disabled\<close>
  unfolding mikrotik_create_bgp_instance_cmd_def Let_def if_append token_if
  by (simp cong: if_cong split del: if_split)

lemma mikrotik_add_bgp_peer_tokens:
  \<open>mikrotik_add_bgp_peer_cmd name instance remote_address remote_as ttl multihop route_reflect
        hold_time tcp_md5_key update_source comment disabled =
     ''/routing bgp peer add name="'' @ name @ ''" instance="'' @ instance
       @ ''" remote-address="'' @ remote_address @ ''" remote-as='' @ str_int remote_as
       @ int_token ''ttl'' ttl @ yes_no_token ''multihop'' multihop
       @ yes_no_token ''route-reflect'' route_reflect @ bare_token ''hold-time'' hold_time
       @ quoted_token ''tcp-md5-key'' tcp_md5_key
       @ quoted_token ''update-source'' update_source @ quoted_token ''comment'' comment
       @ yes_no_token ''disabled'' disabled\<close>
  unfolding mikrotik_add_bgp_peer_cmd_def Let_def if_append token_if
  by (simp cong: if_cong split del: if_split)

lemma mikrotik_create_ospf_instance_tokens:
  \<open>mikrotik_create_ospf_instance_cmd name router_id redistribute_connected redistribute_static
        redistribute_bgp comment disabled =
     ''/routing ospf instance add name="'' @ name @ ''"''
       @ quoted_token ''router-id'' router_id
       @ yes_no_token ''redistribute-connected'' redistribute_connected
       @ yes_no_token ''redistribute-static'' redistribute_static
       @ yes_no_token ''redistribute-bgp'' redistribute_bgp @ quoted_token ''comment'' comment
       @ yes_no_token ''disabled'' disabled\<close>
  unfolding mikrotik_create_ospf_instance_cmd_def Let_def if_append token_if
  by (simp cong: if_cong split del: if_split)

lemma mikrotik_add_ospf_area_tokens:
  \<open>mikrotik_add_ospf_area_cmd name area_id instance type comment disabled =
     ''/routing ospf area add name="'' @ name @ ''" area-id="'' @ area_id @ ''"''
       @ quoted_token ''instance'' instance @ bare_token ''type'' type
       @ quoted_token ''comment'' comment @ yes_no_token ''disabled'' disabled\<close>
  unfolding mikrotik_add_ospf_area_cmd_def Let_def if_append token_if
  by (simp cong: if_cong split del: if_split)

lemma mikrotik_add_ospf_network_tokens:
  \<open>mikrotik_add_ospf_network_cmd network area comment disabled =
     ''/routing ospf network add network="'' @ network @ ''" area="'' @ area @ ''"''
       @ quoted_token ''comment'' comment @ yes_no_token ''disabled'' disabled\<close>
  unfolding mikrotik_add_ospf_network_cmd_def Let_def if_append token_if
  by (simp cong: if_cong split del: if_split)

lemma mikrotik_add_ospf_interface_tokens:
  \<open>mikrotik_add_ospf_interface_cmd interface network_type priority cost authentication
        authentication_key comment disabled =
     ''/routing ospf interface add interface="'' @ interface @ ''"''
       @ bare_token ''network-type'' network_type @ int_token ''priority'' priority
       @ int_token ''cost'' cost @ bare_token ''authentication'' authentication
       @ quoted_token ''authentication-key'' authentication_key
       @ quoted_token ''comment'' comment @ yes_no_token ''disabled'' disabled\<close>
  unfolding mikrotik_add_ospf_interface_cmd_def Let_def if_append token_if
  by (simp cong: if_cong split del: if_split)

lemma mikrotik_create_rip_instance_tokens:
  \<open>mikrotik_create_rip_instance_cmd name redistribute_connected redistribute_static
        redistribute_ospf redistribute_bgp comment disabled =
     ''/routing rip instance add name="'' @ name @ ''"''
       @ yes_no_token ''redistribute-connected'' redistribute_connected
       @ yes_no_token ''redistribute-static'' redistribute_static
       @ yes_no_token ''redistribute-ospf'' redistribute_ospf
       @ yes_no_token ''redistribute-bgp'' redistribute_bgp @ quoted_token ''comment'' comment
       @ yes_no_token ''disabled'' disabled\<close>
  unfolding mikrotik_create_rip_instance_cmd_def Let_def if_append token_if
  by (simp cong: if_cong split del: if_split)

lemma mikrotik_add_rip_network_tokens:
  \<open>mikrotik_add_rip_network_cmd network instance comment disabled =
     ''/routing rip network add network="'' @ network @ ''"''
       @ quoted_token ''instance'' instance @ quoted_token ''comment'' comment
       @ yes_no_token ''disabled'' disabled\<close>
  unfolding mikrotik_add_rip_network_cmd_def Let_def if_append token_if
  by (simp cong: if_cong split del: if_split)

lemma mikrotik_add_rip_interface_tokens:
  \<open>mikrotik_add_rip_interface_cmd interface receive send authentication authentication_key
        comment disabled =
     ''/routing rip interface add interface="'' @ interface @ ''"''
       @ bare_token ''receive'' receive @ bare_token ''send'' send
       @ bare_token ''authentication'' authentication
       @ quoted_token ''authentication-key'' authentication_key
       @ quoted_token ''comment'' comment @ yes_no_token ''disabled'' disabled\<close>
  unfolding mikrotik_add_rip_interface_cmd_def Let_def if_append token_if
  by (simp cong: if_cong split del: if_split)

lemma mikrotik_set_snmp_settings_tokens:
  \<open>mikrotik_set_snmp_settings_cmd enabled contact location engine_id trap_version trap_community
        trap_generators =
     ''/snmp set'' @ yes_no_token ''enabled'' enabled @ quoted_token ''contact'' contact
       @ quoted_token ''location'' location @ quoted_token ''engine-id'' engine_id
       @ int_token ''trap-version'' trap_version
       @ quoted_token ''trap-community'' trap_community
       @ quoted_token ''trap-generators'' trap_generators\<close>
  unfolding mikrotik_set_snmp_settings_cmd_def Let_def if_append token_if
  by (simp cong: if_cong split del: if_split)

lemma mikrotik_add_snmp_community_tokens:
  \<open>mikrotik_add_snmp_community_cmd name addresses read_access write_access
        authentication_protocol authentication_password encryption_protocol
        encryption_password comment disabled =
     ''/snmp community add name="'' @ name @ ''"'' @ quoted_token ''addresses'' addresses
       @ yes_no_token ''read-access'' read_access @ yes_no_token ''write-access'' write_access
       @ bare_token ''authentication-protocol'' authentication_protocol
       @ quoted_token ''authentication-password'' authentication_password
       @ bare_token ''encryption-protocol'' encryption_protocol
       @ quoted_token ''encryption-password'' encryption_password
       @ quoted_token ''comment'' comment @ yes_no_token ''disabled'' disabled\<close>
  unfolding mikrotik_add_snmp_community_cmd_def Let_def if_append token_if
  by (simp cong: if_cong split del: if_split)

lemma mikrotik_set_system_clock_tokens:
  \<open>mikrotik_set_system_clock_cmd time_zone_name time_zone_autodetect =
     ''/system clock set'' @ quoted_token ''time-zone-name'' time_zone_name
       @ yes_no_token ''time-zone-autodetect'' time_zone_autodetect\<close>
  unfolding mikrotik_set_system_clock_cmd_def Let_def if_append token_if
  by (simp cong: if_cong split del: if_split)

lemma mikrotik_set_ntp_client_tokens:
  \<open>mikrotik_set_ntp_client_cmd enabled servers mode =
     ''/system ntp client set'' @ yes_no_token ''enabled'' enabled
       @ joined_token ''servers'' servers @ bare_token ''mode'' mode\<close>
  unfolding mikrotik_set_ntp_client_cmd_def Let_def if_append token_if
  by (simp cong: if_cong split del: if_split)

lemma mikrotik_add_scheduler_tokens:
  \<open>mikrotik_add_scheduler_cmd name on_event start_date start_time interval policy comment
        disabled =
     ''/system scheduler add name="'' @ name @ ''" on-event="'' @ on_event @ ''"''
       @ quoted_token ''start-date'' start_date @ quoted_token ''start-time'' start_time
       @ bare_token ''interval'' interval @ bare_token ''policy'' policy
       @ quoted_token ''comment'' comment @ yes_no_token ''disabled'' disabled\<close>
  unfolding mikrotik_add_scheduler_cmd_def Let_def if_append token_if
  by (simp cong: if_cong split del: if_split)

lemma mikrotik_add_script_tokens:
  \<open>mikrotik_add_script_cmd name source policy comment dont_require_permissions =
     ''/system script add name="'' @ name @ ''" source="''
       @ py_replace (py_replace source ''"'' (bsl @ ''"'')) ''\<newline>'' (bsl @ ''n'')
       @ ''"'' @ bare_token ''policy'' policy @ quoted_token ''comment'' comment
       @ yes_no_token ''dont-require-permissions'' dont_require_permissions\<close>
  unfolding mikrotik_add_script_cmd_def Let_def if_append token_if
  by (simp cong: if_cong split del: if_split)

lemmas command_tokens =
  mikrotik_create_bridge_tokens mikrotik_add_bridge_port_tokens mikrotik_add_bridge_vlan_tokens
  mikrotik_create_certificate_tokens mikrotik_sign_certificate_tokens
  mikrotik_import_certificate_tokens mikrotik_export_certificate_tokens
  mikrotik_create_hotspot_server_tokens mikrotik_add_hotspot_user_tokens
  mikrotik_create_ipsec_peer_tokens mikrotik_create_ipsec_proposal_tokens
  mikrotik_create_ipsec_policy_tokens mikrotik_add_ipv6_address_tokens
  mikrotik_add_ipv6_route_tokens mikrotik_set_ipv6_settings_tokens
  mikrotik_create_pppoe_server_tokens mikrotik_add_ppp_secret_tokens
  mikrotik_create_ppp_profile_tokens mikrotik_create_pppoe_client_tokens
  mikrotik_create_simple_queue_tokens mikrotik_create_queue_tree_tokens
  mikrotik_create_queue_type_tokens mikrotik_create_bgp_instance_tokens
  mikrotik_add_bgp_peer_tokens mikrotik_create_ospf_instance_tokens
  mikrotik_add_ospf_area_tokens mikrotik_add_ospf_network_tokens
  mikrotik_add_ospf_interface_tokens mikrotik_create_rip_instance_tokens
  mikrotik_add_rip_network_tokens mikrotik_add_rip_interface_tokens
  mikrotik_set_snmp_settings_tokens mikrotik_add_snmp_community_tokens
  mikrotik_set_system_clock_tokens mikrotik_set_ntp_client_tokens mikrotik_add_scheduler_tokens
  mikrotik_add_script_tokens

section \<open>The claims about the domain operations\<close>

text \<open>
  Claim C1. Every operation that classifies the connector's reply returns, for every
  reply \<open>raw\<close>, the text \<open>Failed to <action>: <raw>\<close> if and only if the lower-cased
  reply contains \<open>failure:\<close> or \<open>error\<close>, and its success text otherwise
  (\<open>classifies_response\<close>). The 116 classifying operations are listed with their action
  and success text; \<open>exec\<close>, the device, is arbitrary. The last line is the reply
  \<open>no error here, all good\<close>, which is classified as a failure.
\<close>

theorem response_classification:
  \<open>
   (\<forall>name mtu arp arp_timeout ageing_time priority protocol_mode vlan_filtering comment
       disabled.
      let raw = exec sent
          (mikrotik_create_bridge_cmd name mtu arp arp_timeout ageing_time priority protocol_mode
             vlan_filtering comment disabled) in
      classifies_response ''create bridge'' raw
        (''Bridge '' @ sq @ name @ sq @ '' created successfully'')
        (fst (mikrotik_create_bridge exec name mtu arp arp_timeout ageing_time priority protocol_mode
             vlan_filtering comment disabled sent)))
   \<and> (\<forall>name_filter disabled_only. let raw = exec sent (mikrotik_list_bridges_cmd name_filter disabled_only) in
      classifies_response ''list bridges'' raw
        (''Bridge Interfaces:\<newline>\<newline>'' @ raw)
        (fst (mikrotik_list_bridges exec name_filter disabled_only sent)))
   \<and> (\<forall>name. let raw = exec sent (mikrotik_remove_bridge_cmd name) in
      classifies_response ''remove bridge'' raw
        (''Bridge '' @ sq @ name @ sq @ '' removed successfully'')
        (fst (mikrotik_remove_bridge exec name sent)))
   \<and> (\<forall>bridge interface pvid priority path_cost edge point_to_point horizon comment
       disabled.
      let raw = exec sent
          (mikrotik_add_bridge_port_cmd bridge interface pvid priority path_cost edge point_to_point
             horizon comment disabled) in
      classifies_response ''add bridge port'' raw
        (''Interface '' @ sq @ interface @ sq @ '' added to bridge '' @ sq @ bridge @ sq
           @ '' successfully'')
        (fst (mikrotik_add_bridge_port exec bridge interface pvid priority path_cost edge point_to_point
             horizon comment disabled sent)))
   \<and> (\<forall>bridge_filter interface_filter.
      let raw = exec sent (mikrotik_list_bridge_ports_cmd bridge_filter interface_filter) in
      classifies_response ''list bridge ports'' raw
        (''Bridge Ports:\<newline>\<newline>'' @ raw)
        (fst (mikrotik_list_bridge_ports exec bridge_filter interface_filter sent)))
   \<and> (\<forall>interface. let raw = exec sent (mikrotik_remove_bridge_port_cmd interface) in
      classifies_response ''remove bridge port'' raw
        (''Interface '' @ sq @ interface @ sq @ '' removed from bridge successfully'')
        (fst (mikrotik_remove_bridge_port exec interface sent)))
   \<and> (\<forall>bridge vlan_ids tagged untagged comment disabled.
      let raw = exec sent (mikrotik_add_bridge_vlan_cmd bridge vlan_ids tagged untagged comment disabled) in
      classifies_response ''add bridge VLAN'' raw
        (''Bridge VLAN '' @ vlan_ids @ '' added successfully'')
        (fst (mikrotik_add_bridge_vlan exec bridge vlan_ids tagged untagged comment disabled sent)))
   \<and> (\<forall>bridge_filter. let raw = exec sent (mikrotik_list_bridge_vlans_cmd bridge_filter) in
      classifies_response ''list bridge VLANs'' raw
        (''Bridge VLANs:\<newline>\<newline>'' @ raw)
        (fst (mikrotik_list_bridge_vlans exec bridge_filter sent)))
   \<and> (\<forall>bridge_filter. let raw = exec sent (mikrotik_get_bridge_host_cmd bridge_filter) in
      classifies_response ''list bridge hosts'' raw
        (''Bridge Hosts (MAC Table):\<newline>\<newline>'' @ raw)
        (fst (mikrotik_get_bridge_host exec bridge_filter sent)))
   \<and> (let raw = exec sent (mikrotik_list_certificates_cmd) in
      classifies_response ''list certificates'' raw
        (''Certificates:\<newline>\<newline>'' @ raw)
        (fst (mikrotik_list_certificates exec sent)))
   \<and> (\<forall>name common_name key_size days_valid key_usage subject_alt_name country state
       locality organization unit.
      let raw = exec sent
          (mikrotik_create_certificate_cmd name common_name key_size days_valid key_usage
             subject_alt_name country state locality organization unit) in
      classifies_response ''create certificate'' raw
        (''Certificate '' @ sq @ name @ sq @ '' created successfully'')
        (fst (mikrotik_create_certificate exec name common_name key_size days_valid key_usage
             subject_alt_name country state locality organization unit sent)))
   \<and> (\<forall>name ca. let raw = exec sent (mikrotik_sign_certificate_cmd name ca) in
      classifies_response ''sign certificate'' raw
        (''Certificate '' @ sq @ name @ sq @ '' signed successfully'')
        (fst (mikrotik_sign_certificate exec name ca sent)))
   \<and> (\<forall>file_name passphrase name. let raw = exec sent (mikrotik_import_certificate_cmd file_name passphrase name) in
      classifies_response ''import certificate'' raw
        (''Certificate imported from '' @ sq @ file_name @ sq @ '' successfully'')
        (fst (mikrotik_import_certificate exec file_name passphrase name sent)))
   \<and> (\<forall>name file_name export_passphrase type.
      let raw = exec sent (mikrotik_export_certificate_cmd name file_name export_passphrase type) in
      classifies_response ''export certificate'' raw
        (''Certificate '' @ sq @ name @ sq @ '' exported successfully'')
        (fst (mikrotik_export_certificate exec name file_name export_passphrase type sent)))
   \<and> (\<forall>name. let raw = exec sent (mikrotik_remove_certificate_cmd name) in
      classifies_response ''remove certificate'' raw
        (''Certificate '' @ sq @ name @ sq @ '' removed successfully'')
        (fst (mikrotik_remove_certificate exec name sent)))
   \<and> (\<forall>service certificate. let raw = exec sent (mikrotik_enable_ssl_certificate_cmd service certificate) in
      classifies_response ''enable SSL certificate'' raw
        (''SSL certificate '' @ sq @ certificate @ sq @ '' enabled for service '' @ sq
           @ service @ sq @ '' successfully'')
        (fst (mikrotik_enable_ssl_certificate exec service certificate sent)))
   \<and> (\<forall>name interface address_pool profile disabled.
      let raw = exec sent (mikrotik_create_hotspot_server_cmd name interface address_pool profile disabled) in
      classifies_response ''create hotspot server'' raw
        (''Hotspot server '' @ sq @ name @ sq @ '' created successfully'')
        (fst (mikrotik_create_hotspot_server exec name interface address_pool profile disabled sent)))
   \<and> (let raw = exec sent (mikrotik_list_hotspot_servers_cmd) in
      classifies_response ''list hotspot servers'' raw
        (''Hotspot Servers:\<newline>\<newline>'' @ raw)
        (fst (mikrotik_list_hotspot_servers exec sent)))
   \<and> (let raw = exec sent (mikrotik_list_hotspot_users_cmd) in
      classifies_response ''list hotspot users'' raw
        (''Hotspot Users:\<newline>\<newline>'' @ raw)
        (fst (mikrotik_list_hotspot_users exec sent)))
   \<and> (\<forall>name password profile limit_uptime limit_bytes_total comment disabled.
      let raw = exec sent
          (mikrotik_add_hotspot_user_cmd name password profile limit_uptime limit_bytes_total comment
             disabled) in
      classifies_response ''add hotspot user'' raw
        (''Hotspot user '' @ sq @ name @ sq @ '' added successfully'')
        (fst (mikrotik_add_hotspot_user exec name password profile limit_uptime limit_bytes_total
             comment disabled sent)))
   \<and> (\<forall>name. let raw = exec sent (mikrotik_remove_hotspot_user_cmd name) in
      classifies_response ''remove hotspot user'' raw
        (''Hotspot user '' @ sq @ name @ sq @ '' removed successfully'')
        (fst (mikrotik_remove_hotspot_user exec name sent)))
   \<and> (let raw = exec sent (mikrotik_list_hotspot_active_cmd) in
      classifies_response ''list active sessions'' raw
        (''Active Hotspot Sessions:\<newline>\<newline>'' @ raw)
        (fst (mikrotik_list_hotspot_active exec sent)))
   \<and> (\<forall>user. let raw = exec sent (mikrotik_remove_hotspot_active_cmd user) in
      classifies_response ''remove active session'' raw
        (''Active session for user '' @ sq @ user @ sq @ '' removed successfully'')
        (fst (mikrotik_remove_hotspot_active exec user sent)))
   \<and> (\<forall>name address auth_method secret exchange_mode send_initial_contact comment
       disabled.
      let raw = exec sent
          (mikrotik_create_ipsec_peer_cmd name address auth_method secret exchange_mode
             send_initial_contact comment disabled) in
      classifies_response ''create IPsec peer'' raw
        (''IPsec peer '' @ sq @ name @ sq @ '' created successfully'')
        (fst (mikrotik_create_ipsec_peer exec name address auth_method secret exchange_mode
             send_initial_contact comment disabled sent)))
   \<and> (let raw = exec sent (mikrotik_list_ipsec_peers_cmd) in
      classifies_response ''list IPsec peers'' raw
        (''IPsec Peers:\<newline>\<newline>'' @ raw)
        (fst (mikrotik_list_ipsec_peers exec sent)))
   \<and> (\<forall>name. let raw = exec sent (mikrotik_remove_ipsec_peer_cmd name) in
      classifies_response ''remove IPsec peer'' raw
        (''IPsec peer '' @ sq @ name @ sq @ '' removed successfully'')
        (fst (mikrotik_remove_ipsec_peer exec name sent)))
   \<and> (\<forall>name auth_algorithms enc_algorithms lifetime pfs_group comment disabled.
      let raw = exec sent
          (mikrotik_create_ipsec_proposal_cmd name auth_algorithms enc_algorithms lifetime pfs_group
             comment disabled) in
      classifies_response ''create IPsec proposal'' raw
        (''IPsec proposal '' @ sq @ name @ sq @ '' created successfully'')
        (fst (mikrotik_create_ipsec_proposal exec name auth_algorithms enc_algorithms lifetime pfs_group
             comment disabled sent)))
   \<and> (let raw = exec sent (mikrotik_list_ipsec_proposals_cmd) in
      classifies_response ''list IPsec proposals'' raw
        (''IPsec Proposals:\<newline>\<newline>'' @ raw)
        (fst (mikrotik_list_ipsec_proposals exec sent)))
   \<and> (let raw = exec sent (mikrotik_list_ipsec_installed_sa_cmd) in
      classifies_response ''list IPsec installed SAs'' raw
        (''IPsec Installed SAs:\<newline>\<newline>'' @ raw)
        (fst (mikrotik_list_ipsec_installed_sa exec sent)))
   \<and> (\<forall>src_address dst_address action proposal tunnel comment disabled.
      let raw = exec sent
          (mikrotik_create_ipsec_policy_cmd src_address dst_address action proposal tunnel comment
             disabled) in
      classifies_response ''create IPsec policy'' raw
        (''IPsec policy created successfully'')
        (fst (mikrotik_create_ipsec_policy exec src_address dst_address action proposal tunnel comment
             disabled sent)))
   \<and> (let raw = exec sent (mikrotik_list_ipsec_policies_cmd) in
      classifies_response ''list IPsec policies'' raw
        (''IPsec Policies:\<newline>\<newline>'' @ raw)
        (fst (mikrotik_list_ipsec_policies exec sent)))
   \<and> (\<forall>address interface advertise eui_64 no_dad comment disabled.
      let raw = exec sent
          (mikrotik_add_ipv6_address_cmd address interface advertise eui_64 no_dad comment disabled) in
      classifies_response ''add IPv6 address'' raw
        (''IPv6 address '' @ address @ '' added to '' @ interface @ '' successfully'')
        (fst (mikrotik_add_ipv6_address exec address interface advertise eui_64 no_dad comment disabled
             sent)))
   \<and> (\<forall>interface_filter disabled_only.
      let raw = exec sent (mikrotik_list_ipv6_addresses_cmd interface_filter disabled_only) in
      classifies_response ''list IPv6 addresses'' raw
        (''IPv6 Addresses:\<newline>\<newline>'' @ raw)
        (fst (mikrotik_list_ipv6_addresses exec interface_filter disabled_only sent)))
   \<and> (\<forall>address_id. let raw = exec sent (mikrotik_remove_ipv6_address_cmd address_id) in
      classifies_response ''remove IPv6 address'' raw
        (''IPv6 address '' @ address_id @ '' removed successfully'')
        (fst (mikrotik_remove_ipv6_address exec address_id sent)))
   \<and> (\<forall>dst_address gateway distance comment disabled.
      let raw = exec sent (mikrotik_add_ipv6_route_cmd dst_address gateway distance comment disabled) in
      classifies_response ''add IPv6 route'' raw
        (''IPv6 route to '' @ dst_address @ '' added successfully'')
        (fst (mikrotik_add_ipv6_route exec dst_address gateway distance comment disabled sent)))
   \<and> (\<forall>dst_filter gateway_filter active_only.
      let raw = exec sent (mikrotik_list_ipv6_routes_cmd dst_filter gateway_filter active_only) in
      classifies_response ''list IPv6 routes'' raw
        (''IPv6 Routes:\<newline>\<newline>'' @ raw)
        (fst (mikrotik_list_ipv6_routes exec dst_filter gateway_filter active_only sent)))
   \<and> (\<forall>route_id. let raw = exec sent (mikrotik_remove_ipv6_route_cmd route_id) in
      classifies_response ''remove IPv6 route'' raw
        (''IPv6 route '' @ route_id @ '' removed successfully'')
        (fst (mikrotik_remove_ipv6_route exec route_id sent)))
   \<and> (let raw = exec sent (mikrotik_list_ipv6_neighbors_cmd) in
      classifies_response ''list IPv6 neighbors'' raw
        (''IPv6 Neighbors:\<newline>\<newline>'' @ raw)
        (fst (mikrotik_list_ipv6_neighbors exec sent)))
   \<and> (let raw = exec sent (mikrotik_get_ipv6_settings_cmd) in
      classifies_response ''get IPv6 settings'' raw
        (''IPv6 Settings:\<newline>\<newline>'' @ raw)
        (fst (mikrotik_get_ipv6_settings exec sent)))
   \<and> (\<forall>accept_redirects accept_router_advertisements forward max_neighbor_entries.
      let raw = exec sent (mikrotik_set_ipv6_settings_cmd accept_redirects accept_router_advertisements forward
             max_neighbor_entries) in
      classifies_response ''set IPv6 settings'' raw
        (''IPv6 settings configured successfully'')
        (fst (mikrotik_set_ipv6_settings exec accept_redirects accept_router_advertisements forward
             max_neighbor_entries sent)))
   \<and> (\<forall>service_name interface default_profile authentication keepalive_timeout max_mtu
       max_mru one_session_per_host disabled.
      let raw = exec sent
          (mikrotik_create_pppoe_server_cmd service_name interface default_profile authentication
             keepalive_timeout max_mtu max_mru one_session_per_host disabled) in
      classifies_response ''create PPPoE server'' raw
        (''PPPoE server '' @ sq @ service_name @ sq @ '' created successfully'')
        (fst (mikrotik_create_pppoe_server exec service_name interface default_profile authentication
             keepalive_timeout max_mtu max_mru one_session_per_host disabled sent)))
   \<and> (let raw = exec sent (mikrotik_list_pppoe_servers_cmd) in
      classifies_response ''list PPPoE servers'' raw
        (''PPPoE Servers:\<newline>\<newline>'' @ raw)
        (fst (mikrotik_list_pppoe_servers exec sent)))
   \<and> (\<forall>service_name. let raw = exec sent (mikrotik_remove_pppoe_server_cmd service_name) in
      classifies_response ''remove PPPoE server'' raw
        (''PPPoE server '' @ sq @ service_name @ sq @ '' removed successfully'')
        (fst (mikrotik_remove_pppoe_server exec service_name sent)))
   \<and> (\<forall>name password service profile local_address remote_address routes limit_bytes_in
       limit_bytes_out comment disabled.
      let raw = exec sent
          (mikrotik_add_ppp_secret_cmd name password service profile local_address remote_address routes
             limit_bytes_in limit_bytes_out comment disabled) in
      classifies_response ''add PPP secret'' raw
        (''PPP secret '' @ sq @ name @ sq @ '' added successfully'')
        (fst (mikrotik_add_ppp_secret exec name password service profile local_address remote_address
             routes limit_bytes_in limit_bytes_out comment disabled sent)))
   \<and> (\<forall>service_filter disabled_only. let raw = exec sent (mikrotik_list_ppp_secrets_cmd service_filter disabled_only) in
      classifies_response ''list PPP secrets'' raw
        (''PPP Secrets:\<newline>\<newline>'' @ raw)
        (fst (mikrotik_list_ppp_secrets exec service_filter disabled_only sent)))
   \<and> (\<forall>name. let raw = exec sent (mikrotik_remove_ppp_secret_cmd name) in
      classifies_response ''remove PPP secret'' raw
        (''PPP secret '' @ sq @ name @ sq @ '' removed successfully'')
        (fst (mikrotik_remove_ppp_secret exec name sent)))
   \<and> (let raw = exec sent (mikrotik_list_ppp_active_cmd) in
      classifies_response ''list active PPP connections'' raw
        (''Active PPP Connections:\<newline>\<newline>'' @ raw)
        (fst (mikrotik_list_ppp_active exec sent)))
   \<and> (\<forall>name. let raw = exec sent (mikrotik_disconnect_ppp_active_cmd name) in
      classifies_response ''disconnect PPP user'' raw
        (''PPP user '' @ sq @ name @ sq @ '' disconnected successfully'')
        (fst (mikrotik_disconnect_ppp_active exec name sent)))
   \<and> (\<forall>name local_address remote_address dns_server wins_server use_compression
       use_encryption only_one rate_limit comment.
      let raw = exec sent
          (mikrotik_create_ppp_profile_cmd name local_address remote_address dns_server wins_server
             use_compression use_encryption only_one rate_limit comment) in
      classifies_response ''create PPP profile'' raw
        (''PPP profile '' @ sq @ name @ sq @ '' created successfully'')
        (fst (mikrotik_create_ppp_profile exec name local_address remote_address dns_server wins_server
             use_compression use_encryption only_one rate_limit comment sent)))
   \<and> (let raw = exec sent (mikrotik_list_ppp_profiles_cmd) in
      classifies_response ''list PPP profiles'' raw
        (''PPP Profiles:\<newline>\<newline>'' @ raw)
        (fst (mikrotik_list_ppp_profiles exec sent)))
   \<and> (\<forall>name. let raw = exec sent (mikrotik_remove_ppp_profile_cmd name) in
      classifies_response ''remove PPP profile'' raw
        (''PPP profile '' @ sq @ name @ sq @ '' removed successfully'')
        (fst (mikrotik_remove_ppp_profile exec name sent)))
   \<and> (\<forall>name interface user password service_name add_default_route use_peer_dns profile
       comment disabled.
      let raw = exec sent
          (mikrotik_create_pppoe_client_cmd name interface user password service_name add_default_route
             use_peer_dns profile comment disabled) in
      classifies_response ''create PPPoE client'' raw
        (''PPPoE client '' @ sq @ name @ sq @ '' created successfully'')
        (fst (mikrotik_create_pppoe_client exec name interface user password service_name
             add_default_route use_peer_dns profile comment disabled sent)))
   \<and> (let raw = exec sent (mikrotik_list_pppoe_clients_cmd) in
      classifies_response ''list PPPoE clients'' raw
        (''PPPoE Clients:\<newline>\<newline>'' @ raw)
        (fst (mikrotik_list_pppoe_clients exec sent)))
   \<and> (\<forall>name. let raw = exec sent (mikrotik_remove_pppoe_client_cmd name) in
      classifies_response ''remove PPPoE client'' raw
        (''PPPoE client '' @ sq @ name @ sq @ '' removed successfully'')
        (fst (mikrotik_remove_pppoe_client exec name sent)))
   \<and> (\<forall>name target max_limit burst_limit burst_threshold burst_time limit_at priority
       queue_type parent comment disabled.
      let raw = exec sent
          (mikrotik_create_simple_queue_cmd name target max_limit burst_limit burst_threshold burst_time
             limit_at priority queue_type parent comment disabled) in
      classifies_response ''create simple queue'' raw
        (''Simple queue '' @ sq @ name @ sq @ '' created successfully'')
        (fst (mikrotik_create_simple_queue exec name target max_limit burst_limit burst_threshold
             burst_time limit_at priority queue_type parent comment disabled sent)))
   \<and> (\<forall>name_filter target_filter disabled_only.
      let raw = exec sent (mikrotik_list_simple_queues_cmd name_filter target_filter disabled_only) in
      classifies_response ''list simple queues'' raw
        (''Simple Queues:\<newline>\<newline>'' @ raw)
        (fst (mikrotik_list_simple_queues exec name_filter target_filter disabled_only sent)))
   \<and> (\<forall>name. let raw = exec sent (mikrotik_remove_simple_queue_cmd name) in
      classifies_response ''remove simple queue'' raw
        (''Simple queue '' @ sq @ name @ sq @ '' removed successfully'')
        (fst (mikrotik_remove_simple_queue exec name sent)))
   \<and> (\<forall>name. let raw = exec sent (mikrotik_enable_simple_queue_cmd name) in
      classifies_response ''enable simple queue'' raw
        (''Simple queue '' @ sq @ name @ sq @ '' enabled successfully'')
        (fst (mikrotik_enable_simple_queue exec name sent)))
   \<and> (\<forall>name. let raw = exec sent (mikrotik_disable_simple_queue_cmd name) in
      classifies_response ''disable simple queue'' raw
        (''Simple queue '' @ sq @ name @ sq @ '' disabled successfully'')
        (fst (mikrotik_disable_simple_queue exec name sent)))
   \<and> (\<forall>name parent max_limit burst_limit burst_threshold burst_time limit_at priority
       queue_type packet_mark comment disabled.
      let raw = exec sent
          (mikrotik_create_queue_tree_cmd name parent max_limit burst_limit burst_threshold burst_time
             limit_at priority queue_type packet_mark comment disabled) in
      classifies_response ''create queue tree'' raw
        (''Queue tree '' @ sq @ name @ sq @ '' created successfully'')
        (fst (mikrotik_create_queue_tree exec name parent max_limit burst_limit burst_threshold
             burst_time limit_at priority queue_type packet_mark comment disabled sent)))
   \<and> (\<forall>name_filter parent_filter disabled_only.
      let raw = exec sent (mikrotik_list_queue_tree_cmd name_filter parent_filter disabled_only) in
      classifies_response ''list queue tree'' raw
        (''Queue Tree:\<newline>\<newline>'' @ raw)
        (fst (mikrotik_list_queue_tree exec name_filter parent_filter disabled_only sent)))
   \<and> (\<forall>name. let raw = exec sent (mikrotik_remove_queue_tree_cmd name) in
      classifies_response ''remove queue tree'' raw
        (''Queue tree '' @ sq @ name @ sq @ '' removed successfully'')
        (fst (mikrotik_remove_queue_tree exec name sent)))
   \<and> (let raw = exec sent (mikrotik_list_queue_types_cmd) in
      classifies_response ''list queue types'' raw
        (''Queue Types:\<newline>\<newline>'' @ raw)
        (fst (mikrotik_list_queue_types exec sent)))
   \<and> (\<forall>name kind pcq_rate pcq_limit pcq_classifier pcq_total_limit.
      let raw = exec sent (mikrotik_create_queue_type_cmd name kind pcq_rate pcq_limit pcq_classifier pcq_total_limit) in
      classifies_response ''create queue type'' raw
        (''Queue type '' @ sq @ name @ sq @ '' created successfully'')
        (fst (mikrotik_create_queue_type exec name kind pcq_rate pcq_limit pcq_classifier
             pcq_total_limit sent)))
   \<and> (\<forall>name. let raw = exec sent (mikrotik_remove_queue_type_cmd name) in
      classifies_response ''remove queue type'' raw
        (''Queue type '' @ sq @ name @ sq @ '' removed successfully'')
        (fst (mikrotik_remove_queue_type exec name sent)))
   \<and> (\<forall>name as_number router_id redistribute_connected redistribute_static
       redistribute_ospf client_to_client_reflection comment disabled.
      let raw = exec sent
          (mikrotik_create_bgp_instance_cmd name as_number router_id redistribute_connected
             redistribute_static redistribute_ospf client_to_client_reflection comment
             disabled) in
      classifies_response ''create BGP instance'' raw
        (''BGP instance '' @ sq @ name @ sq @ '' created successfully'')
        (fst (mikrotik_create_bgp_instance exec name as_number router_id redistribute_connected
             redistribute_static redistribute_ospf client_to_client_reflection comment
             disabled sent)))
   \<and> (let raw = exec sent (mikrotik_list_bgp_instances_cmd) in
      classifies_response ''list BGP instances'' raw
        (''BGP Instances:\<newline>\<newline>'' @ raw)
        (fst (mikrotik_list_bgp_instances exec sent)))
   \<and> (\<forall>name. let raw = exec sent (mikrotik_remove_bgp_instance_cmd name) in
      classifies_response ''remove BGP instance'' raw
        (''BGP instance '' @ sq @ name @ sq @ '' removed successfully'')
        (fst (mikrotik_remove_bgp_instance exec name sent)))
   \<and> (\<forall>name instance remote_address remote_as ttl multihop route_reflect hold_time
       tcp_md5_key update_source comment disabled.
      let raw = exec sent
          (mikrotik_add_bgp_peer_cmd name instance remote_address remote_as ttl multihop route_reflect
             hold_time tcp_md5_key update_source comment disabled) in
      classifies_response ''add BGP peer'' raw
        (''BGP peer '' @ sq @ name @ sq @ '' added successfully'')
        (fst (mikrotik_add_bgp_peer exec name instance remote_address remote_as ttl multihop
             route_reflect hold_time tcp_md5_key update_source comment disabled sent)))
   \<and> (let raw = exec sent (mikrotik_list_bgp_peers_cmd) in
      classifies_response ''list BGP peers'' raw
        (''BGP Peers:\<newline>\<newline>'' @ raw)
        (fst (mikrotik_list_bgp_peers exec sent)))
   \<and> (\<forall>name. let raw = exec sent (mikrotik_remove_bgp_peer_cmd name) in
      classifies_response ''remove BGP peer'' raw
        (''BGP peer '' @ sq @ name @ sq @ '' removed successfully'')
        (fst (mikrotik_remove_bgp_peer exec name sent)))
   \<and> (let raw = exec sent (mikrotik_list_bgp_advertisements_cmd) in
      classifies_response ''list BGP advertisements'' raw
        (''BGP Advertisements:\<newline>\<newline>'' @ raw)
        (fst (mikrotik_list_bgp_advertisements exec sent)))
   \<and> (\<forall>name router_id redistribute_connected redistribute_static redistribute_bgp comment
       disabled.
      let raw = exec sent
          (mikrotik_create_ospf_instance_cmd name router_id redistribute_connected redistribute_static
             redistribute_bgp comment disabled) in
      classifies_response ''create OSPF instance'' raw
        (''OSPF instance '' @ sq @ name @ sq @ '' created successfully'')
        (fst (mikrotik_create_ospf_instance exec name router_id redistribute_connected
             redistribute_static redistribute_bgp comment disabled sent)))
   \<and> (let raw = exec sent (mikrotik_list_ospf_instances_cmd) in
      classifies_response ''list OSPF instances'' raw
        (''OSPF Instances:\<newline>\<newline>'' @ raw)
        (fst (mikrotik_list_ospf_instances exec sent)))
   \<and> (\<forall>name. let raw = exec sent (mikrotik_remove_ospf_instance_cmd name) in
      classifies_response ''remove OSPF instance'' raw
        (''OSPF instance '' @ sq @ name @ sq @ '' removed successfully'')
        (fst (mikrotik_remove_ospf_instance exec name sent)))
   \<and> (\<forall>name area_id instance type comment disabled.
      let raw = exec sent (mikrotik_add_ospf_area_cmd name area_id instance type comment disabled) in
      classifies_response ''add OSPF area'' raw
        (''OSPF area '' @ sq @ name @ sq @ '' added successfully'')
        (fst (mikrotik_add_ospf_area exec name area_id instance type comment disabled sent)))
   \<and> (let raw = exec sent (mikrotik_list_ospf_areas_cmd) in
      classifies_response ''list OSPF areas'' raw
        (''OSPF Areas:\<newline>\<newline>'' @ raw)
        (fst (mikrotik_list_ospf_areas exec sent)))
   \<and> (\<forall>network area comment disabled. let raw = exec sent (mikrotik_add_ospf_network_cmd network area comment disabled) in
      classifies_response ''add OSPF network'' raw
        (''OSPF network '' @ sq @ network @ sq @ '' added successfully'')
        (fst (mikrotik_add_ospf_network exec network area comment disabled sent)))
   \<and> (let raw = exec sent (mikrotik_list_ospf_networks_cmd) in
      classifies_response ''list OSPF networks'' raw
        (''OSPF Networks:\<newline>\<newline>'' @ raw)
        (fst (mikrotik_list_ospf_networks exec sent)))
   \<and> (let raw = exec sent (mikrotik_list_ospf_neighbors_cmd) in
      classifies_response ''list OSPF neighbors'' raw
        (''OSPF Neighbors:\<newline>\<newline>'' @ raw)
        (fst (mikrotik_list_ospf_neighbors exec sent)))
   \<and> (\<forall>interface network_type priority cost authentication authentication_key comment
       disabled.
      let raw = exec sent
          (mikrotik_add_ospf_interface_cmd interface network_type priority cost authentication
             authentication_key comment disabled) in
      classifies_response ''add OSPF interface'' raw
        (''OSPF interface '' @ sq @ interface @ sq @ '' added successfully'')
        (fst (mikrotik_add_ospf_interface exec interface network_type priority cost authentication
             authentication_key comment disabled sent)))
   \<and> (let raw = exec sent (mikrotik_list_ospf_interfaces_cmd) in
      classifies_response ''list OSPF interfaces'' raw
        (''OSPF Interfaces:\<newline>\<newline>'' @ raw)
        (fst (mikrotik_list_ospf_interfaces exec sent)))
   \<and> (\<forall>name redistribute_connected redistribute_static redistribute_ospf redistribute_bgp
       comment disabled.
      let raw = exec sent
          (mikrotik_create_rip_instance_cmd name redistribute_connected redistribute_static
             redistribute_ospf redistribute_bgp comment disabled) in
      classifies_response ''create RIP instance'' raw
        (''RIP instance '' @ sq @ name @ sq @ '' created successfully'')
        (fst (mikrotik_create_rip_instance exec name redistribute_connected redistribute_static
             redistribute_ospf redistribute_bgp comment disabled sent)))
   \<and> (let raw = exec sent (mikrotik_list_rip_instances_cmd) in
      classifies_response ''list RIP instances'' raw
        (''RIP Instances:\<newline>\<newline>'' @ raw)
        (fst (mikrotik_list_rip_instances exec sent)))
   \<and> (\<forall>name. let raw = exec sent (mikrotik_remove_rip_instance_cmd name) in
      classifies_response ''remove RIP instance'' raw
        (''RIP instance '' @ sq @ name @ sq @ '' removed successfully'')
        (fst (mikrotik_remove_rip_instance exec name sent)))
   \<and> (\<forall>network instance comment disabled.
      let raw = exec sent (mikrotik_add_rip_network_cmd network instance comment disabled) in
      classifies_response ''add RIP network'' raw
        (''RIP network '' @ sq @ network @ sq @ '' added successfully'')
        (fst (mikrotik_add_rip_network exec network instance comment disabled sent)))
   \<and> (let raw = exec sent (mikrotik_list_rip_networks_cmd) in
      classifies_response ''list RIP networks'' raw
        (''RIP Networks:\<newline>\<newline>'' @ raw)
        (fst (mikrotik_list_rip_networks exec sent)))
   \<and> (\<forall>interface receive send authentication authentication_key comment disabled.
      let raw = exec sent
          (mikrotik_add_rip_interface_cmd interface receive send authentication authentication_key
             comment disabled) in
      classifies_response ''add RIP interface'' raw
        (''RIP interface '' @ sq @ interface @ sq @ '' added successfully'')
        (fst (mikrotik_add_rip_interface exec interface receive send authentication authentication_key
             comment disabled sent)))
   \<and> (let raw = exec sent (mikrotik_list_rip_interfaces_cmd) in
      classifies_response ''list RIP interfaces'' raw
        (''RIP Interfaces:\<newline>\<newline>'' @ raw)
        (fst (mikrotik_list_rip_interfaces exec sent)))
   \<and> (let raw = exec sent (mikrotik_list_rip_neighbors_cmd) in
      classifies_response ''list RIP neighbors'' raw
        (''RIP Neighbors:\<newline>\<newline>'' @ raw)
        (fst (mikrotik_list_rip_neighbors exec sent)))
   \<and> (let raw = exec sent (mikrotik_get_snmp_settings_cmd) in
      classifies_response ''get SNMP settings'' raw
        (''SNMP Settings:\<newline>\<newline>'' @ raw)
        (fst (mikrotik_get_snmp_settings exec sent)))
   \<and> (\<forall>enabled contact location engine_id trap_version trap_community trap_generators.
      let raw = exec sent
          (mikrotik_set_snmp_settings_cmd enabled contact location engine_id trap_version trap_community
             trap_generators) in
      classifies_response ''set SNMP settings'' raw
        (''SNMP settings configured successfully'')
        (fst (mikrotik_set_snmp_settings exec enabled contact location engine_id trap_version
             trap_community trap_generators sent)))
   \<and> (let raw = exec sent (mikrotik_list_snmp_communities_cmd) in
      classifies_response ''list SNMP communities'' raw
        (''SNMP Communities:\<newline>\<newline>'' @ raw)
        (fst (mikrotik_list_snmp_communities exec sent)))
   \<and> (\<forall>name addresses read_access write_access authentication_protocol
       authentication_password encryption_protocol encryption_password comment disabled.
      let raw = exec sent
          (mikrotik_add_snmp_community_cmd name addresses read_access write_access
             authentication_protocol authentication_password encryption_protocol
             encryption_password comment disabled) in
      classifies_response ''add SNMP community'' raw
        (''SNMP community '' @ sq @ name @ sq @ '' added successfully'')
        (fst (mikrotik_add_snmp_community exec name addresses read_access write_access
             authentication_protocol authentication_password encryption_protocol
             encryption_password comment disabled sent)))
   \<and> (\<forall>name. let raw = exec sent (mikrotik_remove_snmp_community_cmd name) in
      classifies_response ''remove SNMP community'' raw
        (''SNMP community '' @ sq @ name @ sq @ '' removed successfully'')
        (fst (mikrotik_remove_snmp_community exec name sent)))
   \<and> (let raw = exec sent (mikrotik_get_system_resource_cmd) in
      classifies_response ''get system resources'' raw
        (''System Resources:\<newline>\<newline>'' @ raw)
        (fst (mikrotik_get_system_resource exec sent)))
   \<and> (let raw = exec sent (mikrotik_get_system_health_cmd) in
      classifies_response ''get system health'' raw
        (''System Health:\<newline>\<newline>'' @ raw)
        (fst (mikrotik_get_system_health exec sent)))
   \<and> (let raw = exec sent (mikrotik_get_system_identity_cmd) in
      classifies_response ''get system identity'' raw
        (''System Identity:\<newline>\<newline>'' @ raw)
        (fst (mikrotik_get_system_identity exec sent)))
   \<and> (\<forall>name. let raw = exec sent (mikrotik_set_system_identity_cmd name) in
      classifies_response ''set system identity'' raw
        (''System identity set to '' @ sq @ name @ sq @ '' successfully'')
        (fst (mikrotik_set_system_identity exec name sent)))
   \<and> (let raw = exec sent (mikrotik_get_system_clock_cmd) in
      classifies_response ''get system clock'' raw
        (''System Clock:\<newline>\<newline>'' @ raw)
        (fst (mikrotik_get_system_clock exec sent)))
   \<and> (\<forall>time_zone_name time_zone_autodetect.
      let raw = exec sent (mikrotik_set_system_clock_cmd time_zone_name time_zone_autodetect) in
      classifies_response ''set system clock'' raw
        (''System clock configured successfully'')
        (fst (mikrotik_set_system_clock exec time_zone_name time_zone_autodetect sent)))
   \<and> (let raw = exec sent (mikrotik_get_ntp_client_cmd) in
      classifies_response ''get NTP client'' raw
        (''NTP Client Configuration:\<newline>\<newline>'' @ raw)
        (fst (mikrotik_get_ntp_client exec sent)))
   \<and> (\<forall>enabled servers mode. let raw = exec sent (mikrotik_set_ntp_client_cmd enabled servers mode) in
      classifies_response ''set NTP client'' raw
        (''NTP client configured successfully'')
        (fst (mikrotik_set_ntp_client exec enabled servers mode sent)))
   \<and> (let raw = exec sent (mikrotik_list_packages_cmd) in
      classifies_response ''list packages'' raw
        (''Installed Packages:\<newline>\<newline>'' @ raw)
        (fst (mikrotik_list_packages exec sent)))
   \<and> (\<forall>package_name. let raw = exec sent (mikrotik_enable_package_cmd package_name) in
      classifies_response ''enable package'' raw
        (''Package '' @ sq @ package_name @ sq @ '' enabled successfully (reboot required)'')
        (fst (mikrotik_enable_package exec package_name sent)))
   \<and> (\<forall>package_name. let raw = exec sent (mikrotik_disable_package_cmd package_name) in
      classifies_response ''disable package'' raw
        (''Package '' @ sq @ package_name @ sq @ '' disabled successfully (reboot required)'')
        (fst (mikrotik_disable_package exec package_name sent)))
   \<and> (let raw = exec sent (mikrotik_list_scheduler_cmd) in
      classifies_response ''list scheduler'' raw
        (''Scheduled Tasks:\<newline>\<newline>'' @ raw)
        (fst (mikrotik_list_scheduler exec sent)))
   \<and> (\<forall>name on_event start_date start_time interval policy comment disabled.
      let raw = exec sent
          (mikrotik_add_scheduler_cmd name on_event start_date start_time interval policy comment
             disabled) in
      classifies_response ''add scheduler task'' raw
        (''Scheduler task '' @ sq @ name @ sq @ '' added successfully'')
        (fst (mikrotik_add_scheduler exec name on_event start_date start_time interval policy comment
             disabled sent)))
   \<and> (\<forall>name. let raw = exec sent (mikrotik_remove_scheduler_cmd name) in
      classifies_response ''remove scheduler task'' raw
        (''Scheduler task '' @ sq @ name @ sq @ '' removed successfully'')
        (fst (mikrotik_remove_scheduler exec name sent)))
   \<and> (let raw = exec sent (mikrotik_list_scripts_cmd) in
      classifies_response ''list scripts'' raw
        (''System Scripts:\<newline>\<newline>'' @ raw)
        (fst (mikrotik_list_scripts exec sent)))
   \<and> (\<forall>name source policy comment dont_require_permissions.
      let raw = exec sent (mikrotik_add_script_cmd name source policy comment dont_require_permissions) in
      classifies_response ''add script'' raw
        (''Script '' @ sq @ name @ sq @ '' added successfully'')
        (fst (mikrotik_add_script exec name source policy comment dont_require_permissions sent)))
   \<and> (\<forall>name. let raw = exec sent (mikrotik_run_script_cmd name) in
      classifies_response ''run script'' raw
        (''Script '' @ sq @ name @ sq @ '' executed:\<newline>\<newline>'' @ raw)
        (fst (mikrotik_run_script exec name sent)))
   \<and> (\<forall>name. let raw = exec sent (mikrotik_remove_script_cmd name) in
      classifies_response ''remove script'' raw
        (''Script '' @ sq @ name @ sq @ '' removed successfully'')
        (fst (mikrotik_remove_script exec name sent)))
   \<and> (let raw = exec sent (mikrotik_get_system_routerboard_cmd) in
      classifies_response ''get RouterBOARD info'' raw
        (''RouterBOARD Information:\<newline>\<newline>'' @ raw)
        (fst (mikrotik_get_system_routerboard exec sent)))
   \<and> (let raw = exec sent (mikrotik_get_system_license_cmd) in
      classifies_response ''get license info'' raw
        (''System License:\<newline>\<newline>'' @ raw)
        (fst (mikrotik_get_system_license exec sent)))
   \<and> (let raw = exec sent (mikrotik_get_system_history_cmd) in
      classifies_response ''get history'' raw
        (''System History:\<newline>\<newline>'' @ raw)
        (fst (mikrotik_get_system_history exec sent)))
   \<and> (failure_classified ''no error here, all good'')\<close>
  by (intro conjI allI;
      simp add: Let_def execute_mikrotik_command_def classifies_response_def failure_classified_code
        py_lower_def py_lower_char_def
        mikrotik_create_bridge_def mikrotik_list_bridges_def mikrotik_remove_bridge_def
        mikrotik_add_bridge_port_def mikrotik_list_bridge_ports_def
        mikrotik_remove_bridge_port_def mikrotik_add_bridge_vlan_def
        mikrotik_list_bridge_vlans_def mikrotik_get_bridge_host_def
        mikrotik_list_certificates_def mikrotik_create_certificate_def
        mikrotik_sign_certificate_def mikrotik_import_certificate_def
        mikrotik_export_certificate_def mikrotik_remove_certificate_def
        mikrotik_enable_ssl_certificate_def mikrotik_create_hotspot_server_def
        mikrotik_list_hotspot_servers_def mikrotik_list_hotspot_users_def
        mikrotik_add_hotspot_user_def mikrotik_remove_hotspot_user_def
        mikrotik_list_hotspot_active_def mikrotik_remove_hotspot_active_def
        mikrotik_create_ipsec_peer_def mikrotik_list_ipsec_peers_def
        mikrotik_remove_ipsec_peer_def mikrotik_create_ipsec_proposal_def
        mikrotik_list_ipsec_proposals_def mikrotik_list_ipsec_installed_sa_def
        mikrotik_create_ipsec_policy_def mikrotik_list_ipsec_policies_def
        mikrotik_add_ipv6_address_def mikrotik_list_ipv6_addresses_def
        mikrotik_remove_ipv6_address_def mikrotik_add_ipv6_route_def
        mikrotik_list_ipv6_routes_def mikrotik_remove_ipv6_route_def
        mikrotik_list_ipv6_neighbors_def mikrotik_get_ipv6_settings_def
        mikrotik_set_ipv6_settings_def mikrotik_create_pppoe_server_def
        mikrotik_list_pppoe_servers_def mikrotik_remove_pppoe_server_def
        mikrotik_add_ppp_secret_def mikrotik_list_ppp_secrets_def mikrotik_remove_ppp_secret_def
        mikrotik_list_ppp_active_def mikrotik_disconnect_ppp_active_def
        mikrotik_create_ppp_profile_def mikrotik_list_ppp_profiles_def
        mikrotik_remove_ppp_profile_def mikrotik_create_pppoe_client_def
        mikrotik_list_pppoe_clients_def mikrotik_remove_pppoe_client_def
        mikrotik_create_simple_queue_def mikrotik_list_simple_queues_def
        mikrotik_remove_simple_queue_def mikrotik_enable_simple_queue_def
        mikrotik_disable_simple_queue_def mikrotik_create_queue_tree_def
        mikrotik_list_queue_tree_def mikrotik_remove_queue_tree_def
        mikrotik_list_queue_types_def mikrotik_create_queue_type_def
        mikrotik_remove_queue_type_def mikrotik_create_bgp_instance_def
        mikrotik_list_bgp_instances_def mikrotik_remove_bgp_instance_def
        mikrotik_add_bgp_peer_def mikrotik_list_bgp_peers_def mikrotik_remove_bgp_peer_def
        mikrotik_list_bgp_advertisements_def mikrotik_create_ospf_instance_def
        mikrotik_list_ospf_instances_def mikrotik_remove_ospf_instance_def
        mikrotik_add_ospf_area_def mikrotik_list_ospf_areas_def mikrotik_add_ospf_network_def
        mikrotik_list_ospf_networks_def mikrotik_list_ospf_neighbors_def
        mikrotik_add_ospf_interface_def mikrotik_list_ospf_interfaces_def
        mikrotik_create_rip_instance_def mikrotik_list_rip_instances_def
        mikrotik_remove_rip_instance_def mikrotik_add_rip_network_def
        mikrotik_list_rip_networks_def mikrotik_add_rip_interface_def
        mikrotik_list_rip_interfaces_def mikrotik_list_rip_neighbors_def
        mikrotik_get_snmp_settings_def mikrotik_set_snmp_settings_def
        mikrotik_list_snmp_communities_def mikrotik_add_snmp_community_def
        mikrotik_remove_snmp_community_def mikrotik_get_system_resource_def
        mikrotik_get_system_health_def mikrotik_get_system_identity_def
        mikrotik_set_system_identity_def mikrotik_get_system_clock_def
        mikrotik_set_system_clock_def mikrotik_get_ntp_client_def mikrotik_set_ntp_client_def
        mikrotik_list_packages_def mikrotik_enable_package_def mikrotik_disable_package_def
        mikrotik_list_scheduler_def mikrotik_add_scheduler_def mikrotik_remove_scheduler_def
        mikrotik_list_scripts_def mikrotik_add_script_def mikrotik_run_script_def
        mikrotik_remove_script_def mikrotik_get_system_routerboard_def
        mikrotik_get_system_license_def mikrotik_get_system_history_def)

text \<open>
  Claim C2. For every create/add-style operation, invoked with its required parameters
  only (every optional parameter absent), the command is the fixed menu path and verb
  followed by exactly the required pairs, in the order in which the function declares
  its parameters, and nothing else. The 30 operations whose names start with
  \<open>mikrotik_create_\<close> or \<open>mikrotik_add_\<close> are listed; the last line is the example
  \<^verbatim>\<open>create_bridge(name="br0")\<close>.
\<close>

theorem create_command_required_only:
  \<open>
   (\<forall>name. mikrotik_create_bridge_cmd name None None None None None None None None None =
      ''/interface bridge add name="'' @ name @ ''"'')
   \<and> (\<forall>bridge interface. mikrotik_add_bridge_port_cmd bridge interface None None None None None None None None =
      ''/interface bridge port add bridge="'' @ bridge @ ''" interface="'' @ interface @ ''"'')
   \<and> (\<forall>bridge vlan_ids. mikrotik_add_bridge_vlan_cmd bridge vlan_ids None None None None =
      ''/interface bridge vlan add bridge="'' @ bridge @ ''" vlan-ids='' @ vlan_ids)
   \<and> (\<forall>name common_name. mikrotik_create_certificate_cmd name common_name None None None None None None None None None =
      ''/certificate add name="'' @ name @ ''" common-name="'' @ common_name @ ''"'')
   \<and> (\<forall>name interface address_pool. mikrotik_create_hotspot_server_cmd name interface address_pool None None =
      ''/ip hotspot add name="'' @ name @ ''" interface="'' @ interface @ ''" address-pool="''
        @ address_pool @ ''"'')
   \<and> (\<forall>name password. mikrotik_add_hotspot_user_cmd name password None None None None None =
      ''/ip hotspot user add name="'' @ name @ ''" password="'' @ password @ ''"'')
   \<and> (\<forall>name address. mikrotik_create_ipsec_peer_cmd name address None None None None None None =
      ''/ip ipsec peer add name="'' @ name @ ''" address="'' @ address @ ''"'')
   \<and> (\<forall>name. mikrotik_create_ipsec_proposal_cmd name None None None None None None =
      ''/ip ipsec proposal add name="'' @ name @ ''"'')
   \<and> (\<forall>src_address dst_address. mikrotik_create_ipsec_policy_cmd src_address dst_address None None None None None =
      ''/ip ipsec policy add src-address="'' @ src_address @ ''" dst-address="'' @ dst_address
        @ ''"'')
   \<and> (\<forall>address interface. mikrotik_add_ipv6_address_cmd address interface None None None None None =
      ''/ipv6 address add address="'' @ address @ ''" interface="'' @ interface @ ''"'')
   \<and> (\<forall>dst_address gateway. mikrotik_add_ipv6_route_cmd dst_address gateway None None None =
      ''/ipv6 route add dst-address="'' @ dst_address @ ''" gateway="'' @ gateway @ ''"'')
   \<and> (\<forall>service_name interface. mikrotik_create_pppoe_server_cmd service_name interface None None None None None None None =
      ''/interface pppoe-server server add service-name="'' @ service_name @ ''" interface="''
        @ interface @ ''"'')
   \<and> (\<forall>name password. mikrotik_add_ppp_secret_cmd name password None None None None None None None None None =
      ''/ppp secret add name="'' @ name @ ''" password="'' @ password @ ''"'')
   \<and> (\<forall>name. mikrotik_create_ppp_profile_cmd name None None None None None None None None None =
      ''/ppp profile add name="'' @ name @ ''"'')
   \<and> (\<forall>name interface user password. mikrotik_create_pppoe_client_cmd name interface user password None None None None None None =
      ''/interface pppoe-client add name="'' @ name @ ''" interface="'' @ interface
        @ ''" user="'' @ user @ ''" password="'' @ password @ ''"'')
   \<and> (\<forall>name target max_limit. mikrotik_create_simple_queue_cmd name target max_limit None None None None None None None None
        None =
      ''/queue simple add name="'' @ name @ ''" target="'' @ target @ ''" max-limit='' @ max_limit)
   \<and> (\<forall>name parent max_limit. mikrotik_create_queue_tree_cmd name parent max_limit None None None None None None None None
        None =
      ''/queue tree add name="'' @ name @ ''" parent="'' @ parent @ ''" max-limit='' @ max_limit)
   \<and> (\<forall>name kind. mikrotik_create_queue_type_cmd name kind None None None None =
      ''/queue type add name="'' @ name @ ''" kind='' @ kind)
   \<and> (\<forall>name as_number. mikrotik_create_bgp_instance_cmd name as_number None None None None None None None =
      ''/routing bgp instance add name="'' @ name @ ''" as='' @ str_int as_number)
   \<and> (\<forall>name instance remote_address remote_as.
      mikrotik_add_bgp_peer_cmd name instance remote_address remote_as None None None None None None
        None None =
      ''/routing bgp peer add name="'' @ name @ ''" instance="'' @ instance
        @ ''" remote-address="'' @ remote_address @ ''" remote-as='' @ str_int remote_as)
   \<and> (\<forall>name. mikrotik_create_ospf_instance_cmd name None None None None None None =
      ''/routing ospf instance add name="'' @ name @ ''"'')
   \<and> (\<forall>name area_id. mikrotik_add_ospf_area_cmd name area_id None None None None =
      ''/routing ospf area add name="'' @ name @ ''" area-id="'' @ area_id @ ''"'')
   \<and> (\<forall>network area. mikrotik_add_ospf_network_cmd network area None None =
      ''/routing ospf network add network="'' @ network @ ''" area="'' @ area @ ''"'')
   \<and> (\<forall>interface. mikrotik_add_ospf_interface_cmd interface None None None None None None None =
      ''/routing ospf interface add interface="'' @ interface @ ''"'')
   \<and> (\<forall>name. mikrotik_create_rip_instance_cmd name None None None None None None =
      ''/routing rip instance add name="'' @ name @ ''"'')
   \<and> (\<forall>network. mikrotik_add_rip_network_cmd network None None None =
      ''/routing rip network add network="'' @ network @ ''"'')
   \<and> (\<forall>interface. mikrotik_add_rip_interface_cmd interface None None None None None None =
      ''/routing rip interface add interface="'' @ interface @ ''"'')
   \<and> (\<forall>name. mikrotik_add_snmp_community_cmd name None None None None None None None None None =
      ''/snmp community add name="'' @ name @ ''"'')
   \<and> (\<forall>name on_event. mikrotik_add_scheduler_cmd name on_event None None None None None None =
      ''/system scheduler add name="'' @ name @ ''" on-event="'' @ on_event @ ''"'')
   \<and> (\<forall>name source. mikrotik_add_script_cmd name source None None None =
      ''/system script add name="'' @ name @ ''" source="''
        @ py_replace (py_replace source ''"'' (bsl @ ''"'')) ''\<newline>'' (bsl @ ''n'') @ ''"'')
   \<and> (mikrotik_create_bridge_cmd ''br0'' None None None None None None None None None =
      ''/interface bridge add name="br0"'')\<close>
  by (intro conjI allI;
      simp add:
        mikrotik_create_bridge_cmd_def mikrotik_add_bridge_port_cmd_def
        mikrotik_add_bridge_vlan_cmd_def mikrotik_create_certificate_cmd_def
        mikrotik_create_hotspot_server_cmd_def mikrotik_add_hotspot_user_cmd_def
        mikrotik_create_ipsec_peer_cmd_def mikrotik_create_ipsec_proposal_cmd_def
        mikrotik_create_ipsec_policy_cmd_def mikrotik_add_ipv6_address_cmd_def
        mikrotik_add_ipv6_route_cmd_def mikrotik_create_pppoe_server_cmd_def
        mikrotik_add_ppp_secret_cmd_def mikrotik_create_ppp_profile_cmd_def
        mikrotik_create_pppoe_client_cmd_def mikrotik_create_simple_queue_cmd_def
        mikrotik_create_queue_tree_cmd_def mikrotik_create_queue_type_cmd_def
        mikrotik_create_bgp_instance_cmd_def mikrotik_add_bgp_peer_cmd_def
        mikrotik_create_ospf_instance_cmd_def mikrotik_add_ospf_area_cmd_def
        mikrotik_add_ospf_network_cmd_def mikrotik_add_ospf_interface_cmd_def
        mikrotik_create_rip_instance_cmd_def mikrotik_add_rip_network_cmd_def
        mikrotik_add_rip_interface_cmd_def mikrotik_add_snmp_community_cmd_def
        mikrotik_add_scheduler_cmd_def mikrotik_add_script_cmd_def)

text \<open>
  Claim C3. For every optional boolean attribute parameter of every operation the command
  has three different values: with \<open>True\<close> it holds the token \<open>key=yes\<close>, with \<open>False\<close>
  the token \<open>key=no\<close> at the same place, and with the parameter unset it holds no token
  for the key (\<open>three_outcomes\<close>), whatever the other parameters are. The 61 boolean
  attribute parameters of the 32 operations that have one are listed; the flags of the
  list operations (\<open>disabled_only\<close>, \<open>active_only\<close>) select a filter and are not
  attributes. The last three lines are the example \<open>vlan_filtering\<close> of \<open>create_bridge\<close>.
\<close>

theorem boolean_attribute_three_outcomes:
  \<open>
   (\<forall>name mtu arp arp_timeout ageing_time priority protocol_mode comment disabled.
      three_outcomes ''vlan-filtering''
        (\<lambda>v. mikrotik_create_bridge_cmd name mtu arp arp_timeout ageing_time priority protocol_mode v
          comment disabled))
   \<and> (\<forall>name mtu arp arp_timeout ageing_time priority protocol_mode vlan_filtering comment.
      three_outcomes ''disabled''
        (\<lambda>v. mikrotik_create_bridge_cmd name mtu arp arp_timeout ageing_time priority protocol_mode
          vlan_filtering comment v))
   \<and> (\<forall>bridge interface pvid priority path_cost point_to_point horizon comment disabled.
      three_outcomes ''edge''
        (\<lambda>v. mikrotik_add_bridge_port_cmd bridge interface pvid priority path_cost v point_to_point horizon
          comment disabled))
   \<and> (\<forall>bridge interface pvid priority path_cost edge point_to_point horizon comment.
      three_outcomes ''disabled''
        (\<lambda>v. mikrotik_add_bridge_port_cmd bridge interface pvid priority path_cost edge point_to_point
          horizon comment v))
   \<and> (\<forall>bridge vlan_ids tagged untagged comment.
      three_outcomes ''disabled''
        (\<lambda>v. mikrotik_add_bridge_vlan_cmd bridge vlan_ids tagged untagged comment v))
   \<and> (\<forall>name interface address_pool profile.
      three_outcomes ''disabled''
        (\<lambda>v. mikrotik_create_hotspot_server_cmd name interface address_pool profile v))
   \<and> (\<forall>name password profile limit_uptime limit_bytes_total comment.
      three_outcomes ''disabled''
        (\<lambda>v. mikrotik_add_hotspot_user_cmd name password profile limit_uptime limit_bytes_total comment v))
   \<and> (\<forall>name address auth_method secret exchange_mode comment disabled.
      three_outcomes ''send-initial-contact''
        (\<lambda>v. mikrotik_create_ipsec_peer_cmd name address auth_method secret exchange_mode v comment
          disabled))
   \<and> (\<forall>name address auth_method secret exchange_mode send_initial_contact comment.
      three_outcomes ''disabled''
        (\<lambda>v. mikrotik_create_ipsec_peer_cmd name address auth_method secret exchange_mode
          send_initial_contact comment v))
   \<and> (\<forall>name auth_algorithms enc_algorithms lifetime pfs_group comment.
      three_outcomes ''disabled''
        (\<lambda>v. mikrotik_create_ipsec_proposal_cmd name auth_algorithms enc_algorithms lifetime pfs_group
          comment v))
   \<and> (\<forall>src_address dst_address action proposal comment disabled.
      three_outcomes ''tunnel''
        (\<lambda>v. mikrotik_create_ipsec_policy_cmd src_address dst_address action proposal v comment disabled))
   \<and> (\<forall>src_address dst_address action proposal tunnel comment.
      three_outcomes ''disabled''
        (\<lambda>v. mikrotik_create_ipsec_policy_cmd src_address dst_address action proposal tunnel comment v))
   \<and> (\<forall>address interface eui_64 no_dad comment disabled.
      three_outcomes ''advertise''
        (\<lambda>v. mikrotik_add_ipv6_address_cmd address interface v eui_64 no_dad comment disabled))
   \<and> (\<forall>address interface advertise no_dad comment disabled.
      three_outcomes ''eui-64''
        (\<lambda>v. mikrotik_add_ipv6_address_cmd address interface advertise v no_dad comment disabled))
   \<and> (\<forall>address interface advertise eui_64 comment disabled.
      three_outcomes ''no-dad''
        (\<lambda>v. mikrotik_add_ipv6_address_cmd address interface advertise eui_64 v comment disabled))
   \<and> (\<forall>address interface advertise eui_64 no_dad comment.
      three_outcomes ''disabled''
        (\<lambda>v. mikrotik_add_ipv6_address_cmd address interface advertise eui_64 no_dad comment v))
   \<and> (\<forall>dst_address gateway distance comment.
      three_outcomes ''disabled''
        (\<lambda>v. mikrotik_add_ipv6_route_cmd dst_address gateway distance comment v))
   \<and> (\<forall>accept_router_advertisements forward max_neighbor_entries.
      three_outcomes ''accept-redirects''
        (\<lambda>v. mikrotik_set_ipv6_settings_cmd v accept_router_advertisements forward max_neighbor_entries))
   \<and> (\<forall>accept_redirects forward max_neighbor_entries.
      three_outcomes ''accept-router-advertisements''
        (\<lambda>v. mikrotik_set_ipv6_settings_cmd accept_redirects v forward max_neighbor_entries))
   \<and> (\<forall>accept_redirects accept_router_advertisements max_neighbor_entries.
      three_outcomes ''forward''
        (\<lambda>v. mikrotik_set_ipv6_settings_cmd accept_redirects accept_router_advertisements v
          max_neighbor_entries))
   \<and> (\<forall>service_name interface default_profile authentication keepalive_timeout max_mtu
       max_mru disabled.
      three_outcomes ''one-session-per-host''
        (\<lambda>v. mikrotik_create_pppoe_server_cmd service_name interface default_profile authentication
          keepalive_timeout max_mtu max_mru v disabled))
   \<and> (\<forall>service_name interface default_profile authentication keepalive_timeout max_mtu
       max_mru one_session_per_host.
      three_outcomes ''disabled''
        (\<lambda>v. mikrotik_create_pppoe_server_cmd service_name interface default_profile authentication
          keepalive_timeout max_mtu max_mru one_session_per_host v))
   \<and> (\<forall>name password service profile local_address remote_address routes limit_bytes_in
       limit_bytes_out comment.
      three_outcomes ''disabled''
        (\<lambda>v. mikrotik_add_ppp_secret_cmd name password service profile local_address remote_address routes
          limit_bytes_in limit_bytes_out comment v))
   \<and> (\<forall>name local_address remote_address dns_server wins_server use_encryption only_one
       rate_limit comment.
      three_outcomes ''use-compression''
        (\<lambda>v. mikrotik_create_ppp_profile_cmd name local_address remote_address dns_server wins_server v
          use_encryption only_one rate_limit comment))
   \<and> (\<forall>name local_address remote_address dns_server wins_server use_compression only_one
       rate_limit comment.
      three_outcomes ''use-encryption''
        (\<lambda>v. mikrotik_create_ppp_profile_cmd name local_address remote_address dns_server wins_server
          use_compression v only_one rate_limit comment))
   \<and> (\<forall>name local_address remote_address dns_server wins_server use_compression
       use_encryption rate_limit comment.
      three_outcomes ''only-one''
        (\<lambda>v. mikrotik_create_ppp_profile_cmd name local_address remote_address dns_server wins_server
          use_compression use_encryption v rate_limit comment))
   \<and> (\<forall>name interface user password service_name use_peer_dns profile comment disabled.
      three_outcomes ''add-default-route''
        (\<lambda>v. mikrotik_create_pppoe_client_cmd name interface user password service_name v use_peer_dns
          profile comment disabled))
   \<and> (\<forall>name interface user password service_name add_default_route profile comment
       disabled.
      three_outcomes ''use-peer-dns''
        (\<lambda>v. mikrotik_create_pppoe_client_cmd name interface user password service_name add_default_route v
          profile comment disabled))
   \<and> (\<forall>name interface user password service_name add_default_route use_peer_dns profile
       comment.
      three_outcomes ''disabled''
        (\<lambda>v. mikrotik_create_pppoe_client_cmd name interface user password service_name add_default_route
          use_peer_dns profile comment v))
   \<and> (\<forall>name target max_limit burst_limit burst_threshold burst_time limit_at priority
       queue_type parent comment.
      three_outcomes ''disabled''
        (\<lambda>v. mikrotik_create_simple_queue_cmd name target max_limit burst_limit burst_threshold burst_time
          limit_at priority queue_type parent comment v))
   \<and> (\<forall>name parent max_limit burst_limit burst_threshold burst_time limit_at priority
       queue_type packet_mark comment.
      three_outcomes ''disabled''
        (\<lambda>v. mikrotik_create_queue_tree_cmd name parent max_limit burst_limit burst_threshold burst_time
          limit_at priority queue_type packet_mark comment v))
   \<and> (\<forall>name as_number router_id redistribute_static redistribute_ospf
       client_to_client_reflection comment disabled.
      three_outcomes ''redistribute-connected''
        (\<lambda>v. mikrotik_create_bgp_instance_cmd name as_number router_id v redistribute_static
          redistribute_ospf client_to_client_reflection comment disabled))
   \<and> (\<forall>name as_number router_id redistribute_connected redistribute_ospf
       client_to_client_reflection comment disabled.
      three_outcomes ''redistribute-static''
        (\<lambda>v. mikrotik_create_bgp_instance_cmd name as_number router_id redistribute_connected v
          redistribute_ospf client_to_client_reflection comment disabled))
   \<and> (\<forall>name as_number router_id redistribute_connected redistribute_static
       client_to_client_reflection comment disabled.
      three_outcomes ''redistribute-ospf''
        (\<lambda>v. mikrotik_create_bgp_instance_cmd name as_number router_id redistribute_connected
          redistribute_static v client_to_client_reflection comment disabled))
   \<and> (\<forall>name as_number router_id redistribute_connected redistribute_static
       redistribute_ospf comment disabled.
      three_outcomes ''client-to-client-reflection''
        (\<lambda>v. mikrotik_create_bgp_instance_cmd name as_number router_id redistribute_connected
          redistribute_static redistribute_ospf v comment disabled))
   \<and> (\<forall>name as_number router_id redistribute_connected redistribute_static
       redistribute_ospf client_to_client_reflection comment.
      three_outcomes ''disabled''
        (\<lambda>v. mikrotik_create_bgp_instance_cmd name as_number router_id redistribute_connected
          redistribute_static redistribute_ospf client_to_client_reflection comment v))
   \<and> (\<forall>name instance remote_address remote_as ttl route_reflect hold_time tcp_md5_key
       update_source comment disabled.
      three_outcomes ''multihop''
        (\<lambda>v. mikrotik_add_bgp_peer_cmd name instance remote_address remote_as ttl v route_reflect hold_time
          tcp_md5_key update_source comment disabled))
   \<and> (\<forall>name instance remote_address remote_as ttl multihop hold_time tcp_md5_key
       update_source comment disabled.
      three_outcomes ''route-reflect''
        (\<lambda>v. mikrotik_add_bgp_peer_cmd name instance remote_address remote_as ttl multihop v hold_time
          tcp_md5_key update_source comment disabled))
   \<and> (\<forall>name instance remote_address remote_as ttl multihop route_reflect hold_time
       tcp_md5_key update_source comment.
      three_outcomes ''disabled''
        (\<lambda>v. mikrotik_add_bgp_peer_cmd name instance remote_address remote_as ttl multihop route_reflect
          hold_time tcp_md5_key update_source comment v))
   \<and> (\<forall>name router_id redistribute_static redistribute_bgp comment disabled.
      three_outcomes ''redistribute-connected''
        (\<lambda>v. mikrotik_create_ospf_instance_cmd name router_id v redistribute_static redistribute_bgp
          comment disabled))
   \<and> (\<forall>name router_id redistribute_connected redistribute_bgp comment disabled.
      three_outcomes ''redistribute-static''
        (\<lambda>v. mikrotik_create_ospf_instance_cmd name router_id redistribute_connected v redistribute_bgp
          comment disabled))
   \<and> (\<forall>name router_id redistribute_connected redistribute_static comment disabled.
      three_outcomes ''redistribute-bgp''
        (\<lambda>v. mikrotik_create_ospf_instance_cmd name router_id redistribute_connected redistribute_static v
          comment disabled))
   \<and> (\<forall>name router_id redistribute_connected redistribute_static redistribute_bgp comment.
      three_outcomes ''disabled''
        (\<lambda>v. mikrotik_create_ospf_instance_cmd name router_id redistribute_connected redistribute_static
          redistribute_bgp comment v))
   \<and> (\<forall>name area_id instance type comment.
      three_outcomes ''disabled''
        (\<lambda>v. mikrotik_add_ospf_area_cmd name area_id instance type comment v))
   \<and> (\<forall>network area comment. three_outcomes ''disabled''
        (\<lambda>v. mikrotik_add_ospf_network_cmd network area comment v))
   \<and> (\<forall>interface network_type priority cost authentication authentication_key comment.
      three_outcomes ''disabled''
        (\<lambda>v. mikrotik_add_ospf_interface_cmd interface network_type priority cost authentication
          authentication_key comment v))
   \<and> (\<forall>name redistribute_static redistribute_ospf redistribute_bgp comment disabled.
      three_outcomes ''redistribute-connected''
        (\<lambda>v. mikrotik_create_rip_instance_cmd name v redistribute_static redistribute_ospf redistribute_bgp
          comment disabled))
   \<and> (\<forall>name redistribute_connected redistribute_ospf redistribute_bgp comment disabled.
      three_outcomes ''redistribute-static''
        (\<lambda>v. mikrotik_create_rip_instance_cmd name redistribute_connected v redistribute_ospf
          redistribute_bgp comment disabled))
   \<and> (\<forall>name redistribute_connected redistribute_static redistribute_bgp comment disabled.
      three_outcomes ''redistribute-ospf''
        (\<lambda>v. mikrotik_create_rip_instance_cmd name redistribute_connected redistribute_static v
          redistribute_bgp comment disabled))
   \<and> (\<forall>name redistribute_connected redistribute_static redistribute_ospf comment disabled.
      three_outcomes ''redistribute-bgp''
        (\<lambda>v. mikrotik_create_rip_instance_cmd name redistribute_connected redistribute_static
          redistribute_ospf v comment disabled))
   \<and> (\<forall>name redistribute_connected redistribute_static redistribute_ospf redistribute_bgp
       comment.
      three_outcomes ''disabled''
        (\<lambda>v. mikrotik_create_rip_instance_cmd name redistribute_connected redistribute_static
          redistribute_ospf redistribute_bgp comment v))
   \<and> (\<forall>network instance comment. three_outcomes ''disabled''
        (\<lambda>v. mikrotik_add_rip_network_cmd network instance comment v))
   \<and> (\<forall>interface receive send authentication authentication_key comment.
      three_outcomes ''disabled''
        (\<lambda>v. mikrotik_add_rip_interface_cmd interface receive send authentication authentication_key
          comment v))
   \<and> (\<forall>contact location engine_id trap_version trap_community trap_generators.
      three_outcomes ''enabled''
        (\<lambda>v. mikrotik_set_snmp_settings_cmd v contact location engine_id trap_version trap_community
          trap_generators))
   \<and> (\<forall>name addresses write_access authentication_protocol authentication_password
       encryption_protocol encryption_password comment disabled.
      three_outcomes ''read-access''
        (\<lambda>v. mikrotik_add_snmp_community_cmd name addresses v write_access authentication_protocol
          authentication_password encryption_protocol encryption_password comment disabled))
   \<and> (\<forall>name addresses read_access authentication_protocol authentication_password
       encryption_protocol encryption_password comment disabled.
      three_outcomes ''write-access''
        (\<lambda>v. mikrotik_add_snmp_community_cmd name addresses read_access v authentication_protocol
          authentication_password encryption_protocol encryption_password comment disabled))
   \<and> (\<forall>name addresses read_access write_access authentication_protocol
       authentication_password encryption_protocol encryption_password comment.
      three_outcomes ''disabled''
        (\<lambda>v. mikrotik_add_snmp_community_cmd name addresses read_access write_access
          authentication_protocol authentication_password encryption_protocol
          encryption_password comment v))
   \<and> (\<forall>time_zone_name. three_outcomes ''time-zone-autodetect''
        (\<lambda>v. mikrotik_set_system_clock_cmd time_zone_name v))
   \<and> (\<forall>servers mode. three_outcomes ''enabled''
        (\<lambda>v. mikrotik_set_ntp_client_cmd v servers mode))
   \<and> (\<forall>name on_event start_date start_time interval policy comment.
      three_outcomes ''disabled''
        (\<lambda>v. mikrotik_add_scheduler_cmd name on_event start_date start_time interval policy comment v))
   \<and> (\<forall>name source policy comment. three_outcomes ''dont-require-permissions''
        (\<lambda>v. mikrotik_add_script_cmd name source policy comment v))
   \<and> (mikrotik_create_bridge_cmd ''br0'' None None None None None None (Some True) None None =
      ''/interface bridge add name="br0" vlan-filtering=yes'')
   \<and> (mikrotik_create_bridge_cmd ''br0'' None None None None None None (Some False) None None =
      ''/interface bridge add name="br0" vlan-filtering=no'')
   \<and> (mikrotik_create_bridge_cmd ''br0'' None None None None None None None None None =
      ''/interface bridge add name="br0"'')\<close>
proof -
  have tokens:
    \<open>
     (\<forall>name mtu arp arp_timeout ageing_time priority protocol_mode comment disabled.
      three_outcomes ''vlan-filtering''
        (\<lambda>v. mikrotik_create_bridge_cmd name mtu arp arp_timeout ageing_time priority protocol_mode v
          comment disabled))
     \<and> (\<forall>name mtu arp arp_timeout ageing_time priority protocol_mode vlan_filtering comment.
      three_outcomes ''disabled''
        (\<lambda>v. mikrotik_create_bridge_cmd name mtu arp arp_timeout ageing_time priority protocol_mode
          vlan_filtering comment v))
     \<and> (\<forall>bridge interface pvid priority path_cost point_to_point horizon comment disabled.
      three_outcomes ''edge''
        (\<lambda>v. mikrotik_add_bridge_port_cmd bridge interface pvid priority path_cost v point_to_point horizon
          comment disabled))
     \<and> (\<forall>bridge interface pvid priority path_cost edge point_to_point horizon comment.
      three_outcomes ''disabled''
        (\<lambda>v. mikrotik_add_bridge_port_cmd bridge interface pvid priority path_cost edge point_to_point
          horizon comment v))
     \<and> (\<forall>bridge vlan_ids tagged untagged comment.
      three_outcomes ''disabled''
        (\<lambda>v. mikrotik_add_bridge_vlan_cmd bridge vlan_ids tagged untagged comment v))
     \<and> (\<forall>name interface address_pool profile.
      three_outcomes ''disabled''
        (\<lambda>v. mikrotik_create_hotspot_server_cmd name interface address_pool profile v))
     \<and> (\<forall>name password profile limit_uptime limit_bytes_total comment.
      three_outcomes ''disabled''
        (\<lambda>v. mikrotik_add_hotspot_user_cmd name password profile limit_uptime limit_bytes_total comment v))
     \<and> (\<forall>name address auth_method secret exchange_mode comment disabled.
      three_outcomes ''send-initial-contact''
        (\<lambda>v. mikrotik_create_ipsec_peer_cmd name address auth_method secret exchange_mode v comment
          disabled))
     \<and> (\<forall>name address auth_method secret exchange_mode send_initial_contact comment.
      three_outcomes ''disabled''
        (\<lambda>v. mikrotik_create_ipsec_peer_cmd name address auth_method secret exchange_mode
          send_initial_contact comment v))
     \<and> (\<forall>name auth_algorithms enc_algorithms lifetime pfs_group comment.
      three_outcomes ''disabled''
        (\<lambda>v. mikrotik_create_ipsec_proposal_cmd name auth_algorithms enc_algorithms lifetime pfs_group
          comment v))
     \<and> (\<forall>src_address dst_address action proposal comment disabled.
      three_outcomes ''tunnel''
        (\<lambda>v. mikrotik_create_ipsec_policy_cmd src_address dst_address action proposal v comment disabled))
     \<and> (\<forall>src_address dst_address action proposal tunnel comment.
      three_outcomes ''disabled''
        (\<lambda>v. mikrotik_create_ipsec_policy_cmd src_address dst_address action proposal tunnel comment v))
     \<and> (\<forall>address interface eui_64 no_dad comment disabled.
      three_outcomes ''advertise''
        (\<lambda>v. mikrotik_add_ipv6_address_cmd address interface v eui_64 no_dad comment disabled))
     \<and> (\<forall>address interface advertise no_dad comment disabled.
      three_outcomes ''eui-64''
        (\<lambda>v. mikrotik_add_ipv6_address_cmd address interface advertise v no_dad comment disabled))
     \<and> (\<forall>address interface advertise eui_64 comment disabled.
      three_outcomes ''no-dad''
        (\<lambda>v. mikrotik_add_ipv6_address_cmd address interface advertise eui_64 v comment disabled))
     \<and> (\<forall>address interface advertise eui_64 no_dad comment.
      three_outcomes ''disabled''
        (\<lambda>v. mikrotik_add_ipv6_address_cmd address interface advertise eui_64 no_dad comment v))
     \<and> (\<forall>dst_address gateway distance comment.
      three_outcomes ''disabled''
        (\<lambda>v. mikrotik_add_ipv6_route_cmd dst_address gateway distance comment v))
     \<and> (\<forall>accept_router_advertisements forward max_neighbor_entries.
      three_outcomes ''accept-redirects''
        (\<lambda>v. mikrotik_set_ipv6_settings_cmd v accept_router_advertisements forward max_neighbor_entries))
     \<and> (\<forall>accept_redirects forward max_neighbor_entries.
      three_outcomes ''accept-router-advertisements''
        (\<lambda>v. mikrotik_set_ipv6_settings_cmd accept_redirects v forward max_neighbor_entries))
     \<and> (\<forall>accept_redirects accept_router_advertisements max_neighbor_entries.
      three_outcomes ''forward''
        (\<lambda>v. mikrotik_set_ipv6_settings_cmd accept_redirects accept_router_advertisements v
          max_neighbor_entries))
     \<and> (\<forall>service_name interface default_profile authentication keepalive_timeout max_mtu
       max_mru disabled.
      three_outcomes ''one-session-per-host''
        (\<lambda>v. mikrotik_create_pppoe_server_cmd service_name interface default_profile authentication
          keepalive_timeout max_mtu max_mru v disabled))
     \<and> (\<forall>service_name interface default_profile authentication keepalive_timeout max_mtu
       max_mru one_session_per_host.
      three_outcomes ''disabled''
        (\<lambda>v. mikrotik_create_pppoe_server_cmd service_name interface default_profile authentication
          keepalive_timeout max_mtu max_mru one_session_per_host v))
     \<and> (\<forall>name password service profile local_address remote_address routes limit_bytes_in
       limit_bytes_out comment.
      three_outcomes ''disabled''
        (\<lambda>v. mikrotik_add_ppp_secret_cmd name password service profile local_address remote_address routes
          limit_bytes_in limit_bytes_out comment v))
     \<and> (\<forall>name local_address remote_address dns_server wins_server use_encryption only_one
       rate_limit comment.
      three_outcomes ''use-compression''
        (\<lambda>v. mikrotik_create_ppp_profile_cmd name local_address remote_address dns_server wins_server v
          use_encryption only_one rate_limit comment))
     \<and> (\<forall>name local_address remote_address dns_server wins_server use_compression only_one
       rate_limit comment.
      three_outcomes ''use-encryption''
        (\<lambda>v. mikrotik_create_ppp_profile_cmd name local_address remote_address dns_server wins_server
          use_compression v only_one rate_limit comment))
     \<and> (\<forall>name local_address remote_address dns_server wins_server use_compression
       use_encryption rate_limit comment.
      three_outcomes ''only-one''
        (\<lambda>v. mikrotik_create_ppp_profile_cmd name local_address remote_address dns_server wins_server
          use_compression use_encryption v rate_limit comment))
     \<and> (\<forall>name interface user password service_name use_peer_dns profile comment disabled.
      three_outcomes ''add-default-route''
        (\<lambda>v. mikrotik_create_pppoe_client_cmd name interface user password service_name v use_peer_dns
          profile comment disabled))
     \<and> (\<forall>name interface user password service_name add_default_route profile comment
       disabled.
      three_outcomes ''use-peer-dns''
        (\<lambda>v. mikrotik_create_pppoe_client_cmd name interface user password service_name add_default_route v
          profile comment disabled))
     \<and> (\<forall>name interface user password service_name add_default_route use_peer_dns profile
       comment.
      three_outcomes ''disabled''
        (\<lambda>v. mikrotik_create_pppoe_client_cmd name interface user password service_name add_default_route
          use_peer_dns profile comment v))
     \<and> (\<forall>name target max_limit burst_limit burst_threshold burst_time limit_at priority
       queue_type parent comment.
      three_outcomes ''disabled''
        (\<lambda>v. mikrotik_create_simple_queue_cmd name target max_limit burst_limit burst_threshold burst_time
          limit_at priority queue_type parent comment v))
     \<and> (\<forall>name parent max_limit burst_limit burst_threshold burst_time limit_at priority
       queue_type packet_mark comment.
      three_outcomes ''disabled''
        (\<lambda>v. mikrotik_create_queue_tree_cmd name parent max_limit burst_limit burst_threshold burst_time
          limit_at priority queue_type packet_mark comment v))
     \<and> (\<forall>name as_number router_id redistribute_static redistribute_ospf
       client_to_client_reflection comment disabled.
      three_outcomes ''redistribute-connected''
        (\<lambda>v. mikrotik_create_bgp_instance_cmd name as_number router_id v redistribute_static
          redistribute_ospf client_to_client_reflection comment disabled))
     \<and> (\<forall>name as_number router_id redistribute_connected redistribute_ospf
       client_to_client_reflection comment disabled.
      three_outcomes ''redistribute-static''
        (\<lambda>v. mikrotik_create_bgp_instance_cmd name as_number router_id redistribute_connected v
          redistribute_ospf client_to_client_reflection comment disabled))
     \<and> (\<forall>name as_number router_id redistribute_connected redistribute_static
       client_to_client_reflection comment disabled.
      three_outcomes ''redistribute-ospf''
        (\<lambda>v. mikrotik_create_bgp_instance_cmd name as_number router_id redistribute_connected
          redistribute_static v client_to_client_reflection comment disabled))
     \<and> (\<forall>name as_number router_id redistribute_connected redistribute_static
       redistribute_ospf comment disabled.
      three_outcomes ''client-to-client-reflection''
        (\<lambda>v. mikrotik_create_bgp_instance_cmd name as_number router_id redistribute_connected
          redistribute_static redistribute_ospf v comment disabled))
     \<and> (\<forall>name as_number router_id redistribute_connected redistribute_static
       redistribute_ospf client_to_client_reflection comment.
      three_outcomes ''disabled''
        (\<lambda>v. mikrotik_create_bgp_instance_cmd name as_number router_id redistribute_connected
          redistribute_static redistribute_ospf client_to_client_reflection comment v))
     \<and> (\<forall>name instance remote_address remote_as ttl route_reflect hold_time tcp_md5_key
       update_source comment disabled.
      three_outcomes ''multihop''
        (\<lambda>v. mikrotik_add_bgp_peer_cmd name instance remote_address remote_as ttl v route_reflect hold_time
          tcp_md5_key update_source comment disabled))
     \<and> (\<forall>name instance remote_address remote_as ttl multihop hold_time tcp_md5_key
       update_source comment disabled.
      three_outcomes ''route-reflect''
        (\<lambda>v. mikrotik_add_bgp_peer_cmd name instance remote_address remote_as ttl multihop v hold_time
          tcp_md5_key update_source comment disabled))
     \<and> (\<forall>name instance remote_address remote_as ttl multihop route_reflect hold_time
       tcp_md5_key update_source comment.
      three_outcomes ''disabled''
        (\<lambda>v. mikrotik_add_bgp_peer_cmd name instance remote_address remote_as ttl multihop route_reflect
          hold_time tcp_md5_key update_source comment v))
     \<and> (\<forall>name router_id redistribute_static redistribute_bgp comment disabled.
      three_outcomes ''redistribute-connected''
        (\<lambda>v. mikrotik_create_ospf_instance_cmd name router_id v redistribute_static redistribute_bgp
          comment disabled))
     \<and> (\<forall>name router_id redistribute_connected redistribute_bgp comment disabled.
      three_outcomes ''redistribute-static''
        (\<lambda>v. mikrotik_create_ospf_instance_cmd name router_id redistribute_connected v redistribute_bgp
          comment disabled))
     \<and> (\<forall>name router_id redistribute_connected redistribute_static comment disabled.
      three_outcomes ''redistribute-bgp''
        (\<lambda>v. mikrotik_create_ospf_instance_cmd name router_id redistribute_connected redistribute_static v
          comment disabled))
     \<and> (\<forall>name router_id redistribute_connected redistribute_static redistribute_bgp comment.
      three_outcomes ''disabled''
        (\<lambda>v. mikrotik_create_ospf_instance_cmd name router_id redistribute_connected redistribute_static
          redistribute_bgp comment v))
     \<and> (\<forall>name area_id instance type comment.
      three_outcomes ''disabled''
        (\<lambda>v. mikrotik_add_ospf_area_cmd name area_id instance type comment v))
     \<and> (\<forall>network area comment. three_outcomes ''disabled''
        (\<lambda>v. mikrotik_add_ospf_network_cmd network area comment v))
     \<and> (\<forall>interface network_type priority cost authentication authentication_key comment.
      three_outcomes ''disabled''
        (\<lambda>v. mikrotik_add_ospf_interface_cmd interface network_type priority cost authentication
          authentication_key comment v))
     \<and> (\<forall>name redistribute_static redistribute_ospf redistribute_bgp comment disabled.
      three_outcomes ''redistribute-connected''
        (\<lambda>v. mikrotik_create_rip_instance_cmd name v redistribute_static redistribute_ospf redistribute_bgp
          comment disabled))
     \<and> (\<forall>name redistribute_connected redistribute_ospf redistribute_bgp comment disabled.
      three_outcomes ''redistribute-static''
        (\<lambda>v. mikrotik_create_rip_instance_cmd name redistribute_connected v redistribute_ospf
          redistribute_bgp comment disabled))
     \<and> (\<forall>name redistribute_connected redistribute_static redistribute_bgp comment disabled.
      three_outcomes ''redistribute-ospf''
        (\<lambda>v. mikrotik_create_rip_instance_cmd name redistribute_connected redistribute_static v
          redistribute_bgp comment disabled))
     \<and> (\<forall>name redistribute_connected redistribute_static redistribute_ospf comment disabled.
      three_outcomes ''redistribute-bgp''
        (\<lambda>v. mikrotik_create_rip_instance_cmd name redistribute_connected redistribute_static
          redistribute_ospf v comment disabled))
     \<and> (\<forall>name redistribute_connected redistribute_static redistribute_ospf redistribute_bgp
       comment.
      three_outcomes ''disabled''
        (\<lambda>v. mikrotik_create_rip_instance_cmd name redistribute_connected redistribute_static
          redistribute_ospf redistribute_bgp comment v))
     \<and> (\<forall>network instance comment. three_outcomes ''disabled''
        (\<lambda>v. mikrotik_add_rip_network_cmd network instance comment v))
     \<and> (\<forall>interface receive send authentication authentication_key comment.
      three_outcomes ''disabled''
        (\<lambda>v. mikrotik_add_rip_interface_cmd interface receive send authentication authentication_key
          comment v))
     \<and> (\<forall>contact location engine_id trap_version trap_community trap_generators.
      three_outcomes ''enabled''
        (\<lambda>v. mikrotik_set_snmp_settings_cmd v contact location engine_id trap_version trap_community
          trap_generators))
     \<and> (\<forall>name addresses write_access authentication_protocol authentication_password
       encryption_protocol encryption_password comment disabled.
      three_outcomes ''read-access''
        (\<lambda>v. mikrotik_add_snmp_community_cmd name addresses v write_access authentication_protocol
          authentication_password encryption_protocol encryption_password comment disabled))
     \<and> (\<forall>name addresses read_access authentication_protocol authentication_password
       encryption_protocol encryption_password comment disabled.
      three_outcomes ''write-access''
        (\<lambda>v. mikrotik_add_snmp_community_cmd name addresses read_access v authentication_protocol
          authentication_password encryption_protocol encryption_password comment disabled))
     \<and> (\<forall>name addresses read_access write_access authentication_protocol
       authentication_password encryption_protocol encryption_password comment.
      three_outcomes ''disabled''
        (\<lambda>v. mikrotik_add_snmp_community_cmd name addresses read_access write_access
          authentication_protocol authentication_password encryption_protocol
          encryption_password comment v))
     \<and> (\<forall>time_zone_name. three_outcomes ''time-zone-autodetect''
        (\<lambda>v. mikrotik_set_system_clock_cmd time_zone_name v))
     \<and> (\<forall>servers mode. three_outcomes ''enabled''
        (\<lambda>v. mikrotik_set_ntp_client_cmd v servers mode))
     \<and> (\<forall>name on_event start_date start_time interval policy comment.
      three_outcomes ''disabled''
        (\<lambda>v. mikrotik_add_scheduler_cmd name on_event start_date start_time interval policy comment v))
     \<and> (\<forall>name source policy comment. three_outcomes ''dont-require-permissions''
        (\<lambda>v. mikrotik_add_script_cmd name source policy comment v))\<close>
    unfolding command_tokens
    by (intro conjI allI three_outcomes_prepend three_outcomes_here three_outcomes_last)
  have examples:
    \<open>
     (mikrotik_create_bridge_cmd ''br0'' None None None None None None (Some True) None None =
      ''/interface bridge add name="br0" vlan-filtering=yes'')
     \<and> (mikrotik_create_bridge_cmd ''br0'' None None None None None None (Some False) None None =
      ''/interface bridge add name="br0" vlan-filtering=no'')
     \<and> (mikrotik_create_bridge_cmd ''br0'' None None None None None None None None None =
      ''/interface bridge add name="br0"'')\<close>
    by (simp add: mikrotik_create_bridge_cmd_def)
  from tokens examples show ?thesis by (simp only: simp_thms)
qed

text \<open>
  Claim C4 says that a list operation with several optional filters puts the first
  supplied filter, in the declared order, into its \<open>where\<close> clause. The code selects
  with \<^verbatim>\<open>if name_filter: ... elif disabled_only:\<close>, a truth value test: a filter that is
  supplied as the empty text (or a flag supplied as \<open>False\<close>) is passed over. For
  \<^verbatim>\<open>list_bridges(name_filter="", disabled_only=True)\<close> the first supplied filter is
  \<open>name_filter\<close>, and the command filters on \<open>disabled\<close>.
\<close>

theorem first_supplied_filter_counterexample:
  \<open>mikrotik_list_bridges_cmd (Some '''') (Some True) \<noteq> ''/interface bridge print where name~""''
   \<and> mikrotik_list_bridges_cmd (Some '''') (Some True) = ''/interface bridge print where disabled=yes''\<close>
  by (simp add: mikrotik_list_bridges_cmd_def)

text \<open>
  Claim C4, amended. For every list operation with more than one optional filter and every
  combination of arguments, the command is the print command followed by at most one
  \<open>where\<close> clause: that of the first filter, in the declared order, whose argument is a
  non-empty text or the flag \<open>True\<close>. Two filters are never combined. The 7 operations
  are listed; the line on \<open>where_clause\<close> says that the clause is empty or holds exactly
  one of the conditions on offer, and the last line is the example
  \<^verbatim>\<open>list_bridges(name_filter="br", disabled_only=True)\<close>.
\<close>

theorem list_filter_first_in_force:
  \<open>
   (\<forall>name_filter disabled_only. mikrotik_list_bridges_cmd name_filter disabled_only =
      ''/interface bridge print'' @ where_clause [match_filter ''name'' name_filter, flag_filter ''disabled'' disabled_only])
   \<and> (\<forall>bridge_filter interface_filter.
      mikrotik_list_bridge_ports_cmd bridge_filter interface_filter =
      ''/interface bridge port print'' @ where_clause [match_filter ''bridge'' bridge_filter, match_filter ''interface'' interface_filter])
   \<and> (\<forall>interface_filter disabled_only.
      mikrotik_list_ipv6_addresses_cmd interface_filter disabled_only =
      ''/ipv6 address print'' @ where_clause [match_filter ''interface'' interface_filter, flag_filter ''disabled'' disabled_only])
   \<and> (\<forall>dst_filter gateway_filter active_only.
      mikrotik_list_ipv6_routes_cmd dst_filter gateway_filter active_only =
      ''/ipv6 route print'' @ where_clause [match_filter ''dst-address'' dst_filter, match_filter ''gateway'' gateway_filter, flag_filter ''active'' active_only])
   \<and> (\<forall>service_filter disabled_only. mikrotik_list_ppp_secrets_cmd service_filter disabled_only =
      ''/ppp secret print'' @ where_clause [equal_filter ''service'' service_filter, flag_filter ''disabled'' disabled_only])
   \<and> (\<forall>name_filter target_filter disabled_only.
      mikrotik_list_simple_queues_cmd name_filter target_filter disabled_only =
      ''/queue simple print'' @ where_clause [match_filter ''name'' name_filter, match_filter ''target'' target_filter, flag_filter ''disabled'' disabled_only])
   \<and> (\<forall>name_filter parent_filter disabled_only.
      mikrotik_list_queue_tree_cmd name_filter parent_filter disabled_only =
      ''/queue tree print'' @ where_clause [match_filter ''name'' name_filter, match_filter ''parent'' parent_filter, flag_filter ''disabled'' disabled_only])
   \<and> (\<forall>conds. where_clause conds = [] \<or>
      (\<exists>c. Some c \<in> set conds \<and> where_clause conds = '' where '' @ c))
   \<and> (mikrotik_list_bridges_cmd (Some ''br'') (Some True) = ''/interface bridge print where name~"br"'')\<close>
  using where_clause_at_most_one
  by (intro conjI allI;
      simp add: filter_if
        mikrotik_list_bridges_cmd_def mikrotik_list_bridge_ports_cmd_def
        mikrotik_list_ipv6_addresses_cmd_def mikrotik_list_ipv6_routes_cmd_def
        mikrotik_list_ppp_secrets_cmd_def mikrotik_list_simple_queues_cmd_def
        mikrotik_list_queue_tree_cmd_def)

text \<open>
  Claim C5 says that every optional parameter that is supplied contributes its token, also
  when the value is the integer 0 or the empty text. Most optional parameters are tested
  with \<^verbatim>\<open>if x:\<close>, which is false for both: \<open>create_bridge\<close> with the comment \<open>""\<close>
  and the MTU 0, and \<open>create_certificate\<close> with key size 0 and 0 days of validity,
  build the commands of the calls without these parameters.
\<close>

theorem supplied_falsy_value_counterexample:
  \<open>mikrotik_create_bridge_cmd ''br0'' None None None None None None None (Some '''') None =
     ''/interface bridge add name="br0"''
   \<and> mikrotik_create_bridge_cmd ''br0'' (Some 0) None None None None None None None None =
     ''/interface bridge add name="br0"''
   \<and> mikrotik_create_certificate_cmd ''ca'' ''example'' (Some 0) (Some 0) None None None None None None None =
     ''/certificate add name="ca" common-name="example"''\<close>
  by (simp add: mikrotik_create_bridge_cmd_def mikrotik_create_certificate_cmd_def)

text \<open>
  Claim C5, amended. For every operation that takes optional attribute parameters, the
  command is the base command followed, in the declared order, by one token for every
  optional parameter that is supplied with: a boolean; an integer, where the parameter is
  tested with \<^verbatim>\<open>is not None\<close> (0 included); a non-zero integer for \<open>mtu\<close>, \<open>key_size\<close>
  and \<open>days_valid\<close>; a non-empty text; a non-empty server list. An absent parameter
  and an empty text contribute nothing. What \<open>mtu\<close>, \<open>key_size\<close> and \<open>days_valid\<close>
  contribute at 0 is left open, and nothing else is: in the commands of \<open>create_bridge\<close>
  and \<open>create_certificate\<close> the place of such a parameter is taken by an unknown
  \<open>mtu_token\<close>, \<open>key_size_token\<close>, \<open>days_valid_token\<close> that depends on the value of
  that parameter alone and is its integer token wherever the value is not 0, while
  every other token of the command is stated for all arguments. The 37 operations are
  listed.
\<close>

theorem optional_attribute_tokens:
  \<open>
   (\<exists>mtu_token.
    \<forall>name mtu arp arp_timeout ageing_time priority protocol_mode vlan_filtering comment
       disabled.
      mikrotik_create_bridge_cmd name mtu arp arp_timeout ageing_time priority protocol_mode
        vlan_filtering comment disabled =
      ''/interface bridge add name="'' @ name @ ''"'' @ mtu_token mtu @ bare_token ''arp'' arp
        @ bare_token ''arp-timeout'' arp_timeout @ bare_token ''ageing-time'' ageing_time
        @ int_token ''priority'' priority @ bare_token ''protocol-mode'' protocol_mode
        @ yes_no_token ''vlan-filtering'' vlan_filtering @ quoted_token ''comment'' comment
        @ yes_no_token ''disabled'' disabled
      \<and> (mtu \<noteq> Some 0 \<longrightarrow> mtu_token mtu = int_token ''mtu'' mtu))
   \<and> (\<forall>bridge interface pvid priority path_cost edge point_to_point horizon comment
       disabled.
      mikrotik_add_bridge_port_cmd bridge interface pvid priority path_cost edge point_to_point
        horizon comment disabled =
      ''/interface bridge port add bridge="'' @ bridge @ ''" interface="'' @ interface @ ''"''
        @ int_token ''pvid'' pvid @ int_token ''priority'' priority
        @ int_token ''path-cost'' path_cost @ yes_no_token ''edge'' edge
        @ bare_token ''point-to-point'' point_to_point @ int_token ''horizon'' horizon
        @ quoted_token ''comment'' comment @ yes_no_token ''disabled'' disabled)
   \<and> (\<forall>bridge vlan_ids tagged untagged comment disabled.
      mikrotik_add_bridge_vlan_cmd bridge vlan_ids tagged untagged comment disabled =
      ''/interface bridge vlan add bridge="'' @ bridge @ ''" vlan-ids='' @ vlan_ids
        @ quoted_token ''tagged'' tagged @ quoted_token ''untagged'' untagged
        @ quoted_token ''comment'' comment @ yes_no_token ''disabled'' disabled)
   \<and> (\<exists>key_size_token days_valid_token.
    \<forall>name common_name key_size days_valid key_usage subject_alt_name country state
       locality organization unit.
      mikrotik_create_certificate_cmd name common_name key_size days_valid key_usage
        subject_alt_name country state locality organization unit =
      ''/certificate add name="'' @ name @ ''" common-name="'' @ common_name @ ''"''
        @ key_size_token key_size @ days_valid_token days_valid
        @ quoted_token ''key-usage'' key_usage
        @ quoted_token ''subject-alt-name'' subject_alt_name @ quoted_token ''country'' country
        @ quoted_token ''state'' state @ quoted_token ''locality'' locality
        @ quoted_token ''organization'' organization @ quoted_token ''unit'' unit
      \<and> (key_size \<noteq> Some 0 \<longrightarrow> key_size_token key_size = int_token ''key-size'' key_size)
      \<and> (days_valid \<noteq> Some 0 \<longrightarrow> days_valid_token days_valid = int_token ''days-valid'' days_valid))
   \<and> (\<forall>name ca. mikrotik_sign_certificate_cmd name ca =
      ''/certificate sign [find name="'' @ name @ ''"]'' @ quoted_token ''ca'' ca)
   \<and> (\<forall>file_name passphrase name. mikrotik_import_certificate_cmd file_name passphrase name =
      ''/certificate import file-name="'' @ file_name @ ''"''
        @ quoted_token ''passphrase'' passphrase @ quoted_token ''name'' name)
   \<and> (\<forall>name file_name export_passphrase type.
      mikrotik_export_certificate_cmd name file_name export_passphrase type =
      ''/certificate export [find name="'' @ name @ ''"]''
        @ quoted_token ''file-name'' file_name
        @ quoted_token ''export-passphrase'' export_passphrase @ bare_token ''type'' type)
   \<and> (\<forall>name interface address_pool profile disabled.
      mikrotik_create_hotspot_server_cmd name interface address_pool profile disabled =
      ''/ip hotspot add name="'' @ name @ ''" interface="'' @ interface @ ''" address-pool="''
        @ address_pool @ ''"'' @ quoted_token ''profile'' profile
        @ yes_no_token ''disabled'' disabled)
   \<and> (\<forall>name password profile limit_uptime limit_bytes_total comment disabled.
      mikrotik_add_hotspot_user_cmd name password profile limit_uptime limit_bytes_total comment
        disabled =
      ''/ip hotspot user add name="'' @ name @ ''" password="'' @ password @ ''"''
        @ quoted_token ''profile'' profile @ bare_token ''limit-uptime'' limit_uptime
        @ bare_token ''limit-bytes-total'' limit_bytes_total @ quoted_token ''comment'' comment
        @ yes_no_token ''disabled'' disabled)
   \<and> (\<forall>name address auth_method secret exchange_mode send_initial_contact comment
       disabled.
      mikrotik_create_ipsec_peer_cmd name address auth_method secret exchange_mode
        send_initial_contact comment disabled =
      ''/ip ipsec peer add name="'' @ name @ ''" address="'' @ address @ ''"''
        @ bare_token ''auth-method'' auth_method @ quoted_token ''secret'' secret
        @ bare_token ''exchange-mode'' exchange_mode
        @ yes_no_token ''send-initial-contact'' send_initial_contact
        @ quoted_token ''comment'' comment @ yes_no_token ''disabled'' disabled)
   \<and> (\<forall>name auth_algorithms enc_algorithms lifetime pfs_group comment disabled.
      mikrotik_create_ipsec_proposal_cmd name auth_algorithms enc_algorithms lifetime pfs_group
        comment disabled =
      ''/ip ipsec proposal add name="'' @ name @ ''"''
        @ bare_token ''auth-algorithms'' auth_algorithms
        @ bare_token ''enc-algorithms'' enc_algorithms @ bare_token ''lifetime'' lifetime
        @ bare_token ''pfs-group'' pfs_group @ quoted_token ''comment'' comment
        @ yes_no_token ''disabled'' disabled)
   \<and> (\<forall>src_address dst_address action proposal tunnel comment disabled.
      mikrotik_create_ipsec_policy_cmd src_address dst_address action proposal tunnel comment
        disabled =
      ''/ip ipsec policy add src-address="'' @ src_address @ ''" dst-address="'' @ dst_address
        @ ''"'' @ bare_token ''action'' action @ quoted_token ''proposal'' proposal
        @ yes_no_token ''tunnel'' tunnel @ quoted_token ''comment'' comment
        @ yes_no_token ''disabled'' disabled)
   \<and> (\<forall>address interface advertise eui_64 no_dad comment disabled.
      mikrotik_add_ipv6_address_cmd address interface advertise eui_64 no_dad comment disabled =
      ''/ipv6 address add address="'' @ address @ ''" interface="'' @ interface @ ''"''
        @ yes_no_token ''advertise'' advertise @ yes_no_token ''eui-64'' eui_64
        @ yes_no_token ''no-dad'' no_dad @ quoted_token ''comment'' comment
        @ yes_no_token ''disabled'' disabled)
   \<and> (\<forall>dst_address gateway distance comment disabled.
      mikrotik_add_ipv6_route_cmd dst_address gateway distance comment disabled =
      ''/ipv6 route add dst-address="'' @ dst_address @ ''" gateway="'' @ gateway @ ''"''
        @ int_token ''distance'' distance @ quoted_token ''comment'' comment
        @ yes_no_token ''disabled'' disabled)
   \<and> (\<forall>accept_redirects accept_router_advertisements forward max_neighbor_entries.
      mikrotik_set_ipv6_settings_cmd accept_redirects accept_router_advertisements forward
        max_neighbor_entries =
      ''/ipv6 settings set'' @ yes_no_token ''accept-redirects'' accept_redirects
        @ yes_no_token ''accept-router-advertisements'' accept_router_advertisements
        @ yes_no_token ''forward'' forward
        @ int_token ''max-neighbor-entries'' max_neighbor_entries)
   \<and> (\<forall>service_name interface default_profile authentication keepalive_timeout max_mtu
       max_mru one_session_per_host disabled.
      mikrotik_create_pppoe_server_cmd service_name interface default_profile authentication
        keepalive_timeout max_mtu max_mru one_session_per_host disabled =
      ''/interface pppoe-server server add service-name="'' @ service_name @ ''" interface="''
        @ interface @ ''"'' @ quoted_token ''default-profile'' default_profile
        @ bare_token ''authentication'' authentication
        @ int_token ''keepalive-timeout'' keepalive_timeout @ int_token ''max-mtu'' max_mtu
        @ int_token ''max-mru'' max_mru
        @ yes_no_token ''one-session-per-host'' one_session_per_host
        @ yes_no_token ''disabled'' disabled)
   \<and> (\<forall>name password service profile local_address remote_address routes limit_bytes_in
       limit_bytes_out comment disabled.
      mikrotik_add_ppp_secret_cmd name password service profile local_address remote_address routes
        limit_bytes_in limit_bytes_out comment disabled =
      ''/ppp secret add name="'' @ name @ ''" password="'' @ password @ ''"''
        @ bare_token ''service'' service @ quoted_token ''profile'' profile
        @ quoted_token ''local-address'' local_address
        @ quoted_token ''remote-address'' remote_address @ quoted_token ''routes'' routes
        @ bare_token ''limit-bytes-in'' limit_bytes_in
        @ bare_token ''limit-bytes-out'' limit_bytes_out @ quoted_token ''comment'' comment
        @ yes_no_token ''disabled'' disabled)
   \<and> (\<forall>name local_address remote_address dns_server wins_server use_compression
       use_encryption only_one rate_limit comment.
      mikrotik_create_ppp_profile_cmd name local_address remote_address dns_server wins_server
        use_compression use_encryption only_one rate_limit comment =
      ''/ppp profile add name="'' @ name @ ''"'' @ quoted_token ''local-address'' local_address
        @ quoted_token ''remote-address'' remote_address
        @ quoted_token ''dns-server'' dns_server @ quoted_token ''wins-server'' wins_server
        @ yes_no_token ''use-compression'' use_compression
        @ yes_no_token ''use-encryption'' use_encryption @ yes_no_token ''only-one'' only_one
        @ quoted_token ''rate-limit'' rate_limit @ quoted_token ''comment'' comment)
   \<and> (\<forall>name interface user password service_name add_default_route use_peer_dns profile
       comment disabled.
      mikrotik_create_pppoe_client_cmd name interface user password service_name add_default_route
        use_peer_dns profile comment disabled =
      ''/interface pppoe-client add name="'' @ name @ ''" interface="'' @ interface
        @ ''" user="'' @ user @ ''" password="'' @ password @ ''"''
        @ quoted_token ''service-name'' service_name
        @ yes_no_token ''add-default-route'' add_default_route
        @ yes_no_token ''use-peer-dns'' use_peer_dns @ quoted_token ''profile'' profile
        @ quoted_token ''comment'' comment @ yes_no_token ''disabled'' disabled)
   \<and> (\<forall>name target max_limit burst_limit burst_threshold burst_time limit_at priority
       queue_type parent comment disabled.
      mikrotik_create_simple_queue_cmd name target max_limit burst_limit burst_threshold burst_time
        limit_at priority queue_type parent comment disabled =
      ''/queue simple add name="'' @ name @ ''" target="'' @ target @ ''" max-limit=''
        @ max_limit @ bare_token ''burst-limit'' burst_limit
        @ bare_token ''burst-threshold'' burst_threshold @ bare_token ''burst-time'' burst_time
        @ bare_token ''limit-at'' limit_at @ int_token ''priority'' priority
        @ bare_token ''queue'' queue_type @ quoted_token ''parent'' parent
        @ quoted_token ''comment'' comment @ yes_no_token ''disabled'' disabled)
   \<and> (\<forall>name parent max_limit burst_limit burst_threshold burst_time limit_at priority
       queue_type packet_mark comment disabled.
      mikrotik_create_queue_tree_cmd name parent max_limit burst_limit burst_threshold burst_time
        limit_at priority queue_type packet_mark comment disabled =
      ''/queue tree add name="'' @ name @ ''" parent="'' @ parent @ ''" max-limit=''
        @ max_limit @ bare_token ''burst-limit'' burst_limit
        @ bare_token ''burst-threshold'' burst_threshold @ bare_token ''burst-time'' burst_time
        @ bare_token ''limit-at'' limit_at @ int_token ''priority'' priority
        @ bare_token ''queue'' queue_type @ quoted_token ''packet-mark'' packet_mark
        @ quoted_token ''comment'' comment @ yes_no_token ''disabled'' disabled)
   \<and> (\<forall>name kind pcq_rate pcq_limit pcq_classifier pcq_total_limit.
      mikrotik_create_queue_type_cmd name kind pcq_rate pcq_limit pcq_classifier pcq_total_limit =
      ''/queue type add name="'' @ name @ ''" kind='' @ kind @ bare_token ''pcq-rate'' pcq_rate
        @ bare_token ''pcq-limit'' pcq_limit @ bare_token ''pcq-classifier'' pcq_classifier
        @ bare_token ''pcq-total-limit'' pcq_total_limit)
   \<and> (\<forall>name as_number router_id redistribute_connected redistribute_static
       redistribute_ospf client_to_client_reflection comment disabled.
      mikrotik_create_bgp_instance_cmd name as_number router_id redistribute_connected
        redistribute_static redistribute_ospf client_to_client_reflection comment disabled =
      ''/routing bgp instance add name="'' @ name @ ''" as='' @ str_int as_number
        @ quoted_token ''router-id'' router_id
        @ yes_no_token ''redistribute-connected'' redistribute_connected
        @ yes_no_token ''redistribute-static'' redistribute_static
        @ yes_no_token ''redistribute-ospf'' redistribute_ospf
        @ yes_no_token ''client-to-client-reflection'' client_to_client_reflection
        @ quoted_token ''comment'' comment @ yes_no_token ''disabled'' disabled)
   \<and> (\<forall>name instance remote_address remote_as ttl multihop route_reflect hold_time
       tcp_md5_key update_source comment disabled.
      mikrotik_add_bgp_peer_cmd name instance remote_address remote_as ttl multihop route_reflect
        hold_time tcp_md5_key update_source comment disabled =
      ''/routing bgp peer add name="'' @ name @ ''" instance="'' @ instance
        @ ''" remote-address="'' @ remote_address @ ''" remote-as='' @ str_int remote_as
        @ int_token ''ttl'' ttl @ yes_no_token ''multihop'' multihop
        @ yes_no_token ''route-reflect'' route_reflect @ bare_token ''hold-time'' hold_time
        @ quoted_token ''tcp-md5-key'' tcp_md5_key
        @ quoted_token ''update-source'' update_source @ quoted_token ''comment'' comment
        @ yes_no_token ''disabled'' disabled)
   \<and> (\<forall>name router_id redistribute_connected redistribute_static redistribute_bgp comment
       disabled.
      mikrotik_create_ospf_instance_cmd name router_id redistribute_connected redistribute_static
        redistribute_bgp comment disabled =
      ''/routing ospf instance add name="'' @ name @ ''"''
        @ quoted_token ''router-id'' router_id
        @ yes_no_token ''redistribute-connected'' redistribute_connected
        @ yes_no_token ''redistribute-static'' redistribute_static
        @ yes_no_token ''redistribute-bgp'' redistribute_bgp @ quoted_token ''comment'' comment
        @ yes_no_token ''disabled'' disabled)
   \<and> (\<forall>name area_id instance type comment disabled.
      mikrotik_add_ospf_area_cmd name area_id instance type comment disabled =
      ''/routing ospf area add name="'' @ name @ ''" area-id="'' @ area_id @ ''"''
        @ quoted_token ''instance'' instance @ bare_token ''type'' type
        @ quoted_token ''comment'' comment @ yes_no_token ''disabled'' disabled)
   \<and> (\<forall>network area comment disabled. mikrotik_add_ospf_network_cmd network area comment disabled =
      ''/routing ospf network add network="'' @ network @ ''" area="'' @ area @ ''"''
        @ quoted_token ''comment'' comment @ yes_no_token ''disabled'' disabled)
   \<and> (\<forall>interface network_type priority cost authentication authentication_key comment
       disabled.
      mikrotik_add_ospf_interface_cmd interface network_type priority cost authentication
        authentication_key comment disabled =
      ''/routing ospf interface add interface="'' @ interface @ ''"''
        @ bare_token ''network-type'' network_type @ int_token ''priority'' priority
        @ int_token ''cost'' cost @ bare_token ''authentication'' authentication
        @ quoted_token ''authentication-key'' authentication_key
        @ quoted_token ''comment'' comment @ yes_no_token ''disabled'' disabled)
   \<and> (\<forall>name redistribute_connected redistribute_static redistribute_ospf redistribute_bgp
       comment disabled.
      mikrotik_create_rip_instance_cmd name redistribute_connected redistribute_static
        redistribute_ospf redistribute_bgp comment disabled =
      ''/routing rip instance add name="'' @ name @ ''"''
        @ yes_no_token ''redistribute-connected'' redistribute_connected
        @ yes_no_token ''redistribute-static'' redistribute_static
        @ yes_no_token ''redistribute-ospf'' redistribute_ospf
        @ yes_no_token ''redistribute-bgp'' redistribute_bgp @ quoted_token ''comment'' comment
        @ yes_no_token ''disabled'' disabled)
   \<and> (\<forall>network instance comment disabled.
      mikrotik_add_rip_network_cmd network instance comment disabled =
      ''/routing rip network add network="'' @ network @ ''"''
        @ quoted_token ''instance'' instance @ quoted_token ''comment'' comment
        @ yes_no_token ''disabled'' disabled)
   \<and> (\<forall>interface receive send authentication authentication_key comment disabled.
      mikrotik_add_rip_interface_cmd interface receive send authentication authentication_key
        comment disabled =
      ''/routing rip interface add interface="'' @ interface @ ''"''
        @ bare_token ''receive'' receive @ bare_token ''send'' send
        @ bare_token ''authentication'' authentication
        @ quoted_token ''authentication-key'' authentication_key
        @ quoted_token ''comment'' comment @ yes_no_token ''disabled'' disabled)
   \<and> (\<forall>enabled contact location engine_id trap_version trap_community trap_generators.
      mikrotik_set_snmp_settings_cmd enabled contact location engine_id trap_version trap_community
        trap_generators =
      ''/snmp set'' @ yes_no_token ''enabled'' enabled @ quoted_token ''contact'' contact
        @ quoted_token ''location'' location @ quoted_token ''engine-id'' engine_id
        @ int_token ''trap-version'' trap_version
        @ quoted_token ''trap-community'' trap_community
        @ quoted_token ''trap-generators'' trap_generators)
   \<and> (\<forall>name addresses read_access write_access authentication_protocol
       authentication_password encryption_protocol encryption_password comment disabled.
      mikrotik_add_snmp_community_cmd name addresses read_access write_access
        authentication_protocol authentication_password encryption_protocol
        encryption_password comment disabled =
      ''/snmp community add name="'' @ name @ ''"'' @ quoted_token ''addresses'' addresses
        @ yes_no_token ''read-access'' read_access @ yes_no_token ''write-access'' write_access
        @ bare_token ''authentication-protocol'' authentication_protocol
        @ quoted_token ''authentication-password'' authentication_password
        @ bare_token ''encryption-protocol'' encryption_protocol
        @ quoted_token ''encryption-password'' encryption_password
        @ quoted_token ''comment'' comment @ yes_no_token ''disabled'' disabled)
   \<and> (\<forall>time_zone_name time_zone_autodetect.
      mikrotik_set_system_clock_cmd time_zone_name time_zone_autodetect =
      ''/system clock set'' @ quoted_token ''time-zone-name'' time_zone_name
        @ yes_no_token ''time-zone-autodetect'' time_zone_autodetect)
   \<and> (\<forall>enabled servers mode. mikrotik_set_ntp_client_cmd enabled servers mode =
      ''/system ntp client set'' @ yes_no_token ''enabled'' enabled
        @ joined_token ''servers'' servers @ bare_token ''mode'' mode)
   \<and> (\<forall>name on_event start_date start_time interval policy comment disabled.
      mikrotik_add_scheduler_cmd name on_event start_date start_time interval policy comment
        disabled =
      ''/system scheduler add name="'' @ name @ ''" on-event="'' @ on_event @ ''"''
        @ quoted_token ''start-date'' start_date @ quoted_token ''start-time'' start_time
        @ bare_token ''interval'' interval @ bare_token ''policy'' policy
        @ quoted_token ''comment'' comment @ yes_no_token ''disabled'' disabled)
   \<and> (\<forall>name source policy comment dont_require_permissions.
      mikrotik_add_script_cmd name source policy comment dont_require_permissions =
      ''/system script add name="'' @ name @ ''" source="''
        @ py_replace (py_replace source ''"'' (bsl @ ''"'')) ''\<newline>'' (bsl @ ''n'')
        @ ''"'' @ bare_token ''policy'' policy @ quoted_token ''comment'' comment
        @ yes_no_token ''dont-require-permissions'' dont_require_permissions)\<close>
proof (intro conjI)
  show \<open>\<exists>mtu_token.
    \<forall>name mtu arp arp_timeout ageing_time priority protocol_mode vlan_filtering comment
       disabled.
      mikrotik_create_bridge_cmd name mtu arp arp_timeout ageing_time priority protocol_mode
        vlan_filtering comment disabled =
      ''/interface bridge add name="'' @ name @ ''"'' @ mtu_token mtu @ bare_token ''arp'' arp
        @ bare_token ''arp-timeout'' arp_timeout @ bare_token ''ageing-time'' ageing_time
        @ int_token ''priority'' priority @ bare_token ''protocol-mode'' protocol_mode
        @ yes_no_token ''vlan-filtering'' vlan_filtering @ quoted_token ''comment'' comment
        @ yes_no_token ''disabled'' disabled
      \<and> (mtu \<noteq> Some 0 \<longrightarrow> mtu_token mtu = int_token ''mtu'' mtu)\<close>
    by (rule exI [where x = "truthy_int_token ''mtu''"],
        simp add: command_tokens truthy_int_token_nonzero)
  show \<open>\<exists>key_size_token days_valid_token.
    \<forall>name common_name key_size days_valid key_usage subject_alt_name country state
       locality organization unit.
      mikrotik_create_certificate_cmd name common_name key_size days_valid key_usage
        subject_alt_name country state locality organization unit =
      ''/certificate add name="'' @ name @ ''" common-name="'' @ common_name @ ''"''
        @ key_size_token key_size @ days_valid_token days_valid
        @ quoted_token ''key-usage'' key_usage
        @ quoted_token ''subject-alt-name'' subject_alt_name @ quoted_token ''country'' country
        @ quoted_token ''state'' state @ quoted_token ''locality'' locality
        @ quoted_token ''organization'' organization @ quoted_token ''unit'' unit
      \<and> (key_size \<noteq> Some 0 \<longrightarrow> key_size_token key_size = int_token ''key-size'' key_size)
      \<and> (days_valid \<noteq> Some 0 \<longrightarrow> days_valid_token days_valid = int_token ''days-valid'' days_valid)\<close>
    by (rule exI [where x = "truthy_int_token ''key-size''"], rule exI [where x = "truthy_int_token ''days-valid''"],
        simp add: command_tokens truthy_int_token_nonzero)
qed (simp_all add: command_tokens)

text \<open>The theorem at two calls of \<open>create_bridge\<close>: with a non-zero MTU, the priority
  0, VLAN filtering switched off and a comment, where it gives the whole command; and
  with the MTU 0, the priority 1 and a comment, where it gives every token but that of
  the MTU.\<close>

theorem optional_attribute_tokens_witness:
  \<open>Some (1500 :: int) \<noteq> Some 0
   \<and> mikrotik_create_bridge_cmd ''br0'' (Some 1500) None None None (Some 0) None (Some False) (Some ''uplink'') None =
     ''/interface bridge add name="br0" mtu=1500 priority=0 vlan-filtering=no comment="uplink"''
   \<and> (\<exists>t. mikrotik_create_bridge_cmd ''br0'' (Some 0) None None None (Some 1) None None (Some ''x'') (Some False) =
     ''/interface bridge add name="br0"'' @ t @ '' priority=1 comment="x" disabled=no'')\<close>
proof -
  from optional_attribute_tokens have \<open>\<exists>mtu_token.
    \<forall>name mtu arp arp_timeout ageing_time priority protocol_mode vlan_filtering comment
       disabled.
      mikrotik_create_bridge_cmd name mtu arp arp_timeout ageing_time priority protocol_mode
        vlan_filtering comment disabled =
      ''/interface bridge add name="'' @ name @ ''"'' @ mtu_token mtu @ bare_token ''arp'' arp
        @ bare_token ''arp-timeout'' arp_timeout @ bare_token ''ageing-time'' ageing_time
        @ int_token ''priority'' priority @ bare_token ''protocol-mode'' protocol_mode
        @ yes_no_token ''vlan-filtering'' vlan_filtering @ quoted_token ''comment'' comment
        @ yes_no_token ''disabled'' disabled
      \<and> (mtu \<noteq> Some 0 \<longrightarrow> mtu_token mtu = int_token ''mtu'' mtu)\<close>
    by (rule conjunct1)
  then obtain mtu_token where eq: \<open>\<forall>name mtu arp arp_timeout ageing_time priority protocol_mode vlan_filtering comment
       disabled.
      mikrotik_create_bridge_cmd name mtu arp arp_timeout ageing_time priority protocol_mode
        vlan_filtering comment disabled =
      ''/interface bridge add name="'' @ name @ ''"'' @ mtu_token mtu @ bare_token ''arp'' arp
        @ bare_token ''arp-timeout'' arp_timeout @ bare_token ''ageing-time'' ageing_time
        @ int_token ''priority'' priority @ bare_token ''protocol-mode'' protocol_mode
        @ yes_no_token ''vlan-filtering'' vlan_filtering @ quoted_token ''comment'' comment
        @ yes_no_token ''disabled'' disabled
      \<and> (mtu \<noteq> Some 0 \<longrightarrow> mtu_token mtu = int_token ''mtu'' mtu)\<close>
    by (elim exE)
  show ?thesis
  proof (intro conjI)
    show "Some (1500 :: int) \<noteq> Some 0"
      by simp
    from eq show
      \<open>mikrotik_create_bridge_cmd ''br0'' (Some 1500) None None None (Some 0) None (Some False) (Some ''uplink'') None =
       ''/interface bridge add name="br0" mtu=1500 priority=0 vlan-filtering=no comment="uplink"''\<close>
      by (simp add: str_int_eval)
    show
      \<open>\<exists>t. mikrotik_create_bridge_cmd ''br0'' (Some 0) None None None (Some 1) None None (Some ''x'') (Some False) =
       ''/interface bridge add name="br0"'' @ t @ '' priority=1 comment="x" disabled=no''\<close>
    proof (rule exI)
      from eq show
        \<open>mikrotik_create_bridge_cmd ''br0'' (Some 0) None None None (Some 1) None None (Some ''x'') (Some False) =
         ''/interface bridge add name="br0"'' @ mtu_token (Some 0) @ '' priority=1 comment="x" disabled=no''\<close>
        by (simp add: str_int_eval)
    qed
  qed
qed

text \<open>
  Claim C6. Every \<open>remove_*\<close> operation addresses its target with an inline
  \<^verbatim>\<open>[find <key>="<value>"]\<close> filter, except \<open>remove_ipv6_address\<close> and
  \<open>remove_ipv6_route\<close>, which put the identifier they are given right after
  \<^verbatim>\<open>remove \<close>. All 22 operations whose names start with \<open>mikrotik_remove_\<close> are
  listed, followed by the two examples.
\<close>

theorem remove_command_find_filter:
  \<open>
   (\<forall>name. mikrotik_remove_bridge_cmd name = ''/interface bridge remove [find name="'' @ name @ ''"]'')
   \<and> (\<forall>interface. mikrotik_remove_bridge_port_cmd interface = ''/interface bridge port remove [find interface="'' @ interface @ ''"]'')
   \<and> (\<forall>name. mikrotik_remove_certificate_cmd name = ''/certificate remove [find name="'' @ name @ ''"]'')
   \<and> (\<forall>name. mikrotik_remove_hotspot_user_cmd name = ''/ip hotspot user remove [find name="'' @ name @ ''"]'')
   \<and> (\<forall>user. mikrotik_remove_hotspot_active_cmd user = ''/ip hotspot active remove [find user="'' @ user @ ''"]'')
   \<and> (\<forall>name. mikrotik_remove_ipsec_peer_cmd name = ''/ip ipsec peer remove [find name="'' @ name @ ''"]'')
   \<and> (\<forall>address_id. mikrotik_remove_ipv6_address_cmd address_id = ''/ipv6 address remove '' @ address_id)
   \<and> (\<forall>route_id. mikrotik_remove_ipv6_route_cmd route_id = ''/ipv6 route remove '' @ route_id)
   \<and> (\<forall>service_name. mikrotik_remove_pppoe_server_cmd service_name = ''/interface pppoe-server server remove [find service-name="'' @ service_name @ ''"]'')
   \<and> (\<forall>name. mikrotik_remove_ppp_secret_cmd name = ''/ppp secret remove [find name="'' @ name @ ''"]'')
   \<and> (\<forall>name. mikrotik_remove_ppp_profile_cmd name = ''/ppp profile remove [find name="'' @ name @ ''"]'')
   \<and> (\<forall>name. mikrotik_remove_pppoe_client_cmd name = ''/interface pppoe-client remove [find name="'' @ name @ ''"]'')
   \<and> (\<forall>name. mikrotik_remove_simple_queue_cmd name = ''/queue simple remove [find name="'' @ name @ ''"]'')
   \<and> (\<forall>name. mikrotik_remove_queue_tree_cmd name = ''/queue tree remove [find name="'' @ name @ ''"]'')
   \<and> (\<forall>name. mikrotik_remove_queue_type_cmd name = ''/queue type remove [find name="'' @ name @ ''"]'')
   \<and> (\<forall>name. mikrotik_remove_bgp_instance_cmd name = ''/routing bgp instance remove [find name="'' @ name @ ''"]'')
   \<and> (\<forall>name. mikrotik_remove_bgp_peer_cmd name = ''/routing bgp peer remove [find name="'' @ name @ ''"]'')
   \<and> (\<forall>name. mikrotik_remove_ospf_instance_cmd name = ''/routing ospf instance remove [find name="'' @ name @ ''"]'')
   \<and> (\<forall>name. mikrotik_remove_rip_instance_cmd name = ''/routing rip instance remove [find name="'' @ name @ ''"]'')
   \<and> (\<forall>name. mikrotik_remove_snmp_community_cmd name = ''/snmp community remove [find name="'' @ name @ ''"]'')
   \<and> (\<forall>name. mikrotik_remove_scheduler_cmd name = ''/system scheduler remove [find name="'' @ name @ ''"]'')
   \<and> (\<forall>name. mikrotik_remove_script_cmd name = ''/system script remove [find name="'' @ name @ ''"]'')
   \<and> (mikrotik_remove_bridge_cmd ''br0'' = ''/interface bridge remove [find name="br0"]'')
   \<and> (mikrotik_remove_ipv6_address_cmd ''*1'' = ''/ipv6 address remove *1'')\<close>
  by (intro conjI allI;
      simp add:
        mikrotik_remove_bridge_cmd_def mikrotik_remove_bridge_port_cmd_def
        mikrotik_remove_certificate_cmd_def mikrotik_remove_hotspot_user_cmd_def
        mikrotik_remove_hotspot_active_cmd_def mikrotik_remove_ipsec_peer_cmd_def
        mikrotik_remove_ipv6_address_cmd_def mikrotik_remove_ipv6_route_cmd_def
        mikrotik_remove_pppoe_server_cmd_def mikrotik_remove_ppp_secret_cmd_def
        mikrotik_remove_ppp_profile_cmd_def mikrotik_remove_pppoe_client_cmd_def
        mikrotik_remove_simple_queue_cmd_def mikrotik_remove_queue_tree_cmd_def
        mikrotik_remove_queue_type_cmd_def mikrotik_remove_bgp_instance_cmd_def
        mikrotik_remove_bgp_peer_cmd_def mikrotik_remove_ospf_instance_cmd_def
        mikrotik_remove_rip_instance_cmd_def mikrotik_remove_snmp_community_cmd_def
        mikrotik_remove_scheduler_cmd_def mikrotik_remove_script_cmd_def)

text \<open>
  Claim C7. \<open>mikrotik_reset_queue_counters\<close>, \<open>mikrotik_system_reboot\<close> and
  \<open>mikrotik_system_shutdown\<close> submit their command and return their success text
  whatever the connector replies: the equations hold for every \<open>exec\<close>. The last lines
  run them on a device whose reply is classified as a failure.
\<close>

theorem unclassified_operations_report_success:
  \<open>
   (mikrotik_reset_queue_counters exec sent =
      (''Queue counters reset successfully'', sent @ [''/queue simple reset-counters'']))
   \<and> (mikrotik_system_reboot exec sent =
      (''System reboot initiated'', sent @ [''/system reboot'']))
   \<and> (mikrotik_system_shutdown exec sent =
      (''System shutdown initiated'', sent @ [''/system shutdown'']))
   \<and> (fst (mikrotik_reset_queue_counters (\<lambda>sent cmd. ''failure: no route to host'') []) = ''Queue counters reset successfully'')
   \<and> (fst (mikrotik_system_reboot (\<lambda>sent cmd. ''failure: no route to host'') []) = ''System reboot initiated'')
   \<and> (fst (mikrotik_system_shutdown (\<lambda>sent cmd. ''failure: no route to host'') []) = ''System shutdown initiated'')
   \<and> (failure_classified ''failure: no route to host'')\<close>
  by (intro conjI;
      simp add: mikrotik_reset_queue_counters_def mikrotik_system_reboot_def mikrotik_system_shutdown_def
        mikrotik_reset_queue_counters_cmd_def mikrotik_system_reboot_cmd_def mikrotik_system_shutdown_cmd_def
        execute_mikrotik_command_def failure_classified_code py_lower_def py_lower_char_def)

text \<open>
  Claim C9. In the command of \<open>mikrotik_add_script\<close> the source text stands between
  \<open>source="\<close> and the closing quote with every double quote replaced by a backslash
  and a double quote, every newline replaced by a backslash and the letter \<open>n\<close>, and
  every other character unchanged (\<open>script_escape_char\<close>, character by character).
  The second equation is the example: the source \<open>say "hi"\<close>, a newline, \<open>bye\<close>.
\<close>

theorem add_script_escapes_source:
  \<open>mikrotik_add_script_cmd name source policy comment dont_require_permissions =
     ''/system script add name="'' @ name @ ''" source="'' @ concat (map script_escape_char source)
       @ ''"'' @ bare_token ''policy'' policy @ quoted_token ''comment'' comment @ yes_no_token ''dont-require-permissions'' dont_require_permissions
   \<and> mikrotik_add_script_cmd ''greet'' ''say "hi"\<newline>bye'' None None None =
     ''/system script add name="greet" source="say '' @ bsl @ ''"hi'' @ bsl @ ''"'' @ bsl @ ''nbye"''\<close>
  by (simp add: mikrotik_add_script_tokens script_escape script_escape_char_def)

text \<open>
  Claim C10 says that \<open>mikrotik_create_bgp_instance\<close>, given its two required
  parameters only, writes the AS number as \<open>as-number=<value>\<close>. The code writes it
  under the key \<open>as\<close>, which is the attribute name of the RouterOS menu
  \<^verbatim>\<open>/routing bgp instance\<close>: for the instance \<open>core\<close> with AS number 65000 the command
  is not the one the claim asks for.
\<close>

theorem bgp_as_number_key_counterexample:
  \<open>mikrotik_create_bgp_instance_cmd ''core'' 65000 None None None None None None None
     \<noteq> ''/routing bgp instance add name="core" as-number=65000''
   \<and> mikrotik_create_bgp_instance_cmd ''core'' 65000 None None None None None None None
     = ''/routing bgp instance add name="core" as=65000''\<close>
  by (simp add: mikrotik_create_bgp_instance_cmd_def str_int_eval)

text \<open>
  Claim C10, amended. Given its required parameters only, \<open>mikrotik_create_bgp_instance\<close>
  builds \<^verbatim>\<open>/routing bgp instance add\<close> followed by \<open>name="<name>"\<close> and then the AS
  number as the unquoted pair \<open>as=<value>\<close>, the value in decimal.
\<close>

theorem bgp_instance_required_command:
  \<open>mikrotik_create_bgp_instance_cmd name as_number None None None None None None None =
     ''/routing bgp instance add name="'' @ name @ ''" as='' @ str_int as_number\<close>
  by (simp add: mikrotik_create_bgp_instance_cmd_def)

section \<open>The claim about the tool adapters\<close>

lemma eval_args_missing:
  "k \<in> set (subscripted ls) \<Longrightarrow> args k = None \<Longrightarrow>
   \<exists>k'. k' \<in> set (subscripted ls) \<and> args k' = None \<and> eval_args ls args = Inl (KeyError k')"
proof (induction ls rule: subscripted.induct)
  case 1
  then show ?case by simp
next
  case (2 j ls)
  show ?case
  proof (cases "args j")
    case None
    then show ?thesis by auto
  next
    case (Some v)
    with 2 have "k \<in> set (subscripted ls)" by auto
    with 2 obtain k' where "k' \<in> set (subscripted ls)" "args k' = None"
      "eval_args ls args = Inl (KeyError k')" by blast
    with Some show ?thesis by auto
  qed
next
  case (3 j ls)
  then obtain k' where "k' \<in> set (subscripted ls)" "args k' = None"
    "eval_args ls args = Inl (KeyError k')" by auto
  then show ?case by auto
qed

lemma eval_args_present:
  "(\<And>k. k \<in> set (subscripted ls) \<Longrightarrow> args k \<noteq> None) \<Longrightarrow>
   eval_args ls args = Inr (map (\<lambda>l. args (lookup_key l)) ls)"
  by (induction ls rule: subscripted.induct) (auto split: option.splits)

lemma handler_subscripts_required:
  assumes "distinct (map tool_name tools)"
    and "list_all2 (\<lambda>t (name, h). tool_name t = name \<and> required t = subscripted (fst h)) tools handlers"
    and "(name, h) \<in> set handlers" and "t \<in> set tools" and "tool_name t = name"
  shows "required t = subscripted (fst h)"
proof -
  from assms(3) obtain i where i: "i < length handlers" "handlers ! i = (name, h)"
    by (auto simp: in_set_conv_nth)
  from assms(2) have len: "length tools = length handlers" by (rule list_all2_lengthD)
  from assms(2) i(1) have "(\<lambda>t (name, h). tool_name t = name \<and> required t = subscripted (fst h))
      (tools ! i) (handlers ! i)" by (rule list_all2_nthD2)
  with i(2) have ti: "tool_name (tools ! i) = name" "required (tools ! i) = subscripted (fst h)"
    by simp_all
  from i(1) len have mem: "tools ! i \<in> set tools" by simp
  from assms(1) have "inj_on tool_name (set tools)" by (simp add: distinct_map)
  with mem assms(4) ti(1) assms(5) have "t = tools ! i" by (auto dest: inj_onD)
  with ti(2) show ?thesis by simp
qed

text \<open>In every adapter module the dispatch table names the declared tools, in the order
  of their declaration, and the keys a handler subscripts are the required properties of
  its tool.\<close>


lemma bridge_adapter:
  "distinct (map tool_name get_bridge_tools)"
  "list_all2 (\<lambda>t (name, h). tool_name t = name \<and> required t = subscripted (fst h))
     get_bridge_tools get_bridge_handlers"
  by (simp_all add: get_bridge_tools_def get_bridge_handlers_def)

lemma hotspot_adapter:
  "distinct (map tool_name get_hotspot_tools)"
  "list_all2 (\<lambda>t (name, h). tool_name t = name \<and> required t = subscripted (fst h))
     get_hotspot_tools get_hotspot_handlers"
  by (simp_all add: get_hotspot_tools_def get_hotspot_handlers_def)

lemma pppoe_adapter:
  "distinct (map tool_name get_pppoe_tools)"
  "list_all2 (\<lambda>t (name, h). tool_name t = name \<and> required t = subscripted (fst h))
     get_pppoe_tools get_pppoe_handlers"
  by (simp_all add: get_pppoe_tools_def get_pppoe_handlers_def)

lemma queue_adapter:
  "distinct (map tool_name get_queue_tools)"
  "list_all2 (\<lambda>t (name, h). tool_name t = name \<and> required t = subscripted (fst h))
     get_queue_tools get_queue_handlers"
  by (simp_all add: get_queue_tools_def get_queue_handlers_def)

lemma routing_advanced_adapter:
  "distinct (map tool_name get_routing_advanced_tools)"
  "list_all2 (\<lambda>t (name, h). tool_name t = name \<and> required t = subscripted (fst h))
     get_routing_advanced_tools get_routing_advanced_handlers"
  by (simp_all add: get_routing_advanced_tools_def get_routing_advanced_handlers_def)

lemma system_adapter:
  "distinct (map tool_name get_system_tools)"
  "list_all2 (\<lambda>t (name, h). tool_name t = name \<and> required t = subscripted (fst h))
     get_system_tools get_system_handlers"
  by (simp_all add: get_system_tools_def get_system_handlers_def)

text \<open>
  Claim C8. Take a handler \<open>h\<close> of the dispatch table of an adapter module, registered
  under \<open>name\<close>, and the tool \<open>t\<close> declared under that name. For every argument bag from
  which a required property of \<open>t\<close> is absent, invoking \<open>h\<close> raises \<open>KeyError\<close> for a
  required property that is absent, and the list of submitted commands is unchanged: the
  domain function has not run. When no required property is absent, nothing is raised by
  the lookups, and the function is called with the value of \<^verbatim>\<open>args.get\<close> in the place of
  every optional property, which is \<open>None\<close> for an absent one.
\<close>

theorem missing_required_argument_raises:
  assumes "(tools, handlers) \<in> set tool_adapters"
    and "(name, h) \<in> set handlers"
    and "t \<in> set tools" and "tool_name t = name"
  shows "(k \<in> set (required t) \<and> args k = None \<longrightarrow>
            (\<exists>k'. k' \<in> set (required t) \<and> args k' = None \<and>
                  invoke h exec args sent = (Inl (KeyError k'), sent)))
       \<and> ((\<forall>k \<in> set (required t). args k \<noteq> None) \<longrightarrow>
            invoke h exec args sent = snd h exec (map (\<lambda>l. args (lookup_key l)) (fst h)) sent)"
proof -
  from assms(1) have "distinct (map tool_name tools) \<and>
      list_all2 (\<lambda>t (name, h). tool_name t = name \<and> required t = subscripted (fst h)) tools handlers"
    unfolding tool_adapters_def
    using bridge_adapter hotspot_adapter pppoe_adapter queue_adapter routing_advanced_adapter
      system_adapter
    by auto
  with assms(2,3,4) have req: "required t = subscripted (fst h)"
    by (intro handler_subscripts_required [of tools handlers name h t]) simp_all
  have missing: "\<exists>k'. k' \<in> set (required t) \<and> args k' = None \<and>
      invoke h exec args sent = (Inl (KeyError k'), sent)"
    if "k \<in> set (required t)" "args k = None"
  proof -
    from that req obtain k' where "k' \<in> set (subscripted (fst h))" "args k' = None"
      "eval_args (fst h) args = Inl (KeyError k')"
      using eval_args_missing [of k "fst h" args] by auto
    with req show ?thesis by (auto simp: invoke_def)
  qed
  have present: "invoke h exec args sent = snd h exec (map (\<lambda>l. args (lookup_key l)) (fst h)) sent"
    if "\<forall>k \<in> set (required t). args k \<noteq> None"
  proof -
    from that req have "eval_args (fst h) args = Inr (map (\<lambda>l. args (lookup_key l)) (fst h))"
      by (intro eval_args_present) auto
    then show ?thesis by (simp add: invoke_def)
  qed
  from missing present show ?thesis by blast
qed

text \<open>The theorem at the handler of \<open>mikrotik_remove_bridge\<close>: on the empty bag it raises
  \<open>KeyError\<close> for \<open>name\<close> and submits nothing; on a bag that holds the name it runs the
  domain function, which submits its command.\<close>

theorem missing_required_argument_raises_witness:
  \<open>(get_bridge_tools, get_bridge_handlers) \<in> set tool_adapters
   \<and> (''mikrotik_remove_bridge'', ([Subscript ''name''], call_mikrotik_remove_bridge))
        \<in> set get_bridge_handlers
   \<and> \<lparr>tool_name = ''mikrotik_remove_bridge'', properties = [(''name'', JString)],
        required = [''name'']\<rparr> \<in> set get_bridge_tools
   \<and> invoke ([Subscript ''name''], call_mikrotik_remove_bridge) (\<lambda>sent cmd. ''done'') Map.empty []
        = (Inl (KeyError ''name''), [])
   \<and> invoke ([Subscript ''name''], call_mikrotik_remove_bridge) (\<lambda>sent cmd. ''done'')
          [''name'' \<mapsto> PStr ''br0''] []
        = (Inr (''Bridge '' @ sq @ ''br0'' @ sq @ '' removed successfully''),
           [''/interface bridge remove [find name="br0"]''])\<close>
proof -
  let ?h = "([Subscript ''name''], call_mikrotik_remove_bridge)"
  let ?t = "\<lparr>tool_name = ''mikrotik_remove_bridge'', properties = [(''name'', JString)],
      required = [''name'']\<rparr>"
  let ?exec = "\<lambda>(sent :: string list) (cmd :: string). ''done''"
  have a: "(get_bridge_tools, get_bridge_handlers) \<in> set tool_adapters"
    by (simp add: tool_adapters_def)
  have b: "(''mikrotik_remove_bridge'', ?h) \<in> set get_bridge_handlers"
    by (simp add: get_bridge_handlers_def)
  have c: "?t \<in> set get_bridge_tools"
    by (simp add: get_bridge_tools_def)
  have d: "tool_name ?t = ''mikrotik_remove_bridge''"
    by simp
  note inst = missing_required_argument_raises [OF a b c d]
  from inst [of "''name''" Map.empty ?exec "[]"]
  have e: "invoke ?h ?exec Map.empty [] = (Inl (KeyError ''name''), [])"
    by auto
  from inst [of "''name''" "[''name'' \<mapsto> PStr ''br0'']" ?exec "[]"]
  have "invoke ?h ?exec [''name'' \<mapsto> PStr ''br0''] []
      = call_mikrotik_remove_bridge ?exec [Some (PStr ''br0'')] []"
    by simp
  then have f: "invoke ?h ?exec [''name'' \<mapsto> PStr ''br0''] []
      = (Inr (''Bridge '' @ sq @ ''br0'' @ sq @ '' removed successfully''),
         [''/interface bridge remove [find name=\"br0\"]''])"
    by (simp add: call_mikrotik_remove_bridge_def mikrotik_remove_bridge_def
        mikrotik_remove_bridge_cmd_def execute_mikrotik_command_def
        py_lower_def py_lower_char_def)
  from a b c e f show ?thesis by simp
qed


end
